(* ===== verification/JS_Value.thy ===== *)
theory JS_Value
  imports Wyze_Prelude
begin

text \<open>
  JavaScript values as the source handles them: the seven kinds of value that reach the
  code (JSON documents, \<open>undefined\<close>, option objects), property access with and without
  optional chaining, object spread, truthiness, \<open>String(v)\<close> and \<open>Number(v)\<close>. Numbers
  inside values are integers: every number the code itself produces, compares or prints
  (codes, levels, epoch milliseconds) is one. An object is an association list in
  insertion order. \<open>===\<close> is only applied to primitive literals, where it is equality of
  values.
\<close>

datatype jsval =
    JUndef
  | JNull
  | JBool bool
  | JNum int
  | JStr string
  | JArr "jsval list"
  | JObj "(string \<times> jsval) list"

text \<open>Errors a promise can be rejected with: \<open>new Error(msg)\<close>, an axios error (its message
  and its \<open>response\<close>, if one was received), and the errors the language itself raises.\<close>

datatype err =
    Error string
  | HttpError string "jsval option"
  | TypeError string
  | ReferenceError string
  | URIError

fun err_message :: "err \<Rightarrow> string" where
  "err_message (Error m) = m"
| "err_message (HttpError m r) = m"
| "err_message (TypeError m) = m"
| "err_message (ReferenceError m) = m"
| "err_message URIError = ''URI malformed''"

fun err_response :: "err \<Rightarrow> jsval option" where
  "err_response (HttpError m r) = r"
| "err_response e = None"

fun err_name :: "err \<Rightarrow> string" where
  "err_name (Error m) = ''Error''"
| "err_name (HttpError m r) = ''AxiosError''"
| "err_name (TypeError m) = ''TypeError''"
| "err_name (ReferenceError m) = ''ReferenceError''"
| "err_name URIError = ''URIError''"

text \<open>\<open>`${err}`\<close>: the error's name and message.\<close>

definition err_string :: "err \<Rightarrow> string" where
  "err_string e = err_name e @ '': '' @ err_message e"

section \<open>Truthiness and operators\<close>

fun truthy :: "jsval \<Rightarrow> bool" where
  "truthy JUndef = False"
| "truthy JNull = False"
| "truthy (JBool b) = b"
| "truthy (JNum i) = (i \<noteq> 0)"
| "truthy (JStr s) = (s \<noteq> [])"
| "truthy (JArr xs) = True"
| "truthy (JObj kvs) = True"

definition js_or :: "jsval \<Rightarrow> jsval \<Rightarrow> jsval" where
  "js_or a b = (if truthy a then a else b)"

fun nullish :: "jsval \<Rightarrow> bool" where
  "nullish JUndef = True"
| "nullish JNull = True"
| "nullish v = False"

text \<open>\<open>a ?? b\<close>.\<close>

definition js_coalesce :: "jsval \<Rightarrow> jsval \<Rightarrow> jsval" where
  "js_coalesce a b = (if nullish a then b else a)"

text \<open>A destructuring default \<open>{ k = d }\<close>: used when the value is \<open>undefined\<close>.\<close>

definition js_default :: "jsval \<Rightarrow> jsval \<Rightarrow> jsval" where
  "js_default v d = (if v = JUndef then d else v)"

section \<open>Property access, assignment and spread\<close>

fun alookup :: "(string \<times> jsval) list \<Rightarrow> string \<Rightarrow> jsval" where
  "alookup [] k = JUndef"
| "alookup ((k', v) # kvs) k = (if k' = k then v else alookup kvs k)"

fun aset :: "(string \<times> jsval) list \<Rightarrow> string \<Rightarrow> jsval \<Rightarrow> (string \<times> jsval) list" where
  "aset [] k v = [(k, v)]"
| "aset ((k', v') # kvs) k v = (if k' = k then (k, v) # kvs else (k', v') # aset kvs k v)"

text \<open>The own enumerable properties of a value, as \<open>Object.keys\<close> and the spread list them:
  those of an object, and the indices of an array or a string.\<close>

definition indexed :: "jsval list \<Rightarrow> (string \<times> jsval) list" where
  "indexed xs = map (\<lambda>i. (show_nat i, xs ! i)) [0..<length xs]"

fun entries :: "jsval \<Rightarrow> (string \<times> jsval) list" where
  "entries (JObj kvs) = kvs"
| "entries (JArr xs) = indexed xs"
| "entries (JStr s) = indexed (map (\<lambda>c. JStr [c]) s)"
| "entries v = []"

definition keys_of :: "jsval \<Rightarrow> string list" where
  "keys_of v = map fst (entries v)"

text \<open>\<open>v?.k\<close>.\<close>

fun attr :: "jsval \<Rightarrow> string \<Rightarrow> jsval" where
  "attr (JArr xs) k = (if k = ''length'' then JNum (int (length xs)) else alookup (indexed xs) k)"
| "attr (JStr s) k = (if k = ''length'' then JNum (int (length s))
     else alookup (entries (JStr s)) k)"
| "attr v k = alookup (entries v) k"

text \<open>\<open>v.k\<close>: a \<open>TypeError\<close> when \<open>v\<close> is \<open>undefined\<close> or \<open>null\<close>.\<close>

definition member :: "jsval \<Rightarrow> string \<Rightarrow> err + jsval" where
  "member v k = (if nullish v then Inl (TypeError (''Cannot read properties of '' @
       (if v = JNull then ''null'' else ''undefined'') @ '' (reading '' @ k @ '')''))
     else Inr (attr v k))"

text \<open>\<open>v?.[i]\<close> on an array.\<close>

fun elem_at :: "jsval \<Rightarrow> nat \<Rightarrow> jsval" where
  "elem_at (JArr xs) i = (if i < length xs then xs ! i else JUndef)"
| "elem_at v i = JUndef"

fun set_prop :: "jsval \<Rightarrow> string \<Rightarrow> jsval \<Rightarrow> jsval" where
  "set_prop (JObj kvs) k v = JObj (aset kvs k v)"
| "set_prop u k v = u"

text \<open>\<open>{ ...a, ...b }\<close>: the entries of \<open>b\<close> overwrite or extend those of \<open>a\<close>;
  spreading \<open>undefined\<close>, \<open>null\<close>, numbers and booleans adds nothing.\<close>

fun aspread :: "(string \<times> jsval) list \<Rightarrow> (string \<times> jsval) list \<Rightarrow> (string \<times> jsval) list" where
  "aspread xs [] = xs"
| "aspread xs ((k, v) # ys) = aspread (aset xs k v) ys"

definition spread :: "jsval \<Rightarrow> (string \<times> jsval) list \<Rightarrow> jsval" where
  "spread a kvs = JObj (aspread (aspread [] (entries a)) kvs)"

definition merge :: "jsval \<Rightarrow> jsval \<Rightarrow> jsval" where
  "merge a b = spread a (entries b)"

section \<open>String(v) and Number(v)\<close>

fun js_String :: "jsval \<Rightarrow> string"
and js_elems :: "jsval list \<Rightarrow> string list" where
  "js_String JUndef = ''undefined''"
| "js_String JNull = ''null''"
| "js_String (JBool b) = (if b then ''true'' else ''false'')"
| "js_String (JNum i) = show_int i"
| "js_String (JStr s) = s"
| "js_String (JArr xs) = join '','' (js_elems xs)"
| "js_String (JObj kvs) = ''[object Object]''"
| "js_elems [] = []"
| "js_elems (x # xs) = (if nullish x then [] else js_String x) # js_elems xs"

datatype jsnum = NaN | Infinite bool | Fin rat

definition is_space :: "char \<Rightarrow> bool" where
  "is_space c = (let n = of_char c :: nat in n = 32 \<or> (9 \<le> n \<and> n \<le> 13))"

definition trim :: "string \<Rightarrow> string" where
  "trim s = rev (dropWhile is_space (rev (dropWhile is_space s)))"

definition radix_val :: "nat \<Rightarrow> char \<Rightarrow> nat option" where
  "radix_val b c = (let n = of_char c :: nat;
       d = (if 48 \<le> n \<and> n \<le> 57 then n - 48
            else if 97 \<le> n \<and> n \<le> 122 then n - 87
            else if 65 \<le> n \<and> n \<le> 90 then n - 55 else 99)
     in if d < b then Some d else None)"

fun radix_digits :: "nat \<Rightarrow> nat \<Rightarrow> string \<Rightarrow> jsnum" where
  "radix_digits b acc [] = Fin (of_nat acc)"
| "radix_digits b acc (c # s) =
     (case radix_val b c of None \<Rightarrow> NaN | Some d \<Rightarrow> radix_digits b (b * acc + d) s)"

definition pow10 :: "int \<Rightarrow> rat" where
  "pow10 e = (if 0 \<le> e then 10 ^ nat e else 1 / 10 ^ nat (- e))"

definition parse_exponent :: "string \<Rightarrow> int option" where
  "parse_exponent s = (case s of [] \<Rightarrow> Some 0 | c # r \<Rightarrow>
     if c = CHR ''e'' \<or> c = CHR ''E'' then
       (let neg = (r \<noteq> [] \<and> hd r = CHR ''-'');
            ds = (if r \<noteq> [] \<and> (hd r = CHR ''-'' \<or> hd r = CHR ''+'') then tl r else r)
        in if ds \<noteq> [] \<and> list_all is_digit ds
           then Some (if neg then - int (digits_val ds) else int (digits_val ds)) else None)
     else None)"

definition parse_unsigned :: "string \<Rightarrow> jsnum" where
  "parse_unsigned s =
     (if s = ''Infinity'' then Infinite True
      else let ip = takeWhile is_digit s; r = dropWhile is_digit s;
               dot = (r \<noteq> [] \<and> hd r = CHR ''.'');
               fp = (if dot then takeWhile is_digit (tl r) else []);
               r' = (if dot then dropWhile is_digit (tl r) else r)
           in if ip @ fp = [] then NaN
              else case parse_exponent r' of None \<Rightarrow> NaN
                 | Some e \<Rightarrow> Fin (of_nat (digits_val (ip @ fp)) * pow10 (e - int (length fp))))"

fun negate :: "jsnum \<Rightarrow> jsnum" where
  "negate NaN = NaN"
| "negate (Infinite b) = Infinite (\<not> b)"
| "negate (Fin r) = Fin (- r)"

definition string_to_number :: "string \<Rightarrow> jsnum" where
  "string_to_number s =
     (let t = trim s in
      if t = [] then Fin 0
      else if length t > 2 \<and> (startsWith t ''0x'' \<or> startsWith t ''0X'') then radix_digits 16 0 (drop 2 t)
      else if length t > 2 \<and> (startsWith t ''0o'' \<or> startsWith t ''0O'') then radix_digits 8 0 (drop 2 t)
      else if length t > 2 \<and> (startsWith t ''0b'' \<or> startsWith t ''0B'') then radix_digits 2 0 (drop 2 t)
      else if hd t = CHR ''-'' then negate (parse_unsigned (tl t))
      else if hd t = CHR ''+'' then parse_unsigned (tl t)
      else parse_unsigned t)"

fun js_Number :: "jsval \<Rightarrow> jsnum" where
  "js_Number JUndef = NaN"
| "js_Number JNull = Fin 0"
| "js_Number (JBool b) = Fin (if b then 1 else 0)"
| "js_Number (JNum i) = Fin (of_int i)"
| "js_Number (JStr s) = string_to_number s"
| "js_Number (JArr xs) = string_to_number (js_String (JArr xs))"
| "js_Number (JObj kvs) = NaN"

lemmas number_simps = string_to_number_def parse_unsigned_def trim_def is_space_def is_digit_def digits_val_def
  digit_val_def parse_exponent_def pow10_def

text \<open>\<open>a < b\<close> and \<open>a <= b\<close> on numbers: false when either side is NaN.\<close>

fun num_less :: "jsnum \<Rightarrow> jsnum \<Rightarrow> bool" where
  "num_less (Fin a) (Fin b) = (a < b)"
| "num_less (Fin a) (Infinite b) = b"
| "num_less (Infinite a) (Fin b) = (\<not> a)"
| "num_less (Infinite a) (Infinite b) = (\<not> a \<and> b)"
| "num_less a b = False"

definition num_le :: "jsnum \<Rightarrow> jsnum \<Rightarrow> bool" where
  "num_le a b = (num_less a b \<or> (a = b \<and> a \<noteq> NaN))"

section \<open>Laws of property access\<close>

lemma alookup_aset [simp]: "alookup (aset kvs k v) k' = (if k' = k then v else alookup kvs k')"
  by (induction kvs k v rule: aset.induct) auto

lemma keys_aset: "set (map fst (aset kvs k v)) = insert k (set (map fst kvs))"
  by (induction kvs k v rule: aset.induct) auto

lemma distinct_aset: "distinct (map fst kvs) \<Longrightarrow> distinct (map fst (aset kvs k v))"
proof (induction kvs k v rule: aset.induct)
  case (2 k' v' kvs k v)
  then show ?case using keys_aset [of kvs k v] by auto
qed simp

lemma aset_fresh: "k \<notin> set (map fst kvs) \<Longrightarrow> aset kvs k v = kvs @ [(k, v)]"
  by (induction kvs k v rule: aset.induct) auto

lemma aspread_fresh:
  "distinct (map fst (xs @ ys)) \<Longrightarrow> aspread xs ys = xs @ ys"
  by (induction xs ys rule: aspread.induct) (auto simp: aset_fresh)

lemma distinct_aspread: "distinct (map fst xs) \<Longrightarrow> distinct (map fst (aspread xs ys))"
  by (induction xs ys rule: aspread.induct) (auto simp: distinct_aset)

lemma aspread_append: "aspread xs (ys @ zs) = aspread (aspread xs ys) zs"
  by (induction xs ys rule: aspread.induct) auto

lemma alookup_absent: "k \<notin> set (map fst kvs) \<Longrightarrow> alookup kvs k = JUndef"
  by (induction kvs) auto

lemma keys_aspread: "set (map fst (aspread xs ys)) = set (map fst xs) \<union> set (map fst ys)"
proof (induction xs ys rule: aspread.induct)
  case (2 xs k v ys)
  then show ?case using keys_aset [of xs k v] by simp
qed simp

lemma alookup_aspread_absent:
  "k \<notin> set (map fst ys) \<Longrightarrow> alookup (aspread xs ys) k = alookup xs k"
  by (induction xs ys rule: aspread.induct) auto

lemma alookup_aspread:
  "distinct (map fst ys) \<Longrightarrow>
   alookup (aspread xs ys) k = (if k \<in> set (map fst ys) then alookup ys k else alookup xs k)"
proof (induction xs ys rule: aspread.induct)
  case (2 xs k' v ys)
  then show ?case
    using alookup_aspread_absent [of k' ys "aset xs k' v"] by auto
qed simp

lemma distinct_indexed: "distinct (map fst (indexed xs))"
  by (auto simp: indexed_def distinct_map inj_on_def show_nat_inject comp_def)

lemma attr_spread:
  assumes "distinct (map fst kvs)" and "distinct (keys_of a)"
  shows "attr (spread a kvs) k =
    (if k \<in> set (map fst kvs) then alookup kvs k else alookup (entries a) k)"
proof -
  have "alookup (aspread [] (entries a)) k = alookup (entries a) k"
    using assms(2) by (simp add: alookup_aspread alookup_absent keys_of_def)
  then show ?thesis using assms(1) by (simp add: spread_def alookup_aspread)
qed

lemma member_obj [simp]: "member (JObj kvs) k = Inr (alookup kvs k)"
  by (simp add: member_def)

lemma member_nullish [simp]: "nullish v \<Longrightarrow> \<exists>e. member v k = Inl (TypeError e)"
  by (simp add: member_def)

lemma truthy_not_nullish [simp]: "truthy v \<Longrightarrow> \<not> nullish v"
  by (cases v) auto

end
