(* ===== verification/JS_Json.thy ===== *)
theory JS_Json
  imports JS_Value
begin

text \<open>
  \<open>JSON.stringify\<close> and \<open>JSON.parse\<close>, which the client uses to build request bodies, to
  persist its tokens and to exchange signalling messages, and the round trip between them.
  The parser handles the texts whose numbers are integers; texts that are not JSON give
  \<open>None\<close>, where \<open>JSON.parse\<close> throws.
\<close>

section \<open>Printing\<close>

definition hex_digit :: "nat \<Rightarrow> char" where
  "hex_digit n = (if n < 10 then char_of (48 + n) else char_of (87 + n))"

definition esc_char :: "char \<Rightarrow> string" where
  "esc_char c = (let n = of_char c :: nat in
     if n = 34 then [CHR 0x5C, CHR 0x22]
     else if n = 92 then [CHR 0x5C, CHR 0x5C]
     else if n = 8 then [CHR 0x5C, CHR ''b'']
     else if n = 9 then [CHR 0x5C, CHR ''t'']
     else if n = 10 then [CHR 0x5C, CHR ''n'']
     else if n = 12 then [CHR 0x5C, CHR ''f'']
     else if n = 13 then [CHR 0x5C, CHR ''r'']
     else if n < 32 then [CHR 0x5C, CHR ''u'', CHR ''0'', CHR ''0'', hex_digit (n div 16), hex_digit (n mod 16)]
     else [c])"

definition quote :: "string \<Rightarrow> string" where
  "quote s = [CHR 0x22] @ concat (map esc_char s) @ [CHR 0x22]"

text \<open>An \<open>undefined\<close> member is left out of an object and printed as \<open>null\<close> in an array.\<close>

fun stringify :: "jsval \<Rightarrow> string"
and stringify_elems :: "jsval list \<Rightarrow> string list"
and stringify_members :: "(string \<times> jsval) list \<Rightarrow> string list" where
  "stringify JUndef = ''null''"
| "stringify JNull = ''null''"
| "stringify (JBool b) = (if b then ''true'' else ''false'')"
| "stringify (JNum i) = show_int i"
| "stringify (JStr s) = quote s"
| "stringify (JArr xs) = ''['' @ join '','' (stringify_elems xs) @ '']''"
| "stringify (JObj kvs) = ''{'' @ join '','' (stringify_members kvs) @ ''}''"
| "stringify_elems [] = []"
| "stringify_elems (x # xs) = stringify x # stringify_elems xs"
| "stringify_members [] = []"
| "stringify_members ((k, v) # kvs) =
     (if v = JUndef then stringify_members kvs
      else (quote k @ '':'' @ stringify v) # stringify_members kvs)"

section \<open>Parsing\<close>

definition hex_val :: "char \<Rightarrow> nat option" where
  "hex_val c = radix_val 16 c"

definition hex4 :: "string \<Rightarrow> nat option" where
  "hex4 s = (case s of a # b # c # d # _ \<Rightarrow>
     (case (hex_val a, hex_val b, hex_val c, hex_val d) of
        (Some w, Some x, Some y, Some z) \<Rightarrow> Some (((w * 16 + x) * 16 + y) * 16 + z)
      | _ \<Rightarrow> None) | _ \<Rightarrow> None)"

definition utf8_bytes :: "nat \<Rightarrow> string" where
  "utf8_bytes n =
     (if n < 128 then [char_of n]
      else if n < 2048 then [char_of (192 + n div 64), char_of (128 + n mod 64)]
      else if n < 65536 then [char_of (224 + n div 4096), char_of (128 + n div 64 mod 64), char_of (128 + n mod 64)]
      else [char_of (240 + n div 262144), char_of (128 + n div 4096 mod 64),
            char_of (128 + n div 64 mod 64), char_of (128 + n mod 64)])"

definition unescape :: "char \<Rightarrow> char option" where
  "unescape c =
     (if c = CHR 0x22 \<or> c = CHR 0x5C \<or> c = CHR ''/'' then Some c
      else if c = CHR ''b'' then Some (char_of (8::nat))
      else if c = CHR ''t'' then Some (char_of (9::nat))
      else if c = CHR ''n'' then Some (char_of (10::nat))
      else if c = CHR ''f'' then Some (char_of (12::nat))
      else if c = CHR ''r'' then Some (char_of (13::nat))
      else None)"

text \<open>The low half of a surrogate pair, when the text goes on with one.\<close>

definition low_surrogate :: "string \<Rightarrow> nat option" where
  "low_surrogate s =
     (if startsWith s [CHR 0x5C, CHR ''u''] then
        (case hex4 (drop 2 s) of
           Some n \<Rightarrow> if 56320 \<le> n \<and> n \<le> 57343 then Some n else None
         | None \<Rightarrow> None)
      else None)"

definition cons_to :: "string \<Rightarrow> (string \<times> string) option \<Rightarrow> (string \<times> string) option" where
  "cons_to p r = map_option (\<lambda>(s, rest). (p @ s, rest)) r"

text \<open>The characters of a string literal after its opening quote.\<close>

function parse_chars :: "string \<Rightarrow> (string \<times> string) option" where
  "parse_chars [] = None"
| "parse_chars (c # s) =
     (if c = CHR 0x22 then Some ([], s)
      else if c = CHR 0x5C then
        (case s of [] \<Rightarrow> None
         | e # s' \<Rightarrow>
            (if e = CHR ''u'' then
               (case hex4 s' of None \<Rightarrow> None
                | Some n \<Rightarrow>
                   (case (if 55296 \<le> n \<and> n \<le> 56319 then low_surrogate (drop 4 s') else None) of
                      Some l \<Rightarrow> cons_to (utf8_bytes (65536 + (n - 55296) * 1024 + (l - 56320)))
                                        (parse_chars (drop 10 s'))
                    | None \<Rightarrow> cons_to (utf8_bytes n) (parse_chars (drop 4 s'))))
             else (case unescape e of None \<Rightarrow> None | Some x \<Rightarrow> cons_to [x] (parse_chars s'))))
      else if (of_char c :: nat) < 32 then None
      else cons_to [c] (parse_chars s))"
  by pat_completeness auto
termination
  by (relation "measure length") auto

definition json_space :: "char \<Rightarrow> bool" where
  "json_space c = (let n = of_char c :: nat in n = 32 \<or> n = 9 \<or> n = 10 \<or> n = 13)"

definition skip_ws :: "string \<Rightarrow> string" where
  "skip_ws s = dropWhile json_space s"

definition parse_digits :: "bool \<Rightarrow> string \<Rightarrow> (jsval \<times> string) option" where
  "parse_digits neg s =
     (let ds = takeWhile is_digit s; r = dropWhile is_digit s in
      if ds = [] \<or> (length ds > 1 \<and> hd ds = CHR ''0'') then None
      else if r \<noteq> [] \<and> hd r \<in> {CHR ''.'', CHR ''e'', CHR ''E''} then None
      else Some (JNum (if neg then - int (digits_val ds) else int (digits_val ds)), r))"

fun parse_value :: "nat \<Rightarrow> string \<Rightarrow> (jsval \<times> string) option"
and parse_elems :: "nat \<Rightarrow> string \<Rightarrow> (jsval list \<times> string) option"
and parse_members :: "nat \<Rightarrow> string \<Rightarrow> ((string \<times> jsval) list \<times> string) option" where
  "parse_value 0 s = None"
| "parse_value (Suc n) s =
     (case skip_ws s of [] \<Rightarrow> None
      | c # r \<Rightarrow>
         (if c = CHR ''{'' then
            (if skip_ws r \<noteq> [] \<and> hd (skip_ws r) = CHR ''}'' then Some (JObj [], tl (skip_ws r))
             else map_option (\<lambda>(ms, t). (JObj (aspread [] ms), t)) (parse_members n r))
          else if c = CHR ''['' then
            (if skip_ws r \<noteq> [] \<and> hd (skip_ws r) = CHR '']'' then Some (JArr [], tl (skip_ws r))
             else map_option (\<lambda>(xs, t). (JArr xs, t)) (parse_elems n r))
          else if c = CHR 0x22 then map_option (\<lambda>(x, t). (JStr x, t)) (parse_chars r)
          else if startsWith (c # r) ''null'' then Some (JNull, drop 4 (c # r))
          else if startsWith (c # r) ''true'' then Some (JBool True, drop 4 (c # r))
          else if startsWith (c # r) ''false'' then Some (JBool False, drop 5 (c # r))
          else if c = CHR ''-'' then parse_digits True r
          else parse_digits False (c # r)))"
| "parse_elems 0 s = None"
| "parse_elems (Suc n) s =
     (case parse_value n s of None \<Rightarrow> None
      | Some (v, r) \<Rightarrow>
         (case skip_ws r of [] \<Rightarrow> None
          | c # r' \<Rightarrow>
             (if c = CHR '']'' then Some ([v], r')
              else if c = CHR '','' then map_option (\<lambda>(xs, t). (v # xs, t)) (parse_elems n r')
              else None)))"
| "parse_members 0 s = None"
| "parse_members (Suc n) s =
     (case skip_ws s of [] \<Rightarrow> None
      | q # r \<Rightarrow>
         (if q \<noteq> CHR 0x22 then None
          else case parse_chars r of None \<Rightarrow> None
           | Some (k, r1) \<Rightarrow>
              (case skip_ws r1 of [] \<Rightarrow> None
               | d # r2 \<Rightarrow>
                  (if d \<noteq> CHR '':'' then None
                   else case parse_value n r2 of None \<Rightarrow> None
                    | Some (v, r3) \<Rightarrow>
                       (case skip_ws r3 of [] \<Rightarrow> None
                        | c # r' \<Rightarrow>
                           (if c = CHR ''}'' then Some ([(k, v)], r')
                            else if c = CHR '','' then
                              map_option (\<lambda>(ms, t). ((k, v) # ms, t)) (parse_members n r')
                            else None))))))"

definition json_parse :: "string \<Rightarrow> jsval option" where
  "json_parse s = (case parse_value (2 * length s + 2) s of
     Some (v, r) \<Rightarrow> if skip_ws r = [] then Some v else None
   | None \<Rightarrow> None)"

text \<open>The values \<open>JSON.stringify\<close> keeps entirely: no \<open>undefined\<close>, no repeated key.\<close>

fun wf_json :: "jsval \<Rightarrow> bool"
and wf_elems :: "jsval list \<Rightarrow> bool"
and wf_members :: "(string \<times> jsval) list \<Rightarrow> bool" where
  "wf_json JUndef = False"
| "wf_json (JArr xs) = wf_elems xs"
| "wf_json (JObj kvs) = (distinct (map fst kvs) \<and> wf_members kvs)"
| "wf_json v = True"
| "wf_elems [] = True"
| "wf_elems (x # xs) = (wf_json x \<and> wf_elems xs)"
| "wf_members [] = True"
| "wf_members ((k, v) # kvs) = (wf_json v \<and> wf_members kvs)"

section \<open>The round trip\<close>

lemma of_char_less: "(of_char c :: nat) < 256"
  using of_char_mod_256 [of c] by (metis mod_less_divisor zero_less_numeral)

lemma radix_val_hex_digit: "n < 16 \<Longrightarrow> hex_val (hex_digit n) = Some n"
  by (auto simp: hex_val_def hex_digit_def radix_val_def Let_def)

lemma hex4_esc:
  "n < 256 \<Longrightarrow> hex4 (CHR ''0'' # CHR ''0'' # hex_digit (n div 16) # hex_digit (n mod 16) # s) = Some n"
proof -
  assume "n < 256"
  then have "hex_val (hex_digit (n div 16)) = Some (n div 16)"
    and "hex_val (hex_digit (n mod 16)) = Some (n mod 16)"
    by (simp_all add: radix_val_hex_digit)
  moreover have "hex_val (CHR ''0'') = Some 0"
    by (simp add: hex_val_def radix_val_def)
  ultimately show ?thesis by (simp add: hex4_def)
qed

lemma of_char_eq_iff_char_of: "n < 256 \<Longrightarrow> (of_char c :: nat) = n \<longleftrightarrow> c = char_of n"
  by (metis char_of_char of_char_of mod_less)

lemma char_of_quotes: "char_of (34 :: nat) = CHR 0x22" "char_of (92 :: nat) = CHR 0x5C"
  by (code_simp, code_simp)

lemma parse_chars_esc: "parse_chars (esc_char c @ s) = cons_to [c] (parse_chars s)"
proof -
  define n where "n = (of_char c :: nat)"
  have c: "c = char_of n" by (simp add: n_def)
  consider "n = 34" | "n = 92" | "n = 8" | "n = 9" | "n = 10" | "n = 12" | "n = 13"
    | "n < 32" "n \<notin> {8, 9, 10, 12, 13}" | "32 \<le> n" "n \<noteq> 34" "n \<noteq> 92"
    by fastforce
  then show ?thesis
  proof cases
    case 8
    then have "esc_char c = [CHR 0x5C, CHR ''u'', CHR ''0'', CHR ''0'', hex_digit (n div 16), hex_digit (n mod 16)]"
      by (auto simp: esc_char_def Let_def n_def)
    with 8 c show ?thesis by (simp add: hex4_esc utf8_bytes_def)
  next
    case 9
    then have "esc_char c = [c]" by (auto simp: esc_char_def Let_def n_def)
    moreover have "c \<noteq> CHR 0x22" "c \<noteq> CHR 0x5C" using 9 by (auto simp: n_def)
    ultimately show ?thesis using 9 by (simp add: n_def)
  qed (auto simp: esc_char_def Let_def n_def [symmetric] c unescape_def char_of_quotes)
qed

lemma cons_to_cons_to [simp]: "cons_to p (cons_to q r) = cons_to (p @ q) r"
  by (cases r) (auto simp: cons_to_def)

lemma parse_chars_quote:
  "parse_chars (concat (map esc_char s) @ CHR 0x22 # r) = Some (s, r)"
  by (induction s) (auto simp: parse_chars_esc cons_to_def)

lemma skip_ws_Cons [simp]: "\<not> json_space c \<Longrightarrow> skip_ws (c # s) = c # s"
  by (simp add: skip_ws_def)

lemma json_space_lits [simp]:
  "\<not> json_space (CHR ''{'')" "\<not> json_space (CHR ''}'')" "\<not> json_space (CHR ''['')"
  "\<not> json_space (CHR '']'')" "\<not> json_space (CHR '','')" "\<not> json_space (CHR '':'')"
  "\<not> json_space (CHR 0x22)" "\<not> json_space (CHR ''n'')" "\<not> json_space (CHR ''t'')"
  "\<not> json_space (CHR ''f'')" "\<not> json_space (CHR ''-'')"
  by (simp_all add: json_space_def)

text \<open>What may follow a value inside a document.\<close>

definition ends_value :: "string \<Rightarrow> bool" where
  "ends_value r = (r = [] \<or> hd r \<in> {CHR '','', CHR '']'', CHR ''}''})"

lemma ends_value_simps [simp]:
  "ends_value []" "ends_value (CHR '','' # r)" "ends_value (CHR '']'' # r)" "ends_value (CHR ''}'' # r)"
  by (simp_all add: ends_value_def)

lemma ends_value_not_digit: "ends_value r \<Longrightarrow> r = [] \<or> \<not> is_digit (hd r)"
  by (auto simp: ends_value_def is_digit_def)

lemma span_digits:
  assumes "list_all is_digit ds" and "ends_value r"
  shows "takeWhile is_digit (ds @ r) = ds" and "dropWhile is_digit (ds @ r) = r"
  using assms ends_value_not_digit [OF assms(2)]
  by (cases r; simp add: list_all_iff takeWhile_append dropWhile_append)+

lemma digits_val_acc: "list_all is_digit s \<Longrightarrow>
   foldl (\<lambda>a c. 10 * a + digit_val c) a s \<ge> a * 10 ^ length s"
proof (induction s arbitrary: a)
  case (Cons c s)
  have "a * 10 ^ length (c # s) \<le> (10 * a + digit_val c) * 10 ^ length s"
    by (simp add: algebra_simps)
  also have "\<dots> \<le> foldl (\<lambda>a c. 10 * a + digit_val c) (10 * a + digit_val c) s"
    using Cons by simp
  finally show ?case by simp
qed simp

lemma show_nat_no_leading_zero: "length (show_nat n) > 1 \<Longrightarrow> hd (show_nat n) \<noteq> CHR ''0''"
proof (induction n rule: show_nat.induct)
  case (1 n)
  show ?case
  proof (cases "n < 10")
    case True
    with "1.prems" show ?thesis by (simp add: show_nat.simps [of n])
  next
    case big: False
    have hd: "hd (show_nat n) = hd (show_nat (n div 10))"
      using big by (simp add: show_nat.simps [of n])
    show ?thesis
    proof (cases "n div 10 < 10")
      case True
      with big have "show_nat (n div 10) = [digit_char (n div 10)]" and "0 < n div 10"
        by (simp_all add: show_nat.simps [of "n div 10"])
      moreover have "digit_char (n div 10) \<noteq> CHR ''0''"
        using digit_val_digit_char [OF True] \<open>0 < n div 10\<close>
        by (auto simp: digit_val_def)
      ultimately show ?thesis using hd by simp
    next
      case False
      then have "length (show_nat (n div 10)) > 1"
        by (simp add: show_nat.simps [of "n div 10"])
      with "1.IH" [OF big] hd show ?thesis by simp
    qed
  qed
qed

lemma parse_digits_show:
  assumes "ends_value r"
  shows "parse_digits neg (show_nat n @ r) =
    Some (JNum (if neg then - int n else int n), r)"
proof -
  have d: "list_all is_digit (show_nat n)"
    using show_nat_digits by (simp add: list_all_iff)
  have "\<not> (r \<noteq> [] \<and> hd r \<in> {CHR ''.'', CHR ''e'', CHR ''E''})"
    using assms by (auto simp: ends_value_def)
  then show ?thesis
    using show_nat_no_leading_zero [of n]
    by (auto simp: parse_digits_def span_digits [OF d assms] Let_def)
qed

lemma show_nat_Cons: "\<exists>c s. show_nat n = c # s \<and> is_digit c"
  using show_nat_digits [of n] by (cases "show_nat n") auto

lemma is_digit_neq:
  assumes "is_digit c"
  shows "c \<noteq> CHR ''{''" "c \<noteq> CHR ''[''" "c \<noteq> CHR 0x22" "c \<noteq> CHR ''-''"
    "c \<noteq> CHR ''n''" "c \<noteq> CHR ''t''" "c \<noteq> CHR ''f''" "\<not> json_space c"
  using assms by (auto simp: is_digit_def json_space_def Let_def)

lemma parse_value_num:
  assumes "ends_value r"
  shows "parse_value (Suc m) (show_int i @ r) = Some (JNum i, r)"
proof (cases "i < 0")
  case True
  then have "show_int i @ r = CHR ''-'' # (show_nat (nat (- i)) @ r)"
    by (simp add: show_int_def)
  with True show ?thesis
    by (simp add: parse_digits_show [OF assms])
next
  case False
  obtain c s where cs: "show_nat (nat i) = c # s" "is_digit c" using show_nat_Cons by blast
  with False have "show_int i @ r = c # (s @ r)" by (simp add: show_int_def)
  moreover have "parse_digits False (c # (s @ r)) = Some (JNum i, r)"
    using parse_digits_show [OF assms, of False "nat i"] cs False by simp
  ultimately show ?thesis
    using is_digit_neq [OF cs(2)] by simp
qed

lemma stringify_not_Nil: "stringify v \<noteq> []"
  by (cases v) (auto simp: quote_def show_int_def)

lemma hd_stringify: "hd (stringify v) \<notin> {CHR '']'', CHR ''}''} \<and> \<not> json_space (hd (stringify v))"
proof (cases v)
  case (JNum i)
  then show ?thesis
    using hd_show_nat [of "nat i"]
    by (auto simp: show_int_def is_digit_def json_space_def Let_def)
qed (auto simp: quote_def)

lemma join_quote_hd: "stringify_members kvs \<noteq> [] \<Longrightarrow> \<exists>t. join '','' (stringify_members kvs) = CHR 0x22 # t"
proof (induction kvs)
  case (Cons kv kvs)
  then show ?case by (cases kv) (auto simp: quote_def join_Cons)
qed simp

lemma join_elems_hd:
  "xs \<noteq> [] \<Longrightarrow> \<exists>c t. join '','' (stringify_elems xs) = c # t \<and> c \<noteq> CHR '']'' \<and> \<not> json_space c"
proof (cases xs)
  case (Cons x ys)
  then show ?thesis
    using hd_stringify [of x] stringify_not_Nil [of x]
    by (cases "stringify x") (auto simp: join_Cons)
qed simp

lemma length_stringify_pos: "0 < length (stringify v)"
  using stringify_not_Nil by simp

lemma wf_members_strict: "wf_members kvs \<Longrightarrow> (k, v) \<in> set kvs \<Longrightarrow> v \<noteq> JUndef"
  by (induction kvs) auto

lemma parse_stringify:
  "wf_json v \<Longrightarrow> ends_value r \<Longrightarrow> 2 * length (stringify v) \<le> n \<Longrightarrow>
     parse_value n (stringify v @ r) = Some (v, r)"
  "wf_elems xs \<Longrightarrow> xs \<noteq> [] \<Longrightarrow> 2 * length (join '','' (stringify_elems xs)) + 2 \<le> n \<Longrightarrow>
     parse_elems n (join '','' (stringify_elems xs) @ CHR '']'' # r) = Some (xs, r)"
  "wf_members kvs \<Longrightarrow> kvs \<noteq> [] \<Longrightarrow> 2 * length (join '','' (stringify_members kvs)) + 2 \<le> n \<Longrightarrow>
     parse_members n (join '','' (stringify_members kvs) @ CHR ''}'' # r) = Some (kvs, r)"
proof (induction v and xs and kvs arbitrary: r n and r n and r n
    rule: stringify_stringify_elems_stringify_members.induct)
  case (3 b)
  then obtain m where "n = Suc m" by (cases n; cases b) auto
  then show ?case by (cases b) auto
next
  case 2
  then obtain m where "n = Suc m" by (cases n) auto
  then show ?case by auto
next
  case (4 i)
  then obtain m where "n = Suc m" using stringify_not_Nil [of "JNum i"] by (cases n) auto
  then show ?case using 4 by (simp add: parse_value_num del: parse_value.simps)
next
  case (5 s)
  then obtain m where "n = Suc m" by (cases n) (auto simp: quote_def)
  then show ?case by (simp add: quote_def parse_chars_quote)
next
  case (6 xs)
  then obtain m where n: "n = Suc m" by (cases n) auto
  show ?case
  proof (cases "xs = []")
    case False
    let ?j = "join '','' (stringify_elems xs)"
    obtain c t where ct: "?j = c # t" "c \<noteq> CHR '']''" "\<not> json_space c"
      using join_elems_hd [OF False] by blast
    have "parse_elems m (?j @ CHR '']'' # r) = Some (xs, r)"
      using 6 n False by (intro "6.IH") auto
    then show ?thesis using n ct by simp
  qed (simp add: n)
next
  case (7 kvs)
  then obtain m where n: "n = Suc m" by (cases n) auto
  show ?case
  proof (cases "kvs = []")
    case False
    let ?j = "join '','' (stringify_members kvs)"
    have "stringify_members kvs \<noteq> []"
      using False 7(2) by (cases kvs) (auto dest: wf_members_strict)
    then obtain t where t: "?j = CHR 0x22 # t" using join_quote_hd by blast
    have "parse_members m (?j @ CHR ''}'' # r) = Some (kvs, r)"
      using 7 n False by (intro "7.IH") auto
    moreover have "aspread [] kvs = kvs" using 7(2) by (simp add: aspread_fresh)
    ultimately show ?thesis using n t by simp
  qed (simp add: n)
next
  case (9 x xs)
  then obtain m where n: "n = Suc m" by (cases n) auto
  show ?case
  proof (cases xs)
    case Nil
    have "parse_value m (stringify x @ CHR '']'' # r) = Some (x, CHR '']'' # r)"
      using 9 n Nil by (intro "9.IH") auto
    then show ?thesis using n Nil by simp
  next
    case (Cons y ys)
    let ?j = "join '','' (stringify_elems xs)"
    have len: "length (join '','' (stringify_elems (x # xs))) = length (stringify x) + 1 + length ?j"
      using Cons by simp
    have "parse_value m (stringify x @ CHR '','' # (?j @ CHR '']'' # r)) = Some (x, CHR '','' # (?j @ CHR '']'' # r))"
      using 9 n len by (intro "9.IH"(1)) auto
    moreover have "parse_elems m (?j @ CHR '']'' # r) = Some (xs, r)"
      using 9 n len Cons length_stringify_pos [of x] by (intro "9.IH"(2)) auto
    ultimately show ?thesis using n Cons by simp
  qed
next
  case (11 k v kvs)
  then obtain m where n: "n = Suc m" by (cases n) auto
  have nu: "v \<noteq> JUndef" using 11(4) by auto
  let ?ks = "concat (map esc_char k)"
  show ?case
  proof (cases kvs)
    case Nil
    have "parse_value m (stringify v @ CHR ''}'' # r) = Some (v, CHR ''}'' # r)"
      using 11 n Nil nu by (intro "11.IH") (auto simp: quote_def)
    then show ?thesis using n Nil nu
      by (simp add: quote_def parse_chars_quote)
  next
    case (Cons kv kvs')
    let ?j = "join '','' (stringify_members kvs)"
    have ne: "stringify_members kvs \<noteq> []"
      using Cons 11(4) by (cases kv) (auto dest: wf_members_strict)
    have eq: "join '','' (stringify_members ((k, v) # kvs)) = quote k @ '':'' @ stringify v @ '','' @ ?j"
      using ne nu by (simp add: join_Cons)
    have "parse_value m (stringify v @ CHR '','' # (?j @ CHR ''}'' # r)) = Some (v, CHR '','' # (?j @ CHR ''}'' # r))"
      using 11 n nu eq by (intro "11.IH"(2)) (auto simp: quote_def)
    moreover have "parse_members m (?j @ CHR ''}'' # r) = Some (kvs, r)"
      using 11 n nu eq Cons by (intro "11.IH"(3)) (auto simp: quote_def)
    ultimately show ?thesis using n nu unfolding eq
      by (simp add: quote_def parse_chars_quote)
  qed
qed auto

text \<open>\<open>JSON.parse(JSON.stringify(v))\<close> gives back \<open>v\<close>.\<close>

lemma json_parse_stringify:
  assumes "wf_json v"
  shows "json_parse (stringify v) = Some v"
proof -
  have "parse_value (2 * length (stringify v) + 2) (stringify v @ []) = Some (v, [])"
    using assms by (intro parse_stringify(1)) auto
  then show ?thesis by (simp add: json_parse_def skip_ws_def)
qed

end
