(* ===== verification/JS_Encoding.thy ===== *)
theory JS_Encoding
  imports JS_Json
begin

text \<open>
  The codecs of the platform the client relies on: base64 as Node's \<open>Buffer\<close> prints and
  reads it, and \<open>encodeURIComponent\<close>/\<open>decodeURIComponent\<close>. A \<open>Buffer\<close> is the \<open>string\<close>
  of its bytes. Node's base64 reader skips the characters that are not of the alphabet and
  accepts the URL-safe one too.
\<close>

section \<open>Base64\<close>

definition b64_char :: "nat \<Rightarrow> char" where
  "b64_char n =
     (if n < 26 then char_of (65 + n) else if n < 52 then char_of (71 + n)
      else if n < 62 then char_of (n - 4) else if n = 62 then CHR ''+'' else CHR ''/'')"

definition b64_val :: "char \<Rightarrow> nat option" where
  "b64_val c = (let n = of_char c :: nat in
     if 65 \<le> n \<and> n \<le> 90 then Some (n - 65)
     else if 97 \<le> n \<and> n \<le> 122 then Some (n - 71)
     else if 48 \<le> n \<and> n \<le> 57 then Some (n + 4)
     else if n = 43 \<or> n = 45 then Some 62
     else if n = 47 \<or> n = 95 then Some 63
     else None)"

text \<open>The three bytes of a group as four sextets.\<close>

definition sextets3 :: "nat \<Rightarrow> nat \<Rightarrow> nat \<Rightarrow> nat list" where
  "sextets3 a b c = [a div 4, (a mod 4) * 16 + b div 16, (b mod 16) * 4 + c div 64, c mod 64]"

fun b64_encode :: "string \<Rightarrow> string" where
  "b64_encode [] = []"
| "b64_encode [a] = map b64_char (take 2 (sextets3 (of_char a) 0 0)) @ ''==''"
| "b64_encode [a, b] = map b64_char (take 3 (sextets3 (of_char a) (of_char b) 0)) @ ''=''"
| "b64_encode (a # b # c # s) =
     map b64_char (sextets3 (of_char a) (of_char b) (of_char c)) @ b64_encode s"

fun sextets_of :: "string \<Rightarrow> nat list" where
  "sextets_of [] = []"
| "sextets_of (c # s) = (case b64_val c of None \<Rightarrow> sextets_of s | Some n \<Rightarrow> n # sextets_of s)"

fun bytes_of :: "nat list \<Rightarrow> string" where
  "bytes_of (w # x # y # z # r) =
     char_of (w * 4 + x div 16) # char_of ((x mod 16) * 16 + y div 4) # char_of ((y mod 4) * 64 + z) # bytes_of r"
| "bytes_of [w, x, y] = [char_of (w * 4 + x div 16), char_of ((x mod 16) * 16 + y div 4)]"
| "bytes_of [w, x] = [char_of (w * 4 + x div 16)]"
| "bytes_of r = []"

definition b64_decode :: "string \<Rightarrow> string" where
  "b64_decode s = bytes_of (sextets_of s)"

section \<open>Percent encoding\<close>

definition hex_upper :: "nat \<Rightarrow> char" where
  "hex_upper n = (if n < 10 then char_of (48 + n) else char_of (55 + n))"

text \<open>The characters \<open>encodeURIComponent\<close> (and \<open>querystring.escape\<close>) leave alone.\<close>

definition uri_unreserved :: "char \<Rightarrow> bool" where
  "uri_unreserved c = (let n = of_char c :: nat in
     (65 \<le> n \<and> n \<le> 90) \<or> (97 \<le> n \<and> n \<le> 122) \<or> (48 \<le> n \<and> n \<le> 57) \<or>
     c \<in> set ''-_.!~*()'' \<or> n = 39)"

definition pct_char :: "char \<Rightarrow> string" where
  "pct_char c = (let n = of_char c :: nat in
     if uri_unreserved c then [c] else [CHR ''%'', hex_upper (n div 16), hex_upper (n mod 16)])"

definition encodeURIComponent :: "string \<Rightarrow> string" where
  "encodeURIComponent s = concat (map pct_char s)"

definition hex2 :: "string \<Rightarrow> nat option" where
  "hex2 s = (case s of a # b # _ \<Rightarrow>
     (case (hex_val a, hex_val b) of (Some x, Some y) \<Rightarrow> Some (x * 16 + y) | _ \<Rightarrow> None) | _ \<Rightarrow> None)"

text \<open>The continuation bytes of a UTF-8 sequence, each one again percent-encoded.\<close>

fun pct_conts :: "nat \<Rightarrow> string \<Rightarrow> nat list option" where
  "pct_conts 0 s = Some []"
| "pct_conts (Suc k) s =
     (if startsWith s ''%'' then
        (case hex2 (drop 1 s) of
           Some b \<Rightarrow> if 128 \<le> b \<and> b < 192 then map_option ((#) b) (pct_conts k (drop 3 s)) else None
         | None \<Rightarrow> None)
      else None)"

definition utf8_len :: "nat \<Rightarrow> nat" where
  "utf8_len b = (if 192 \<le> b \<and> b < 224 then 2 else if 224 \<le> b \<and> b < 240 then 3
     else if 240 \<le> b \<and> b < 248 then 4 else 0)"

definition utf8_valid :: "nat list \<Rightarrow> bool" where
  "utf8_valid bs = (case bs of
     [a, b] \<Rightarrow> 128 \<le> (a - 192) * 64 + (b - 128)
   | [a, b, c] \<Rightarrow> (let n = ((a - 224) * 64 + (b - 128)) * 64 + (c - 128)
                   in 2048 \<le> n \<and> \<not> (55296 \<le> n \<and> n \<le> 57343))
   | [a, b, c, d] \<Rightarrow> (let n = (((a - 240) * 64 + (b - 128)) * 64 + (c - 128)) * 64 + (d - 128)
                      in 65536 \<le> n \<and> n \<le> 1114111)
   | _ \<Rightarrow> False)"

function decodeURI_opt :: "string \<Rightarrow> string option" where
  "decodeURI_opt [] = Some []"
| "decodeURI_opt (c # s) =
     (if c \<noteq> CHR ''%'' then map_option ((#) c) (decodeURI_opt s)
      else (case hex2 s of None \<Rightarrow> None
            | Some b \<Rightarrow>
               (if b < 128 then map_option ((#) (char_of b)) (decodeURI_opt (drop 2 s))
                else if utf8_len b = 0 then None
                else (case pct_conts (utf8_len b - 1) (drop 2 s) of None \<Rightarrow> None
                      | Some bs \<Rightarrow>
                         (if utf8_valid (b # bs)
                          then map_option (append (map char_of (b # bs)))
                                 (decodeURI_opt (drop (2 + 3 * (utf8_len b - 1)) s))
                          else None)))))"
  by pat_completeness auto
termination
  by (relation "measure length") auto

text \<open>\<open>decodeURIComponent\<close> throws a \<open>URIError\<close> on a malformed sequence.\<close>

definition decodeURIComponent :: "string \<Rightarrow> err + string" where
  "decodeURIComponent s = (case decodeURI_opt s of None \<Rightarrow> Inl URIError | Some r \<Rightarrow> Inr r)"

section \<open>Base64 round trip\<close>

lemma b64_val_char: "n < 64 \<Longrightarrow> b64_val (b64_char n) = Some n"
proof -
  assume "n < 64"
  then consider "n < 26" | "26 \<le> n" "n < 52" | "52 \<le> n" "n < 62" | "n = 62" | "n = 63"
    by linarith
  then show ?thesis by cases (auto simp: b64_char_def b64_val_def Let_def)
qed

lemma sextets3_bound:
  "a < 256 \<Longrightarrow> b < 256 \<Longrightarrow> c < 256 \<Longrightarrow> \<forall>n \<in> set (sextets3 a b c). n < 64"
  by (auto simp: sextets3_def)

lemma sextets_of_b64_chars:
  "\<forall>n \<in> set ns. n < 64 \<Longrightarrow> sextets_of (map b64_char ns @ s) = ns @ sextets_of s"
  by (induction ns) (auto simp: b64_val_char)

lemma sextet_pair:
  fixes m t k :: nat
  assumes "t < k"
  shows "(m * k + t) div k = m" and "(m * k + t) mod k = t"
  using assms by auto

lemma sextet_join:
  fixes a b c :: nat
  assumes "b < 256" "c < 256"
  shows "a div 4 * 4 + ((a mod 4) * 16 + b div 16) div 16 = a"
    and "((a mod 4) * 16 + b div 16) mod 16 * 16 + ((b mod 16) * 4 + c div 64) div 4 = b"
    and "((b mod 16) * 4 + c div 64) mod 4 * 64 + c mod 64 = c"
proof -
  have b: "b div 16 < 16" and c: "c div 64 < 4" using assms by simp_all
  show "a div 4 * 4 + ((a mod 4) * 16 + b div 16) div 16 = a"
    unfolding sextet_pair [OF b] by (rule div_mult_mod_eq)
  show "((a mod 4) * 16 + b div 16) mod 16 * 16 + ((b mod 16) * 4 + c div 64) div 4 = b"
    unfolding sextet_pair [OF b] sextet_pair [OF c] by (rule div_mult_mod_eq)
  show "((b mod 16) * 4 + c div 64) mod 4 * 64 + c mod 64 = c"
    unfolding sextet_pair [OF c] by (rule div_mult_mod_eq)
qed

lemma bytes_of_sextets3:
  assumes "b < 256" "c < 256"
  shows "bytes_of (sextets3 a b c @ r) = char_of a # char_of b # char_of c # bytes_of r"
  unfolding sextets3_def append.simps bytes_of.simps sextet_join [OF assms] ..

lemma bytes_of_take3:
  assumes "b < 256"
  shows "bytes_of (take 3 (sextets3 a b 0)) = [char_of a, char_of b]"
proof -
  have "take 3 (sextets3 a b 0) = [a div 4, (a mod 4) * 16 + b div 16, (b mod 16) * 4 + 0 div 64]"
    by (simp add: sextets3_def numeral_3_eq_3)
  then show ?thesis
    using sextet_join(1,2) [OF assms, of 0 a] by simp
qed

lemma bytes_of_take2: "bytes_of (take 2 (sextets3 a 0 0)) = [char_of a]"
proof -
  have "take 2 (sextets3 a 0 0) = [a div 4, (a mod 4) * 16 + 0 div 16]"
    by (simp add: sextets3_def numeral_2_eq_2)
  then show ?thesis
    using sextet_join(1) [of 0 0 a] by simp
qed

lemma sextets3_take_bound:
  "a < 256 \<Longrightarrow> b < 256 \<Longrightarrow> c < 256 \<Longrightarrow> \<forall>n \<in> set (take k (sextets3 a b c)). n < 64"
  by (meson in_set_takeD sextets3_bound)

lemma b64_decode_encode: "b64_decode (b64_encode s) = s"
  unfolding b64_decode_def
proof (induction s rule: b64_encode.induct)
  case 1
  then show ?case by simp
next
  case (2 a)
  have "b64_val (CHR ''='') = None" by (simp add: b64_val_def)
  then show ?case
    using sextets3_take_bound [of "of_char a" 0 0 2]
    by (simp add: of_char_less sextets_of_b64_chars bytes_of_take2)
next
  case (3 a b)
  have "b64_val (CHR ''='') = None" by (simp add: b64_val_def)
  then show ?case
    using sextets3_take_bound [of "of_char a" "of_char b" 0 3]
    by (simp add: sextets_of_b64_chars bytes_of_take3 of_char_less)
next
  case (4 a b c s)
  have "\<forall>n \<in> set (sextets3 (of_char a) (of_char b) (of_char c)). n < 64"
    by (intro sextets3_bound of_char_less)
  with 4 show ?case
    by (simp add: sextets_of_b64_chars bytes_of_sextets3 of_char_less sextets3_bound)
qed

text \<open>The reader ignores characters outside the alphabet, such as the backslashes of
  \<open>\/\<close> escapes.\<close>

lemma sextets_of_append: "sextets_of (s @ t) = sextets_of s @ sextets_of t"
  by (induction s) (auto split: option.splits)

lemma sextets_of_escaped:
  assumes "\<And>c. sextets_of (f c) = sextets_of [c]"
  shows "sextets_of (concat (map f s)) = sextets_of s"
proof (induction s)
  case (Cons c s)
  have "sextets_of (c # s) = sextets_of [c] @ sextets_of s"
    using sextets_of_append [of "[c]" s] by simp
  with Cons show ?case by (simp add: sextets_of_append assms)
qed simp

section \<open>Percent-encoding round trip\<close>

lemma hex_val_hex_upper: "n < 16 \<Longrightarrow> hex_val (hex_upper n) = Some n"
  by (auto simp: hex_val_def hex_upper_def radix_val_def Let_def)

lemma hex2_pct: "n < 256 \<Longrightarrow> hex2 (hex_upper (n div 16) # hex_upper (n mod 16) # s) = Some n"
  by (simp add: hex2_def hex_val_hex_upper)

lemma unreserved_not_pct: "uri_unreserved c \<Longrightarrow> c \<noteq> CHR ''%''"
  by (auto simp: uri_unreserved_def)

lemma decodeURI_pct_char:
  assumes "(of_char c :: nat) < 128"
  shows "decodeURI_opt (pct_char c @ s) = map_option ((#) c) (decodeURI_opt s)"
proof (cases "uri_unreserved c")
  case True
  then show ?thesis by (simp add: pct_char_def unreserved_not_pct)
next
  case False
  with assms show ?thesis by (simp add: pct_char_def Let_def hex2_pct)
qed

definition is_ascii :: "string \<Rightarrow> bool" where
  "is_ascii s = list_all (\<lambda>c. (of_char c :: nat) < 128) s"

lemma decode_encodeURIComponent:
  "is_ascii s \<Longrightarrow> decodeURIComponent (encodeURIComponent s) = Inr s"
proof -
  assume "is_ascii s"
  then have "decodeURI_opt (concat (map pct_char s)) = Some s"
    by (induction s) (auto simp: is_ascii_def decodeURI_pct_char)
  then show ?thesis by (simp add: decodeURIComponent_def encodeURIComponent_def)
qed

lemma pct_char_ascii: "list_all (\<lambda>c. (of_char c :: nat) < 128) (pct_char c)"
proof -
  have "hex_upper (n mod 16) = char_of (if n mod 16 < 10 then 48 + n mod 16 else 55 + n mod 16)" for n
    by (simp add: hex_upper_def)
  moreover have "(of_char c :: nat) div 16 < 16" using of_char_less [of c] by linarith
  ultimately show ?thesis
    by (auto simp: pct_char_def Let_def hex_upper_def uri_unreserved_def)
qed

lemma encodeURIComponent_ascii: "is_ascii (encodeURIComponent s)"
  unfolding is_ascii_def encodeURIComponent_def using pct_char_ascii by (induction s) auto

section \<open>Text as bytes\<close>

text \<open>Texts are held as their UTF-8 bytes. Their code units are those of UTF-16; a byte that starts no
  character stands for itself.\<close>

definition cont :: "string \<Rightarrow> nat \<Rightarrow> nat" where
  "cont s i = (if i < length s then of_char (s ! i) mod 64 else 0)"

fun code_units :: "string \<Rightarrow> nat list" where
  "code_units [] = []"
| "code_units (c # s) =
     (let b = of_char c in
      if utf8_len b = 2 then (b mod 32 * 64 + cont s 0) # code_units (drop 1 s)
      else if utf8_len b = 3 then (b mod 16 * 4096 + cont s 0 * 64 + cont s 1) # code_units (drop 2 s)
      else if utf8_len b = 4 then
        (let n = b mod 8 * 262144 + cont s 0 * 4096 + cont s 1 * 64 + cont s 2 - 65536
         in (55296 + n div 1024) # (56320 + n mod 1024) # code_units (drop 3 s))
      else b # code_units s)"

text \<open>\<open>Buffer.from(text, 'ascii')\<close> keeps the low byte of each code unit.\<close>

definition buffer_ascii :: "string \<Rightarrow> string" where
  "buffer_ascii s = map (\<lambda>u. char_of (u mod 256)) (code_units s)"

lemma buffer_ascii_ascii: "is_ascii s \<Longrightarrow> buffer_ascii s = s"
proof (induction s)
  case (Cons c s)
  then have "utf8_len (of_char c) = 0" "(of_char c :: nat) mod 256 = of_char c" by (auto simp: is_ascii_def utf8_len_def)
  with Cons show ?case by (simp add: buffer_ascii_def is_ascii_def)
qed (simp add: buffer_ascii_def)

lemma buffer_ascii_accent: "buffer_ascii [char_of (195 :: nat), char_of (169 :: nat)] = [char_of (233 :: nat)]"
  by code_simp

end
