(* ===== verification/Wyze_Constants.thy ===== *)
theory Wyze_Constants
  imports JS_Value
begin

text \<open>
  The frozen constants of \<open>src/constants.js\<close> and \<open>src/types.js\<close>: secrets and
  identifiers of the signing schemes, base URLs, the emulated client's identity, and the code tables
  of the robot vacuum with the reverse lookup \<open>parseVacuumMode\<close>.
\<close>

section \<open>constants.js\<close>

definition constants_fordAppKey :: string where "constants_fordAppKey = ''275965684684dbdaf29a0ed9''"
definition constants_fordAppSecret :: string where "constants_fordAppSecret = ''4deekof1ba311c5c33a9cb8e12787e8c''"
definition constants_oliveSigningSecret :: string where "constants_oliveSigningSecret = ''wyze_app_secret_key_132''"
definition constants_oliveAppId :: string where "constants_oliveAppId = ''9319141212m2ik''"
definition constants_webSigningSecret :: string where "constants_webSigningSecret = ''gbJojEBViLklgwyyDikx5ztSvKBXI5oU''"
definition constants_webAppId :: string where "constants_webAppId = ''strv_e7f78e9e7738dc50''"
definition constants_webAppInfo :: string where "constants_webAppInfo = ''wyze_web_2.3.1''"
definition constants_deviceOfflineCode :: string where "constants_deviceOfflineCode = ''3019''"
definition constants_appInfo :: string where "constants_appInfo = ''wyze_android_2.19.14''"
definition constants_phoneId :: string where "constants_phoneId = ''wyze_developer_api''"
definition constants_appName :: string where "constants_appName = ''com.hualai.WyzeCam''"
definition constants_appVer :: string where "constants_appVer = ''wyze_developer_api''"
definition constants_appVersion :: string where "constants_appVersion = ''wyze_developer_api''"
definition constants_sc :: string where "constants_sc = ''wyze_developer_api''"
definition constants_sv :: string where "constants_sv = ''wyze_developer_api''"
definition constants_authApiKey :: string where "constants_authApiKey = ''WMXHYf79Nr5gIlt3r0r7p9Tcw5bvs6BB4U8O8nGJ''"
definition constants_userAgent :: string where "constants_userAgent = ''unofficial-wyze-api/'' @ ''1.1.11''"
definition constants_authBaseUrl :: string where "constants_authBaseUrl = ''https://auth-prod.api.wyze.com''"
definition constants_apiBaseUrl :: string where "constants_apiBaseUrl = ''https://api.wyzecam.com''"
definition constants_irrigationBaseUrl :: string where
  "constants_irrigationBaseUrl = ''https://wyze-lockwood-service.wyzecam.com/plugin/irrigation/''"
definition constants_iot3BaseUrl :: string where "constants_iot3BaseUrl = ''https://app.wyzecam.com''"
definition constants_iot3AppVersion :: string where "constants_iot3AppVersion = ''3.11.0.758''"
definition constants_iot3AppInfo :: string where "constants_iot3AppInfo = ''wyze_android_3.11.0.758''"
definition constants_venusBaseUrl :: string where "constants_venusBaseUrl = ''https://wyze-venus-service-vn.wyzecam.com''"
definition constants_venusAppId :: string where "constants_venusAppId = ''venp_4c30f812828de875''"
definition constants_venusSigningSecret :: string where "constants_venusSigningSecret = ''CVCSNoa0ALsNEpgKls6ybVTVOmGzFoiq''"
definition constants_vacuumModels :: "string list" where "constants_vacuumModels = [''JA_RO2'']"
definition constants_venusPluginVersion :: string where "constants_venusPluginVersion = ''2.35.1''"
definition constants_vacuumFirmwareVersion :: string where "constants_vacuumFirmwareVersion = ''1.6.113''"
definition constants_vacuumEventTrackingUuid :: string where
  "constants_vacuumEventTrackingUuid = ''88DBF3344D20B5597DB7C8F0AFBB4030''"

section \<open>types.js\<close>

datatype VacuumControlType = GLOBAL_SWEEPING | RETURN_TO_CHARGING | AREA_CLEAN | QUICK_MAPPING

fun control_type_code :: "VacuumControlType \<Rightarrow> int" where
  "control_type_code GLOBAL_SWEEPING = 0"
| "control_type_code RETURN_TO_CHARGING = 3"
| "control_type_code AREA_CLEAN = 6"
| "control_type_code QUICK_MAPPING = 7"

datatype VacuumControlValue = STOP | START | PAUSE | FALSE_PAUSE

fun control_value_code :: "VacuumControlValue \<Rightarrow> int" where
  "control_value_code STOP = 0"
| "control_value_code START = 1"
| "control_value_code PAUSE = 2"
| "control_value_code FALSE_PAUSE = 3"

datatype VacuumSuctionLevel = QUIET | STANDARD | STRONG

fun suction_code :: "VacuumSuctionLevel \<Rightarrow> int" where
  "suction_code QUIET = 1"
| "suction_code STANDARD = 2"
| "suction_code STRONG = 3"

definition VacuumPreferenceType_SUCTION :: int where
  "VacuumPreferenceType_SUCTION = 1"

definition VacuumModeCodes :: "(string \<times> int list) list" where
  "VacuumModeCodes =
    [(''IDLE'', [0, 14, 29, 35, 40]),
     (''CLEANING'', [1, 30, 1101, 1201, 1301, 1401]),
     (''PAUSED'', [4, 31, 1102, 1202, 1302, 1402]),
     (''RETURNING_TO_CHARGE'', [5]),
     (''PAUSE'', [9, 27, 37]),
     (''FINISHED_RETURNING_TO_CHARGE'', [10, 32, 1103, 1203, 1303, 1403]),
     (''DOCKED_NOT_COMPLETE'', [11, 33, 1104, 1204, 1304, 1404]),
     (''FULL_FINISH_SWEEPING_ON_WAY_CHARGE'', [12, 26, 38]),
     (''SWEEPING'', [7, 25, 36]),
     (''BREAK_POINT'', [39]),
     (''QUICK_MAPPING_MAPPING'', [45]),
     (''QUICK_MAPPING_PAUSED'', [46]),
     (''QUICK_MAPPING_COMPLETED_RETURNING_TO_CHARGE'', [47]),
     (''QUICK_MAPPING_DOCKED_NOT_COMPLETE'', [48])]"

text \<open>The loop over \<open>Object.entries(VacuumModeCodes)\<close>; \<open>codes.includes(code)\<close> compares
  strictly, so only numbers match.\<close>

fun mode_loop :: "(string \<times> int list) list \<Rightarrow> jsval \<Rightarrow> jsval" where
  "mode_loop [] code = JNull"
| "mode_loop ((name, codes) # rest) code =
     (if code \<in> JNum ` set codes then JStr name else mode_loop rest code)"

definition parseVacuumMode :: "jsval \<Rightarrow> jsval" where
  "parseVacuumMode code = (if code = JNull \<or> code = JUndef then JNull else mode_loop VacuumModeCodes code)"

definition VacuumFaultCode :: "(int \<times> string) list" where
  "VacuumFaultCode =
    [(500, ''Lidar sensor blocked''),
     (501, ''Vacuum not on ground''),
     (503, ''Dustbin not installed''),
     (507, ''Relocation failed''),
     (508, ''Vacuum not on flat ground''),
     (510, ''Vacuum stuck''),
     (511, ''Failed to return to the charging station.''),
     (512, ''Failed to return to the charging station.''),
     (513, ''Mapping failed.''),
     (514, ''Wheels stuck''),
     (521, ''Water tank not installed''),
     (522, ''Mop not installed''),
     (529, ''Water tank and mop not installed''),
     (530, ''2-in-1 dustbin with water tank and mop not installed''),
     (531, ''2-in-1 dustbin with water tank not installed''),
     (567, ''Vacuum stuck in no-go zone'')]"

text \<open>Indexed by code, like \<open>VacuumFaultCode\<close>; indexing with an unknown code gives
  \<open>undefined\<close>.\<close>

definition VacuumControlTypeDescription :: "(int \<times> string) list" where
  "VacuumControlTypeDescription = [(0, ''Clean''), (3, ''Recharge''), (6, ''Area Clean''), (7, ''Quick Mapping'')]"

definition code_entry :: "(int \<times> string) list \<Rightarrow> int \<Rightarrow> jsval" where
  "code_entry t c = (case map_of t c of None \<Rightarrow> JUndef | Some d \<Rightarrow> JStr d)"

definition VacuumIotPropKeys :: "string list" where
  "VacuumIotPropKeys =
    [''iot_state'', ''battary'', ''mode'', ''chargeState'', ''cleanSize'', ''cleanTime'',
     ''fault_type'', ''fault_code'', ''current_mapid'', ''count'', ''cleanlevel'',
     ''notice_save_map'', ''memory_map_update_time'', ''filter'', ''side_brush'', ''main_brush'']"

definition VacuumDeviceInfoKeys :: "string list" where
  "VacuumDeviceInfoKeys = [''mac'', ''ipaddr'', ''device_type'', ''mcu_sys_version'']"

text \<open>The tables for the users of the library: property identifiers, HomeKit codes and the words
  of the vacuum's usage reports.\<close>

definition propertyIds :: jsval where
  "propertyIds = JObj
    [(''NOTIFICATION'', JStr ''P1''), (''ON'', JStr ''P3''), (''AVAILABLE'', JStr ''P5''), (''BRIGHTNESS'', JStr ''P1501''),
     (''COLOR_TEMP'', JStr ''P1502''), (''CAMERA_SIREN'', JStr ''P1049''), (''CAMERA_FLOOD_LIGHT'', JStr ''P1056'')]"

definition wyzeWallSwitch :: jsval where
  "wyzeWallSwitch = JObj [(''CLASSIC'', JNum 1), (''IOT'', JNum 2)]"

definition wyzeColorProperty :: jsval where
  "wyzeColorProperty = JObj [(''WYZE_COLOR_TEMP_MIN'', JNum 2700), (''WYZE_COLOR_TEMP_MAX'', JNum 6500)]"

definition homeKitColorProperty :: jsval where
  "homeKitColorProperty = JObj [(''HOMEKIT_COLOR_TEMP_MIN'', JNum 500), (''HOMEKIT_COLOR_TEMP_MAX'', JNum 140)]"

definition wyze2HomekitUnits :: jsval where
  "wyze2HomekitUnits = JObj [(''C'', JNum 0), (''F'', JNum 1)]"

definition wyze2HomekitStates :: jsval where
  "wyze2HomekitStates = JObj [(''off'', JNum 0), (''heat'', JNum 1), (''cool'', JNum 2), (''auto'', JNum 3)]"

definition wyze2HomekitWorkingStates :: jsval where
  "wyze2HomekitWorkingStates = JObj [(''idle'', JNum 0), (''heating'', JNum 1), (''cooling'', JNum 2)]"

definition GET_PAYLOAD :: "string set" where
  "GET_PAYLOAD = {''param_info''}"

definition VacuumStatus :: jsval where
  "VacuumStatus = JObj
    [(''STANDBY'', JNum 1), (''CLEANING'', JNum 2), (''RETURNING_TO_CHARGE'', JNum 3), (''DOCKED'', JNum 4),
     (''MAPPING'', JNum 5), (''PAUSED'', JNum 6), (''ERROR'', JNum 7)]"

text \<open>A word list: every word is its own value.\<close>

definition word_table :: "string list \<Rightarrow> jsval" where
  "word_table ws = JObj (map (\<lambda>word. (word, JStr word)) ws)"

definition VenusDotArg1 :: jsval where
  "VenusDotArg1 = word_table [''Vacuum'']"

definition VenusDotArg2 :: jsval where
  "VenusDotArg2 = word_table [''Whole'', ''Spot'', ''SelectRooms'', ''ManualRecharge'', ''FinishRecharge'', ''BreakCharging'', ''BreakRecharge'']"

definition VenusDotArg3 :: jsval where
  "VenusDotArg3 = word_table [''Start'', ''Resume'', ''Pause'', ''FalsePause'']"

text \<open>The exported table of the suction levels, as the users of the library index it.\<close>

definition VacuumSuctionLevel_table :: jsval where
  "VacuumSuctionLevel_table = JObj (map (\<lambda>(name, level). (name, JNum (suction_code level)))
     [(''QUIET'', QUIET), (''STANDARD'', STANDARD), (''STRONG'', STRONG)])"

text \<open>Each table can be read in both directions: no name and no code occurs twice.\<close>

definition invertible :: "jsval \<Rightarrow> bool" where
  "invertible t = (distinct (keys_of t) \<and> distinct (map snd (entries t)))"

lemma tables_invertible:
  "invertible propertyIds" "invertible wyzeWallSwitch" "invertible wyze2HomekitUnits" "invertible wyze2HomekitStates"
  "invertible wyze2HomekitWorkingStates" "invertible VacuumStatus" "invertible VenusDotArg1" "invertible VenusDotArg2"
  "invertible VenusDotArg3" "invertible VacuumSuctionLevel_table"
  by (simp_all add: invertible_def keys_of_def word_table_def propertyIds_def wyzeWallSwitch_def wyze2HomekitUnits_def
      wyze2HomekitStates_def wyze2HomekitWorkingStates_def VacuumStatus_def VenusDotArg1_def VenusDotArg2_def VenusDotArg3_def
      VacuumSuctionLevel_table_def)

section \<open>The reverse lookup is exact\<close>

lemma mode_loop_sound: "mode_loop t code = JStr name \<Longrightarrow> \<exists>cs c. (name, cs) \<in> set t \<and> c \<in> set cs \<and> code = JNum c"
  by (induction t code rule: mode_loop.induct) (auto split: if_splits)

lemma mode_loop_values: "mode_loop t code = JNull \<or> (\<exists>name. mode_loop t code = JStr name)"
  by (induction t code rule: mode_loop.induct) auto

text \<open>No code belongs to two modes, so the order of the table does not matter.\<close>

definition codes_disjoint :: "(string \<times> int list) list \<Rightarrow> bool" where
  "codes_disjoint t = (distinct (map fst t) \<and> distinct (concat (map snd t)))"

lemma mode_loop_complete:
  "codes_disjoint t \<Longrightarrow> (name, cs) \<in> set t \<Longrightarrow> c \<in> set cs \<Longrightarrow> mode_loop t (JNum c) = JStr name"
proof (induction t "JNum c" rule: mode_loop.induct)
  case (2 name' codes rest)
  show ?case
  proof (cases "c \<in> set codes")
    case True
    with 2(2,3,4) have "(name, cs) = (name', codes)"
      by (force simp: codes_disjoint_def)
    with True show ?thesis by auto
  next
    case False
    with 2 show ?thesis by (auto simp: codes_disjoint_def)
  qed
qed simp

lemma VacuumModeCodes_disjoint: "codes_disjoint VacuumModeCodes"
  by code_simp

text \<open>\<open>parseVacuumMode\<close> inverts the code table: a code is given the name of a mode exactly
  when it is a number listed for that mode, although the source only takes the first match
  of its loop. Codes that are not numbers, and unknown numbers, give \<open>null\<close>.\<close>

lemma parseVacuumMode_exact:
  "(parseVacuumMode code = JStr name \<longleftrightarrow>
      (\<exists>cs c. (name, cs) \<in> set VacuumModeCodes \<and> c \<in> set cs \<and> code = JNum c)) \<and>
   (parseVacuumMode code = JNull \<or> (\<exists>name. parseVacuumMode code = JStr name))"
  using mode_loop_sound [of VacuumModeCodes code name]
    mode_loop_complete [OF VacuumModeCodes_disjoint] mode_loop_values [of VacuumModeCodes code]
  by (auto simp: parseVacuumMode_def)

end
