(* ===== verification/Wyze_Crypto.thy ===== *)
theory Wyze_Crypto
  imports JS_Encoding Wyze_Constants "HOL-Library.Multiset"
begin

text \<open>
  The request-signing schemes of \<open>src/crypto.js\<close>. The digests and the \<open>utf8\<close> package are
  not part of the repository: they are the fields of a \<open>hash_lib\<close> the definitions take as
  an argument. \<open>md5\<close> and \<open>sha256\<close> give the hexadecimal digest of a string's UTF-8 bytes,
  \<open>hmac_md5\<close> the hexadecimal HMAC under a key, \<open>hmac_sha256\<close> the raw one.
\<close>

record hash_lib =
  md5 :: "string \<Rightarrow> string"
  hmac_md5 :: "string \<Rightarrow> string \<Rightarrow> string"
  sha256 :: "string \<Rightarrow> string"
  hmac_sha256 :: "string \<Rightarrow> string \<Rightarrow> string"
  utf8_encode :: "string \<Rightarrow> string"

text \<open>One \<open>key=value\<close> pair: \<open>`${key}=${payload[key]}`\<close>.\<close>

definition query_pair :: "jsval \<Rightarrow> string \<Rightarrow> string" where
  "query_pair data key = key @ ''='' @ js_String (attr data key)"

definition fordCreateSignature :: "('a) hash_lib_scheme \<Rightarrow> string \<Rightarrow> string \<Rightarrow> jsval \<Rightarrow> string" where
  "fordCreateSignature H url_path request_method data =
     (let body = foldl (\<lambda>body key. body @ key @ ''='' @ js_String (attr data key) @ ''&'')
                   (request_method @ url_path) (sort (keys_of data));
          payload = slice_front body @ constants_fordAppSecret;
          urlencoded = encodeURIComponent payload
      in md5 H (utf8_encode H urlencoded))"

definition oliveCreateSignatureSingle :: "('a) hash_lib_scheme \<Rightarrow> string \<Rightarrow> jsval \<Rightarrow> string" where
  "oliveCreateSignatureSingle H payload access_token =
     (let access_key = js_String access_token @ constants_oliveSigningSecret;
          secret = md5 H (utf8_encode H access_key)
      in hmac_md5 H (utf8_encode H secret) (utf8_encode H payload))"

definition oliveCreateSignature :: "('a) hash_lib_scheme \<Rightarrow> jsval \<Rightarrow> jsval \<Rightarrow> string" where
  "oliveCreateSignature H payload access_token =
     (let body = foldl (\<lambda>body key. body @ key @ ''='' @ js_String (attr payload key) @ ''&'')
                   '''' (sort (keys_of payload));
          body = slice_front body;
          access_key = js_String access_token @ constants_oliveSigningSecret;
          secret = md5 H (utf8_encode H access_key)
      in hmac_md5 H (utf8_encode H secret) (utf8_encode H body))"

text \<open>The body both newer schemes sign: the sorted query of an object, or the payload
  itself. \<open>Object.keys(null)\<close> and hashing a value that is not a string are type errors.\<close>

definition signature_body :: "jsval \<Rightarrow> err + string" where
  "signature_body payload =
     (case payload of
        JObj kvs \<Rightarrow> Inr (join ''&'' (map (query_pair payload) (sort (keys_of payload))))
      | JArr xs \<Rightarrow> Inr (join ''&'' (map (query_pair payload) (sort (keys_of payload))))
      | JStr s \<Rightarrow> Inr s
      | JNull \<Rightarrow> Inl (TypeError ''Cannot convert undefined or null to object'')
      | _ \<Rightarrow> Inl (TypeError ''The data argument must be of type string''))"

definition olive_create_signature :: "('a) hash_lib_scheme \<Rightarrow> jsval \<Rightarrow> jsval \<Rightarrow> err + string" where
  "olive_create_signature H payload access_token =
     (case signature_body payload of Inl e \<Rightarrow> Inl e
      | Inr body \<Rightarrow> Inr (hmac_md5 H (md5 H (js_String access_token @ constants_oliveSigningSecret)) body))"

text \<open>\<open>querystring.escape\<close> leaves the same characters alone as \<open>encodeURIComponent\<close>.\<close>

definition ford_create_signature :: "('a) hash_lib_scheme \<Rightarrow> string \<Rightarrow> string \<Rightarrow> jsval \<Rightarrow> string" where
  "ford_create_signature H url_path request_method payload =
     (let string_buf = foldl (\<lambda>buf key. buf @ query_pair payload key @ ''&'')
                         (request_method @ url_path) (sort (keys_of payload));
          string_buf = slice_front string_buf @ constants_fordAppSecret
      in md5 H (encodeURIComponent string_buf))"

definition iot3CreateSignature :: "('a) hash_lib_scheme \<Rightarrow> string \<Rightarrow> jsval \<Rightarrow> string" where
  "iot3CreateSignature H bodyStr access_token =
     hmac_md5 H (md5 H (js_String access_token @ constants_oliveSigningSecret)) bodyStr"

definition venusGenerateDynamicSignature :: "('a) hash_lib_scheme \<Rightarrow> string \<Rightarrow> jsval \<Rightarrow> string" where
  "venusGenerateDynamicSignature H body access_token =
     hmac_md5 H (md5 H (js_String access_token @ constants_venusSigningSecret)) body"

definition venusRequestId :: "('a) hash_lib_scheme \<Rightarrow> int \<Rightarrow> string" where
  "venusRequestId H nonce = md5 H (md5 H (show_int nonce))"

definition web_create_signature :: "('a) hash_lib_scheme \<Rightarrow> jsval \<Rightarrow> jsval \<Rightarrow> err + string" where
  "web_create_signature H payload access_token =
     (case signature_body payload of Inl e \<Rightarrow> Inl e
      | Inr body \<Rightarrow> Inr (hmac_md5 H (md5 H (js_String access_token @ constants_webSigningSecret)) body))"

section \<open>The canonical query string\<close>

definition sorted_query :: "jsval \<Rightarrow> string" where
  "sorted_query v = join ''&'' (map (query_pair v) (sort (keys_of v)))"

lemma foldl_append_concat: "foldl (\<lambda>b k. b @ f k) b ks = b @ concat (map f ks)"
  by (induction ks arbitrary: b) auto

lemma foldl_query:
  "foldl (\<lambda>b k. b @ k @ ''='' @ js_String (attr v k) @ ''&'') b ks =
   b @ concat (map (\<lambda>x. x @ ''&'') (map (query_pair v) ks))"
  using foldl_append_concat [of "\<lambda>k. query_pair v k @ ''&''" b ks]
  by (simp add: query_pair_def comp_def)

lemma loop_body_sorted_query:
  "slice_front (foldl (\<lambda>b k. b @ k @ ''='' @ js_String (attr v k) @ ''&'') '''' (sort (keys_of v)))
   = sorted_query v"
  unfolding foldl_query slice_front_def sorted_query_def
  using join_terminated [of "CHR ''&''"] by (simp only: append_Nil)

text \<open>The documented behaviour of the \<open>utf8\<close> package the client relies on: ASCII text is
  its own encoding.\<close>

definition utf8_ascii :: "('a) hash_lib_scheme \<Rightarrow> bool" where
  "utf8_ascii H = (\<forall>s. is_ascii s \<longrightarrow> utf8_encode H s = s)"

lemma alookup_map_of: "alookup kvs k = (case map_of kvs k of None \<Rightarrow> JUndef | Some v \<Rightarrow> v)"
  by (induction kvs) auto

lemma mset_eq_sort: "mset xs = mset ys \<Longrightarrow> sort xs = sort (ys :: string list)"
  by (metis mset_sort properties_for_sort sorted_sort)

lemma sorted_query_perm:
  assumes "mset xs = mset ys" and "distinct (map fst xs)"
  shows "sorted_query (JObj xs) = sorted_query (JObj ys)"
proof -
  have keys: "mset (map fst xs) = mset (map fst ys)" using assms(1) by simp
  have "distinct (map fst ys)" using assms(2) keys by (metis mset_eq_imp_distinct_iff)
  moreover have "set xs = set ys" using assms(1) by (metis set_mset_mset)
  ultimately have "map_of xs = map_of ys" using assms(2) by (metis map_of_inject_set)
  then have "query_pair (JObj xs) = query_pair (JObj ys)"
    by (simp add: fun_eq_iff query_pair_def alookup_map_of)
  with mset_eq_sort [OF keys] show ?thesis by (simp add: sorted_query_def keys_of_def)
qed

section \<open>The signer interface\<close>

text \<open>
  Every scheme of the file but \<open>fordCreateSignature\<close> signs a text under a key derived
  from the access token and a fixed secret. The laws: the signature is the HMAC of the text
  under that key, and an object is signed through its canonical query string.
\<close>

locale object_signer =
  fixes H :: "('a) hash_lib_scheme"
    and secret :: string
    and sign_text :: "string \<Rightarrow> jsval \<Rightarrow> string"
    and sign_object :: "jsval \<Rightarrow> jsval \<Rightarrow> string"
  assumes text_hmac: "sign_text body tok = hmac_md5 H (md5 H (js_String tok @ secret)) body"
    and object_text: "sign_object (JObj kvs) tok = sign_text (sorted_query (JObj kvs)) tok"
begin

text \<open>The order in which the caller built the object does not matter.\<close>

lemma sign_object_perm:
  "mset xs = mset ys \<Longrightarrow> distinct (map fst xs) \<Longrightarrow> sign_object (JObj xs) tok = sign_object (JObj ys) tok"
  by (simp add: object_text sorted_query_perm)

text \<open>When the HMAC is collision free under a key, equal signatures mean equal queries.\<close>

lemma sign_object_inj:
  "inj (hmac_md5 H (md5 H (js_String tok @ secret))) \<Longrightarrow>
   sign_object (JObj xs) tok = sign_object (JObj ys) tok \<longleftrightarrow> sorted_query (JObj xs) = sorted_query (JObj ys)"
  by (simp add: object_text text_hmac inj_eq)

end

lemma signature_body_object: "signature_body (JObj kvs) = Inr (sorted_query (JObj kvs))"
  by (simp add: signature_body_def sorted_query_def)

interpretation olive: object_signer H constants_oliveSigningSecret
    "iot3CreateSignature H" "\<lambda>p t. projr (olive_create_signature H p t)" for H
  by unfold_locales
    (auto simp: iot3CreateSignature_def olive_create_signature_def signature_body_object)

interpretation web: object_signer H constants_webSigningSecret
    "\<lambda>b t. projr (web_create_signature H (JStr b) t)" "\<lambda>p t. projr (web_create_signature H p t)" for H
  by unfold_locales
    (auto simp: web_create_signature_def signature_body_def sorted_query_def)

interpretation venus_signer: object_signer H constants_venusSigningSecret
    "venusGenerateDynamicSignature H" "\<lambda>p t. venusGenerateDynamicSignature H (sorted_query p) t" for H
  by unfold_locales (auto simp: venusGenerateDynamicSignature_def)

section \<open>The old and the new routines agree\<close>

lemma fordCreateSignature_urlencoded:
  "utf8_ascii H \<Longrightarrow> fordCreateSignature H p m d =
     md5 H (encodeURIComponent (slice_front (m @ p @ concat (map (\<lambda>x. x @ ''&'') (map (query_pair d) (sort (keys_of d)))))
        @ constants_fordAppSecret))"
  unfolding fordCreateSignature_def foldl_query Let_def utf8_ascii_def
  by (simp add: encodeURIComponent_ascii)

lemma ford_signatures_agree:
  assumes "utf8_ascii H"
  shows "fordCreateSignature H url_path request_method data =
         ford_create_signature H url_path request_method data"
  using assms foldl_append_concat [of "\<lambda>k. query_pair data k @ ''&''" "request_method @ url_path" "sort (keys_of data)"]
  by (simp add: fordCreateSignature_urlencoded ford_create_signature_def comp_def)

lemma oliveCreateSignature_sorted:
  "oliveCreateSignature H v tok =
     hmac_md5 H (utf8_encode H (md5 H (utf8_encode H (js_String tok @ constants_oliveSigningSecret))))
       (utf8_encode H (sorted_query v))"
  unfolding oliveCreateSignature_def Let_def loop_body_sorted_query ..

text \<open>C31. The signing routines exist twice, and both versions agree. The hand-written loop of
  \<open>fordCreateSignature\<close> and the newer \<open>ford_create_signature\<close> compute the same signature for
  every path, method and payload, given only that \<open>utf8.encode\<close> is the identity on ASCII text.
  \<open>oliveCreateSignature\<close> signs an object like \<open>olive_create_signature\<close>, and
  \<open>oliveCreateSignatureSingle\<close> signs a text like \<open>iot3CreateSignature\<close>, whenever the token,
  the digest and the query are ASCII: the loop that appends \<open>&\<close> and cuts the last one builds
  the joined query.\<close>

theorem signatures_agree:
  assumes "utf8_ascii H" and "is_ascii (js_String tok @ constants_oliveSigningSecret)"
    and "is_ascii (md5 H (js_String tok @ constants_oliveSigningSecret))"
    and "is_ascii (sorted_query (JObj kvs))" and "is_ascii body"
  shows "fordCreateSignature H url_path request_method data = ford_create_signature H url_path request_method data \<and>
         olive_create_signature H (JObj kvs) tok = Inr (oliveCreateSignature H (JObj kvs) tok) \<and>
         oliveCreateSignatureSingle H body tok = iot3CreateSignature H body tok"
  using assms ford_signatures_agree [OF assms(1)]
  unfolding oliveCreateSignature_sorted oliveCreateSignatureSingle_def utf8_ascii_def Let_def
  by (simp add: olive_create_signature_def signature_body_object iot3CreateSignature_def)

definition id_hash :: hash_lib where
  "id_hash = \<lparr>md5 = (\<lambda>s. s), hmac_md5 = (\<lambda>k s. k @ s), sha256 = (\<lambda>s. s), hmac_sha256 = (\<lambda>k s. k @ s),
     utf8_encode = (\<lambda>s. s)\<rparr>"

lemma id_hash_utf8: "utf8_ascii id_hash"
  by (simp add: utf8_ascii_def id_hash_def)

theorem signatures_agree_witness:
  "fordCreateSignature id_hash ''/p'' ''get'' (JObj [(''b'', JNum 2), (''a'', JStr ''x'')]) =
   ford_create_signature id_hash ''/p'' ''get'' (JObj [(''b'', JNum 2), (''a'', JStr ''x'')]) \<and>
   olive_create_signature id_hash (JObj [(''b'', JNum 2), (''a'', JStr ''x'')]) (JStr ''t'') =
   Inr (oliveCreateSignature id_hash (JObj [(''b'', JNum 2), (''a'', JStr ''x'')]) (JStr ''t'')) \<and>
   oliveCreateSignatureSingle id_hash ''{}'' (JStr ''t'') = iot3CreateSignature id_hash ''{}'' (JStr ''t'')"
proof -
  have tok: "is_ascii (js_String (JStr ''t'') @ constants_oliveSigningSecret)" by code_simp
  then have dig: "is_ascii (md5 id_hash (js_String (JStr ''t'') @ constants_oliveSigningSecret))"
    by (simp add: id_hash_def)
  have "is_ascii (sorted_query (JObj [(''b'', JNum 2), (''a'', JStr ''x'')]))" by code_simp
  moreover have "is_ascii ''{}''" by code_simp
  ultimately show ?thesis by (intro signatures_agree [OF id_hash_utf8 tok dig])
qed

text \<open>The signature of an object does not depend on the order in which the caller inserted
  its properties, for each routine that signs objects.\<close>

lemma signatures_order_independent:
  assumes "mset xs = mset ys" and "distinct (map fst xs)"
  shows "olive_create_signature H (JObj xs) tok = olive_create_signature H (JObj ys) tok \<and>
         web_create_signature H (JObj xs) tok = web_create_signature H (JObj ys) tok \<and>
         oliveCreateSignature H (JObj xs) tok = oliveCreateSignature H (JObj ys) tok"
  using olive.sign_object_perm [OF assms, of H tok] web.sign_object_perm [OF assms, of H tok]
    sorted_query_perm [OF assms]
  by (auto simp: olive_create_signature_def web_create_signature_def signature_body_object
      oliveCreateSignature_sorted)

end
