(* ===== verification/Wyze_Payload.thy ===== *)
theory Wyze_Payload
  imports Wyze_Crypto
begin

text \<open>
  The payload builders of \<open>src/payloadFactory.js\<close>. \<open>Date.now()\<close> and \<open>Math.random()\<close> are
  arguments: \<open>now\<close> is the epoch time in milliseconds, a random number is a rational in
  \<open>[0, 1)\<close>.
\<close>

definition fordCreatePayload ::
  "('a) hash_lib_scheme \<Rightarrow> int \<Rightarrow> jsval \<Rightarrow> jsval \<Rightarrow> string \<Rightarrow> string \<Rightarrow> jsval" where
  "fordCreatePayload H now access_token payload url_path request_method =
     spread payload
       [(''accessToken'', access_token),
        (''key'', JStr constants_fordAppKey),
        (''timestamp'', JStr (show_int now)),
        (''sign'', JStr (fordCreateSignature H url_path request_method payload))]"

definition oliveCreateGetPayload :: "int \<Rightarrow> jsval \<Rightarrow> string \<Rightarrow> jsval" where
  "oliveCreateGetPayload now device_mac keys =
     JObj [(''keys'', JStr keys), (''did'', device_mac), (''nonce'', JStr (show_int now))]"

definition oliveCreatePostPayload :: "int \<Rightarrow> jsval \<Rightarrow> jsval \<Rightarrow> string \<Rightarrow> jsval \<Rightarrow> jsval" where
  "oliveCreatePostPayload now device_mac device_model prop_key value =
     JObj [(''did'', device_mac), (''model'', device_model), (''props'', JObj [(prop_key, value)]),
       (''is_sub_device'', JNum 0), (''nonce'', JStr (show_int now))]"

definition oliveCreateHmsPayload :: "int \<Rightarrow> jsval" where
  "oliveCreateHmsPayload now = JObj [(''group_id'', JStr ''hms''), (''nonce'', JStr (show_int now))]"

definition oliveCreateUserInfoPayload :: "int \<Rightarrow> jsval" where
  "oliveCreateUserInfoPayload now = JObj [(''nonce'', JStr (show_int now))]"

definition oliveCreateHmsGetPayload :: "int \<Rightarrow> jsval \<Rightarrow> jsval" where
  "oliveCreateHmsGetPayload now hms_id = JObj [(''hms_id'', hms_id), (''nonce'', JStr (show_int now))]"

definition oliveCreateHmsPatchPayload :: "jsval \<Rightarrow> jsval" where
  "oliveCreateHmsPatchPayload hms_id = JObj [(''hms_id'', hms_id)]"

definition oliveCreateGetPayloadIrrigation :: "int \<Rightarrow> jsval \<Rightarrow> jsval" where
  "oliveCreateGetPayloadIrrigation now device_mac =
     JObj [(''device_id'', device_mac), (''nonce'', JStr (show_int now))]"

definition oliveCreatePostPayloadIrrigationStop :: "int \<Rightarrow> jsval \<Rightarrow> string \<Rightarrow> jsval" where
  "oliveCreatePostPayloadIrrigationStop now device_mac action =
     JObj [(''device_id'', device_mac), (''nonce'', JStr (show_int now)), (''action'', JStr action)]"

definition oliveCreatePostPayloadIrrigationQuickRun :: "int \<Rightarrow> jsval \<Rightarrow> jsval \<Rightarrow> jsval \<Rightarrow> jsval" where
  "oliveCreatePostPayloadIrrigationQuickRun now device_mac zone_number duration =
     JObj [(''device_id'', device_mac), (''nonce'', JStr (show_int now)),
       (''zone_runs'', JArr [JObj [(''zone_number'', zone_number), (''duration'', duration)]])]"

definition oliveCreateGetPayloadIrrigationScheduleRuns :: "int \<Rightarrow> jsval \<Rightarrow> jsval" where
  "oliveCreateGetPayloadIrrigationScheduleRuns now device_mac =
     JObj [(''device_id'', device_mac), (''nonce'', JStr (show_int now))]"

text \<open>\<open>Math.floor(Math.random() * n) + 10000\<close>.\<close>

definition random_id :: "nat \<Rightarrow> rat \<Rightarrow> int" where
  "random_id n rnd = \<lfloor>rnd * of_nat n\<rfloor> + 10000"

definition iot3CreateGetPayload :: "int \<Rightarrow> rat \<Rightarrow> jsval \<Rightarrow> jsval \<Rightarrow> jsval \<Rightarrow> jsval" where
  "iot3CreateGetPayload now rnd deviceMac model props =
     JObj [(''nonce'', JStr (show_int now)),
       (''payload'', JObj [(''cmd'', JStr ''get_property''), (''props'', props),
          (''tid'', JNum (random_id 89000 rnd)), (''ts'', JNum now), (''ver'', JNum 1)]),
       (''targetInfo'', JObj [(''id'', deviceMac), (''model'', model)])]"

definition iot3CreateRunActionPayload ::
  "int \<Rightarrow> rat \<Rightarrow> rat \<Rightarrow> jsval \<Rightarrow> jsval \<Rightarrow> string \<Rightarrow> jsval \<Rightarrow> jsval" where
  "iot3CreateRunActionPayload now rnd1 rnd2 deviceMac model action username =
     JObj [(''nonce'', JStr (show_int now)),
       (''payload'', JObj [(''action'', JStr action), (''cmd'', JStr ''run_action''),
          (''params'', JObj [(''action_id'', JNum (random_id 90000 rnd1)), (''type'', JNum 1), (''username'', username)]),
          (''tid'', JNum (random_id 89000 rnd2)), (''ts'', JNum now), (''ver'', JNum 1)]),
       (''targetInfo'', JObj [(''id'', deviceMac), (''model'', model)])]"

section \<open>Bounds and contents\<close>

lemma random_id_bounds:
  assumes "0 \<le> rnd" "rnd < 1" "0 < n"
  shows "10000 \<le> random_id n rnd \<and> random_id n rnd < 10000 + int n"
proof -
  have "0 \<le> rnd * of_nat n" using assms by simp
  moreover have "rnd * of_nat n < of_nat n" using assms by simp
  ultimately have "0 \<le> \<lfloor>rnd * of_nat n\<rfloor>" "\<lfloor>rnd * of_nat n\<rfloor> < int n"
    by (simp_all add: floor_less_iff)
  then show ?thesis by (simp add: random_id_def)
qed

lemma length_show_nat_digit: "n < 10 \<Longrightarrow> length (show_nat n) = 1"
  by (simp add: show_nat.simps [of n])

lemma show_nat_length_5:
  assumes "10000 \<le> n" "n < 100000"
  shows "length (show_nat n) = 5"
proof -
  have "1000 \<le> n div 10" "n div 10 < 10000" "100 \<le> n div 100" "n div 100 < 1000"
    "10 \<le> n div 1000" "n div 1000 < 100" "1 \<le> n div 10000" "n div 10000 < 10"
    using assms by linarith+
  then show ?thesis
    using assms
    by (simp add: show_nat.simps [of n] show_nat.simps [of "n div 10"] show_nat.simps [of "n div 100"]
        show_nat.simps [of "n div 1000"] length_show_nat_digit flip: div_mult2_eq)
qed

text \<open>C40. Whatever \<open>Math.random()\<close> returns, the transaction and action identifiers of an IoT3
  command are five-digit numbers, as the service expects.\<close>

theorem iot3_ids_five_digits:
  assumes "0 \<le> rnd1" "rnd1 < 1" "0 \<le> rnd2" "rnd2 < 1"
  shows "let p = attr (iot3CreateRunActionPayload now rnd1 rnd2 mac model action user) ''payload'' in
    length (js_String (attr p ''tid'')) = 5 \<and>
    length (js_String (attr (attr p ''params'') ''action_id'')) = 5"
proof -
  have "length (show_int i) = 5" if "10000 \<le> i" "i < 100000" for i
    using that show_nat_length_5 [of "nat i"] by (simp add: show_int_def)
  then show ?thesis
    using random_id_bounds [of rnd1 90000] random_id_bounds [of rnd2 89000] assms
    by (simp add: iot3CreateRunActionPayload_def)
qed

theorem iot3_ids_five_digits_witness:
  "let p = attr (iot3CreateRunActionPayload 5 0 (1/2) JNull JNull ''lock::lock'' JNull) ''payload'' in
    length (js_String (attr p ''tid'')) = 5 \<and>
    length (js_String (attr (attr p ''params'') ''action_id'')) = 5"
  by (rule iot3_ids_five_digits) simp_all

text \<open>What \<open>fordCreatePayload\<close> adds always reaches the payload, even over fields of the same
  name, and every other field of the caller's object is kept.\<close>

lemma fordCreatePayload_attr:
  assumes "distinct (keys_of payload)"
  shows "attr (fordCreatePayload H now tok payload url m) k =
    (if k = ''accessToken'' then tok else if k = ''key'' then JStr constants_fordAppKey
     else if k = ''timestamp'' then JStr (show_int now)
     else if k = ''sign'' then JStr (fordCreateSignature H url m payload)
     else alookup (entries payload) k)"
  unfolding fordCreatePayload_def using assms by (subst attr_spread) auto

end
