(* ===== verification/Wyze_Util.thy ===== *)
theory Wyze_Util
  imports Wyze_Crypto
begin

text \<open>
  \<open>src/util.js\<close>: the padding, the AES-128-CBC wrapper used for local bulbs and the password
  hash. The block cipher is Node's; it is a parameter, a pair of functions from key, IV and
  data to the result, or to the error \<open>createCipheriv\<close> and \<open>final\<close> throw.
\<close>

definition BLOCK_SIZE :: nat where "BLOCK_SIZE = 16"

definition PADDING :: char where "PADDING = char_of (5 :: nat)"

definition pad :: "string \<Rightarrow> string" where
  "pad plainText =
     (let raw = buffer_ascii plainText; padNum = BLOCK_SIZE - length raw mod BLOCK_SIZE
      in raw @ replicate padNum PADDING)"

record cipher_lib = hash_lib +
  aes_cbc_encrypt :: "string \<Rightarrow> string \<Rightarrow> string \<Rightarrow> err + string"
  aes_cbc_decrypt :: "string \<Rightarrow> string \<Rightarrow> string \<Rightarrow> err + string"

text \<open>\<open>b64Enc.replace(/\//g, '\\/')\<close>: a backslash before every slash.\<close>

definition escape_slash :: "char \<Rightarrow> string" where
  "escape_slash c = (if c = CHR ''/'' then [CHR 0x5C, CHR ''/''] else [c])"

definition wyzeEncrypt :: "('a) cipher_lib_scheme \<Rightarrow> string \<Rightarrow> string \<Rightarrow> err + string" where
  "wyzeEncrypt A key text =
     (case aes_cbc_encrypt A (buffer_ascii key) (buffer_ascii key) (pad text) of Inl e \<Rightarrow> Inl e
      | Inr enc \<Rightarrow> Inr (concat (map escape_slash (b64_encode enc))))"

text \<open>\<open>buf.toString('ascii')\<close> keeps the low seven bits of each byte.\<close>

definition ascii_of :: "string \<Rightarrow> string" where
  "ascii_of s = map (\<lambda>c. char_of ((of_char c :: nat) mod 128)) s"

definition wyzeDecrypt :: "('a) cipher_lib_scheme \<Rightarrow> string \<Rightarrow> string \<Rightarrow> err + string" where
  "wyzeDecrypt A key enc =
     (case aes_cbc_decrypt A (buffer_ascii key) (buffer_ascii key) (b64_decode enc) of Inl e \<Rightarrow> Inl e
      | Inr decrypt \<Rightarrow> Inr (filter (\<lambda>c. c \<noteq> PADDING) (ascii_of decrypt)))"

definition createPassword :: "('a) hash_lib_scheme \<Rightarrow> string \<Rightarrow> string" where
  "createPassword H password = (let hex1 = md5 H password; hex2 = md5 H hex1 in md5 H hex2)"

section \<open>Padding\<close>

text \<open>\<open>pad\<close> always adds between 1 and 16 bytes, the text's bytes stay in front, the added bytes are
  all \<open>0x05\<close>, and the result is a whole number of 16-byte blocks.\<close>

lemma pad_blocks:
  "\<exists>k. 1 \<le> k \<and> k \<le> BLOCK_SIZE \<and> pad s = buffer_ascii s @ replicate k PADDING \<and> length (pad s) mod BLOCK_SIZE = 0"
proof (intro exI conjI)
  let ?k = "BLOCK_SIZE - length (buffer_ascii s) mod BLOCK_SIZE"
  have "length (buffer_ascii s) mod 16 < 16" by simp
  then show "1 \<le> ?k" "?k \<le> BLOCK_SIZE" by (auto simp: BLOCK_SIZE_def)
  show "pad s = buffer_ascii s @ replicate ?k PADDING" by (simp add: pad_def Let_def)
  have "length (pad s) = length (buffer_ascii s) + (16 - length (buffer_ascii s) mod 16)" by (simp add: pad_def Let_def BLOCK_SIZE_def)
  also have "\<dots> mod 16 = 0" by presburger
  finally show "length (pad s) mod BLOCK_SIZE = 0" by (simp add: BLOCK_SIZE_def)
qed

section \<open>Encryption round trip\<close>

text \<open>The law of the cipher the client relies on: deciphering undoes ciphering, with the bytes of the key.\<close>

definition aes_inverse :: "('a) cipher_lib_scheme \<Rightarrow> string \<Rightarrow> bool" where
  "aes_inverse A key = (\<forall>d. \<exists>c. aes_cbc_encrypt A (buffer_ascii key) (buffer_ascii key) d = Inr c \<and>
     aes_cbc_decrypt A (buffer_ascii key) (buffer_ascii key) c = Inr d)"

lemma b64_decode_escaped: "b64_decode (concat (map escape_slash (b64_encode s))) = s"
proof -
  have "sextets_of (escape_slash c) = sextets_of [c]" for c
    by (simp add: escape_slash_def b64_val_def)
  then show ?thesis
    using b64_decode_encode [of s] by (simp add: b64_decode_def sextets_of_escaped)
qed

lemma ascii_of_ascii: "is_ascii s \<Longrightarrow> ascii_of s = s"
  by (induction s) (auto simp: ascii_of_def is_ascii_def)

lemma is_ascii_pad: "is_ascii s \<Longrightarrow> is_ascii (pad s)"
  using buffer_ascii_ascii [of s] by (auto simp: is_ascii_def pad_def Let_def PADDING_def list_all_iff)

lemma filter_pad: "is_ascii s \<Longrightarrow> filter (\<lambda>c. c \<noteq> PADDING) (pad s) = filter (\<lambda>c. c \<noteq> PADDING) s"
  by (simp add: pad_def Let_def buffer_ascii_ascii)

text \<open>C32. Decrypting what \<open>wyzeEncrypt\<close> produced gives the text back, without its bytes
  \<open>0x05\<close>: the escaped base64 text, the cipher and the home-made padding are all undone. So the
  round trip is exact precisely for the ASCII texts that hold no \<open>0x05\<close>.\<close>

theorem wyze_encrypt_decrypt:
  assumes "aes_inverse A key" and "is_ascii text"
  shows "\<exists>enc. wyzeEncrypt A key text = Inr enc \<and>
     wyzeDecrypt A key enc = Inr (filter (\<lambda>c. c \<noteq> PADDING) text) \<and>
     (wyzeDecrypt A key enc = Inr text \<longleftrightarrow> PADDING \<notin> set text)"
proof -
  obtain c where c: "aes_cbc_encrypt A (buffer_ascii key) (buffer_ascii key) (pad text) = Inr c"
    "aes_cbc_decrypt A (buffer_ascii key) (buffer_ascii key) c = Inr (pad text)"
    using assms(1) unfolding aes_inverse_def by blast
  let ?enc = "concat (map escape_slash (b64_encode c))"
  have "wyzeDecrypt A key ?enc = Inr (filter (\<lambda>c. c \<noteq> PADDING) text)"
    using c(2) assms(2)
    by (simp add: wyzeDecrypt_def b64_decode_escaped ascii_of_ascii is_ascii_pad filter_pad)
  moreover have "filter (\<lambda>c. c \<noteq> PADDING) text = text \<longleftrightarrow> PADDING \<notin> set text"
    by (auto simp: filter_id_conv)
  ultimately show ?thesis using c(1) by (auto simp: wyzeEncrypt_def)
qed

definition rev_cipher :: cipher_lib where
  "rev_cipher = hash_lib.extend id_hash
     \<lparr>aes_cbc_encrypt = (\<lambda>k iv d. Inr (rev d)), aes_cbc_decrypt = (\<lambda>k iv d. Inr (rev d))\<rparr>"

theorem wyze_encrypt_decrypt_witness:
  "\<exists>enc. wyzeEncrypt rev_cipher ''0123456789abcdef'' ''{}'' = Inr enc \<and>
     wyzeDecrypt rev_cipher ''0123456789abcdef'' enc = Inr (filter (\<lambda>c. c \<noteq> PADDING) ''{}'') \<and>
     (wyzeDecrypt rev_cipher ''0123456789abcdef'' enc = Inr ''{}'' \<longleftrightarrow> PADDING \<notin> set ''{}'')"
proof (rule wyze_encrypt_decrypt)
  show "aes_inverse rev_cipher ''0123456789abcdef''"
    by (simp add: aes_inverse_def rev_cipher_def cipher_lib.defs hash_lib.defs)
  show "is_ascii ''{}''" by code_simp
qed

end
