(* ===== verification/Wyze_IO.thy ===== *)
theory Wyze_IO
  imports Wyze_Payload Wyze_Util
begin

text \<open>
  The world the client runs in, and its asynchronous functions as actions on it.

  An \<open>async\<close> function is an action: from a world to a result (a value, a rejection, or out
  of fuel where the code may run forever) and the new world. The \<open>world\<close> holds the mutable
  fields of the \<open>WyzeAPI\<close> instance (\<open>session\<close>), the clock, the file system, and the trace of
  what the client did to the outside. What is not in the repository is in the record
  \<open>env\<close>: the HTTP service behind axios, file errors, latency, random numbers, the
  packages \<open>uuid-by-string\<close> and \<open>path\<close>, and \<open>rely\<close>: what concurrent activity of the
  same instance (other calls, background logins) does to the session whenever this call
  awaits. With \<open>rely\<close> the identity there is a single caller. Synchronous code takes no
  model time: the clock moves at awaits only.

  Of what is sent to the logger the world keeps the lines on the answers of the service
  (\<open>responseLog\<close>); the lines around a request are texts (\<open>request_log\<close>, \<open>handleRequestError\<close>,
  \<open>logDebounceInfo\<close> of the session), and other messages are not modelled.
\<close>

section \<open>Requests, sessions, worlds\<close>

record http_req =
  req_method :: jsval
  req_url :: jsval
  req_baseURL :: jsval
  req_data :: jsval
  req_params :: jsval
  req_headers :: jsval

text \<open>The caches are JavaScript maps from a key to a value and the time it expires: \<open>set\<close> keeps the
  place of a key that is there, and appends a new one.\<close>

type_synonym ttl_map = "(string \<times> jsval \<times> int) list"

fun map_set :: "ttl_map \<Rightarrow> string \<Rightarrow> jsval \<times> int \<Rightarrow> ttl_map" where
  "map_set [] k v = [(k, v)]"
| "map_set ((k', v') # m) k v = (if k' = k then (k, v) # m else (k', v') # map_set m k v)"

record session =
  access_token :: jsval
  refresh_token :: jsval
  dumpData :: bool
  lastLoginAttempt :: int
  loginAttemptDebounceMilliseconds :: int
  streamInfoCache :: "ttl_map option"
  snapshotCaptureCache :: "ttl_map option"

datatype event =
    EHttp http_req
  | ESleep int
  | EWrite string string
  | EUnhandled err

record world =
  sess :: session
  clock :: int
  ticks :: nat
  draws :: nat
  files :: "string \<Rightarrow> string option"
  trace :: "event list"
  responseLog :: "string list"
record env = cipher_lib +
  axios :: "nat \<Rightarrow> http_req \<Rightarrow> err + jsval"
  rely :: "nat \<Rightarrow> session \<Rightarrow> session"
  latency :: "nat \<Rightarrow> nat"
  fs_read_fail :: "nat \<Rightarrow> err option"
  fs_write_fail :: "nat \<Rightarrow> (err \<times> string option) option"
  math_random :: "nat \<Rightarrow> rat"
  random_hex :: "nat \<Rightarrow> nat \<Rightarrow> string"
  date_parse :: "jsval \<Rightarrow> int option"
  uuid_by_string :: "jsval \<Rightarrow> err + string"
  path_join :: "jsval \<Rightarrow> string \<Rightarrow> err + string"

text \<open>The fields of the instance that no method changes after the constructor, and the
  bound on the depth of nested requests (\<open>fuel\<close>).\<close>

record wyze = env +
  persistPath :: jsval
  lowBatteryPercentage :: jsval
  username :: jsval
  password :: jsval
  apiKey :: jsval
  keyId :: jsval
  apiLogEnabled :: bool
  authBaseUrl :: jsval
  apiBaseUrl :: jsval
  authApiKey :: jsval
  phoneId :: jsval
  appName :: jsval
  appVer :: jsval
  appVersion :: jsval
  userAgent :: jsval
  sc :: jsval
  sv :: jsval
  oliveAppId :: jsval
  appInfo :: jsval
  fuel :: nat

section \<open>Actions\<close>

datatype 'a res = Ok 'a | Throw err | OutOfFuel

type_synonym 'a action = "world \<Rightarrow> 'a res \<times> world"

definition ret :: "'a \<Rightarrow> 'a action" where
  "ret v = (\<lambda>s. (Ok v, s))"

definition throw :: "err \<Rightarrow> 'a action" where
  "throw e = (\<lambda>s. (Throw e, s))"

definition out_of_fuel :: "'a action" where
  "out_of_fuel = (\<lambda>s. (OutOfFuel, s))"

definition await :: "'a action \<Rightarrow> ('a \<Rightarrow> 'b action) \<Rightarrow> 'b action" where
  "await m f = (\<lambda>s. case m s of
     (Ok v, s') \<Rightarrow> f v s' | (Throw e, s') \<Rightarrow> (Throw e, s') | (OutOfFuel, s') \<Rightarrow> (OutOfFuel, s'))"

definition try_catch :: "'a action \<Rightarrow> (err \<Rightarrow> 'a action) \<Rightarrow> 'a action" where
  "try_catch m h = (\<lambda>s. case m s of
     (Ok v, s') \<Rightarrow> (Ok v, s') | (Throw e, s') \<Rightarrow> h e s' | (OutOfFuel, s') \<Rightarrow> (OutOfFuel, s'))"

definition lift_err :: "err + 'a \<Rightarrow> 'a action" where
  "lift_err r = (case r of Inl e \<Rightarrow> throw e | Inr v \<Rightarrow> ret v)"

definition this_get :: "(session \<Rightarrow> 'a) \<Rightarrow> 'a action" where
  "this_get f = (\<lambda>s. (Ok (f (sess s)), s))"

definition this_set :: "(session \<Rightarrow> session) \<Rightarrow> unit action" where
  "this_set f = (\<lambda>s. (Ok (), s\<lparr>sess := f (sess s)\<rparr>))"

definition Date_now :: "int action" where
  "Date_now = (\<lambda>s. (Ok (clock s), s))"

definition emit :: "event \<Rightarrow> unit action" where
  "emit e = (\<lambda>s. (Ok (), s\<lparr>trace := trace s @ [e]\<rparr>))"

definition log_response :: "string \<Rightarrow> unit action" where
  "log_response m = (\<lambda>s. (Ok (), s\<lparr>responseLog := responseLog s @ [m]\<rparr>))"

definition Math_random :: "('a) wyze_scheme \<Rightarrow> rat action" where
  "Math_random w = (\<lambda>s. (Ok (math_random w (draws s)), s\<lparr>draws := Suc (draws s)\<rparr>))"

definition randomBytes_hex :: "('a) wyze_scheme \<Rightarrow> nat \<Rightarrow> string action" where
  "randomBytes_hex w k = (\<lambda>s. (Ok (random_hex w (draws s) k), s\<lparr>draws := Suc (draws s)\<rparr>))"

section \<open>Awaiting the outside\<close>

text \<open>Control returns to the event loop: time passes and concurrent activity of the same
  instance runs.\<close>

definition await_point :: "('a) wyze_scheme \<Rightarrow> world \<Rightarrow> world" where
  "await_point w s = s\<lparr>ticks := Suc (ticks s), clock := clock s + int (latency w (ticks s)),
     sess := rely w (ticks s) (sess s)\<rparr>"

definition axios_request :: "('a) wyze_scheme \<Rightarrow> http_req \<Rightarrow> jsval action" where
  "axios_request w r = (\<lambda>s.
     (case axios w (ticks s) r of Inl e \<Rightarrow> Throw e | Inr v \<Rightarrow> Ok v,
      await_point w (s\<lparr>trace := trace s @ [EHttp r]\<rparr>)))"

text \<open>The delay \<open>setTimeout\<close> really uses: Node takes 1 ms for a delay that is not a number,
  below 1 or above \<open>2^31 - 1\<close>. \<open>None\<close> stands for \<open>NaN\<close>.\<close>

definition timer_delay :: "int option \<Rightarrow> int" where
  "timer_delay d = (case d of None \<Rightarrow> 1 | Some ms \<Rightarrow> if 1 \<le> ms \<and> ms \<le> 2147483647 then ms else 1)"

definition set_timeout :: "('a) wyze_scheme \<Rightarrow> int option \<Rightarrow> unit action" where
  "set_timeout w d = (\<lambda>s. (Ok (), await_point w
     (s\<lparr>clock := clock s + timer_delay d, trace := trace s @ [ESleep (timer_delay d)]\<rparr>)))"

definition sleepSeconds :: "('a) wyze_scheme \<Rightarrow> int \<Rightarrow> unit action" where
  "sleepSeconds w seconds = set_timeout w (Some (seconds * 1000))"

definition sleepMilliSecounds :: "('a) wyze_scheme \<Rightarrow> int option \<Rightarrow> unit action" where
  "sleepMilliSecounds w ms = set_timeout w ms"

text \<open>\<open>fs.readFile\<close> and \<open>fs.writeFile\<close>. A write that fails may leave anything behind.\<close>

definition readFile :: "('a) wyze_scheme \<Rightarrow> string \<Rightarrow> string action" where
  "readFile w path = (\<lambda>s.
     (case fs_read_fail w (ticks s) of Some e \<Rightarrow> Throw e
      | None \<Rightarrow> (case files s path of None \<Rightarrow> Throw (Error (''ENOENT: no such file or directory, open '' @ path))
                 | Some c \<Rightarrow> Ok c),
      await_point w s))"

definition writeFile :: "('a) wyze_scheme \<Rightarrow> string \<Rightarrow> string \<Rightarrow> unit action" where
  "writeFile w path content = (\<lambda>s.
     case fs_write_fail w (ticks s) of
       None \<Rightarrow> (Ok (), await_point w (s\<lparr>files := (files s)(path := Some content),
                                       trace := trace s @ [EWrite path content]\<rparr>))
     | Some (e, junk) \<Rightarrow> (Throw e, await_point w (s\<lparr>files := (files s)(path := junk)\<rparr>)))"

section \<open>Laws of actions\<close>

lemma await_ret [simp]: "await (ret v) f = f v"
  by (simp add: await_def ret_def)

lemma await_throw [simp]: "await (throw e) f = throw e"
  by (simp add: await_def throw_def)

lemma await_assoc: "await (await m f) g = await m (\<lambda>v. await (f v) g)"
  by (auto simp: await_def fun_eq_iff split: prod.splits res.splits)

lemma try_catch_ret [simp]: "try_catch (ret v) h = ret v"
  by (simp add: try_catch_def ret_def)

lemma try_catch_throw [simp]: "try_catch (throw e) h = h e"
  by (simp add: try_catch_def throw_def)

lemma lift_err_simps [simp]: "lift_err (Inl e) = throw e" "lift_err (Inr v) = ret v"
  by (simp_all add: lift_err_def)

lemma await_OkE:
  assumes "await m f s = (Ok r, s')"
  obtains v t where "m s = (Ok v, t)" "f v t = (Ok r, s')"
  using assms by (auto simp: await_def split: prod.splits res.splits)

lemmas run_simps = await_def try_catch_def ret_def throw_def this_get_def this_set_def Date_now_def
  emit_def log_response_def out_of_fuel_def
section \<open>Frame relations\<close>

text \<open>A relation between the world before and after that every step of an action keeps.\<close>

definition keeps :: "(world \<Rightarrow> world \<Rightarrow> bool) \<Rightarrow> 'a action \<Rightarrow> bool" where
  "keeps R m = (\<forall>s. R s (snd (m s)))"

lemma keepsI: "(\<And>s. R s (snd (m s))) \<Longrightarrow> keeps R m"
  by (simp add: keeps_def)

lemma keepsD: "keeps R m \<Longrightarrow> m s = (r, s') \<Longrightarrow> R s s'"
  unfolding keeps_def by (metis snd_conv)

text \<open>What an action returns, if it returns.\<close>

definition returns :: "'b action \<Rightarrow> ('b \<Rightarrow> bool) \<Rightarrow> bool" where
  "returns m P = (\<forall>s r s'. m s = (Ok r, s') \<longrightarrow> P r)"

lemma returnsD: "returns m P \<Longrightarrow> m s = (Ok r, s') \<Longrightarrow> P r"
  unfolding returns_def by blast

lemma returns_intros:
  "P v \<Longrightarrow> returns (ret v) P" "returns (throw e) P" "(\<And>v. r = Inr v \<Longrightarrow> P v) \<Longrightarrow> returns (lift_err r) P"
  "(\<And>v. returns (f v) P) \<Longrightarrow> returns (await m f) P"
  "returns m' P \<Longrightarrow> (\<And>e. returns (h e) P) \<Longrightarrow> returns (try_catch m' h) P"
  by (auto simp: returns_def await_def try_catch_def ret_def throw_def lift_err_def split: prod.splits res.splits sum.splits)

text \<open>Such relations compose: the rules for the control structure of the code, proved once
  for every reflexive and transitive relation.\<close>

locale world_frame =
  fixes R :: "world \<Rightarrow> world \<Rightarrow> bool"
  assumes frame_refl: "R s s"
    and frame_trans: "R s t \<Longrightarrow> R t u \<Longrightarrow> R s u"
begin

lemma keeps_ret [frame_intros]: "keeps R (ret v)"
  by (simp add: keeps_def ret_def frame_refl)

lemma keeps_throw [frame_intros]: "keeps R (throw e)"
  by (simp add: keeps_def throw_def frame_refl)

lemma keeps_out_of_fuel [frame_intros]: "keeps R out_of_fuel"
  by (simp add: keeps_def out_of_fuel_def frame_refl)

lemma keeps_lift_err [frame_intros]: "keeps R (lift_err r)"
  by (cases r) (simp_all add: keeps_ret keeps_throw)

lemma keeps_this_get [frame_intros]: "keeps R (this_get f)"
  by (simp add: keeps_def this_get_def frame_refl)

lemma keeps_Date_now [frame_intros]: "keeps R Date_now"
  by (simp add: keeps_def Date_now_def frame_refl)

lemma keeps_await [frame_intros]: "keeps R m \<Longrightarrow> (\<And>v. keeps R (f v)) \<Longrightarrow> keeps R (await m f)"
  unfolding keeps_def await_def
  by (auto split: prod.split res.split) (metis frame_trans snd_conv)+

lemma keeps_await_returns:
  assumes "keeps R m" and "returns m P" and "\<And>v. P v \<Longrightarrow> keeps R (f v)"
  shows "keeps R (await m f)"
  using assms unfolding keeps_def returns_def await_def
  by (auto split: prod.split res.split) (metis frame_trans snd_conv)+

lemma keeps_try_catch [frame_intros]: "keeps R m \<Longrightarrow> (\<And>e. keeps R (h e)) \<Longrightarrow> keeps R (try_catch m h)"
  unfolding keeps_def try_catch_def
  by (auto split: prod.split res.split) (metis frame_trans snd_conv)+

lemma keeps_if [frame_intros]: "(b \<Longrightarrow> keeps R m) \<Longrightarrow> (\<not> b \<Longrightarrow> keeps R m') \<Longrightarrow> keeps R (if b then m else m')"
  by simp

lemma keeps_case_option [frame_intros]:
  "keeps R m \<Longrightarrow> (\<And>x. keeps R (f x)) \<Longrightarrow> keeps R (case v of None \<Rightarrow> m | Some x \<Rightarrow> f x)"
  by (cases v) simp_all

lemma keeps_case_sum [frame_intros]:
  "(\<And>e. keeps R (g e)) \<Longrightarrow> (\<And>x. keeps R (f x)) \<Longrightarrow> keeps R (case v of Inl e \<Rightarrow> g e | Inr x \<Rightarrow> f x)"
  by (cases v) simp_all

lemma keeps_case_prod [frame_intros]:
  "(\<And>x y. keeps R (f x y)) \<Longrightarrow> keeps R (case v of (x, y) \<Rightarrow> f x y)"
  by (cases v) simp

lemma keeps_case_jsval [frame_intros]:
  "keeps R a \<Longrightarrow> keeps R b \<Longrightarrow> (\<And>x. keeps R (c x)) \<Longrightarrow> (\<And>x. keeps R (d x)) \<Longrightarrow> (\<And>x. keeps R (e x)) \<Longrightarrow>
   (\<And>x. keeps R (f x)) \<Longrightarrow> (\<And>x. keeps R (g x)) \<Longrightarrow>
   keeps R (case v of JUndef \<Rightarrow> a | JNull \<Rightarrow> b | JBool x \<Rightarrow> c x | JNum x \<Rightarrow> d x | JStr x \<Rightarrow> e x
     | JArr x \<Rightarrow> f x | JObj x \<Rightarrow> g x)"
  by (cases v) simp_all

lemma keeps_Let [frame_intros]: "(\<And>x. keeps R (f x)) \<Longrightarrow> keeps R (let x = v in f x)"
  by simp

end

text \<open>What the client puts in its caches: the stream information of a camera, with an array of ICE
  servers each of which has an address, and frames.\<close>

definition ice_ok :: "jsval \<Rightarrow> bool" where
  "ice_ok server = (case server of JObj ((k, u) # rest) \<Rightarrow> k = ''urls'' \<and> truthy u | _ \<Rightarrow> False)"

definition stream_shape :: "jsval \<Rightarrow> bool" where
  "stream_shape v = (case v of
     JObj kvs \<Rightarrow> map fst kvs = [''signalingUrl'', ''iceServers'', ''authToken''] \<and>
       (case attr v ''iceServers'' of JArr ice \<Rightarrow> list_all ice_ok ice | _ \<Rightarrow> False)
   | _ \<Rightarrow> False)"

definition is_buffer :: "jsval \<Rightarrow> bool" where
  "is_buffer v = (case v of JStr bytes \<Rightarrow> True | _ \<Rightarrow> False)"

text \<open>
  The frame relations of the client itself: kept also by each primitive it performs and by
  each assignment its methods make to the session, the caches apart. A login nobody awaits can
  fail before its request is sent only if a key or the password is missing.
\<close>

definition keys_given :: "('a) wyze_scheme \<Rightarrow> bool" where
  "keys_given w = (\<not> nullish (apiKey w) \<and> \<not> nullish (keyId w) \<and> (case password w of JStr p \<Rightarrow> True | _ \<Rightarrow> False))"
locale session_frame = world_frame +
  fixes w :: "('a) wyze_scheme"
  assumes frame_axios: "R s (snd (axios_request w r s))"
    and frame_timeout: "R s (snd (set_timeout w d s))"
    and frame_read: "R s (snd (readFile w p s))"
    and frame_write: "R s (snd (writeFile w p c s))"
    and frame_http: "R s (s\<lparr>trace := trace s @ [EHttp q]\<rparr>)"
    and frame_unhandled: "\<not> keys_given w \<Longrightarrow> R s (s\<lparr>trace := trace s @ [EUnhandled e]\<rparr>)"
    and frame_log: "R s (s\<lparr>responseLog := responseLog s @ [m]\<rparr>)"
    and frame_draw: "R s (s\<lparr>draws := n\<rparr>)"
    and frame_tokens: "R s (s\<lparr>sess := (sess s)\<lparr>access_token := a, refresh_token := t\<rparr>\<rparr>)"
    and frame_dump: "R s (s\<lparr>sess := (sess s)\<lparr>dumpData := b\<rparr>\<rparr>)"
    and frame_login_time: "R s (s\<lparr>sess := (sess s)\<lparr>lastLoginAttempt := i\<rparr>\<rparr>)"
    and frame_reset: "R s (s\<lparr>sess := (sess s)\<lparr>loginAttemptDebounceMilliseconds := 1000\<rparr>\<rparr>)"
    and frame_double: "R s (s\<lparr>sess := (sess s)\<lparr>loginAttemptDebounceMilliseconds :=
          min (loginAttemptDebounceMilliseconds (sess s) * 2) 300000\<rparr>\<rparr>)"
begin

lemma keeps_axios [frame_intros]: "keeps R (axios_request w r)"
  by (rule keepsI) (rule frame_axios)

lemma keeps_set_timeout [frame_intros]: "keeps R (set_timeout w d)"
  by (rule keepsI) (rule frame_timeout)

lemma keeps_sleeps [frame_intros]: "keeps R (sleepSeconds w k)" "keeps R (sleepMilliSecounds w d)"
  by (simp_all add: sleepSeconds_def sleepMilliSecounds_def keeps_set_timeout)

lemma keeps_readFile [frame_intros]: "keeps R (readFile w p)"
  by (rule keepsI) (rule frame_read)

lemma keeps_writeFile [frame_intros]: "keeps R (writeFile w p c)"
  by (rule keepsI) (rule frame_write)

lemma keeps_emit_http [frame_intros]: "keeps R (emit (EHttp q))"
  by (rule keepsI) (simp add: emit_def frame_http)

lemma keeps_emit_unhandled: "\<not> keys_given w \<Longrightarrow> keeps R (emit (EUnhandled e))"
  by (rule keepsI) (simp add: emit_def frame_unhandled)

lemma keeps_log_response [frame_intros]: "keeps R (log_response m)"
  by (rule keepsI) (simp add: log_response_def frame_log)

lemma keeps_draws [frame_intros]: "keeps R (Math_random w)" "keeps R (randomBytes_hex w k)"
  by (auto intro!: keepsI simp: Math_random_def randomBytes_hex_def frame_draw)

end

text \<open>
  Those of calls that use the caches. A cache is made once. \<open>may_stream\<close> and \<open>may_frame\<close> say under which
  keys, and with which time to live from the moment of storing, an entry may be stored in each;
  \<open>cleared\<close> for which cameras the one of the streams may be cleared, of the keys that start with
  the camera's address, or of all if there is no address; \<open>good\<close> which frames are stored.
\<close>

locale cache_frame = session_frame +
  fixes may_stream may_frame :: "string \<Rightarrow> int \<Rightarrow> bool" and cleared :: "jsval \<Rightarrow> bool" and good :: "jsval \<Rightarrow> bool"
  assumes frame_stream_create: "streamInfoCache (sess s) = None \<Longrightarrow> R s (s\<lparr>sess := (sess s)\<lparr>streamInfoCache := Some []\<rparr>\<rparr>)"
    and frame_stream_store: "streamInfoCache (sess s) = Some m \<Longrightarrow> stream_shape v \<Longrightarrow> may_stream k ttl \<Longrightarrow>
          R s (s\<lparr>sess := (sess s)\<lparr>streamInfoCache := Some (map_set m k (v, clock s + ttl))\<rparr>\<rparr>)"
    and frame_stream_forget: "streamInfoCache (sess s) = Some m \<Longrightarrow> cleared mac \<Longrightarrow> truthy mac \<Longrightarrow>
          R s (s\<lparr>sess := (sess s)\<lparr>streamInfoCache := Some (filter (\<lambda>(k, v). \<not> startsWith k (js_String mac @ '':'')) m)\<rparr>\<rparr>)"
    and frame_stream_clear: "streamInfoCache (sess s) = Some m \<Longrightarrow> cleared mac \<Longrightarrow> \<not> truthy mac \<Longrightarrow>
          R s (s\<lparr>sess := (sess s)\<lparr>streamInfoCache := Some []\<rparr>\<rparr>)"
    and frame_snapshot_create: "snapshotCaptureCache (sess s) = None \<Longrightarrow>
          R s (s\<lparr>sess := (sess s)\<lparr>snapshotCaptureCache := Some []\<rparr>\<rparr>)"
    and frame_snapshot_store: "snapshotCaptureCache (sess s) = Some m \<Longrightarrow> good v \<Longrightarrow> may_frame k ttl \<Longrightarrow>
          R s (s\<lparr>sess := (sess s)\<lparr>snapshotCaptureCache := Some (map_set m k (v, clock s + ttl))\<rparr>\<rparr>)"

text \<open>And those of every call of the client, with failures nobody handles.\<close>

locale client_frame = cache_frame R w "\<lambda>k ttl. True" "\<lambda>k ttl. True" "\<lambda>mac. True" is_buffer
  for R :: "world \<Rightarrow> world \<Rightarrow> bool" and w :: "('a) wyze_scheme" +
  assumes frame_died: "R s (s\<lparr>trace := trace s @ [EUnhandled e]\<rparr>)"
begin

lemma keeps_emit_died: "keeps R (emit (EUnhandled e))"
  by (rule keepsI) (simp add: emit_def frame_died)

end

end
