(* ===== verification/Wyze_Session.thy ===== *)
theory Wyze_Session
  imports Wyze_IO
begin

text \<open>
  The authenticated core of \<open>src/index.js\<close>: construction of a client, the request pipeline
  (\<open>request\<close>, \<open>_handleRequest\<close>, \<open>_handleRetry\<close>, \<open>_performRequest\<close> and the handlers of
  the API's answers), token refresh and persistence, and login with its debounce. A request
  whose token is rejected refreshes the token with another request, which can be rejected in
  turn: \<open>performRequest\<close> takes the permitted depth of this nesting as fuel.
\<close>

section \<open>Construction\<close>

text \<open>\<open>options.x || constants.x\<close>.\<close>

definition opt_or :: "jsval \<Rightarrow> string \<Rightarrow> string \<Rightarrow> jsval" where
  "opt_or options k d = js_or (attr options k) (JStr d)"

definition WyzeAPI :: "env \<Rightarrow> nat \<Rightarrow> jsval \<Rightarrow> wyze" where
  "WyzeAPI E n options = env.extend E
     \<lparr>persistPath = attr options ''persistPath'',
      lowBatteryPercentage = js_or (attr options ''lowBatteryPercentage'') (JNum 30),
      username = attr options ''username'',
      password = attr options ''password'',
      apiKey = attr options ''apiKey'',
      keyId = attr options ''keyId'',
      apiLogEnabled = truthy (attr options ''apiLogEnabled''),
      authBaseUrl = opt_or options ''authBaseUrl'' constants_authBaseUrl,
      apiBaseUrl = js_or (attr options ''apiBaseUrl'') (opt_or options ''baseUrl'' constants_apiBaseUrl),
      authApiKey = opt_or options ''authApiKey'' constants_authApiKey,
      phoneId = opt_or options ''phoneId'' constants_phoneId,
      appName = opt_or options ''appName'' constants_appName,
      appVer = opt_or options ''appVer'' constants_appVer,
      appVersion = opt_or options ''appVersion'' constants_appVersion,
      userAgent = opt_or options ''userAgent'' constants_userAgent,
      sc = opt_or options ''sc'' constants_sc,
      sv = opt_or options ''sv'' constants_sv,
      oliveAppId = opt_or options ''oliveAppId'' constants_oliveAppId,
      appInfo = opt_or options ''appInfo'' constants_appInfo,
      fuel = n\<rparr>"

definition initial_session :: session where
  "initial_session =
     \<lparr>access_token = JStr '''', refresh_token = JStr '''', dumpData = False,
      lastLoginAttempt = 0, loginAttemptDebounceMilliseconds = 1000,
      streamInfoCache = None, snapshotCaptureCache = None\<rparr>"

text \<open>The period handed to \<open>setInterval\<close> for the refresh timer, if one is started.\<close>

definition refresh_timer :: "jsval \<Rightarrow> int option" where
  "refresh_timer options =
     (if js_or (attr options ''refreshTokenTimerEnabled'') (JBool False) = JBool True
      then Some 172800 else None)"

section \<open>Building and classifying\<close>

definition getRequestData :: "('a) wyze_scheme \<Rightarrow> jsval \<Rightarrow> jsval action" where
  "getRequestData w data =
     await (this_get access_token) (\<lambda>token.
     await Date_now (\<lambda>ts.
       ret (merge (JObj
         [(''access_token'', token), (''app_name'', appName w), (''app_ver'', appVer w),
          (''app_version'', appVersion w), (''phone_id'', phoneId w), (''phone_system_type'', JStr ''1''),
          (''sc'', sc w), (''sv'', sv w), (''ts'', JNum ts)]) data)))"

text \<open>The axios configuration object as a request.\<close>

definition request_of :: "jsval \<Rightarrow> http_req" where
  "request_of config =
     \<lparr>req_method = attr config ''method'', req_url = attr config ''url'', req_baseURL = attr config ''baseURL'',
      req_data = attr config ''data'', req_params = attr config ''params'', req_headers = attr config ''headers''\<rparr>"

text \<open>The replacer of the one-time dump: a property whose name contains \<open>token\<close> prints as
  asterisks.\<close>

fun redact :: "jsval \<Rightarrow> jsval"
and redact_elems :: "jsval list \<Rightarrow> jsval list"
and redact_members :: "(string \<times> jsval) list \<Rightarrow> (string \<times> jsval) list" where
  "redact (JArr xs) = JArr (redact_elems xs)"
| "redact (JObj kvs) = JObj (redact_members kvs)"
| "redact v = v"
| "redact_elems [] = []"
| "redact_elems (x # xs) = redact x # redact_elems xs"
| "redact_members [] = []"
| "redact_members ((k, v) # kvs) =
     (k, if js_includes k ''token'' then JStr ''*******'' else redact v) # redact_members kvs"

text \<open>What is logged of an answer: once after \<open>dumpData\<close> was set the answer with its tokens replaced,
  otherwise, when API logging is on, all of it.\<close>

definition response_line :: "string \<Rightarrow> jsval \<Rightarrow> string" where
  "response_line url result = ''API response PerformRequest: '' @ stringify (JObj
     [(''url'', JStr url), (''status'', attr result ''status''), (''data'', attr result ''data''),
      (''headers'', attr result ''headers'')])"

definition logApiResponse :: "('a) wyze_scheme \<Rightarrow> jsval \<Rightarrow> string \<Rightarrow> unit action" where
  "logApiResponse w result url =
     await (this_get dumpData) (\<lambda>dump.
       if dump then
         await (this_set (dumpData_update (\<lambda>_. False))) (\<lambda>_.
           log_response (''API response PerformRequest: '' @
             (let data = attr result ''data'' in
              if data = JUndef then ''undefined'' else stringify (redact data))))
       else if apiLogEnabled w then log_response (response_line url result)
       else ret ())"
text \<open>Everything \<open>_checkRateLimit\<close> does is inside a try block, so it never throws.\<close>

definition checkRateLimit :: "('a) wyze_scheme \<Rightarrow> jsval \<Rightarrow> unit action" where
  "checkRateLimit w headers =
     (if nullish headers then ret ()
      else
        let remaining = attr headers ''x-ratelimit-remaining'';
            reset = attr headers ''x-ratelimit-reset-by'';
            rateLimitRemaining = (if truthy remaining then Some (js_Number remaining) else None);
            rateLimitResetBy = (if truthy reset then date_parse w reset else None)
        in case rateLimitRemaining of None \<Rightarrow> ret ()
           | Some r \<Rightarrow>
              if num_less r (Fin 7) then
                await Date_now (\<lambda>now. sleepMilliSecounds w (map_option (\<lambda>t. t - now) rateLimitResetBy))
              else ret ())"

text \<open>\<open>errorMessage.toLowerCase()\<close> is a type error when the message is not a string.\<close>

definition lower_of :: "jsval \<Rightarrow> err + string" where
  "lower_of v = (case v of JStr s \<Rightarrow> Inr (toLowerCase s)
     | _ \<Rightarrow> Inl (TypeError ''errorMessage.toLowerCase is not a function''))"

definition isInvalidCredentialsError :: "jsval \<Rightarrow> err + bool" where
  "isInvalidCredentialsError errorMessage =
     (case lower_of errorMessage of Inl e \<Rightarrow> Inl e
      | Inr m \<Rightarrow> Inr (list_ex (\<lambda>msg. js_includes m (toLowerCase msg))
          [''UserNameOrPasswordError'', ''UserIsLocked'', ''Invalid User Name or Password'']))"

definition isRateLimitError :: "jsval \<Rightarrow> jsval \<Rightarrow> err + bool" where
  "isRateLimitError code errorMessage =
     (if code = JNum 3044 then Inr True
      else if code = JNum 1000 then
        (case lower_of errorMessage of Inl e \<Rightarrow> Inl e
         | Inr m \<Rightarrow> Inr (js_includes m ''too many failed attempts''))
      else Inr False)"

definition isAccessTokenError :: "jsval \<Rightarrow> jsval \<Rightarrow> err + bool" where
  "isAccessTokenError code errorMessage =
     (if code = JNum 2001 then Inr True
      else (case lower_of errorMessage of Inl e \<Rightarrow> Inl e
            | Inr m \<Rightarrow> Inr (js_includes m ''accesstokenerror'' \<or> js_includes m ''access token is error'')))"

definition isBadRequestError :: "jsval \<Rightarrow> bool" where
  "isBadRequestError code = (code = JNum 1001 \<or> code = JNum 1004)"

definition handleRateLimitError :: "jsval \<Rightarrow> jsval \<Rightarrow> jsval \<Rightarrow> jsval action" where
  "handleRateLimitError result errorMessage code =
     await Date_now (\<lambda>now.
       ret (spread result
         [(''ok'', JBool False), (''data'', attr result ''data''),
          (''error'', JObj
            [(''retryAfter'', JNum (now + 600000)),
             (''message'', JStr (''Rate Limited - please wait before trying again. Error: '' @ js_String errorMessage)),
             (''code'', code)])]))"

section \<open>Token persistence\<close>

definition tokenPersistPath :: "('a) wyze_scheme \<Rightarrow> err + string" where
  "tokenPersistPath w =
     (case uuid_by_string w (username w) of Inl e \<Rightarrow> Inl e
      | Inr uuid \<Rightarrow>
         if uuid = [] then Inl (Error ''Failed to generate UUID for token persistence path.'')
         else path_join w (persistPath w) (''wyze-'' @ uuid @ ''.json''))"

text \<open>The retry loop of \<open>_persistTokens\<close>; the argument counts the attempts left.\<close>

primrec persist_loop :: "nat \<Rightarrow> ('a) wyze_scheme \<Rightarrow> string \<Rightarrow> string \<Rightarrow> unit action" where
  "persist_loop 0 w tokenPath content = ret ()"
| "persist_loop (Suc k) w tokenPath content =
     try_catch (writeFile w tokenPath content)
       (\<lambda>error. if 0 < k then await (sleepSeconds w 2) (\<lambda>_. persist_loop k w tokenPath content)
                else throw (Error (''Failed to persist tokens: '' @ err_message error)))"

definition persistTokens :: "('a) wyze_scheme \<Rightarrow> unit action" where
  "persistTokens w =
     await (this_get (\<lambda>c. JObj [(''access_token'', access_token c), (''refresh_token'', refresh_token c)])) (\<lambda>data.
     await (lift_err (tokenPersistPath w)) (\<lambda>tokenPath.
       persist_loop 2 w tokenPath (stringify data)))"

definition updateTokens :: "('a) wyze_scheme \<Rightarrow> jsval \<Rightarrow> unit action" where
  "updateTokens w tokens =
     try_catch
       (await (this_set (\<lambda>c. c\<lparr>access_token := attr tokens ''access_token'',
                              refresh_token := attr tokens ''refresh_token''\<rparr>)) (\<lambda>_.
          persistTokens w))
       (\<lambda>error. throw (Error (''Failed to update tokens: '' @ err_message error)))"

definition loadPersistedTokens :: "('a) wyze_scheme \<Rightarrow> unit action" where
  "loadPersistedTokens w =
     await (lift_err (tokenPersistPath w)) (\<lambda>tokenPath.
       try_catch
         (await (readFile w tokenPath) (\<lambda>data.
            case json_parse data of None \<Rightarrow> throw (Error ''Unexpected token in JSON'')
            | Some parsedData \<Rightarrow>
               if truthy (attr parsedData ''access_token'') \<and> truthy (attr parsedData ''refresh_token'') then
                 this_set (\<lambda>c. c\<lparr>access_token := attr parsedData ''access_token'',
                                refresh_token := attr parsedData ''refresh_token''\<rparr>)
               else throw (Error ''Persisted tokens are invalid.'')))
         (\<lambda>error. ret ()))"

section \<open>Refreshing the token\<close>

type_synonym 'a perform = "('a) wyze_scheme \<Rightarrow> string \<Rightarrow> jsval \<Rightarrow> jsval \<Rightarrow> jsval action"

text \<open>The retry loop of \<open>refreshToken\<close> over the way requests are performed.\<close>

primrec refresh_loop :: "nat \<Rightarrow> 'a perform \<Rightarrow> ('a) wyze_scheme \<Rightarrow> jsval \<Rightarrow> unit action" where
  "refresh_loop 0 perform w data = ret ()"
| "refresh_loop (Suc k) perform w data =
     try_catch
       (await (perform w ''app/user/refresh_token'' data (JObj [])) (\<lambda>result.
          let tokens = attr (attr result ''data'') ''data'' in
          if truthy (attr result ''ok'') \<and> truthy tokens then updateTokens w tokens
          else throw (Error (''Failed to refresh access token - '' @ stringify result))))
       (\<lambda>error. if 0 < k then await (sleepSeconds w 2) (\<lambda>_. refresh_loop k perform w data)
                else throw (Error (''Token refresh failed: '' @ err_message error)))"

definition refreshToken_via :: "'a perform \<Rightarrow> ('a) wyze_scheme \<Rightarrow> unit action" where
  "refreshToken_via perform w =
     await (getRequestData w (JObj [])) (\<lambda>base.
     await (this_get refresh_token) (\<lambda>token.
       refresh_loop 2 perform w (spread base [(''refresh_token'', token)])))"

definition handleAccessTokenError :: "'a perform \<Rightarrow> ('a) wyze_scheme \<Rightarrow> jsval \<Rightarrow> jsval \<Rightarrow> jsval \<Rightarrow> jsval action" where
  "handleAccessTokenError perform w result errorMessage code =
     await (this_set (access_token_update (\<lambda>_. JStr ''''))) (\<lambda>_.
     await (try_catch (refreshToken_via perform w)
              (\<lambda>err. throw (Error (''Refresh Token could not be used to get a new access token. '' @ err_string err)))) (\<lambda>_.
     await (this_get access_token) (\<lambda>token.
     await Date_now (\<lambda>now.
       ret (spread result
         [(''ok'', JBool False), (''data'', attr result ''data''),
          (''error'', JObj
            [(''retryAfter'', if truthy token then JNum now else JNum 0),
             (''message'', JStr (if truthy token
                then ''Access Token had expired and a new one was obtained. Please retry your request.''
                else ''Access Token Error - please refresh your access token. Error: '' @ js_String errorMessage)),
             (''code'', code)])])))))"

section \<open>Performing a request\<close>

definition error_message :: "jsval \<Rightarrow> jsval" where
  "error_message data = js_or (attr data ''msg'') (js_or (attr data ''description'') (JStr ''Unknown Wyze API Error''))"

definition handleApiResponse :: "'a perform \<Rightarrow> ('a) wyze_scheme \<Rightarrow> jsval \<Rightarrow> string \<Rightarrow> jsval \<Rightarrow> jsval action" where
  "handleApiResponse perform w result url data =
     await (lift_err (member (attr result ''data'') ''code'')) (\<lambda>code.
       let errorMessage = error_message (attr result ''data'') in
       if code \<noteq> JUndef \<and> js_Number code \<noteq> Fin 1 then
         await (lift_err (isInvalidCredentialsError errorMessage)) (\<lambda>invalid.
         if invalid then
           await (this_set (access_token_update (\<lambda>_. JStr ''''))) (\<lambda>_.
             throw (Error (''Invalid Credentials - please check your credentials & account before trying again. Error: ''
               @ js_String errorMessage)))
         else await (lift_err (isRateLimitError code errorMessage)) (\<lambda>limited.
         if limited then handleRateLimitError result errorMessage code
         else await (lift_err (isAccessTokenError code errorMessage)) (\<lambda>expired.
         if expired then handleAccessTokenError perform w result errorMessage code
         else if isBadRequestError code then
           throw (Error (''Wyze API Bad Request: Check your request parameters - '' @
             stringify (JObj [(''code'', code), (''message'', errorMessage), (''url'', JStr url), (''requestBody'', data)])))
         else throw (Error (''Wyze API Error ('' @ js_String code @ '') - '' @ js_String errorMessage)))))
       else ret (spread result [(''ok'', JBool True), (''data'', attr result ''data'')]))"

primrec performRequest :: "nat \<Rightarrow> 'a perform" where
  "performRequest 0 w url data config = out_of_fuel"
| "performRequest (Suc n) w url data config =
     (let config = merge (JObj [(''method'', JStr ''POST''), (''url'', JStr url), (''data'', data),
                                (''baseURL'', apiBaseUrl w)]) config
      in await (axios_request w (request_of config)) (\<lambda>result.
         await (logApiResponse w result url) (\<lambda>_.
         await (checkRateLimit w (attr result ''headers'')) (\<lambda>_.
           handleApiResponse (performRequest n) w result url data))))"

definition refreshToken :: "('a) wyze_scheme \<Rightarrow> unit action" where
  "refreshToken w = refreshToken_via (performRequest (fuel w)) w"

text \<open>What the interval of the constructor does each time it fires:
  \<open>setInterval(this.refreshToken.bind(this), ...)\<close> drops the promise, so a renewal that fails is a
  rejection nobody handles.\<close>

definition timer_refresh :: "('a) wyze_scheme \<Rightarrow> unit action" where
  "timer_refresh w = try_catch (refreshToken w) (\<lambda>e. emit (EUnhandled e))"

section \<open>Login\<close>

definition login_request :: "('a) wyze_scheme \<Rightarrow> (string \<times> jsval \<times> jsval) action" where
  "login_request w =
     (case password w of
        JStr p \<Rightarrow> ret (''api/user/login'',
          JObj [(''email'', username w), (''password'', JStr (createPassword w p))],
          JObj [(''baseURL'', authBaseUrl w),
                (''headers'', JObj [(''x-api-key'', authApiKey w), (''apikey'', apiKey w),
                                    (''keyid'', keyId w), (''User-Agent'', userAgent w)])])
      | _ \<Rightarrow> throw (TypeError ''The data argument must be of type string''))"

definition performLoginRequest :: "('a) wyze_scheme \<Rightarrow> jsval action" where
  "performLoginRequest w =
     await (login_request w) (\<lambda>(url, data, config). performRequest (fuel w) w url data config)"

definition login :: "('a) wyze_scheme \<Rightarrow> unit action" where
  "login w =
     (if nullish (apiKey w) then
        throw (Error ''ApiKey Required, Please provide the \"apiKey\" parameter in config.json'')
      else if nullish (keyId w) then
        throw (Error ''KeyId Required, Please provide the \"keyId\" parameter in config.json'')
      else
        await (performLoginRequest w) (\<lambda>result.
          if \<not> truthy (attr result ''ok'') \<or> \<not> truthy (attr (attr result ''data'') ''access_token'') then
            throw (Error (''Invalid credentials, please check username/password, keyId/apiKey - '' @ stringify result))
          else updateTokens w (attr result ''data'')))"

definition isDebounceCleared :: "session \<Rightarrow> int \<Rightarrow> bool" where
  "isDebounceCleared c now = (lastLoginAttempt c + loginAttemptDebounceMilliseconds c < now)"

definition resetDebounceIfNeeded :: "int \<Rightarrow> unit action" where
  "resetDebounceIfNeeded now =
     await (this_get lastLoginAttempt) (\<lambda>last.
       if now - last > 12 * 60 * 60 * 1000
       then this_set (loginAttemptDebounceMilliseconds_update (\<lambda>_. 1000)) else ret ())"

definition tryLogin :: "('a) wyze_scheme \<Rightarrow> int \<Rightarrow> unit action" where
  "tryLogin w now = await (this_set (lastLoginAttempt_update (\<lambda>_. now))) (\<lambda>_. login w)"

text \<open>The loop of \<open>waitForDebounceClearance\<close>. Its bound is read again in each round, and
  concurrent calls may raise it, so the loop runs on fuel.\<close>

primrec wait_loop :: "nat \<Rightarrow> ('a) wyze_scheme \<Rightarrow> int \<Rightarrow> unit action" where
  "wait_loop 0 w waitTime = out_of_fuel"
| "wait_loop (Suc k) w waitTime =
     await (this_get loginAttemptDebounceMilliseconds) (\<lambda>debounce.
       if waitTime < debounce then
         await (sleepSeconds w 2) (\<lambda>_.
         await (this_get access_token) (\<lambda>token.
           if truthy token then ret () else wait_loop k w (waitTime + 2000)))
       else ret ())"

definition waitForDebounceClearance :: "('a) wyze_scheme \<Rightarrow> unit action" where
  "waitForDebounceClearance w = wait_loop (fuel w) w 0"

definition raise_debounce :: "int \<Rightarrow> unit action" where
  "raise_debounce now =
     await (this_set (lastLoginAttempt_update (\<lambda>_. now))) (\<lambda>_.
       this_set (\<lambda>c. c\<lparr>loginAttemptDebounceMilliseconds :=
         min (loginAttemptDebounceMilliseconds c * 2) (5 * 60 * 1000)\<rparr>))"

definition updateDebounceAndLogin :: "('a) wyze_scheme \<Rightarrow> int \<Rightarrow> unit action" where
  "updateDebounceAndLogin w now = await (raise_debounce now) (\<lambda>_. login w)"

text \<open>\<open>maybeLogin\<close> calls \<open>updateDebounceAndLogin\<close> without awaiting it. Up to its first
  await that call runs at once: it changes the debounce and issues the login request, or
  fails into a rejection nobody handles. Its continuation is concurrent activity, which
  \<open>rely\<close> stands for.\<close>

definition detached_login :: "('a) wyze_scheme \<Rightarrow> unit action" where
  "detached_login w =
     try_catch
       (if nullish (apiKey w) then
          throw (Error ''ApiKey Required, Please provide the \"apiKey\" parameter in config.json'')
        else if nullish (keyId w) then
          throw (Error ''KeyId Required, Please provide the \"keyId\" parameter in config.json'')
        else await (login_request w) (\<lambda>(url, data, config).
          emit (EHttp (request_of (merge (JObj [(''method'', JStr ''POST''), (''url'', JStr url), (''data'', data),
                                                (''baseURL'', apiBaseUrl w)]) config)))))
       (\<lambda>e. emit (EUnhandled e))"

definition maybeLogin :: "('a) wyze_scheme \<Rightarrow> unit action" where
  "maybeLogin w =
     await (this_get access_token) (\<lambda>token.
     await (if truthy token then ret () else loadPersistedTokens w) (\<lambda>_.
     await (this_get access_token) (\<lambda>token.
     if truthy token then ret ()
     else await Date_now (\<lambda>now.
       await (this_get (\<lambda>c. isDebounceCleared c now)) (\<lambda>cleared.
       if cleared then await (resetDebounceIfNeeded now) (\<lambda>_. tryLogin w now)
       else await (waitForDebounceClearance w) (\<lambda>_.
         await (this_get access_token) (\<lambda>token.
         if truthy token then ret ()
         else await (raise_debounce now) (\<lambda>_. detached_login w))))))))"

section \<open>Requests\<close>

definition response_error_message :: "jsval \<Rightarrow> string \<Rightarrow> string" where
  "response_error_message response dflt =
     js_String (js_or (attr (attr response ''error'') ''message'') (JStr dflt))"

text \<open>\<open>error.retryAfter\<close> is always a number here: the two handlers that set it write one.\<close>

definition handleRetry :: "('a) wyze_scheme \<Rightarrow> string \<Rightarrow> jsval \<Rightarrow> jsval \<Rightarrow> jsval action" where
  "handleRetry w url data error =
     await Date_now (\<lambda>now.
     await (case attr error ''retryAfter'' of
              JNum t \<Rightarrow> if t - now > 0 then set_timeout w (Some (t - now)) else ret ()
            | _ \<Rightarrow> ret ()) (\<lambda>_.
     await (maybeLogin w) (\<lambda>_.
     await (getRequestData w data) (\<lambda>d.
     await (performRequest (fuel w) w url d (JObj [])) (\<lambda>response.
       if truthy (attr response ''ok'') then ret response
       else throw (Error (''Error: '' @ response_error_message response ''Request Failed After Retry'')))))))"

definition handleRequest :: "('a) wyze_scheme \<Rightarrow> string \<Rightarrow> jsval \<Rightarrow> jsval action" where
  "handleRequest w url data =
     await (getRequestData w data) (\<lambda>d.
     await (performRequest (fuel w) w url d (JObj [])) (\<lambda>response.
       if truthy (attr response ''ok'') then ret response
       else if truthy (attr (attr response ''error'') ''retryAfter'') then
         handleRetry w url data (attr response ''error'')
       else throw (Error (''Request Failed: '' @ response_error_message response ''Unknown Error''))))"

definition request :: "('a) wyze_scheme \<Rightarrow> string \<Rightarrow> jsval \<Rightarrow> jsval action" where
  "request w url data = await (maybeLogin w) (\<lambda>_. handleRequest w url data)"

section \<open>What the log shows\<close>

text \<open>The lines handed to the logger around a request: before it and after it when API logging is on,
  and when it fails. They are texts only; nothing else depends on them.\<close>

definition request_log :: "('a) wyze_scheme \<Rightarrow> jsval \<Rightarrow> string option" where
  "request_log w config = (if apiLogEnabled w then Some (''Performing request: '' @ stringify config) else None)"

definition handleRequestError :: "err \<Rightarrow> string \<Rightarrow> string" where
  "handleRequestError err url = ''Request Failed: '' @ stringify (case err_response err of
     Some r \<Rightarrow> JObj [(''url'', JStr url), (''status'', attr r ''status''), (''data'', attr r ''data''), (''headers'', attr r ''headers'')]
   | None \<Rightarrow> JObj [(''url'', JStr url), (''message'', JStr (err_message err))])"

definition logDebounceInfo :: "('a) wyze_scheme \<Rightarrow> session \<Rightarrow> int \<Rightarrow> string option" where
  "logDebounceInfo w c now = (if apiLogEnabled w then
     Some (''Last login: '' @ show_int (lastLoginAttempt c) @ '', Debounce: '' @ show_int (loginAttemptDebounceMilliseconds c) @
       '' ms, Now: '' @ show_int now) else None)"

end
