(* ===== verification/Wyze_Frames.thy ===== *)
theory Wyze_Frames
  imports Wyze_Session
begin

text \<open>
  What every call of the core keeps, whatever the service answers and however calls
  interleave. The rules are proved once, for any \<open>session_frame\<close>, and instantiated with
  three relations: time does not go back, the trace only grows, and the login debounce stays
  one of the values the code computes.
\<close>

section \<open>The core keeps every frame of the session\<close>

context session_frame
begin

lemma keeps_set_tokens [frame_intros]:
  "keeps R (this_set (\<lambda>c. c\<lparr>access_token := a, refresh_token := t\<rparr>))"
  by (rule keepsI) (simp add: this_set_def frame_tokens)

lemma keeps_set_access_token [frame_intros]: "keeps R (this_set (access_token_update (\<lambda>_. a)))"
proof (rule keepsI)
  fix s :: world
  have "s\<lparr>sess := access_token_update (\<lambda>_. a) (sess s)\<rparr> =
        s\<lparr>sess := (sess s)\<lparr>access_token := a, refresh_token := refresh_token (sess s)\<rparr>\<rparr>" by simp
  then show "R s (snd (this_set (access_token_update (\<lambda>_. a)) s))"
    using frame_tokens [where s = s and a = a and t = "refresh_token (sess s)"] by (simp add: this_set_def)
qed

lemma keeps_set_dumpData [frame_intros]: "keeps R (this_set (dumpData_update (\<lambda>_. b)))"
  by (rule keepsI) (simp add: this_set_def frame_dump)

lemma keeps_set_login_time [frame_intros]: "keeps R (this_set (lastLoginAttempt_update (\<lambda>_. i)))"
  by (rule keepsI) (simp add: this_set_def frame_login_time)

lemma keeps_reset_debounce [frame_intros]:
  "keeps R (this_set (loginAttemptDebounceMilliseconds_update (\<lambda>_. 1000)))"
  by (rule keepsI) (simp add: this_set_def frame_reset)

lemma keeps_double_debounce [frame_intros]:
  "keeps R (this_set (\<lambda>c. c\<lparr>loginAttemptDebounceMilliseconds :=
     min (loginAttemptDebounceMilliseconds c * 2) (5 * 60 * 1000)\<rparr>))"
  by (rule keepsI) (simp add: this_set_def frame_double)

lemma keeps_getRequestData [frame_intros]: "keeps R (getRequestData w d)"
  unfolding getRequestData_def by (intro frame_intros)

lemma keeps_logApiResponse [frame_intros]: "keeps R (logApiResponse w r u)"
  unfolding logApiResponse_def by (intro frame_intros)

lemma keeps_checkRateLimit [frame_intros]: "keeps R (checkRateLimit w h)"
  unfolding checkRateLimit_def by (intro frame_intros)

lemma keeps_handleRateLimitError [frame_intros]: "keeps R (handleRateLimitError r m c)"
  unfolding handleRateLimitError_def by (intro frame_intros)

lemma keeps_persist_loop [frame_intros]: "keeps R (persist_loop k w p c)"
  by (induction k) (auto intro!: frame_intros)

lemma keeps_persistTokens [frame_intros]: "keeps R (persistTokens w)"
  unfolding persistTokens_def by (intro frame_intros)

lemma keeps_updateTokens [frame_intros]: "keeps R (updateTokens w t)"
  unfolding updateTokens_def by (intro frame_intros)

lemma keeps_loadPersistedTokens [frame_intros]: "keeps R (loadPersistedTokens w)"
  unfolding loadPersistedTokens_def by (intro frame_intros)

lemma keeps_refresh_loop:
  "(\<And>u d c. keeps R (perform w u d c)) \<Longrightarrow> keeps R (refresh_loop k perform w d)"
  by (induction k) (auto intro!: frame_intros)

lemma keeps_refreshToken_via:
  "(\<And>u d c. keeps R (perform w u d c)) \<Longrightarrow> keeps R (refreshToken_via perform w)"
  unfolding refreshToken_via_def by (intro frame_intros keeps_refresh_loop)

lemma keeps_handleAccessTokenError:
  "(\<And>u d c. keeps R (perform w u d c)) \<Longrightarrow> keeps R (handleAccessTokenError perform w r m c)"
  unfolding handleAccessTokenError_def by (intro frame_intros keeps_refreshToken_via)

lemma keeps_handleApiResponse:
  "(\<And>u d c. keeps R (perform w u d c)) \<Longrightarrow> keeps R (handleApiResponse perform w r u d)"
  unfolding handleApiResponse_def by (intro frame_intros keeps_handleAccessTokenError)

lemma keeps_performRequest [frame_intros]: "keeps R (performRequest n w u d c)"
  by (induction n arbitrary: u d c)
    (simp_all add: keeps_out_of_fuel frame_intros keeps_handleApiResponse)

lemma keeps_access_token_error [frame_intros]:
  "keeps R (handleAccessTokenError (performRequest n) w r m c)"
  by (intro keeps_handleAccessTokenError frame_intros)

lemma keeps_refreshToken [frame_intros]: "keeps R (refreshToken w)"
  unfolding refreshToken_def by (intro keeps_refreshToken_via frame_intros)


lemma keeps_login_request [frame_intros]: "keeps R (login_request w)"
  unfolding login_request_def by (intro frame_intros)

lemma keeps_login [frame_intros]: "keeps R (login w)"
  unfolding login_def performLoginRequest_def by (intro frame_intros)

lemma keeps_wait_loop [frame_intros]: "keeps R (wait_loop k w t)"
  by (induction k arbitrary: t) (auto intro!: frame_intros)

lemma keeps_raise_debounce [frame_intros]: "keeps R (raise_debounce now)"
  unfolding raise_debounce_def by (intro frame_intros)

lemma keeps_updateDebounceAndLogin [frame_intros]: "keeps R (updateDebounceAndLogin w now)"
  unfolding updateDebounceAndLogin_def by (intro frame_intros)

lemma keeps_detached_login [frame_intros]: "keeps R (detached_login w)"
proof (cases "keys_given w")
  case True
  then obtain q where "detached_login w = try_catch (emit (EHttp q)) (\<lambda>e. emit (EUnhandled e))"
    by (cases "password w") (auto simp: keys_given_def detached_login_def login_request_def)
  also have "\<dots> = emit (EHttp q)" by (simp add: fun_eq_iff try_catch_def emit_def)
  finally show ?thesis by (simp add: keeps_emit_http)
next
  case False
  then show ?thesis unfolding detached_login_def by (intro frame_intros keeps_emit_unhandled)
qed

lemma keeps_maybeLogin [frame_intros]: "keeps R (maybeLogin w)"
  unfolding maybeLogin_def resetDebounceIfNeeded_def tryLogin_def waitForDebounceClearance_def
  by (intro frame_intros)

lemma keeps_handleRetry [frame_intros]: "keeps R (handleRetry w u d e)"
  unfolding handleRetry_def by (intro frame_intros)

lemma keeps_handleRequest [frame_intros]: "keeps R (handleRequest w u d)"
  unfolding handleRequest_def by (intro frame_intros)

lemma keeps_request [frame_intros]: "keeps R (request w u d)"
  unfolding request_def by (intro frame_intros)

end

context client_frame
begin

lemma keeps_timer_refresh [frame_intros]: "keeps R (timer_refresh w)"
  unfolding timer_refresh_def by (intro frame_intros keeps_emit_died)

end

section \<open>Time\<close>

definition time_forward :: "world \<Rightarrow> world \<Rightarrow> bool" where
  "time_forward s t = (clock s \<le> clock t)"

lemma timer_delay_pos: "1 \<le> timer_delay d"
  by (auto simp: timer_delay_def split: option.splits)

lemma timer_latency: "0 \<le> timer_delay d + int n"
  using timer_delay_pos [of d] by simp

interpretation time: client_frame time_forward w for w
  by unfold_locales
    (auto simp: time_forward_def axios_request_def set_timeout_def readFile_def writeFile_def await_point_def
      timer_latency split: option.splits)

section \<open>The trace\<close>

definition trace_grows :: "world \<Rightarrow> world \<Rightarrow> bool" where
  "trace_grows s t = (\<exists>es. trace t = trace s @ es)"

interpretation grow: client_frame trace_grows w for w
  by unfold_locales
    (auto simp: trace_grows_def axios_request_def set_timeout_def readFile_def writeFile_def await_point_def
      split: option.splits)

section \<open>The debounce\<close>

text \<open>The debounce is one second doubled some number of times, but never more than five
  minutes.\<close>

definition debounce_ok :: "session \<Rightarrow> bool" where
  "debounce_ok c = (\<exists>k. loginAttemptDebounceMilliseconds c = min (1000 * 2 ^ k) 300000)"

text \<open>Concurrent activity of the same instance, being made of the same methods, keeps it
  too.\<close>

definition rely_debounce :: "('a) wyze_scheme \<Rightarrow> bool" where
  "rely_debounce w = (\<forall>n c. debounce_ok c \<longrightarrow> debounce_ok (rely w n c))"

definition debounce_kept :: "('a) wyze_scheme \<Rightarrow> world \<Rightarrow> world \<Rightarrow> bool" where
  "debounce_kept w s t = (rely_debounce w \<longrightarrow> debounce_ok (sess s) \<longrightarrow> debounce_ok (sess t))"

lemma debounce_double:
  "min (min (1000 * 2 ^ k) 300000 * 2) (300000 :: int) = min (1000 * 2 ^ Suc k) 300000"
  by (auto simp: min_def)

lemma debounce_ok_double:
  assumes "debounce_ok c"
  shows "debounce_ok (c\<lparr>loginAttemptDebounceMilliseconds :=
     min (loginAttemptDebounceMilliseconds c * 2) 300000\<rparr>)"
proof -
  obtain k where "loginAttemptDebounceMilliseconds c = min (1000 * 2 ^ k) 300000"
    using assms by (auto simp: debounce_ok_def)
  then show ?thesis
    unfolding debounce_ok_def using debounce_double [of k] by (intro exI [of _ "Suc k"]) simp
qed

lemma debounce_ok_reset: "debounce_ok (c\<lparr>loginAttemptDebounceMilliseconds := 1000\<rparr>)"
  unfolding debounce_ok_def by (rule exI [of _ 0]) simp

lemma debounce_ok_others:
  "debounce_ok (c\<lparr>access_token := a\<rparr>) = debounce_ok c"
  "debounce_ok (c\<lparr>refresh_token := a\<rparr>) = debounce_ok c"
  "debounce_ok (c\<lparr>dumpData := b\<rparr>) = debounce_ok c"
  "debounce_ok (c\<lparr>lastLoginAttempt := i\<rparr>) = debounce_ok c"
  "debounce_ok (c\<lparr>streamInfoCache := m\<rparr>) = debounce_ok c"
  "debounce_ok (c\<lparr>snapshotCaptureCache := m\<rparr>) = debounce_ok c"
  by (simp_all add: debounce_ok_def)

interpretation deb: client_frame "debounce_kept w" w for w
  by unfold_locales
    (auto simp: debounce_kept_def rely_debounce_def axios_request_def set_timeout_def readFile_def
      writeFile_def await_point_def debounce_ok_others debounce_ok_reset debounce_ok_double
      split: option.splits)

lemma debounce_caches [frame_intros]:
  "keeps (debounce_kept w) (this_set (streamInfoCache_update (\<lambda>_. c)))"
  "keeps (debounce_kept w) (this_set (snapshotCaptureCache_update (\<lambda>_. c)))"
  by (simp_all add: keeps_def this_set_def debounce_kept_def debounce_ok_others)

lemma debounce_ok_bounds:
  "debounce_ok c \<Longrightarrow> 1000 \<le> loginAttemptDebounceMilliseconds c \<and> loginAttemptDebounceMilliseconds c \<le> 300000"
  by (auto simp: debounce_ok_def)

lemma debounce_ok_initial: "debounce_ok initial_session"
  by (auto simp: debounce_ok_def initial_session_def intro: exI [of _ 0])

end
