(* ===== verification/Wyze_Demo.thy ===== *)
theory Wyze_Demo
  imports Wyze_Frames
begin

text \<open>
  A concrete client, on which the properties are evaluated: a single caller, a file system
  that works, and a service given by its answers. The packages outside the repository are
  replaced by simple functions.
\<close>

definition demo_env :: "(nat \<Rightarrow> http_req \<Rightarrow> err + jsval) \<Rightarrow> env" where
  "demo_env service = cipher_lib.extend rev_cipher
     \<lparr>axios = service, rely = (\<lambda>_ c. c), latency = (\<lambda>_. 10), fs_read_fail = (\<lambda>_. None),
      fs_write_fail = (\<lambda>_. None), math_random = (\<lambda>_. 1 / 2), random_hex = (\<lambda>_ k. replicate (2 * k) (CHR ''0'')),
      date_parse = (\<lambda>_. None), uuid_by_string = (\<lambda>_. Inr ''id''), path_join = (\<lambda>_ f. Inr f)\<rparr>"

definition demo_options :: jsval where
  "demo_options = JObj
     [(''username'', JStr ''user''), (''password'', JStr ''secret''), (''apiKey'', JStr ''key''),
      (''keyId'', JStr ''id'')]"

definition demo :: "(nat \<Rightarrow> http_req \<Rightarrow> err + jsval) \<Rightarrow> wyze" where
  "demo service = WyzeAPI (demo_env service) 200 demo_options"

definition demo_session :: "string \<Rightarrow> session" where
  "demo_session token = initial_session\<lparr>access_token := JStr token, refresh_token := JStr ''r''\<rparr>"

definition demo_world :: "string \<Rightarrow> world" where
  "demo_world token = \<lparr>sess = demo_session token, clock = 5000, ticks = 0, draws = 0, files = (\<lambda>_. None), trace = [], responseLog = []\<rparr>"

text \<open>A service that answers every request alike.\<close>

definition answering :: "(string \<times> jsval) list \<Rightarrow> nat \<Rightarrow> http_req \<Rightarrow> err + jsval" where
  "answering body = (\<lambda>_ _. Inr (JObj [(''data'', JObj body)]))"

lemma demo_simps [simp]:
  "axios (demo service) = service" "rely (demo service) = (\<lambda>_ c. c)" "latency (demo service) n = 10"
  "fs_read_fail (demo service) n = None" "fs_write_fail (demo service) n = None"
  "uuid_by_string (demo service) v = Inr ''id''" "path_join (demo service) d f = Inr f"
  "fuel (demo service) = 200" "apiKey (demo service) = JStr ''key''" "keyId (demo service) = JStr ''id''"
  "username (demo service) = JStr ''user''" "password (demo service) = JStr ''secret''"
  "apiLogEnabled (demo service) = False" "lowBatteryPercentage (demo service) = JNum 30"
  "math_random (demo service) n = 1 / 2" "date_parse (demo service) v = None"
  by (simp_all add: demo_def WyzeAPI_def demo_env_def demo_options_def env.defs cipher_lib.defs
      js_or_def)

lemma demo_world_simps [simp]:
  "sess (demo_world t) = demo_session t" "clock (demo_world t) = 5000" "ticks (demo_world t) = 0"
  "files (demo_world t) = (\<lambda>_. None)" "trace (demo_world t) = []" "draws (demo_world t) = 0" "responseLog (demo_world t) = []"
  by (simp_all add: demo_world_def)

lemma demo_session_simps [simp]:
  "access_token (demo_session t) = JStr t" "refresh_token (demo_session t) = JStr ''r''"
  "dumpData (demo_session t) = False" "lastLoginAttempt (demo_session t) = 0"
  "loginAttemptDebounceMilliseconds (demo_session t) = 1000"
  "streamInfoCache (demo_session t) = None" "snapshotCaptureCache (demo_session t) = None"
  by (simp_all add: demo_session_def initial_session_def)

lemma demo_path [simp]: "tokenPersistPath (demo service) = Inr ''wyze-id.json''"
  by (simp add: tokenPersistPath_def)

lemma demo_debounce [simp]: "debounce_ok (demo_session t)" "rely_debounce (demo service)"
  using debounce_ok_reset [of "demo_session t"] by (simp_all add: debounce_ok_def rely_debounce_def)

end
