(* ===== verification/Wyze_Session_Laws.thy ===== *)
theory Wyze_Session_Laws
  imports Wyze_Demo
begin

text \<open>
  The properties of the authenticated core: persistence and its round trip, the behaviour
  of each class of answer, token renewal, the bound on the requests of one call, the
  debounce, and the two defects that the model exhibits (the login that is not awaited, the
  unbounded renewal).
\<close>

section \<open>Token persistence\<close>

lemma files_await_point [simp]: "files (await_point w s) = files s"
  by (simp add: await_point_def)

lemma files_set_timeout [simp]: "files (snd (set_timeout w d s)) = files s"
  by (simp add: set_timeout_def)

lemma ticks_await_point [simp]: "ticks (await_point w s) = Suc (ticks s)"
  by (simp add: await_point_def)

lemma trace_await_point [simp]: "trace (await_point w s) = trace s"
  by (simp add: await_point_def)

lemma persist_loop_file:
  "persist_loop k w p c s = (Ok (), s') \<Longrightarrow> 0 < k \<Longrightarrow> files s' p = Some c"
proof (induction k arbitrary: s)
  case (Suc k)
  then show ?case
    by (cases "fs_write_fail w (ticks s)")
      (auto simp: run_simps writeFile_def sleepSeconds_def set_timeout_def split: if_splits)
qed simp

lemma persistTokens_file:
  assumes "persistTokens w s = (Ok (), s')" and "tokenPersistPath w = Inr p"
  shows "files s' p = Some (stringify (JObj [(''access_token'', access_token (sess s)),
     (''refresh_token'', refresh_token (sess s))]))"
  using assms persist_loop_file [of 2 w p _ s s'] by (simp add: persistTokens_def run_simps)

text \<open>C4. What \<open>_persistTokens\<close> wrote, \<open>_loadPersistedTokens\<close> reads back: in any later
  world with the same file, in this or another process, a load restores exactly the two
  tokens the session had when they were persisted, through JSON printing and parsing.\<close>

theorem tokens_survive_restart:
  assumes "persistTokens w s = (Ok (), s')" and "tokenPersistPath w = Inr p"
    and "wf_json (access_token (sess s))" and "truthy (access_token (sess s))"
    and "wf_json (refresh_token (sess s))" and "truthy (refresh_token (sess s))"
    and "files s2 p = files s' p" and "fs_read_fail w (ticks s2) = None"
  shows "\<exists>s3. loadPersistedTokens w s2 = (Ok (), s3) \<and>
     access_token (sess s3) = access_token (sess s) \<and> refresh_token (sess s3) = refresh_token (sess s)"
proof -
  let ?v = "JObj [(''access_token'', access_token (sess s)), (''refresh_token'', refresh_token (sess s))]"
  have "json_parse (stringify ?v) = Some ?v"
    using assms(3,5) by (intro json_parse_stringify) simp
  moreover have "files s2 p = Some (stringify ?v)"
    using persistTokens_file [OF assms(1,2)] assms(7) by simp
  ultimately show ?thesis
    using assms(2,4,6,8)
    by (simp add: loadPersistedTokens_def readFile_def run_simps lift_err_def del: stringify.simps)
qed

theorem tokens_survive_restart_witness:
  "\<exists>s3. loadPersistedTokens (demo (answering [])) (snd (persistTokens (demo (answering [])) (demo_world ''t''))) = (Ok (), s3) \<and>
     access_token (sess s3) = JStr ''t'' \<and> refresh_token (sess s3) = JStr ''r''"
proof -
  let ?w = "demo (answering [])"
  have "fst (persistTokens ?w (demo_world ''t'')) = Ok ()"
    by (simp add: persistTokens_def run_simps numeral_2_eq_2 writeFile_def del: stringify.simps)
  then have run: "persistTokens ?w (demo_world ''t'') = (Ok (), snd (persistTokens ?w (demo_world ''t'')))"
    by (metis prod.collapse)
  show ?thesis
    using tokens_survive_restart [OF run] by (simp add: demo_path)
qed

text \<open>Persisting survives one failed write: it succeeds exactly when one of its at most
  two attempts does, the second one two seconds after the first (two awaits later).\<close>

lemma persistTokens_two_attempts:
  assumes "tokenPersistPath w = Inr p"
  shows "fst (persistTokens w s) = Ok () \<longleftrightarrow>
     fs_write_fail w (ticks s) = None \<or> fs_write_fail w (ticks s + 2) = None"
  using assms
  by (auto simp: persistTokens_def run_simps lift_err_def numeral_2_eq_2 writeFile_def
      sleepSeconds_def set_timeout_def split: option.splits prod.splits)

section \<open>Classification of answers\<close>

text \<open>What an answer of the API means, by its \<open>code\<close> and message.\<close>

definition answer_code :: "jsval \<Rightarrow> jsval" where
  "answer_code result = attr (attr result ''data'') ''code''"

definition answer_ok :: "jsval \<Rightarrow> bool" where
  "answer_ok result = (answer_code result = JUndef \<or> js_Number (answer_code result) = Fin 1)"

definition token_expired :: "jsval \<Rightarrow> bool" where
  "token_expired result = (\<not> answer_ok result \<and>
     isAccessTokenError (answer_code result) (error_message (attr result ''data'')) = Inr True)"

lemma handleApiResponse_ok:
  assumes "\<not> nullish (attr result ''data'')" and "answer_ok result"
  shows "handleApiResponse perform w result url data s =
    (Ok (spread result [(''ok'', JBool True), (''data'', attr result ''data'')]), s)"
  using assms
  by (auto simp: handleApiResponse_def member_def run_simps answer_ok_def answer_code_def)

lemma toLowerCase_lits:
  "toLowerCase ''UserNameOrPasswordError'' = ''usernameorpassworderror''"
  "toLowerCase ''UserIsLocked'' = ''userislocked''"
  "toLowerCase ''Invalid User Name or Password'' = ''invalid user name or password''"
  by code_simp+

definition without_token :: "world \<Rightarrow> world" where
  "without_token s = s\<lparr>sess := (sess s)\<lparr>access_token := JStr ''''\<rparr>\<rparr>"

text \<open>How an answer with a body and a message that is a text is decided.\<close>

lemma handleApiResponse_cases:
  assumes "\<not> nullish (attr result ''data'')" and "error_message (attr result ''data'') = JStr m"
  defines "c \<equiv> answer_code result"
  shows "handleApiResponse perform w result url data s =
    (if answer_ok result then
       (Ok (spread result [(''ok'', JBool True), (''data'', attr result ''data'')]), s)
     else if list_ex (js_includes (toLowerCase m))
               [''usernameorpassworderror'', ''userislocked'', ''invalid user name or password''] then
       (Throw (Error (''Invalid Credentials - please check your credentials & account before trying again. Error: '' @ m)),
        s\<lparr>sess := (sess s)\<lparr>access_token := JStr ''''\<rparr>\<rparr>)
     else if c = JNum 3044 \<or> c = JNum 1000 \<and> js_includes (toLowerCase m) ''too many failed attempts'' then
       (Ok (spread result [(''ok'', JBool False), (''data'', attr result ''data''),
          (''error'', JObj [(''retryAfter'', JNum (clock s + 600000)),
             (''message'', JStr (''Rate Limited - please wait before trying again. Error: '' @ m)), (''code'', c)])]), s)
     else if token_expired result then handleAccessTokenError perform w result (JStr m) c s
     else if c = JNum 1001 \<or> c = JNum 1004 then
       (Throw (Error (''Wyze API Bad Request: Check your request parameters - '' @
          stringify (JObj [(''code'', c), (''message'', JStr m), (''url'', JStr url), (''requestBody'', data)]))), s)
     else (Throw (Error (''Wyze API Error ('' @ js_String c @ '') - '' @ m)), s))"
proof (cases "answer_ok result")
  case True
  then show ?thesis using handleApiResponse_ok assms(1) by simp
next
  case False
  then have "c \<noteq> JUndef" "js_Number c \<noteq> Fin 1"
    by (auto simp: answer_ok_def c_def)
  moreover have "member (attr result ''data'') ''code'' = Inr c"
    using assms(1) by (simp add: member_def c_def answer_code_def)
  ultimately show ?thesis
    using False assms(2)
    by (auto simp: handleApiResponse_def Let_def run_simps lift_err_def isInvalidCredentialsError_def lower_of_def
        toLowerCase_lits isRateLimitError_def handleRateLimitError_def token_expired_def
        isAccessTokenError_def isBadRequestError_def c_def [symmetric] simp del: stringify.simps)
qed

lemma handleApiResponse_malformed:
  assumes "nullish (attr result ''data'') \<or> \<not> answer_ok result \<and> (\<nexists>m. error_message (attr result ''data'') = JStr m)"
  shows "\<exists>m. handleApiResponse perform w result url data s = (Throw (TypeError m), s)"
proof (cases "nullish (attr result ''data'')")
  case True
  then obtain m where "member (attr result ''data'') ''code'' = Inl (TypeError m)" using member_nullish by blast
  then have "handleApiResponse perform w result url data = throw (TypeError m)" by (simp add: handleApiResponse_def)
  then show ?thesis by (simp add: throw_def)
next
  case False
  have "isInvalidCredentialsError v = Inl (TypeError ''errorMessage.toLowerCase is not a function'')" if "\<nexists>m. v = JStr m" for v
    using that by (cases v) (auto simp: isInvalidCredentialsError_def lower_of_def)
  moreover have "member (attr result ''data'') ''code'' = Inr (answer_code result)"
    using False by (simp add: member_def answer_code_def)
  ultimately have "handleApiResponse perform w result url data = throw (TypeError ''errorMessage.toLowerCase is not a function'')"
    using False assms by (simp add: handleApiResponse_def Let_def answer_ok_def)
  then show ?thesis by (simp add: throw_def)
qed

lemma stringify_code: "\<exists>post. stringify (JObj ((''code'', JNum i) # kvs)) = ''{\"code\":'' @ js_String (JNum i) @ post"
proof -
  have "quote ''code'' = ''\"code\"''" by code_simp
  then show ?thesis by (simp add: join_Cons)
qed

lemma refusal_names_code:
  "\<exists>pre post. (if c \<in> {JNum 1001, JNum 1004}
      then ''Wyze API Bad Request: Check your request parameters - '' @ stringify (JObj ((''code'', c) # kvs))
      else ''Wyze API Error ('' @ js_String c @ '') - '' @ m) = ''Wyze API '' @ pre @ js_String c @ post"
proof (cases "c \<in> {JNum 1001, JNum 1004}")
  case True
  then obtain i where i: "c = JNum i" by blast
  obtain post where "stringify (JObj ((''code'', JNum i) # kvs)) = ''{\"code\":'' @ js_String (JNum i) @ post"
    using stringify_code by blast
  then show ?thesis
    using True unfolding i
    by (intro exI [of _ "''Bad Request: Check your request parameters - {\"code\":''"] exI [of _ post]) (simp del: stringify.simps)
next
  case False
  then show ?thesis by (intro exI [of _ "''Error (''"] exI [of _ "'') - '' @ m"]) simp
qed

text \<open>What the handler of a rejected token gives, from the world without the token.\<close>

lemma handleAccessTokenError_result:
  assumes "handleAccessTokenError perform w result m c s = (r, s')"
  shows "case r of
      Ok v \<Rightarrow> refreshToken_via perform w (without_token s) = (Ok (), s') \<and> c = attr (attr v ''error'') ''code'' \<and>
        attr v ''ok'' = JBool False \<and> attr v ''data'' = attr result ''data'' \<and>
        attr (attr v ''error'') ''retryAfter'' = JNum (if truthy (access_token (sess s')) then clock s' else 0)
    | Throw e \<Rightarrow> \<exists>e'. e = Error (''Refresh Token could not be used to get a new access token. '' @ err_string e') \<and>
        refreshToken_via perform w (without_token s) = (Throw e', s')
    | OutOfFuel \<Rightarrow> refreshToken_via perform w (without_token s) = (OutOfFuel, s')"
proof -
  obtain q t where renewal: "refreshToken_via perform w (without_token s) = (q, t)" by fastforce
  show ?thesis
    using assms renewal [unfolded without_token_def]
    by (cases q) (auto simp: handleAccessTokenError_def run_simps spread_def without_token_def simp del: stringify.simps)
qed

text \<open>What an answer is to the client, whatever it says: without a body, or an error whose message is
  not a text, it is malformed.\<close>

datatype answer_class = Accepted | Malformed | BadCredentials | RateLimited | Expired | Refused

definition says :: "jsval \<Rightarrow> string list \<Rightarrow> bool" where
  "says result texts = (case error_message (attr result ''data'') of
     JStr m \<Rightarrow> list_ex (js_includes (toLowerCase m)) texts | _ \<Rightarrow> False)"

definition is_text :: "jsval \<Rightarrow> bool" where
  "is_text v = (case v of JStr m \<Rightarrow> True | _ \<Rightarrow> False)"

lemma is_text_iff: "is_text v \<longleftrightarrow> (\<exists>m. v = JStr m)"
  by (cases v) (simp_all add: is_text_def)

definition answer_class :: "jsval \<Rightarrow> answer_class" where
  "answer_class result =
     (if nullish (attr result ''data'') then Malformed
      else if answer_ok result then Accepted
      else if \<not> is_text (error_message (attr result ''data'')) then Malformed
      else if says result [''usernameorpassworderror'', ''userislocked'', ''invalid user name or password''] then BadCredentials
      else if answer_code result = JNum 3044 \<or> answer_code result = JNum 1000 \<and> says result [''too many failed attempts'']
        then RateLimited
      else if answer_code result = JNum 2001 \<or> says result [''accesstokenerror'', ''access token is error''] then Expired
      else Refused)"

text \<open>The rows of the contract: an answer that is returned keeps its body and says whether it is one;
  if not, it carries the code, and the time after which the request may be retried.\<close>

definition accepts :: "jsval \<Rightarrow> jsval \<Rightarrow> bool" where
  "accepts result v = (attr v ''ok'' = JBool True \<and> attr v ''data'' = attr result ''data'')"

definition asks_retry :: "jsval \<Rightarrow> int \<Rightarrow> jsval \<Rightarrow> bool" where
  "asks_retry result t v = (attr v ''ok'' = JBool False \<and> attr v ''data'' = attr result ''data'' \<and>
     attr (attr v ''error'') ''code'' = answer_code result \<and> attr (attr v ''error'') ''retryAfter'' = JNum t)"


definition token_file :: "jsval \<Rightarrow> jsval \<Rightarrow> string" where
  "token_file a b = stringify (JObj [(''access_token'', a), (''refresh_token'', b)])"

text \<open>A client with a single caller.\<close>

definition alone :: "('a) wyze_scheme \<Rightarrow> bool" where
  "alone w = (rely w = (\<lambda>_ c. c))"

lemma await_alone: "alone w \<Longrightarrow> sess (await_point w s) = sess s"
  by (simp add: alone_def await_point_def)

text \<open>The tokens on file are those of the session.\<close>

definition tokens_on_file :: "('a) wyze_scheme \<Rightarrow> world \<Rightarrow> bool" where
  "tokens_on_file w s = (case tokenPersistPath w of Inl e \<Rightarrow> False
     | Inr p \<Rightarrow> files s p = Some (token_file (access_token (sess s)) (refresh_token (sess s))))"

lemma persist_loop_sess: "alone w \<Longrightarrow> sess (snd (persist_loop k w p c s)) = sess s"
proof (induction k arbitrary: s)
  case (Suc k)
  then show ?case
    by (cases "fs_write_fail w (ticks s)")
      (auto simp: run_simps writeFile_def sleepSeconds_def set_timeout_def await_alone)
qed (simp add: ret_def)

lemma updateTokens_on_file:
  assumes "alone w" and "updateTokens w tokens s = (Ok (), s')"
  shows "tokens_on_file w s'"
proof -
  let ?t = "s\<lparr>sess := (sess s)\<lparr>access_token := attr tokens ''access_token'', refresh_token := attr tokens ''refresh_token''\<rparr>\<rparr>"
  have run: "persistTokens w ?t = (Ok (), s')"
    using assms(2)
    by (cases "persistTokens w ?t") (auto simp: updateTokens_def run_simps split: res.splits)
  then obtain p where p: "tokenPersistPath w = Inr p"
    by (cases "tokenPersistPath w") (auto simp: persistTokens_def run_simps)
  have "persistTokens w ?t = persist_loop 2 w p (token_file (access_token (sess ?t)) (refresh_token (sess ?t))) ?t"
    by (simp add: persistTokens_def p token_file_def this_get_def await_def ret_def del: stringify.simps)
  then have "sess s' = sess ?t"
    using run persist_loop_sess [OF assms(1), of 2 p _ ?t] by (metis snd_conv)
  then show ?thesis
    using persistTokens_file [OF run p] by (simp add: tokens_on_file_def p token_file_def)
qed

lemma refresh_loop_on_file:
  "alone w \<Longrightarrow> refresh_loop k perform w d s = (Ok (), s') \<Longrightarrow> 0 < k \<Longrightarrow> tokens_on_file w s'"
proof (induction k arbitrary: s)
  case (Suc k)
  let ?trial = "await (perform w ''app/user/refresh_token'' d (JObj [])) (\<lambda>result.
     let tokens = attr (attr result ''data'') ''data'' in
     if truthy (attr result ''ok'') \<and> truthy tokens then updateTokens w tokens
     else throw (Error (''Failed to refresh access token - '' @ stringify result)))"
  obtain r t where attempt: "?trial s = (r, t)" by fastforce
  show ?case
  proof (cases r)
    case (Ok u)
    then have "t = s'" using Suc.prems(2) attempt by (simp add: try_catch_def)
    moreover obtain v t1 where "perform w ''app/user/refresh_token'' d (JObj []) s = (Ok v, t1)"
      "updateTokens w (attr (attr v ''data'') ''data'') t1 = (Ok u, t)"
      using attempt Ok by (auto simp: Let_def throw_def elim!: await_OkE split: if_splits)
    ultimately show ?thesis using updateTokens_on_file [OF Suc.prems(1)] by simp
  next
    case (Throw e)
    then show ?thesis
      using Suc.prems Suc.IH attempt
      by (auto simp: try_catch_def sleepSeconds_def set_timeout_def throw_def await_def split: if_splits)
  qed (use Suc.prems(2) attempt in \<open>simp add: try_catch_def\<close>)
qed simp

lemma refreshToken_on_file:
  "alone w \<Longrightarrow> refreshToken_via perform w s = (Ok (), s') \<Longrightarrow> tokens_on_file w s'"
  unfolding refreshToken_via_def by (erule await_OkE)+ (erule refresh_loop_on_file, assumption, simp)

text \<open>C3. The contract of \<open>_handleApiResponse\<close>, for every answer. A malformed one rejects with a type
  error, an accepted one resolves, and neither changes anything. Wrong credentials reject, and
  the access token is dropped. A rate limit resolves to a result that asks to be retried in ten
  minutes. A rejected token is dropped and renewed: when the renewal succeeds, the tokens on file
  are those of the session (with a single caller) and the result asks to be retried now, or never
  if the renewed token is empty; when it fails, the call rejects, and otherwise it does not return,
  because the renewal does not. Every other answer rejects with a message that names its code.\<close>

theorem handleApiResponse_contract:
  assumes "handleApiResponse perform w result url data s = (r, s')"
  shows "case answer_class result of
      Malformed \<Rightarrow> (\<exists>m. r = Throw (TypeError m)) \<and> s' = s
    | Accepted \<Rightarrow> (\<exists>v. r = Ok v \<and> accepts result v) \<and> s' = s
    | BadCredentials \<Rightarrow> (\<exists>m. r = Throw (Error (''Invalid Credentials'' @ m))) \<and> s' = without_token s
    | RateLimited \<Rightarrow> (\<exists>v. r = Ok v \<and> asks_retry result (clock s + 600000) v) \<and> s' = s
    | Expired \<Rightarrow> (case r of
          Ok v \<Rightarrow> asks_retry result (if truthy (access_token (sess s')) then clock s' else 0) v \<and>
            (alone w \<longrightarrow> tokens_on_file w s') \<and> refreshToken_via perform w (without_token s) = (Ok (), s')
        | Throw e \<Rightarrow> \<exists>e'. e = Error (''Refresh Token could not be used to get a new access token. '' @ err_string e') \<and>
            refreshToken_via perform w (without_token s) = (Throw e', s')
        | OutOfFuel \<Rightarrow> refreshToken_via perform w (without_token s) = (OutOfFuel, s'))
    | Refused \<Rightarrow> (\<exists>pre post. r = Throw (Error (''Wyze API '' @ pre @ js_String (answer_code result) @ post))) \<and> s' = s"
proof (cases "nullish (attr result ''data'') \<or> \<not> answer_ok result \<and> (\<nexists>m. error_message (attr result ''data'') = JStr m)")
  case True
  from handleApiResponse_malformed [OF this, of perform w url data s] obtain m
    where "handleApiResponse perform w result url data s = (Throw (TypeError m), s)" by blast
  moreover have "answer_class result = Malformed" using True by (auto simp: answer_class_def is_text_iff)
  ultimately show ?thesis using assms by simp
next
  case False
  then have data: "\<not> nullish (attr result ''data'')" by simp
  show ?thesis
  proof (cases "answer_ok result")
    case True
    then show ?thesis
      using assms data handleApiResponse_ok [OF data True, of perform w url data s] by (auto simp: answer_class_def accepts_def spread_def)
  next
    case failed: False
    then obtain m where m: "error_message (attr result ''data'') = JStr m" using False by blast

    have says: "says result ts = list_ex (js_includes (toLowerCase m)) ts" for ts by (simp add: says_def m)
    have expired: "token_expired result \<longleftrightarrow> answer_code result = JNum 2001 \<or> says result [''accesstokenerror'', ''access token is error'']"
      using failed by (simp add: token_expired_def isAccessTokenError_def lower_of_def m says)
    note run = assms [unfolded handleApiResponse_cases [OF data m]]
    show ?thesis
    proof (cases "answer_class result")
      case Expired
      then have "handleAccessTokenError perform w result (JStr m) (answer_code result) s = (r, s')"
        using run failed data m by (simp add: answer_class_def is_text_iff says expired split: if_splits)
      from handleAccessTokenError_result [OF this] show ?thesis
        using Expired by (cases r) (auto simp: asks_retry_def dest: refreshToken_on_file)
    next
      case Refused
      then have refused: "s' = s" "r = Throw (Error (if answer_code result \<in> {JNum 1001, JNum 1004}
            then ''Wyze API Bad Request: Check your request parameters - '' @
              stringify (JObj [(''code'', answer_code result), (''message'', JStr m), (''url'', JStr url), (''requestBody'', data)])
            else ''Wyze API Error ('' @ js_String (answer_code result) @ '') - '' @ m))"
        using run failed data m
        by (auto simp: answer_class_def is_text_iff says expired simp del: stringify.simps split: if_splits)
      then show ?thesis
        using Refused refusal_names_code [of "answer_code result" "[(''message'', JStr m), (''url'', JStr url), (''requestBody'', data)]" m]
        by (auto simp del: stringify.simps)
    qed (use run failed data m in \<open>auto simp: answer_class_def is_text_iff says expired asks_retry_def spread_def without_token_def split: if_splits\<close>)
  qed
qed

theorem handleApiResponse_contract_witness:
  "\<exists>v. handleApiResponse (performRequest 0) (demo (answering [])) (JObj [(''data'', JObj [(''code'', JNum 3044), (''msg'', JStr ''slow'')])])
      ''/x'' JNull (demo_world ''t'') = (Ok v, demo_world ''t'') \<and>
    asks_retry (JObj [(''data'', JObj [(''code'', JNum 3044), (''msg'', JStr ''slow'')])]) 605000 v"
proof -
  let ?a = "JObj [(''data'', JObj [(''code'', JNum 3044), (''msg'', JStr ''slow'')])]"
  obtain r s' where run: "handleApiResponse (performRequest 0) (demo (answering [])) ?a ''/x'' JNull (demo_world ''t'') = (r, s')"
    by fastforce
  have "answer_class ?a = RateLimited" by code_simp
  with handleApiResponse_contract [OF run] show ?thesis using run by auto
qed

section \<open>Termination of renewal\<close>

text \<open>Answers to the renewal request that do not themselves say that the token is rejected:
  what keeps the renewal from nesting.\<close>

definition renewal_url :: string where
  "renewal_url = ''app/user/refresh_token''"

definition renewal_answers :: "('a) wyze_scheme \<Rightarrow> bool" where
  "renewal_answers w =
     (\<forall>t r v. req_url r = JStr renewal_url \<longrightarrow> axios w t r = Inr v \<longrightarrow> \<not> token_expired v)"

lemma handleApiResponse_not_expired:
  assumes "\<not> token_expired result"
  shows "handleApiResponse perform w result url data = handleApiResponse perform' w result url data"
  using assms
  by (auto simp: handleApiResponse_def member_def run_simps lift_err_def fun_eq_iff Let_def
      token_expired_def answer_ok_def answer_code_def split: sum.splits)

lemma merge_nil: "merge (JObj kvs) (JObj []) = JObj (aspread [] kvs)"
  by (simp add: merge_def spread_def)

definition post_request :: "('a) wyze_scheme \<Rightarrow> string \<Rightarrow> jsval \<Rightarrow> http_req" where
  "post_request w url data =
     \<lparr>req_method = JStr ''POST'', req_url = JStr url, req_baseURL = apiBaseUrl w, req_data = data,
      req_params = JUndef, req_headers = JUndef\<rparr>"

lemma request_of_post:
  "request_of (merge (JObj [(''method'', JStr ''POST''), (''url'', JStr url), (''data'', data),
     (''baseURL'', apiBaseUrl w)]) (JObj [])) = post_request w url data"
  by (simp add: merge_nil request_of_def post_request_def)

lemma performRequest_post:
  "performRequest (Suc n) w url data (JObj []) =
     await (axios_request w (post_request w url data)) (\<lambda>result.
     await (logApiResponse w result url) (\<lambda>_.
     await (checkRateLimit w (attr result ''headers'')) (\<lambda>_.
       handleApiResponse (performRequest n) w result url data)))"
  by (simp add: request_of_post)

text \<open>Two actions that agree except for what never happens.\<close>

lemma await_cong_val:
  assumes "\<And>s v s'. m s = (Ok v, s') \<Longrightarrow> f v = g v"
  shows "await m f = await m g"
  using assms by (auto simp: await_def fun_eq_iff split: prod.splits res.splits)

lemma axios_value: "axios_request w r s = (Ok v, s') \<Longrightarrow> axios w (ticks s) r = Inr v"
  by (auto simp: axios_request_def split: sum.splits)

text \<open>A renewal request is performed as if no request could nest in it.\<close>

definition idle :: "'a perform" where
  "idle = (\<lambda>_ _ _ _. ret JUndef)"

lemma renewal_request_flat:
  assumes "renewal_answers w"
  shows "performRequest (Suc n) w renewal_url data (JObj []) =
     await (axios_request w (post_request w renewal_url data)) (\<lambda>result.
     await (logApiResponse w result renewal_url) (\<lambda>_.
     await (checkRateLimit w (attr result ''headers'')) (\<lambda>_.
       handleApiResponse idle w result renewal_url data)))"
  unfolding performRequest_post
proof (rule await_cong_val)
  fix s v s'
  assume "axios_request w (post_request w renewal_url data) s = (Ok v, s')"
  then have "axios w (ticks s) (post_request w renewal_url data) = Inr v"
    by (rule axios_value)
  moreover have "req_url (post_request w renewal_url data) = JStr renewal_url"
    by (simp add: post_request_def)
  ultimately have "\<not> token_expired v"
    using assms unfolding renewal_answers_def by blast
  then show "await (logApiResponse w v renewal_url) (\<lambda>_. await (checkRateLimit w (attr v ''headers''))
        (\<lambda>_. handleApiResponse (performRequest n) w v renewal_url data)) =
      await (logApiResponse w v renewal_url) (\<lambda>_. await (checkRateLimit w (attr v ''headers''))
        (\<lambda>_. handleApiResponse idle w v renewal_url data))"
    by (simp add: handleApiResponse_not_expired [of v "performRequest n" w renewal_url data idle])
qed

section \<open>Actions within a budget of requests\<close>

primrec is_http :: "event \<Rightarrow> bool" where
  "is_http (EHttp r) = True"
| "is_http (ESleep t) = False"
| "is_http (EWrite p c) = False"
| "is_http (EUnhandled e) = False"

definition http_count :: "world \<Rightarrow> nat" where
  "http_count s = length (filter is_http (trace s))"

text \<open>An action is within a budget when, started in a world whose debounce is in order and
  as long as concurrent activity keeps it so, it never runs out of fuel and issues at most
  that many HTTP requests.\<close>

definition budget :: "('a) wyze_scheme \<Rightarrow> nat \<Rightarrow> 'b action \<Rightarrow> bool" where
  "budget w k m = (rely_debounce w \<longrightarrow> (\<forall>s. debounce_ok (sess s) \<longrightarrow>
     fst (m s) \<noteq> OutOfFuel \<and> http_count (snd (m s)) \<le> http_count s + k))"

lemma budgetI:
  "(\<And>s. rely_debounce w \<Longrightarrow> debounce_ok (sess s) \<Longrightarrow>
     fst (m s) \<noteq> OutOfFuel \<and> http_count (snd (m s)) \<le> http_count s + k) \<Longrightarrow> budget w k m"
  by (simp add: budget_def)

lemma budgetD:
  assumes "budget w k m" and "rely_debounce w" and "debounce_ok (sess s)" and "m s = (r, s')"
  shows "r \<noteq> OutOfFuel" and "http_count s' \<le> http_count s + k"
  using assms unfolding budget_def by (metis fst_conv, metis snd_conv)

lemma budget_mono: "budget w j m \<Longrightarrow> j \<le> k \<Longrightarrow> budget w k m"
  unfolding budget_def by fastforce

lemma budget_max: "budget w j m \<Longrightarrow> budget w (max j k) m" "budget w k m \<Longrightarrow> budget w (max j k) m"
  by (erule budget_mono, simp)+

named_theorems budget_intros \<open>rules for the budgets of actions\<close>

lemma budget_simple [budget_intros]:
  "budget w 0 (ret v)" "budget w 0 (throw e)" "budget w 0 (lift_err r)" "budget w 0 (this_get f)"
  "budget w 0 (this_set g)" "budget w 0 Date_now"
  "budget w 0 (set_timeout w d)" "budget w 0 (sleepSeconds w k)" "budget w 0 (sleepMilliSecounds w d)"
  "budget w 0 (readFile w p)" "budget w 0 (writeFile w p c)"
  "budget w 0 (log_response m)" "budget w 0 (emit (EUnhandled err))"
  "budget w 1 (emit (EHttp q))" "budget w 1 (axios_request w q)"
  by (auto simp: budget_def run_simps lift_err_def axios_request_def set_timeout_def sleepSeconds_def
      sleepMilliSecounds_def readFile_def writeFile_def http_count_def split: sum.splits option.splits)

lemma budget_await [budget_intros]:
  assumes "keeps (debounce_kept w) m" and "budget w j m" and "\<And>v. budget w k (f v)"
  shows "budget w (j + k) (await m f)"
proof (rule budgetI)
  fix s :: world
  assume rely: "rely_debounce w" and ok: "debounce_ok (sess s)"
  obtain r s' where m: "m s = (r, s')" by fastforce
  have ok': "debounce_ok (sess s')"
    using keepsD [OF assms(1) m] rely ok by (simp add: debounce_kept_def)
  note m_budget = budgetD [OF assms(2) rely ok m]
  show "fst (await m f s) \<noteq> OutOfFuel \<and> http_count (snd (await m f s)) \<le> http_count s + (j + k)"
  proof (cases r)
    case (Ok v)
    obtain r2 s2 where f: "f v s' = (r2, s2)" by fastforce
    then show ?thesis
      using budgetD [OF assms(3) rely ok' f] m_budget m Ok by (simp add: await_def)
  qed (use m_budget m in \<open>auto simp: await_def\<close>)
qed

lemma budget_try_catch [budget_intros]:
  assumes "keeps (debounce_kept w) m" and "budget w j m" and "\<And>e. budget w k (h e)"
  shows "budget w (j + k) (try_catch m h)"
proof (rule budgetI)
  fix s :: world
  assume rely: "rely_debounce w" and ok: "debounce_ok (sess s)"
  obtain r s' where m: "m s = (r, s')" by fastforce
  have ok': "debounce_ok (sess s')"
    using keepsD [OF assms(1) m] rely ok by (simp add: debounce_kept_def)
  note m_budget = budgetD [OF assms(2) rely ok m]
  show "fst (try_catch m h s) \<noteq> OutOfFuel \<and> http_count (snd (try_catch m h s)) \<le> http_count s + (j + k)"
  proof (cases r)
    case (Throw e)
    obtain r2 s2 where f: "h e s' = (r2, s2)" by fastforce
    then show ?thesis
      using budgetD [OF assms(3) rely ok' f] m_budget m Throw by (simp add: try_catch_def)
  qed (use m_budget m in \<open>auto simp: try_catch_def\<close>)
qed

lemma budget_if [budget_intros]:
  "budget w j m \<Longrightarrow> budget w k m' \<Longrightarrow> budget w (max j k) (if b then m else m')"
  by (simp add: budget_max)

lemma budget_case_option [budget_intros]:
  "budget w j m \<Longrightarrow> (\<And>x. budget w k (f x)) \<Longrightarrow>
   budget w (max j k) (case v of None \<Rightarrow> m | Some x \<Rightarrow> f x)"
  by (cases v) (simp_all add: budget_max)

lemma budget_case_prod [budget_intros]:
  "(\<And>x y. budget w k (f x y)) \<Longrightarrow> budget w k (case v of (x, y) \<Rightarrow> f x y)"
  by (cases v) simp

lemma budget_Let [budget_intros]: "(\<And>x. budget w k (f x)) \<Longrightarrow> budget w k (let x = v in f x)"
  by simp

lemma budget_case_num [budget_intros]:
  "(\<And>t. budget w j (f t)) \<Longrightarrow> budget w k m \<Longrightarrow> budget w (max j k) (case v of JNum t \<Rightarrow> f t | _ \<Rightarrow> m)"
  by (cases v) (simp_all add: budget_max)

lemma budget_case_str [budget_intros]:
  "(\<And>t. budget w j (f t)) \<Longrightarrow> budget w k m \<Longrightarrow> budget w (max j k) (case v of JStr t \<Rightarrow> f t | _ \<Rightarrow> m)"
  by (cases v) (simp_all add: budget_max)

lemma budget_persist_loop [budget_intros]: "budget w 0 (persist_loop k w p c)"
proof (induction k)
  case (Suc k)
  have "budget w (0 + max (0 + 0) 0) (persist_loop (Suc k) w p c)"
    unfolding persist_loop.simps by (intro budget_intros frame_intros Suc)
  then show ?case by simp
qed (simp add: budget_intros)

lemma budget_tokens [budget_intros]:
  "budget w 0 (persistTokens w)" "budget w 0 (updateTokens w t)" "budget w 0 (loadPersistedTokens w)"
proof -
  show persist: "budget w 0 (persistTokens w)"
    unfolding persistTokens_def
    by (rule budget_mono, (rule budget_intros frame_intros)+) simp
  show "budget w 0 (updateTokens w t)"
    unfolding updateTokens_def
    by (rule budget_mono, (rule budget_intros frame_intros persist)+) simp
  show "budget w 0 (loadPersistedTokens w)"
    unfolding loadPersistedTokens_def
    by (rule budget_mono, (rule budget_intros frame_intros)+) simp
qed

lemma budget_parts [budget_intros]:
  "budget w 0 (getRequestData w d)" "budget w 0 (logApiResponse w r u)" "budget w 0 (checkRateLimit w h)"
  "budget w 0 (handleRateLimitError r m c)" "budget w 0 (login_request w)" "budget w 1 (detached_login w)"
  "budget w 0 (raise_debounce now)" "budget w 0 (resetDebounceIfNeeded now)"
  unfolding getRequestData_def logApiResponse_def checkRateLimit_def handleRateLimitError_def login_request_def
    detached_login_def raise_debounce_def resetDebounceIfNeeded_def
  by (rule budget_mono, (rule budget_intros frame_intros)+, simp)+

section \<open>The budget of the pipeline\<close>

lemma keeps_idle [frame_intros]: "keeps (debounce_kept w) (idle w u d c)"
  by (simp add: idle_def deb.keeps_ret)

lemma budget_refresh_loop:
  assumes perform: "\<And>d. budget w j (perform w renewal_url d (JObj []))"
    and keeps: "\<And>u d c. keeps (debounce_kept w) (perform w u d c)"
  shows "budget w (k * j) (refresh_loop k perform w data)"
proof (induction k)
  case (Suc k)
  note perform' = perform [unfolded renewal_url_def]
  note loop = deb.keeps_refresh_loop [of w perform, OF keeps]
  show ?case
    unfolding refresh_loop.simps
    by (rule budget_mono, (rule perform' keeps loop Suc budget_intros frame_intros)+) simp
qed (simp add: budget_intros)

lemma budget_handleAccessTokenError:
  assumes perform: "\<And>d. budget w j (perform w renewal_url d (JObj []))"
    and keeps: "\<And>u d c. keeps (debounce_kept w) (perform w u d c)"
  shows "budget w (2 * j) (handleAccessTokenError perform w r m c)"
proof -
  note loop = budget_refresh_loop [of w j perform, OF perform keeps] deb.keeps_refresh_loop [of w perform, OF keeps]
  show ?thesis
    unfolding handleAccessTokenError_def refreshToken_via_def
    by (rule budget_mono, (rule loop budget_intros frame_intros)+) simp
qed

lemma budget_handleApiResponse:
  assumes renew: "\<And>r m c. budget w k (handleAccessTokenError perform w r m c)"
    and keeps: "\<And>u d c. keeps (debounce_kept w) (perform w u d c)"
  shows "budget w k (handleApiResponse perform w r u d)"
proof -
  note keeps' = deb.keeps_handleAccessTokenError [of w perform, OF keeps]
  show ?thesis
    unfolding handleApiResponse_def
    by (rule budget_mono, (rule renew keeps' budget_intros frame_intros)+) simp
qed

lemma budget_renewal:
  assumes "renewal_answers w"
  shows "budget w 1 (performRequest (Suc n) w renewal_url data (JObj []))"
proof -
  have "budget w (2 * 0) (handleAccessTokenError idle w r m c)" for r m c
    by (rule budget_handleAccessTokenError) (simp_all add: idle_def budget_intros deb.keeps_ret)
  then have handler: "budget w 0 (handleApiResponse idle w r u d)" for r u d
    by (intro budget_handleApiResponse frame_intros) simp
  show ?thesis
    unfolding renewal_request_flat [OF assms]
    by (rule budget_mono, (rule handler budget_intros frame_intros)+) simp
qed

lemma budget_performRequest [budget_intros]:
  assumes "renewal_answers w" and "2 \<le> n"
  shows "budget w 3 (performRequest n w url data config)"
proof -
  obtain m where n: "n = Suc (Suc m)" using assms(2) by (metis Suc_le_D numeral_2_eq_2 le_Suc_eq)
  have "budget w (2 * 1) (handleAccessTokenError (performRequest (Suc m)) w r u c)" for r u c
    by (intro budget_handleAccessTokenError budget_renewal assms(1) frame_intros)
  then have handler: "budget w 2 (handleApiResponse (performRequest (Suc m)) w r u d)" for r u d
    by (intro budget_handleApiResponse frame_intros) simp
  show ?thesis
    unfolding n performRequest.simps(2) [of "Suc m"]
    by (rule budget_mono, (rule handler budget_intros frame_intros)+) simp
qed

lemma budget_wait_loop:
  "300000 \<le> t + 2000 * int k \<Longrightarrow> budget w 0 (wait_loop (Suc k) w t)"
proof (induction k arbitrary: t)
  case 0
  show ?case
    using 0 debounce_ok_bounds by (intro budgetI) (fastforce simp: run_simps)
next
  case (Suc k)
  then have loop: "budget w 0 (wait_loop (Suc k) w (t + 2000))" by simp
  show ?case
    unfolding wait_loop.simps(2) [of "Suc k"]
    by (rule budget_mono, (rule loop budget_intros frame_intros)+) simp
qed

text \<open>The fuel that is always enough: two nested requests, and 151 rounds of two seconds to
  wait out a debounce of at most five minutes.\<close>

lemma budget_login [budget_intros]:
  assumes "renewal_answers w" and "151 \<le> fuel w"
  shows "budget w 3 (login w)"
proof -
  have fuel: "2 \<le> fuel w" using assms(2) by simp
  show ?thesis
    unfolding login_def performLoginRequest_def
    by (rule budget_mono, (rule assms(1) fuel budget_intros frame_intros)+) simp
qed

lemma budget_waitForDebounceClearance [budget_intros]:
  assumes "151 \<le> fuel w"
  shows "budget w 0 (waitForDebounceClearance w)"
proof -
  obtain k where "fuel w = Suc k" "150 \<le> k" using assms by (cases "fuel w") auto
  then show ?thesis
    unfolding waitForDebounceClearance_def by (simp only: budget_wait_loop)
qed

lemma budget_maybeLogin [budget_intros]:
  assumes "renewal_answers w" and "151 \<le> fuel w"
  shows "budget w 3 (maybeLogin w)"
proof -
  have "keeps (debounce_kept w) (waitForDebounceClearance w)" "keeps (debounce_kept w) (resetDebounceIfNeeded now)" for now
    unfolding waitForDebounceClearance_def resetDebounceIfNeeded_def by (intro frame_intros)+
  then show ?thesis
    unfolding maybeLogin_def tryLogin_def
    by - (rule budget_mono, (rule assms budget_intros frame_intros | assumption)+, simp)
qed

lemma budget_handleRetry [budget_intros]:
  assumes "renewal_answers w" and "151 \<le> fuel w"
  shows "budget w 6 (handleRetry w url data error)"
proof -
  have fuel: "2 \<le> fuel w" using assms(2) by simp
  show ?thesis
    unfolding handleRetry_def
    by (rule budget_mono, (rule assms fuel budget_intros frame_intros)+) simp
qed

lemma budget_request:
  assumes "renewal_answers w" and "151 \<le> fuel w"
  shows "budget w 12 (request w url data)"
proof -
  have fuel: "2 \<le> fuel w" using assms(2) by simp
  show ?thesis
    unfolding request_def handleRequest_def
    by (rule budget_mono, (rule assms fuel budget_intros frame_intros)+) simp
qed

text \<open>C1. One call of \<open>request\<close> always settles, and its cost is bounded: if the service does
  not reject the token of the renewal request itself, then whatever it answers, whatever
  fails, and however other calls of the instance interleave, the call resolves or rejects
  after at most twelve HTTP requests (login, the original request and one retry, each with
  at most one renewal of two attempts), and leaves the login debounce a value between one
  second and five minutes.\<close>

theorem request_settles:
  assumes "renewal_answers w" and "151 \<le> fuel w" and "rely_debounce w" and "debounce_ok (sess s)"
    and "request w url data s = (r, s')"
  shows "((\<exists>v. r = Ok v) \<or> (\<exists>e. r = Throw e)) \<and> http_count s' \<le> http_count s + 12 \<and> debounce_ok (sess s')"
proof -
  have "r \<noteq> OutOfFuel" "http_count s' \<le> http_count s + 12"
    using budgetD [OF budget_request [OF assms(1,2)] assms(3,4,5)] .
  moreover have "debounce_kept w s s'" by (rule keepsD [OF deb.keeps_request assms(5)])
  then have "debounce_ok (sess s')" using assms(3,4) by (simp add: debounce_kept_def)
  ultimately show ?thesis by (cases r) auto
qed

theorem request_settles_witness:
  "\<exists>r s'. request (demo (answering [(''code'', JNum 1)])) ''/x'' (JObj []) (demo_world ''t'') = (r, s') \<and>
     ((\<exists>v. r = Ok v) \<or> (\<exists>e. r = Throw e)) \<and> http_count s' \<le> http_count (demo_world ''t'') + 12 \<and> debounce_ok (sess s')"
proof -
  have "renewal_answers (demo (answering [(''code'', JNum 1)]))"
    by (simp add: renewal_answers_def answering_def token_expired_def answer_ok_def answer_code_def)
  moreover obtain r s' where run: "request (demo (answering [(''code'', JNum 1)])) ''/x'' (JObj []) (demo_world ''t'') = (r, s')"
    by fastforce
  ultimately show ?thesis
    using request_settles [OF _ _ _ _ run] by auto
qed

section \<open>Renewal without a bound\<close>

primrec is_sleep :: "event \<Rightarrow> bool" where
  "is_sleep (ESleep t) = True"
| "is_sleep (EHttp r) = False"
| "is_sleep (EWrite p c) = False"
| "is_sleep (EUnhandled e) = False"

definition expired_answer :: jsval where
  "expired_answer = JObj [(''data'', JObj [(''code'', JNum 2001)])]"

lemma expired_answer_class:
  "handleApiResponse perform w expired_answer url data s =
     handleAccessTokenError perform w expired_answer (JStr ''Unknown Wyze API Error'') (JNum 2001) s"
proof -
  have "isInvalidCredentialsError (JStr ''Unknown Wyze API Error'') = Inr False" by code_simp
  then show ?thesis
    by (simp add: handleApiResponse_def expired_answer_def error_message_def js_or_def isRateLimitError_def
        isAccessTokenError_def)
qed

lemma renewal_nests:
  assumes "\<And>d s. fst (perform w renewal_url d (JObj []) s) = OutOfFuel"
  shows "\<exists>d s2. handleApiResponse perform w expired_answer url data s =
     (OutOfFuel, snd (perform w renewal_url d (JObj []) s2)) \<and> trace s2 = trace s"
proof -
  have loop: "refresh_loop (Suc k) perform w d s2 = (OutOfFuel, snd (perform w renewal_url d (JObj []) s2))" for k d s2
    using assms [of d s2]
    by (cases "perform w renewal_url d (JObj []) s2") (simp add: run_simps renewal_url_def)
  show ?thesis
    unfolding expired_answer_class handleAccessTokenError_def refreshToken_via_def getRequestData_def numeral_2_eq_2
    by (simp add: run_simps loop del: refresh_loop.simps) (rule exI, rule exI, rule conjI, rule refl, simp)
qed

text \<open>C7. The hypothesis on renewal cannot be dropped: against a service that answers every
  request with code 2001 the code never settles. However deep the nesting is allowed to be,
  it is used up, with one more HTTP request per level and not a single pause.\<close>

theorem renewal_unbounded:
  assumes "\<And>t r. axios w t r = Inr expired_answer"
  shows "fst (performRequest n w url data config s) = OutOfFuel \<and>
    http_count (snd (performRequest n w url data config s)) = http_count s + n \<and>
    filter is_sleep (trace (snd (performRequest n w url data config s))) = filter is_sleep (trace s)"
proof (induction n arbitrary: url data config s)
  case 0
  show ?case by (simp add: out_of_fuel_def)
next
  case (Suc n)
  define request where "request = request_of (merge (JObj [(''method'', JStr ''POST''), (''url'', JStr url),
     (''data'', data), (''baseURL'', apiBaseUrl w)]) config)"
  let ?s1 = "snd (logApiResponse w expired_answer url (await_point w (s\<lparr>trace := trace s @ [EHttp request]\<rparr>)))"
  have log: "logApiResponse w expired_answer url s = (Ok (), snd (logApiResponse w expired_answer url s))" for s
    by (simp add: logApiResponse_def run_simps)
  have quiet: "checkRateLimit w (attr expired_answer ''headers'') = ret ()"
    by (simp add: checkRateLimit_def expired_answer_def)
  have trace: "trace ?s1 = trace s @ [EHttp request]"
    by (simp add: logApiResponse_def run_simps)
  have "performRequest (Suc n) w url data config s = handleApiResponse (performRequest n) w expired_answer url data ?s1"
    by (simp add: axios_request_def await_def assms request_def [symmetric])
      (subst log, simp add: quiet ret_def)
  moreover obtain d s2 where "handleApiResponse (performRequest n) w expired_answer url data ?s1 =
      (OutOfFuel, snd (performRequest n w renewal_url d (JObj []) s2))" "trace s2 = trace ?s1"
    using renewal_nests [of "performRequest n" w url data ?s1] Suc by blast
  ultimately show ?case
    using Suc [of renewal_url d "JObj []" s2] trace by (simp add: http_count_def)
qed

theorem renewal_unbounded_witness:
  "fst (performRequest 200 (demo (\<lambda>_ _. Inr expired_answer)) ''/x'' JNull (JObj []) (demo_world ''t'')) = OutOfFuel \<and>
   http_count (snd (performRequest 200 (demo (\<lambda>_ _. Inr expired_answer)) ''/x'' JNull (JObj []) (demo_world ''t''))) =
     http_count (demo_world ''t'') + 200"
  using renewal_unbounded [of "demo (\<lambda>_ _. Inr expired_answer)" 200 "''/x''" JNull "JObj []" "demo_world ''t''"] by simp

section \<open>Recovering from an expired token\<close>

text \<open>What \<open>getRequestData\<close> builds.\<close>

definition stamped :: "('a) wyze_scheme \<Rightarrow> jsval \<Rightarrow> int \<Rightarrow> jsval \<Rightarrow> jsval" where
  "stamped w token ts data = merge (JObj
     [(''access_token'', token), (''app_name'', appName w), (''app_ver'', appVer w),
      (''app_version'', appVersion w), (''phone_id'', phoneId w), (''phone_system_type'', JStr ''1''),
      (''sc'', sc w), (''sv'', sv w), (''ts'', JNum ts)]) data"

lemma getRequestData_run [simp]:
  "getRequestData w data s = (Ok (stamped w (access_token (sess s)) (clock s) data), s)"
  by (simp add: getRequestData_def stamped_def run_simps)

lemma await_run: "m s = (Ok v, s') \<Longrightarrow> await m f s = f v s'"
  by (simp add: await_def)

lemma maybeLogin_token: "truthy (access_token (sess s)) \<Longrightarrow> maybeLogin w s = (Ok (), s)"
  by (simp add: maybeLogin_def run_simps)

text \<open>The world after a request, once its answer is there.\<close>

definition sent :: "('a) wyze_scheme \<Rightarrow> http_req \<Rightarrow> world \<Rightarrow> world" where
  "sent w q s = await_point w (s\<lparr>trace := trace s @ [EHttp q]\<rparr>)"

lemma sent_simps [simp]:
  "trace (sent w q s) = trace s @ [EHttp q]" "ticks (sent w q s) = Suc (ticks s)" "files (sent w q s) = files s"
  by (simp_all add: sent_def)

lemma sent_alone: "alone w \<Longrightarrow> sess (sent w q s) = sess s"
  by (simp add: sent_def await_alone)

text \<open>And once it is logged, when no dump of it was asked for.\<close>

definition noted :: "('a) wyze_scheme \<Rightarrow> string \<Rightarrow> jsval \<Rightarrow> world \<Rightarrow> world" where
  "noted w url answer s =
     (if apiLogEnabled w then s\<lparr>responseLog := responseLog s @ [response_line url answer]\<rparr> else s)"

lemma noted_simps [simp]:
  "trace (noted w u a s) = trace s" "ticks (noted w u a s) = ticks s" "files (noted w u a s) = files s"
  "clock (noted w u a s) = clock s" "sess (noted w u a s) = sess s" "draws (noted w u a s) = draws s"
  by (simp_all add: noted_def)

definition received :: "('a) wyze_scheme \<Rightarrow> string \<Rightarrow> jsval \<Rightarrow> jsval \<Rightarrow> world \<Rightarrow> world" where
  "received w url d answer s = noted w url answer (sent w (post_request w url d) s)"

lemma received_simps [simp]:
  "trace (received w u d a s) = trace s @ [EHttp (post_request w u d)]" "ticks (received w u d a s) = Suc (ticks s)"
  "files (received w u d a s) = files s"
  by (simp_all add: received_def)

lemma received_alone: "alone w \<Longrightarrow> sess (received w u d a s) = sess s"
  by (simp add: received_def sent_alone)

lemma performRequest_run:
  assumes "alone w" and "axios w (ticks s) (post_request w url d) = Inr answer"
    and "nullish (attr answer ''headers'')" and "\<not> dumpData (sess s)"
  shows "performRequest (Suc n) w url d (JObj []) s =
     handleApiResponse (performRequest n) w answer url d (received w url d answer s)"
  unfolding performRequest_post
  using assms await_alone [OF assms(1)]
  by (simp add: await_def axios_request_def logApiResponse_def log_response_def checkRateLimit_def this_get_def ret_def
      sent_def received_def noted_def)

definition renewed_answer :: "jsval \<Rightarrow> jsval \<Rightarrow> jsval" where
  "renewed_answer a b = JObj [(''data'', JObj [(''code'', JNum 1),
     (''data'', JObj [(''access_token'', a), (''refresh_token'', b)])])]"

definition with_tokens :: "jsval \<Rightarrow> jsval \<Rightarrow> world \<Rightarrow> world" where
  "with_tokens a b s = s\<lparr>sess := (sess s)\<lparr>access_token := a, refresh_token := b\<rparr>\<rparr>"

definition written :: "('a) wyze_scheme \<Rightarrow> string \<Rightarrow> string \<Rightarrow> world \<Rightarrow> world" where
  "written w p c s = await_point w (s\<lparr>files := (files s)(p := Some c), trace := trace s @ [EWrite p c]\<rparr>)"

lemma updateTokens_run:
  assumes "tokenPersistPath w = Inr p" and "fs_write_fail w (ticks s) = None"
  shows "updateTokens w (JObj [(''access_token'', a), (''refresh_token'', b)]) s =
    (Ok (), written w p (token_file a b) (with_tokens a b s))"
  using assms
  by (simp add: updateTokens_def persistTokens_def numeral_2_eq_2 writeFile_def run_simps with_tokens_def
      token_file_def written_def)

lemma refreshToken_via_run:
  assumes w: "alone w" and axios: "\<And>q. axios w (ticks s) q = Inr (renewed_answer a b)"
    and quiet: "\<not> dumpData (sess s)" and path: "tokenPersistPath w = Inr p"
    and disk: "fs_write_fail w (Suc (ticks s)) = None"
  shows "refreshToken_via (performRequest (Suc n)) w s =
    (Ok (), written w p (token_file a b) (with_tokens a b (received w renewal_url
       (spread (stamped w (access_token (sess s)) (clock s) (JObj [])) [(''refresh_token'', refresh_token (sess s))])
       (renewed_answer a b) s)))"
proof -
  define d where "d = spread (stamped w (access_token (sess s)) (clock s) (JObj [])) [(''refresh_token'', refresh_token (sess s))]"
  let ?t = "received w renewal_url d (renewed_answer a b) s" and ?v = "spread (renewed_answer a b)
     [(''ok'', JBool True), (''data'', attr (renewed_answer a b) ''data'')]"
  have "performRequest (Suc n) w renewal_url d (JObj []) s =
      handleApiResponse (performRequest n) w (renewed_answer a b) renewal_url d ?t"
    by (rule performRequest_run) (simp_all add: w axios quiet renewed_answer_def)
  also have "\<dots> = (Ok ?v, ?t)"
    by (rule handleApiResponse_ok) (simp_all add: renewed_answer_def answer_ok_def answer_code_def)
  finally have request: "performRequest (Suc n) w ''app/user/refresh_token'' d (JObj []) s = (Ok ?v, ?t)"
    by (simp only: renewal_url_def)
  have v: "truthy (attr ?v ''ok'')" "attr (attr ?v ''data'') ''data'' = JObj [(''access_token'', a), (''refresh_token'', b)]"
    by (simp_all add: spread_def renewed_answer_def)
  show ?thesis
    unfolding refreshToken_via_def numeral_2_eq_2
    using updateTokens_run [OF path, of ?t a b] disk
    by (simp add: await_def this_get_def try_catch_def request v d_def [symmetric] del: performRequest.simps)
qed

lemma clock_after [simp]:
  "clock s \<le> clock (sent w q s)" "clock s \<le> clock (written w p c s)" "clock s \<le> clock (received w u d v s)"
  by (simp_all add: sent_def written_def received_def await_point_def)

lemma sess_written: "alone w \<Longrightarrow> sess (written w p c s) = sess s"
  by (simp add: written_def await_alone)

lemma written_simps [simp]:
  "trace (written w p c s) = trace s @ [EWrite p c]" "ticks (written w p c s) = Suc (ticks s)"
  "files (written w p c s) = (files s)(p := Some c)"
  by (simp_all add: written_def)

lemma with_tokens_simps [simp]:
  "trace (with_tokens a b s) = trace s" "ticks (with_tokens a b s) = ticks s" "clock (with_tokens a b s) = clock s"
  "files (with_tokens a b s) = files s" "access_token (sess (with_tokens a b s)) = a"
  "refresh_token (sess (with_tokens a b s)) = b" "dumpData (sess (with_tokens a b s)) = dumpData (sess s)"
  by (simp_all add: with_tokens_def)

text \<open>The world when a rejected token has been renewed, from the world after the rejection.\<close>

definition renewal_data :: "('a) wyze_scheme \<Rightarrow> world \<Rightarrow> jsval" where
  "renewal_data w s = spread (stamped w (JStr '''') (clock s) (JObj [])) [(''refresh_token'', refresh_token (sess s))]"

definition renewed :: "('a) wyze_scheme \<Rightarrow> string \<Rightarrow> jsval \<Rightarrow> jsval \<Rightarrow> world \<Rightarrow> world" where
  "renewed w p a b s = written w p (token_file a b) (with_tokens a b (received w renewal_url (renewal_data w s)
     (renewed_answer a b) (s\<lparr>sess := (sess s)\<lparr>access_token := JStr ''''\<rparr>\<rparr>)))"

lemma handleAccessTokenError_run:
  assumes "alone w" and "\<And>q. axios w (ticks s) q = Inr (renewed_answer a b)"
    and "\<not> dumpData (sess s)" and "tokenPersistPath w = Inr p"
    and "fs_write_fail w (Suc (ticks s)) = None" and "truthy a"
  shows "\<exists>msg. handleAccessTokenError (performRequest (Suc n)) w result m code s =
    (Ok (spread result [(''ok'', JBool False), (''data'', attr result ''data''),
       (''error'', JObj [(''retryAfter'', JNum (clock (renewed w p a b s))), (''message'', msg), (''code'', code)])]),
     renewed w p a b s)"
proof -
  let ?s = "s\<lparr>sess := (sess s)\<lparr>access_token := JStr ''''\<rparr>\<rparr>"
  have "refreshToken_via (performRequest (Suc n)) w ?s = (Ok (), renewed w p a b s)"
    using refreshToken_via_run [of w ?s a b p n] assms by (simp add: renewed_def renewal_data_def)
  moreover have "access_token (sess (renewed w p a b s)) = a"
    using assms(1) by (simp add: renewed_def sess_written)
  ultimately show ?thesis
    using assms(6) by (auto simp: handleAccessTokenError_def run_simps)
qed

text \<open>C2. An expired token is renewed behind the caller's back: if the service rejects the token
  of a request, renews it, and accepts the new one, then \<open>request\<close> resolves with the answer
  to the retried request. It has sent the request with the old token, the renewal with the
  refresh token, written the new tokens to the file and sent the request again with the new
  token, in this order and with no pause, and the session holds the new tokens.\<close>

theorem expired_token_recovered:
  assumes w: "alone w" "tokenPersistPath w = Inr p" "2 \<le> fuel w"
    and s: "0 < clock s" "truthy (access_token (sess s))" "\<not> dumpData (sess s)"
    and disk: "fs_write_fail w (ticks s + 2) = None"
    and service: "\<And>q. axios w (ticks s) q = Inr expired_answer"
      "\<And>q. axios w (ticks s + 1) q = Inr (renewed_answer a b)" "truthy a"
      "\<And>q. axios w (ticks s + 3) q = Inr answer"
    and answer: "nullish (attr answer ''headers'')" "\<not> nullish (attr answer ''data'')" "answer_ok answer"
  shows "\<exists>s' t1 t2. request w url data s =
       (Ok (spread answer [(''ok'', JBool True), (''data'', attr answer ''data'')]), s') \<and>
     access_token (sess s') = a \<and> refresh_token (sess s') = b \<and> files s' p = Some (token_file a b) \<and>
     trace s' = trace s @
       [EHttp (post_request w url (stamped w (access_token (sess s)) (clock s) data)),
        EHttp (post_request w renewal_url (spread (stamped w (JStr '''') t1 (JObj []))
          [(''refresh_token'', refresh_token (sess s))])),
        EWrite p (token_file a b),
        EHttp (post_request w url (stamped w a t2 data))]"
proof -
  obtain n where fuel: "fuel w = Suc (Suc n)" using w(3) by (metis Suc_le_D numeral_2_eq_2 le_Suc_eq)
  define d1 where "d1 = stamped w (access_token (sess s)) (clock s) data"
  define s1 where "s1 = received w url d1 expired_answer s"
  define s2 where "s2 = renewed w p a b s1"
  define d2 where "d2 = stamped w a (clock s2) data"
  define s3 where "s3 = received w url d2 answer s2"
  define v where "v = spread answer [(''ok'', JBool True), (''data'', attr answer ''data'')]"
  have s1: "sess s1 = sess s" "ticks s1 = ticks s + 1" using w(1) by (simp_all add: s1_def received_alone)
  have s2: "sess s2 = (sess s)\<lparr>access_token := a, refresh_token := b\<rparr>" "ticks s2 = ticks s + 3"
    using w(1) by (simp_all add: s2_def renewed_def sess_written with_tokens_def received_alone s1)
  have "clock s \<le> clock s1" "clock s1 \<le> clock s2"
    by (auto simp: s1_def s2_def renewed_def received_def sent_def written_def await_point_def)
  then have clock2: "0 < clock s2" using s(1) by simp
  have headers: "nullish (attr expired_answer ''headers'')" by (simp add: expired_answer_def)
  obtain msg where first: "performRequest (fuel w) w url d1 (JObj []) s =
      (Ok (spread expired_answer [(''ok'', JBool False), (''data'', attr expired_answer ''data''),
       (''error'', JObj [(''retryAfter'', JNum (clock s2)), (''message'', msg), (''code'', JNum 2001)])]), s2)"
  proof -
    have "performRequest (fuel w) w url d1 (JObj []) s =
        handleAccessTokenError (performRequest (Suc n)) w expired_answer (JStr ''Unknown Wyze API Error'') (JNum 2001) s1"
      using performRequest_run [of w s url d1 expired_answer "Suc n"] w s service
      by (simp add: expired_answer_class headers fuel s1_def del: performRequest.simps)
    then show thesis
      using that handleAccessTokenError_run [of w s1 a b p n expired_answer "JStr ''Unknown Wyze API Error''" "JNum 2001"] w s service disk
      by (auto simp: s1 s2_def [symmetric])
  qed
  have second: "performRequest (fuel w) w url d2 (JObj []) s2 = (Ok v, s3)"
    using performRequest_run [of w s2 url d2 answer "Suc n"] handleApiResponse_ok [OF answer(2,3)] w(1) s(3) service(4)
      answer(1) fuel
    by (simp add: s2 s3_def v_def del: performRequest.simps)
  have "truthy (attr v ''ok'')" by (simp add: v_def spread_def)
  then have retry: "handleRetry w url data (JObj [(''retryAfter'', JNum (clock s2)), (''message'', msg), (''code'', JNum 2001)]) s2 = (Ok v, s3)"
    using service(3) second
    by (simp add: handleRetry_def await_def Date_now_def ret_def maybeLogin_token s2 d2_def)
  have "request w url data s = (Ok v, s3)"
    using retry first clock2 s(2)
    by (simp add: request_def handleRequest_def await_def maybeLogin_token d1_def [symmetric] spread_def expired_answer_def)
  moreover have "sess s3 = sess s2" using w(1) by (simp add: s3_def received_alone)
  moreover have "trace s3 = trace s @ [EHttp (post_request w url d1), EHttp (post_request w renewal_url (renewal_data w s1)),
        EWrite p (token_file a b), EHttp (post_request w url d2)]" "files s3 p = Some (token_file a b)"
    by (simp_all add: s3_def s2_def s1_def renewed_def)
  ultimately show ?thesis
    unfolding v_def d1_def d2_def renewal_data_def using s1 s2 by auto
qed

definition recovering :: "nat \<Rightarrow> http_req \<Rightarrow> err + jsval" where
  "recovering t q = Inr (if t = 0 then expired_answer else if t = 1 then renewed_answer (JStr ''new'') (JStr ''r2'')
     else JObj [(''data'', JObj [(''code'', JStr ''1'')])])"

theorem expired_token_recovered_witness:
  "\<exists>s'. request (demo recovering) ''/x'' (JObj []) (demo_world ''old'') =
       (Ok (JObj [(''data'', JObj [(''code'', JStr ''1'')]), (''ok'', JBool True)]), s') \<and>
     access_token (sess s') = JStr ''new'' \<and> http_count s' = 3"
proof -
  let ?answer = "JObj [(''data'', JObj [(''code'', JStr ''1'')])]"
  have one: "js_Number (JStr ''1'') = Fin 1" by code_simp
  have "\<exists>s' t1 t2. request (demo recovering) ''/x'' (JObj []) (demo_world ''old'') =
       (Ok (spread ?answer [(''ok'', JBool True), (''data'', attr ?answer ''data'')]), s') \<and>
     access_token (sess s') = JStr ''new'' \<and> refresh_token (sess s') = JStr ''r2'' \<and>
     files s' ''wyze-id.json'' = Some (token_file (JStr ''new'') (JStr ''r2'')) \<and>
     trace s' = trace (demo_world ''old'') @
       [EHttp (post_request (demo recovering) ''/x'' (stamped (demo recovering) (access_token (sess (demo_world ''old'')))
          (clock (demo_world ''old'')) (JObj []))),
        EHttp (post_request (demo recovering) renewal_url (spread (stamped (demo recovering) (JStr '''') t1 (JObj []))
          [(''refresh_token'', refresh_token (sess (demo_world ''old'')))])),
        EWrite ''wyze-id.json'' (token_file (JStr ''new'') (JStr ''r2'')),
        EHttp (post_request (demo recovering) ''/x'' (stamped (demo recovering) (JStr ''new'') t2 (JObj [])))]"
    by (rule expired_token_recovered) (simp_all add: alone_def recovering_def answer_ok_def answer_code_def one del: js_Number.simps)
  then show ?thesis by (auto simp: spread_def http_count_def)
qed

section \<open>Debounced logins\<close>

definition rounds :: "int \<Rightarrow> nat" where
  "rounds ms = nat ((ms + 1999) div 2000)"

lemma rounds_step: "0 < ms \<Longrightarrow> rounds ms = Suc (rounds (ms - 2000))"
  by (simp add: rounds_def)

lemma rounds_done: "ms \<le> 0 \<Longrightarrow> rounds ms = 0"
  by (simp add: rounds_def)

lemma wait_loop_run:
  assumes "alone w" and "\<not> truthy (access_token (sess s))"
    and "loginAttemptDebounceMilliseconds (sess s) \<le> t + 2000 * int k"
  shows "\<exists>s'. wait_loop (Suc k) w t s = (Ok (), s') \<and> sess s' = sess s \<and>
    trace s' = trace s @ replicate (rounds (loginAttemptDebounceMilliseconds (sess s) - t)) (ESleep 2000) \<and>
    clock s + 2000 * int (rounds (loginAttemptDebounceMilliseconds (sess s) - t)) \<le> clock s'"
  using assms
proof (induction k arbitrary: t s)
  case 0
  then show ?case by (simp add: run_simps rounds_done)
next
  case (Suc k)
  let ?D = "loginAttemptDebounceMilliseconds (sess s)"
  show ?case
  proof (cases "t < ?D")
    case True
    define s1 where "s1 = snd (sleepSeconds w 2 s)"
    have s1: "sleepSeconds w 2 s = (Ok (), s1)" "sess s1 = sess s" "trace s1 = trace s @ [ESleep 2000]" "clock s + 2000 \<le> clock s1"
      using Suc.prems(1) by (simp_all add: s1_def sleepSeconds_def set_timeout_def await_alone timer_delay_def)
        (simp add: await_point_def)
    obtain s' where "wait_loop (Suc k) w (t + 2000) s1 = (Ok (), s')" "sess s' = sess s"
        "trace s' = trace s1 @ replicate (rounds (?D - (t + 2000))) (ESleep 2000)"
        "clock s1 + 2000 * int (rounds (?D - (t + 2000))) \<le> clock s'"
      using Suc.IH [of s1 "t + 2000"] Suc.prems s1 by auto
    then show ?thesis
      using True Suc.prems(2) s1 rounds_step [of "?D - t"] wait_loop.simps(2) [of "Suc k" w t]
      by (simp add: await_def this_get_def diff_diff_eq del: wait_loop.simps)
  next
    case False
    then show ?thesis by (simp add: run_simps rounds_done)
  qed
qed

text \<open>The trace that a run begins with.\<close>

definition starts_with :: "event list \<Rightarrow> 'b action \<Rightarrow> world \<Rightarrow> bool" where
  "starts_with tr m s = (\<exists>rest. trace (snd (m s)) = tr @ rest)"

lemma starts_with_await:
  assumes "starts_with tr m s" and "\<And>v. keeps trace_grows (f v)"
  shows "starts_with tr (await m f) s"
proof -
  obtain r s1 where m: "m s = (r, s1)" by fastforce
  have "trace_grows s1 (snd (f v s1))" for v using assms(2) by (simp add: keeps_def)
  then show ?thesis
    using assms(1) m by (cases r) (auto simp: starts_with_def await_def trace_grows_def, metis append.assoc)
qed

lemma starts_with_run: "m s = (Ok v, s') \<Longrightarrow> starts_with tr (f v) s' \<Longrightarrow> starts_with tr (await m f) s"
  by (simp add: starts_with_def await_def)

lemma handleRequest_starts:
  assumes "0 < fuel w"
  shows "starts_with (trace s @ [EHttp (post_request w url (stamped w (access_token (sess s)) (clock s) data))])
    (handleRequest w url data) s"
proof -
  let ?d = "stamped w (access_token (sess s)) (clock s) data"
  obtain n where n: "fuel w = Suc n" using assms by (cases "fuel w") auto
  have "starts_with (trace s @ [EHttp (post_request w url ?d)]) (performRequest (fuel w) w url ?d (JObj [])) s"
    unfolding n performRequest_post
    by (rule starts_with_await) (auto simp: starts_with_def axios_request_def
        intro!: frame_intros grow.keeps_handleApiResponse)
  then show ?thesis
    unfolding handleRequest_def
    by (intro starts_with_run [OF getRequestData_run] starts_with_await frame_intros)
qed

lemma request_starts:
  assumes "truthy (access_token (sess s))" and "0 < fuel w"
  shows "starts_with (trace s @ [EHttp (post_request w url (stamped w (access_token (sess s)) (clock s) data))])
    (request w url data) s"
  using handleRequest_starts [OF assms(2), of s url data] maybeLogin_token [OF assms(1), of w]
  by (simp add: request_def starts_with_def await_def)

lemma loadPersistedTokens_no_file:
  assumes "alone w" and "tokenPersistPath w = Inr p" and "files s p = None"
  shows "loadPersistedTokens w s = (Ok (), await_point w s)"
  using assms by (auto simp: loadPersistedTokens_def readFile_def run_simps split: option.splits)

definition login_http :: "('a) wyze_scheme \<Rightarrow> string \<Rightarrow> http_req" where
  "login_http w pw = \<lparr>req_method = JStr ''POST'', req_url = JStr ''api/user/login'', req_baseURL = authBaseUrl w,
     req_data = JObj [(''email'', username w), (''password'', JStr (createPassword w pw))], req_params = JUndef,
     req_headers = JObj [(''x-api-key'', authApiKey w), (''apikey'', apiKey w), (''keyid'', keyId w),
                         (''User-Agent'', userAgent w)]\<rparr>"

lemma detached_login_run:
  assumes "\<not> nullish (apiKey w)" and "\<not> nullish (keyId w)" and "password w = JStr pw"
  shows "detached_login w s = (Ok (), s\<lparr>trace := trace s @ [EHttp (login_http w pw)]\<rparr>)"
  using assms
  by (simp add: detached_login_def login_request_def run_simps request_of_def merge_def spread_def login_http_def)

lemma maybeLogin_debounced:
  assumes w: "alone w" "151 \<le> fuel w" "tokenPersistPath w = Inr p"
      "\<not> nullish (apiKey w)" "\<not> nullish (keyId w)" "password w = JStr pw"
    and s: "access_token (sess s) = JStr ''''" "files s p = None" "debounce_ok (sess s)"
      "\<not> isDebounceCleared (sess s) (clock s + int (latency w (ticks s)))"
  shows "\<exists>s'. maybeLogin w s = (Ok (), s') \<and> access_token (sess s') = JStr '''' \<and>
    trace s' = trace s @ replicate (rounds (loginAttemptDebounceMilliseconds (sess s))) (ESleep 2000) @
      [EHttp (login_http w pw)] \<and>
    lastLoginAttempt (sess s') = clock s + int (latency w (ticks s)) \<and>
    loginAttemptDebounceMilliseconds (sess s') = min (loginAttemptDebounceMilliseconds (sess s) * 2) 300000 \<and>
    lastLoginAttempt (sess s') + 2000 * int (rounds (loginAttemptDebounceMilliseconds (sess s))) \<le> clock s'"
proof -
  define s1 where "s1 = await_point w s"
  have s1: "sess s1 = sess s" "trace s1 = trace s" "clock s1 = clock s + int (latency w (ticks s))"
    using w(1) by (simp_all add: s1_def await_alone) (simp add: await_point_def)
  obtain k where k: "fuel w = Suc k" "150 \<le> k" using w(2) by (cases "fuel w") auto
  obtain s2 where s2: "waitForDebounceClearance w s1 = (Ok (), s2)" "sess s2 = sess s"
      "trace s2 = trace s @ replicate (rounds (loginAttemptDebounceMilliseconds (sess s))) (ESleep 2000)"
      "clock s1 + 2000 * int (rounds (loginAttemptDebounceMilliseconds (sess s))) \<le> clock s2"
    using wait_loop_run [OF w(1), of s1 0 k] debounce_ok_bounds [OF s(3)] k s(1) s1
    by (auto simp: waitForDebounceClearance_def)
  show ?thesis
    using loadPersistedTokens_no_file [OF w(1,3) s(2)] s(1,4) s1 s2 detached_login_run [OF w(4,5,6)]
    by (simp add: maybeLogin_def await_def this_get_def Date_now_def raise_debounce_def this_set_def
        s1_def [symmetric] )
qed

text \<open>C5. The login of a debounced call is not awaited: when the debounce of an earlier attempt is
  still running, \<open>request\<close> waits it out in rounds of two seconds, issues the login request,
  and without waiting for its answer issues the caller's request with an empty access token,
  whatever the service would have answered to the login.\<close>

theorem debounced_request_unauthenticated:
  assumes w: "alone w" "151 \<le> fuel w" "tokenPersistPath w = Inr p"
      "\<not> nullish (apiKey w)" "\<not> nullish (keyId w)" "password w = JStr pw"
    and s: "access_token (sess s) = JStr ''''" "files s p = None" "debounce_ok (sess s)"
      "\<not> isDebounceCleared (sess s) (clock s + int (latency w (ticks s)))"
  shows "\<exists>ts rest. trace (snd (request w url data s)) =
    trace s @ replicate (rounds (loginAttemptDebounceMilliseconds (sess s))) (ESleep 2000) @
      [EHttp (login_http w pw), EHttp (post_request w url (stamped w (JStr '''') ts data))] @ rest"
proof -
  obtain s1 where s1: "maybeLogin w s = (Ok (), s1)" "access_token (sess s1) = JStr ''''"
      "trace s1 = trace s @ replicate (rounds (loginAttemptDebounceMilliseconds (sess s))) (ESleep 2000) @
        [EHttp (login_http w pw)]"
    using maybeLogin_debounced [OF assms] by blast
  then have "starts_with (trace s1 @ [EHttp (post_request w url (stamped w (JStr '''') (clock s1) data))])
      (handleRequest w url data) s1"
    using handleRequest_starts [of w s1 url data] w(2) by simp
  then show ?thesis using s1 by (auto simp: request_def await_def starts_with_def)
qed

theorem debounced_request_unauthenticated_witness:
  "\<exists>ts rest. trace (snd (request (demo (answering [])) ''/x'' (JObj [])
       (demo_world '''' \<lparr>sess := (demo_session '''')\<lparr>lastLoginAttempt := 5000\<rparr>\<rparr>))) =
    [ESleep 2000, EHttp (login_http (demo (answering [])) ''secret''),
     EHttp (post_request (demo (answering [])) ''/x'' (stamped (demo (answering [])) (JStr '''') ts (JObj [])))] @ rest"
proof -
  have ok: "debounce_ok ((demo_session '''')\<lparr>lastLoginAttempt := 5000\<rparr>)" by (simp add: debounce_ok_others)
  show ?thesis
    using debounced_request_unauthenticated [of "demo (answering [])" "''wyze-id.json''" "''secret''"
        "demo_world '''' \<lparr>sess := (demo_session '''')\<lparr>lastLoginAttempt := 5000\<rparr>\<rparr>" "''/x''" "JObj []"] ok
    by (simp add: alone_def isDebounceCleared_def rounds_def)
qed

text \<open>C6. The pause after a login attempt is counted from before the wait for it: a call that comes while the
  debounce runs waits it out, sends a login and doubles the debounce, but notes the time it
  was called at as the time of the attempt. At the shortest debounce, a second, and at the
  longest, five minutes, the new debounce is over when the login has just been sent, and the
  next call may log in one millisecond later.\<close>

theorem debounce_spent_waiting:
  assumes w: "alone w" "151 \<le> fuel w" "tokenPersistPath w = Inr p"
      "\<not> nullish (apiKey w)" "\<not> nullish (keyId w)" "password w = JStr pw"
    and s: "access_token (sess s) = JStr ''''" "files s p = None" "debounce_ok (sess s)"
      "\<not> isDebounceCleared (sess s) (clock s + int (latency w (ticks s)))"
    and extreme: "loginAttemptDebounceMilliseconds (sess s) \<in> {1000, 300000}"
  shows "\<exists>s' sleeps. maybeLogin w s = (Ok (), s') \<and> trace s' = trace s @ sleeps @ [EHttp (login_http w pw)] \<and>
    isDebounceCleared (sess s') (clock s' + 1)"
proof -
  have "min (loginAttemptDebounceMilliseconds (sess s) * 2) 300000 = 2000 * int (rounds (loginAttemptDebounceMilliseconds (sess s)))"
    using extreme by (auto simp: rounds_def)
  then show ?thesis
    using maybeLogin_debounced [OF w s] by (fastforce simp: isDebounceCleared_def)
qed

theorem debounce_spent_waiting_witness:
  "\<exists>s' sleeps. maybeLogin (demo (answering [])) (demo_world '''' \<lparr>sess := (demo_session '''')\<lparr>lastLoginAttempt := 5000\<rparr>\<rparr>) = (Ok (), s') \<and>
     trace s' = sleeps @ [EHttp (login_http (demo (answering [])) ''secret'')] \<and> isDebounceCleared (sess s') (clock s' + 1)"
proof -
  have "debounce_ok ((demo_session '''')\<lparr>lastLoginAttempt := 5000\<rparr>)" by (simp add: debounce_ok_others)
  then show ?thesis
    using debounce_spent_waiting [of "demo (answering [])" "''wyze-id.json''" "''secret''"
        "demo_world '''' \<lparr>sess := (demo_session '''')\<lparr>lastLoginAttempt := 5000\<rparr>\<rparr>"]
    by (simp add: alone_def isDebounceCleared_def)
qed

section \<open>Keys, codes and dumps\<close>

text \<open>All properties of a value, at any depth.\<close>

fun deep_entries :: "jsval \<Rightarrow> (string \<times> jsval) list"
and deep_elems :: "jsval list \<Rightarrow> (string \<times> jsval) list"
and deep_members :: "(string \<times> jsval) list \<Rightarrow> (string \<times> jsval) list" where
  "deep_entries (JArr xs) = deep_elems xs"
| "deep_entries (JObj kvs) = deep_members kvs"
| "deep_entries v = []"
| "deep_elems [] = []"
| "deep_elems (x # xs) = deep_entries x @ deep_elems xs"
| "deep_members [] = []"
| "deep_members ((k, v) # kvs) = (k, v) # deep_entries v @ deep_members kvs"

lemma redacted_everywhere:
  "(k, x) \<in> set (deep_entries (redact v)) \<Longrightarrow> js_includes k ''token'' \<Longrightarrow> x = JStr ''*******''"
  "(k, x) \<in> set (deep_elems (redact_elems vs)) \<Longrightarrow> js_includes k ''token'' \<Longrightarrow> x = JStr ''*******''"
  "(k, x) \<in> set (deep_members (redact_members kvs)) \<Longrightarrow> js_includes k ''token'' \<Longrightarrow> x = JStr ''*******''"
  by (induction v and vs and kvs rule: redact_redact_elems_redact_members.induct) (auto split: if_splits)

definition hides_tokens :: "jsval \<Rightarrow> bool" where
  "hides_tokens d = list_all (\<lambda>(k, x). js_includes k ''token'' \<longrightarrow> x = JStr ''*******'') (deep_entries d)"

lemma hides_tokens_redact: "hides_tokens (redact v)"
  using redacted_everywhere(1) by (auto simp: hides_tokens_def list_all_iff)

lemma redact_without_tokens:
  "list_all (\<lambda>(k, x). \<not> js_includes k ''token'') (deep_entries v) \<Longrightarrow> redact v = v"
  "list_all (\<lambda>(k, x). \<not> js_includes k ''token'') (deep_elems vs) \<Longrightarrow> redact_elems vs = vs"
  "list_all (\<lambda>(k, x). \<not> js_includes k ''token'') (deep_members kvs) \<Longrightarrow> redact_members kvs = kvs"
  by (induction v and vs and kvs rule: redact_redact_elems_redact_members.induct) auto

text \<open>C38. What is logged of an answer. After \<open>dumpData\<close> was set, exactly one line, once, since the flag
  is cleared: the printed form of a value in which every property with \<open>token\<close> in its name, at
  any depth, reads \<open>*******\<close>, and which is the body of the answer itself if it has no such
  property (a missing body prints as \<open>undefined\<close>). Otherwise, with API logging on, a line under
  the same heading from which the whole answer can be read back, its tokens included. With
  neither, nothing. The session is otherwise left alone, and nothing is sent.\<close>

theorem dump_redacts_tokens:
  "\<exists>line. logApiResponse w result url s = (Ok (), s\<lparr>sess := (sess s)\<lparr>dumpData := False\<rparr>,
      responseLog := responseLog s @ (case line of None \<Rightarrow> [] | Some l \<Rightarrow> [''API response PerformRequest: '' @ l])\<rparr>) \<and>
    (line = None \<longleftrightarrow> \<not> dumpData (sess s) \<and> \<not> apiLogEnabled w) \<and>
    (dumpData (sess s) \<longrightarrow> (if attr result ''data'' = JUndef then line = Some ''undefined'' else
       \<exists>d. line = Some (stringify d) \<and> hides_tokens d \<and>
         (list_all (\<lambda>(k, x). \<not> js_includes k ''token'') (deep_entries (attr result ''data'')) \<longrightarrow> d = attr result ''data''))) \<and>
    (\<not> dumpData (sess s) \<and> apiLogEnabled w \<and> list_all wf_json [attr result ''status'', attr result ''data'', attr result ''headers''] \<longrightarrow>
       (\<exists>v. json_parse (the line) = Some v \<and> attr v ''url'' = JStr url \<and> attr v ''data'' = attr result ''data'' \<and>
         attr v ''status'' = attr result ''status'' \<and> attr v ''headers'' = attr result ''headers''))"
proof -
  let ?v = "JObj [(''url'', JStr url), (''status'', attr result ''status''), (''data'', attr result ''data''), (''headers'', attr result ''headers'')]"
  have off: "s\<lparr>sess := (sess s)\<lparr>dumpData := False\<rparr>, responseLog := l\<rparr> = s\<lparr>responseLog := l\<rparr>" if "\<not> dumpData (sess s)" for l
    using that by (cases s; cases "sess s") simp
  consider "dumpData (sess s)" | "\<not> dumpData (sess s)" "apiLogEnabled w" | "\<not> dumpData (sess s)" "\<not> apiLogEnabled w" by blast
  then show ?thesis
  proof cases
    case 1
    let ?d = "attr result ''data''"
    show ?thesis
      using 1 hides_tokens_redact [of ?d] redact_without_tokens(1) [of ?d]
      by (intro exI [of _ "Some (if ?d = JUndef then ''undefined'' else stringify (redact ?d))"])
        (auto simp: logApiResponse_def run_simps simp del: stringify.simps)
  next
    case 2
    have "json_parse (stringify ?v) = Some ?v"
      if "list_all wf_json [attr result ''status'', attr result ''data'', attr result ''headers'']"
      by (rule json_parse_stringify) (use that in simp)
    with 2 show ?thesis
      by (intro exI [of _ "Some (stringify ?v)"])
        (auto simp: logApiResponse_def response_line_def run_simps off simp del: stringify.simps)
  next
    case 3
    then show ?thesis by (intro exI [of _ None]) (simp add: logApiResponse_def run_simps off)
  qed
qed

text \<open>Without an API key or a key id a login rejects before anything is sent: no HTTP request,
  no pause, no change of the session or of the files.\<close>

lemma login_without_keys:
  assumes "nullish (apiKey w) \<or> nullish (keyId w)"
  shows "\<exists>m. login w s = (Throw (Error m), s) \<and> (nullish (apiKey w) \<longleftrightarrow> startsWith m ''ApiKey Required'')"
  using assms by (auto simp: login_def throw_def)

text \<open>The API's codes are compared without conversion: an answer whose code is a text, even
  \<open>"2001"\<close>, \<open>"3044"\<close> or \<open>"1004"\<close>, is never a rate limit, an expired token by its code or a bad
  request. It rejects as an unknown error unless its message says otherwise.\<close>

lemma text_codes_unclassified:
  assumes "attr result ''data'' = JObj [(''code'', JStr c), (''msg'', JStr m)]" and "m \<noteq> ''''"
    and "js_Number (JStr c) \<noteq> Fin 1"
    and "\<not> list_ex (js_includes (toLowerCase m)) [''usernameorpassworderror'', ''userislocked'',
       ''invalid user name or password'', ''accesstokenerror'', ''access token is error'']"
  shows "handleApiResponse perform w result url data s =
    (Throw (Error (''Wyze API Error ('' @ c @ '') - '' @ m)), s)"
  using assms
  by (simp add: handleApiResponse_def error_message_def js_or_def isInvalidCredentialsError_def lower_of_def
      toLowerCase_lits isRateLimitError_def isAccessTokenError_def isBadRequestError_def throw_def
      del: js_Number.simps)

theorem dump_redacts_tokens_witness:
  "\<exists>d. responseLog (snd (logApiResponse (demo (answering [])) (JObj [(''data'', JObj [(''access_token'', JStr ''s'')])]) ''/x''
       (demo_world ''t'' \<lparr>sess := (demo_session ''t'')\<lparr>dumpData := True\<rparr>\<rparr>))) =
       [''API response PerformRequest: '' @ stringify d] \<and> hides_tokens d"
  using dump_redacts_tokens [of "demo (answering [])" "JObj [(''data'', JObj [(''access_token'', JStr ''s'')])]" "''/x''"
      "demo_world ''t'' \<lparr>sess := (demo_session ''t'')\<lparr>dumpData := True\<rparr>\<rparr>"]
  by (auto simp del: stringify.simps append.simps)

section \<open>The refresh timer\<close>

text \<open>C8. The refresh timer takes the process down with the network: when the service cannot be reached
  while it fires, the renewal is sent twice, two seconds apart, and its failure is a rejection
  that nothing handles, which ends a Node process.\<close>

theorem refresh_timer_unhandled:
  assumes "\<And>n q. axios w n q = Inl e" and "0 < fuel w"
  shows "\<exists>q s'. timer_refresh w s = (Ok (), s') \<and> req_url q = JStr ''app/user/refresh_token'' \<and>
    attr (req_data q) ''refresh_token'' = refresh_token (sess s) \<and> attr (req_data q) ''access_token'' = access_token (sess s) \<and>
    trace s' = trace s @ [EHttp q, ESleep 2000, EHttp q, EUnhandled (Error (''Token refresh failed: '' @ err_message e))]"
proof -
  obtain n where n: "fuel w = Suc n" using assms(2) by (cases "fuel w") auto
  define d where "d = spread (stamped w (access_token (sess s)) (clock s) (JObj [])) [(''refresh_token'', refresh_token (sess s))]"
  define q where "q = request_of (merge (JObj [(''method'', JStr ''POST''), (''url'', JStr ''app/user/refresh_token''), (''data'', d),
    (''baseURL'', apiBaseUrl w)]) (JObj []))"
  have q: "req_url q = JStr ''app/user/refresh_token''" "req_data q = d"
    by (simp_all add: q_def request_of_def merge_def spread_def)
  have d: "attr d ''refresh_token'' = refresh_token (sess s)" "attr d ''access_token'' = access_token (sess s)"
    by (simp_all add: d_def stamped_def merge_def spread_def)
  have "performRequest (Suc n) w ''app/user/refresh_token'' d (JObj []) t = (Throw e, await_point w (t\<lparr>trace := trace t @ [EHttp q]\<rparr>))" for t
    by (simp add: await_def axios_request_def assms(1) q_def)
  then have "\<exists>s'. timer_refresh w s = (Ok (), s') \<and>
      trace s' = trace s @ [EHttp q, ESleep 2000, EHttp q, EUnhandled (Error (''Token refresh failed: '' @ err_message e))]"
    by (simp add: timer_refresh_def refreshToken_def refreshToken_via_def n numeral_2_eq_2 getRequestData_run d_def [symmetric] run_simps
        sleepSeconds_def set_timeout_def timer_delay_def await_point_def del: performRequest.simps)
  then show ?thesis using q d by auto
qed

theorem refresh_timer_unhandled_witness:
  "\<exists>q s'. timer_refresh (demo (\<lambda>_ _. Inl (Error ''down''))) (demo_world ''t'') = (Ok (), s') \<and>
     trace s' = [EHttp q, ESleep 2000, EHttp q, EUnhandled (Error ''Token refresh failed: down'')]"
  using refresh_timer_unhandled [of "demo (\<lambda>_ _. Inl (Error ''down''))" "Error ''down''" "demo_world ''t''"] by auto

section \<open>The log\<close>

text \<open>The dump of a response hides tokens; the log of a request does not. With API logging on, the line
  written for a request of the session is JSON from which the access token can be read back.
  What a failed request logs names its address, and no more than the answer to it.\<close>

lemma api_log_shows_token:
  assumes "apiLogEnabled w" and "wf_json (stamped w (JStr t) now data)" and "wf_json (apiBaseUrl w)"
    and "distinct (keys_of data)" and "''access_token'' \<notin> set (keys_of data)"
  shows "\<exists>line v. request_log w (merge (JObj [(''method'', JStr ''POST''), (''url'', JStr url),
      (''data'', stamped w (JStr t) now data), (''baseURL'', apiBaseUrl w)]) (JObj [])) = Some (''Performing request: '' @ line) \<and>
    json_parse line = Some v \<and> attr (attr v ''data'') ''access_token'' = JStr t"
proof (intro exI conjI)
  let ?c = "JObj [(''method'', JStr ''POST''), (''url'', JStr url), (''data'', stamped w (JStr t) now data), (''baseURL'', apiBaseUrl w)]"
  have c: "merge ?c (JObj []) = ?c" by (simp add: merge_def spread_def)
  show "request_log w (merge ?c (JObj [])) = Some (''Performing request: '' @ stringify ?c)"
    unfolding c using assms(1) by (simp add: request_log_def del: stringify.simps)
  show "json_parse (stringify ?c) = Some ?c"
    by (rule json_parse_stringify) (use assms(2,3) in simp)
  show "attr (attr ?c ''data'') ''access_token'' = JStr t"
    using assms(4,5) by (simp add: stamped_def merge_def keys_of_def) (subst attr_spread, auto simp: keys_of_def)
qed

end
