(* ===== verification/Wyze_Services.thy ===== *)
theory Wyze_Services
  imports Wyze_Session_Laws
begin

text \<open>
  The calls of \<open>src/index.js\<close> to the Wyze services: the object list, properties and actions
  of the main API, the lock service (signed the Ford way), the Sirius, Earth, HMS and
  irrigation services (signed the Olive way) and the IoT3 service of the newer locks.

  A call that goes around \<open>request\<close> logs its failure and rejects with the same error; the
  log is not modelled, so its catch block only rethrows.
\<close>

section \<open>axios\<close>

definition axios_get :: "('a) wyze_scheme \<Rightarrow> string \<Rightarrow> jsval \<Rightarrow> jsval action" where
  "axios_get w url config =
     axios_request w (request_of (spread config [(''method'', JStr ''GET''), (''url'', JStr url)]))"

definition axios_post :: "('a) wyze_scheme \<Rightarrow> string \<Rightarrow> jsval \<Rightarrow> jsval \<Rightarrow> jsval action" where
  "axios_post w url data config =
     axios_request w (request_of (spread config [(''method'', JStr ''POST''), (''url'', JStr url), (''data'', data)]))"

definition axios_patch :: "('a) wyze_scheme \<Rightarrow> string \<Rightarrow> jsval \<Rightarrow> jsval \<Rightarrow> jsval action" where
  "axios_patch w url data config =
     axios_request w (request_of (spread config [(''method'', JStr ''PATCH''), (''url'', JStr url), (''data'', data)]))"

definition axios_delete :: "('a) wyze_scheme \<Rightarrow> string \<Rightarrow> jsval \<Rightarrow> jsval action" where
  "axios_delete w url config =
     axios_request w (request_of (spread config [(''method'', JStr ''DELETE''), (''url'', JStr url)]))"

text \<open>\<open>return result.data\<close>.\<close>

definition data_of :: "jsval action \<Rightarrow> jsval action" where
  "data_of m = await m (\<lambda>result. lift_err (member result ''data''))"

text \<open>\<open>try { ... } catch (e) { log; throw e }\<close>.\<close>

definition logged :: "'b action \<Rightarrow> 'b action" where
  "logged m = try_catch m (\<lambda>e. throw e)"

text \<open>\<open>this.log(...)\<close>: the logger is an object, not a function.\<close>

definition call_log :: "('a) wyze_scheme \<Rightarrow> unit action" where
  "call_log w = (if apiLogEnabled w then throw (TypeError ''this.log is not a function'') else ret ())"

section \<open>The main API\<close>

definition getObjectList :: "('a) wyze_scheme \<Rightarrow> jsval action" where
  "getObjectList w = data_of (request w ''app/v2/home_page/get_object_list'' (JObj []))"

definition getPropertyList :: "('a) wyze_scheme \<Rightarrow> jsval \<Rightarrow> jsval \<Rightarrow> jsval action" where
  "getPropertyList w deviceMac deviceModel =
     data_of (request w ''app/v2/device/get_property_list''
       (JObj [(''device_mac'', deviceMac), (''device_model'', deviceModel)]))"

definition setProperty :: "('a) wyze_scheme \<Rightarrow> jsval \<Rightarrow> jsval \<Rightarrow> string \<Rightarrow> jsval \<Rightarrow> jsval action" where
  "setProperty w deviceMac deviceModel propertyId propertyValue =
     data_of (request w ''app/v2/device/set_property''
       (JObj [(''device_mac'', deviceMac), (''device_model'', deviceModel),
              (''pid'', JStr propertyId), (''pvalue'', propertyValue)]))"

definition runAction :: "('a) wyze_scheme \<Rightarrow> jsval \<Rightarrow> jsval \<Rightarrow> jsval \<Rightarrow> jsval action" where
  "runAction w deviceMac deviceModel actionKey =
     data_of (request w ''app/v2/auto/run_action''
       (JObj [(''instance_id'', deviceMac), (''provider_key'', deviceModel), (''action_key'', actionKey),
              (''action_params'', JObj []), (''custom_string'', JStr '''')]))"

definition action_plist :: "string \<Rightarrow> jsval \<Rightarrow> jsval list" where
  "action_plist propertyId propertyValue =
     JObj [(''pid'', JStr propertyId), (''pvalue'', JStr (js_String propertyValue))] #
     (if propertyId \<noteq> ''P3'' then [JObj [(''pid'', JStr ''P3''), (''pvalue'', JStr ''1'')]] else [])"

definition runActionList :: "('a) wyze_scheme \<Rightarrow> jsval \<Rightarrow> jsval \<Rightarrow> string \<Rightarrow> jsval \<Rightarrow> string \<Rightarrow> jsval action" where
  "runActionList w deviceMac deviceModel propertyId propertyValue actionKey =
     data_of (request w ''app/v2/auto/run_action_list''
       (JObj [(''action_list'', JArr [JObj
          [(''instance_id'', deviceMac),
           (''action_params'', JObj [(''list'', JArr [JObj
              [(''mac'', deviceMac), (''plist'', JArr (action_plist propertyId propertyValue))]])]),
           (''provider_key'', deviceModel), (''action_key'', JStr actionKey)]])]))"

section \<open>Locks\<close>

definition getUuid :: "jsval \<Rightarrow> jsval \<Rightarrow> err + string" where
  "getUuid deviceMac deviceModel =
     (case deviceMac of JStr mac \<Rightarrow> Inr (replace_first mac (js_String deviceModel @ ''.'') '''')
      | _ \<Rightarrow> Inl (TypeError ''deviceMac.replace is not a function''))"

definition ford_url :: string where
  "ford_url = ''https://yd-saas-toc.wyzecam.com''"

definition controlLock :: "('a) wyze_scheme \<Rightarrow> jsval \<Rightarrow> jsval \<Rightarrow> string \<Rightarrow> jsval action" where
  "controlLock w deviceMac deviceModel action =
     await (maybeLogin w) (\<lambda>_.
     await (lift_err (getUuid deviceMac deviceModel)) (\<lambda>uuid.
       logged (await (this_get access_token) (\<lambda>token.
         await Date_now (\<lambda>now.
           let payload = fordCreatePayload w now token (JObj [(''uuid'', JStr uuid), (''action'', JStr action)])
                 ''/openapi/lock/v1/control'' ''post''
           in data_of (axios_post w (ford_url @ ''/openapi/lock/v1/control'') payload (JObj [])))))))"

text \<open>\<open>config.params\<close> is bound to the payload before it is signed; the signed payload is a new
  object that is never sent.\<close>

definition getLockInfo :: "('a) wyze_scheme \<Rightarrow> jsval \<Rightarrow> jsval \<Rightarrow> jsval action" where
  "getLockInfo w deviceMac deviceModel =
     await (maybeLogin w) (\<lambda>_.
     await (lift_err (getUuid deviceMac deviceModel)) (\<lambda>uuid.
       let payload = JObj [(''uuid'', JStr uuid), (''with_keypad'', JStr ''1'')] in
       logged (
         let config = JObj [(''params'', payload)] in
         await (this_get access_token) (\<lambda>token.
         await Date_now (\<lambda>now.
           let payload = fordCreatePayload w now token payload ''/openapi/lock/v1/info'' ''get''
           in data_of (axios_get w (ford_url @ ''/openapi/lock/v1/info'') config))))))"

section \<open>Services signed the Olive way\<close>

definition olive_headers :: "('a) wyze_scheme \<Rightarrow> jsval \<Rightarrow> jsval \<Rightarrow> string \<Rightarrow> (string \<times> jsval) list" where
  "olive_headers w phoneid token signature =
     [(''User-Agent'', userAgent w), (''appid'', JStr constants_oliveAppId), (''appinfo'', JStr constants_appInfo),
      (''phoneid'', phoneid), (''access_token'', token), (''signature2'', JStr signature)]"

text \<open>A GET with the payload as query, signed over its sorted pairs.\<close>

definition olive_get :: "('a) wyze_scheme \<Rightarrow> jsval \<Rightarrow> string \<Rightarrow> jsval \<Rightarrow> jsval \<Rightarrow> jsval action" where
  "olive_get w phoneid url payload token =
     axios_get w url (JObj
       [(''headers'', JObj ((''Accept-Encoding'', JStr ''gzip'') #
            olive_headers w phoneid token (oliveCreateSignature w payload token))),
        (''params'', payload)])"

text \<open>A POST of the payload's JSON text, signed over that text.\<close>

definition olive_post :: "('a) wyze_scheme \<Rightarrow> string \<Rightarrow> jsval \<Rightarrow> jsval \<Rightarrow> jsval action" where
  "olive_post w url payload token =
     axios_post w url (JStr (stringify payload)) (JObj
       [(''headers'', JObj ((''Accept-Encoding'', JStr ''gzip'') # (''Content-Type'', JStr ''application/json'') #
            olive_headers w (phoneId w) token (oliveCreateSignatureSingle w (stringify payload) token)))])"

definition sirius_url :: string where
  "sirius_url = ''https://wyze-sirius-service.wyzecam.com/plugin/sirius/''"

definition earth_url :: string where
  "earth_url = ''https://wyze-earth-service.wyzecam.com/plugin/earth/''"

definition iot_prop_keys :: string where
  "iot_prop_keys = ''iot_state,switch-power,switch-iot,single_press_type,double_press_type,triple_press_type,long_press_type,palm-state''"

definition getIotProp :: "('a) wyze_scheme \<Rightarrow> jsval \<Rightarrow> jsval action" where
  "getIotProp w deviceMac =
     await (maybeLogin w) (\<lambda>_.
     await (this_get access_token) (\<lambda>token.
     await Date_now (\<lambda>now.
       logged (data_of (olive_get w (phoneId w) (sirius_url @ ''get_iot_prop'')
         (oliveCreateGetPayload now deviceMac iot_prop_keys) token)))))"

definition setIotProp :: "('a) wyze_scheme \<Rightarrow> jsval \<Rightarrow> jsval \<Rightarrow> string \<Rightarrow> jsval \<Rightarrow> jsval action" where
  "setIotProp w deviceMac product_model propKey value =
     await (maybeLogin w) (\<lambda>_.
     await (this_get access_token) (\<lambda>token.
     await Date_now (\<lambda>now.
       logged (data_of (olive_post w (sirius_url @ ''set_iot_prop_by_topic'')
         (oliveCreatePostPayload now deviceMac product_model propKey value) token)))))"

definition getUserProfile :: "('a) wyze_scheme \<Rightarrow> jsval action" where
  "getUserProfile w =
     await (maybeLogin w) (\<lambda>_.
     await (this_get access_token) (\<lambda>token.
     await Date_now (\<lambda>now.
       logged (data_of (olive_get w (phoneId w)
         ''https://wyze-platform-service.wyzecam.com/app/v2/platform/get_user_profile''
         (oliveCreateUserInfoPayload now) token)))))"

section \<open>Home monitoring\<close>

definition disableRemeAlarm :: "('a) wyze_scheme \<Rightarrow> jsval \<Rightarrow> jsval action" where
  "disableRemeAlarm w hms_id =
     await (maybeLogin w) (\<lambda>_.
     await (this_get access_token) (\<lambda>token.
       logged (data_of (axios_delete w ''https://hms.api.wyze.com/api/v1/reme-alarm'' (JObj
         [(''headers'', JObj [(''Authorization'', token), (''User-Agent'', userAgent w)]),
          (''data'', JObj [(''hms_id'', hms_id), (''remediation_id'', JStr ''emergency'')])])))))"

definition getPlanBindingListByUser :: "('a) wyze_scheme \<Rightarrow> jsval action" where
  "getPlanBindingListByUser w =
     await (maybeLogin w) (\<lambda>_.
     await (this_get access_token) (\<lambda>token.
     await Date_now (\<lambda>now.
       logged (data_of (olive_get w (phoneId w)
         ''https://wyze-membership-service.wyzecam.com/platform/v2/membership/get_plan_binding_list_by_user''
         (oliveCreateHmsPayload now) token)))))"

definition monitoringProfileStateStatus :: "('a) wyze_scheme \<Rightarrow> jsval \<Rightarrow> jsval action" where
  "monitoringProfileStateStatus w hms_id =
     await (maybeLogin w) (\<lambda>_.
     await (this_get access_token) (\<lambda>token.
     await Date_now (\<lambda>now.
       let query = oliveCreateHmsGetPayload now hms_id in
       logged (data_of (axios_get w ''https://hms.api.wyze.com/api/v1/monitoring/v1/profile/state-status'' (JObj
         [(''headers'', JObj (olive_headers w (phoneId w) token (oliveCreateSignature w query token) @
             [(''Authorization'', token), (''Content-Type'', JStr ''application/json'')])),
          (''params'', query)]))))))"

definition monitoringProfileActive :: "('a) wyze_scheme \<Rightarrow> jsval \<Rightarrow> jsval \<Rightarrow> jsval \<Rightarrow> jsval action" where
  "monitoringProfileActive w hms_id home away =
     await (maybeLogin w) (\<lambda>_.
     await (this_get access_token) (\<lambda>token.
       let payload = oliveCreateHmsPatchPayload hms_id in
       logged (data_of (axios_patch w ''https://hms.api.wyze.com/api/v1/monitoring/v1/profile/active''
         (JArr [JObj [(''state'', JStr ''home''), (''active'', home)], JObj [(''state'', JStr ''away''), (''active'', away)]])
         (JObj
           [(''headers'', JObj (olive_headers w (JStr constants_phoneId) token (oliveCreateSignature w payload token) @
               [(''Authorization'', token)])),
            (''params'', payload)])))))"

definition getHmsID :: "('a) wyze_scheme \<Rightarrow> unit action" where
  "getHmsID w = await (getPlanBindingListByUser w) (\<lambda>_. ret ())"

text \<open>\<open>mode == "off"\<close>: an array of one such text is equal to it, too.\<close>

definition setHMSState :: "('a) wyze_scheme \<Rightarrow> jsval \<Rightarrow> jsval \<Rightarrow> unit action" where
  "setHMSState w hms_id mode =
     (if (case mode of JStr m \<Rightarrow> m = ''off'' | JArr xs \<Rightarrow> js_String (JArr xs) = ''off'' | _ \<Rightarrow> False) then
        await (disableRemeAlarm w hms_id) (\<lambda>_.
        await (monitoringProfileActive w hms_id (JNum 0) (JNum 0)) (\<lambda>_. ret ()))
      else if mode = JStr ''away'' then
        await (monitoringProfileActive w hms_id (JNum 0) (JNum 1)) (\<lambda>_. ret ())
      else if mode = JStr ''home'' then
        await (monitoringProfileActive w hms_id (JNum 1) (JNum 0)) (\<lambda>_. ret ())
      else ret ())"

definition getHmsUpdate :: "('a) wyze_scheme \<Rightarrow> jsval \<Rightarrow> jsval action" where
  "getHmsUpdate w hms_id = monitoringProfileStateStatus w hms_id"

section \<open>Thermostats\<close>

definition thermostat_keys :: string where
  "thermostat_keys = ''trigger_off_val,emheat,temperature,humidity,time2temp_val,protect_time,mode_sys,heat_sp,cool_sp, current_scenario,config_scenario,temp_unit,fan_mode,iot_state,w_city_id,w_lat,w_lon,working_state, dev_hold,dev_holdtime,asw_hold,app_version,setup_state,wiring_logic_id,save_comfort_balance, kid_lock,calibrate_humidity,calibrate_temperature,fancirc_time,query_schedule''"

definition thermostatGetIotProp :: "('a) wyze_scheme \<Rightarrow> jsval \<Rightarrow> jsval action" where
  "thermostatGetIotProp w deviceMac =
     await (maybeLogin w) (\<lambda>_.
     await (this_get access_token) (\<lambda>token.
     await Date_now (\<lambda>now.
       logged (data_of (olive_get w (JStr constants_phoneId) (earth_url @ ''get_iot_prop'')
         (oliveCreateGetPayload now deviceMac thermostat_keys) token)))))"

definition thermostatSetIotProp :: "('a) wyze_scheme \<Rightarrow> jsval \<Rightarrow> jsval \<Rightarrow> string \<Rightarrow> jsval \<Rightarrow> jsval action" where
  "thermostatSetIotProp w deviceMac deviceModel propKey value =
     await (maybeLogin w) (\<lambda>_.
     await (this_get access_token) (\<lambda>token.
     await Date_now (\<lambda>now.
       logged (data_of (olive_post w (earth_url @ ''set_iot_prop_by_topic'')
         (oliveCreatePostPayload now deviceMac deviceModel propKey value) token)))))"

section \<open>Irrigation\<close>

text \<open>These log with \<open>this.log(...)\<close>: the GETs before the request and after it, the POSTs only
  after it.\<close>

definition irrigation_get :: "('a) wyze_scheme \<Rightarrow> string \<Rightarrow> jsval \<Rightarrow> jsval \<Rightarrow> jsval action" where
  "irrigation_get w path payload token =
     logged (
       await (call_log w) (\<lambda>_.
       await (olive_get w (phoneId w) (constants_irrigationBaseUrl @ path) payload token) (\<lambda>result.
       await (call_log w) (\<lambda>_. lift_err (member result ''data'')))))"

definition irrigation_post :: "('a) wyze_scheme \<Rightarrow> string \<Rightarrow> jsval \<Rightarrow> jsval \<Rightarrow> jsval action" where
  "irrigation_post w path payload token =
     logged (
       await (olive_post w (constants_irrigationBaseUrl @ path) payload token) (\<lambda>result.
       await (call_log w) (\<lambda>_. lift_err (member result ''data''))))"

definition irrigationGetIotProp :: "('a) wyze_scheme \<Rightarrow> jsval \<Rightarrow> jsval action" where
  "irrigationGetIotProp w deviceMac =
     await (maybeLogin w) (\<lambda>_.
     await (this_get access_token) (\<lambda>token.
     await Date_now (\<lambda>now.
       let keys = ''zone_state,iot_state,iot_state_update_time,app_version,RSSI,wifi_mac,sn,device_model,ssid,IP'';
           payload = set_prop (oliveCreateGetPayloadIrrigation now deviceMac) ''keys'' (JStr keys)
       in irrigation_get w ''get_iot_prop'' payload token)))"

definition irrigationGetDeviceInfo :: "('a) wyze_scheme \<Rightarrow> jsval \<Rightarrow> jsval action" where
  "irrigationGetDeviceInfo w deviceMac =
     await (maybeLogin w) (\<lambda>_.
     await (this_get access_token) (\<lambda>token.
     await Date_now (\<lambda>now.
       let keys = ''wiring,sensor,enable_schedules,notification_enable,notification_watering_begins,notification_watering_ends,notification_watering_is_skipped,skip_low_temp,skip_wind,skip_rain,skip_saturation'';
           payload = set_prop (oliveCreateGetPayloadIrrigation now deviceMac) ''keys'' (JStr keys)
       in irrigation_get w ''device_info'' payload token)))"

definition irrigationGetZones :: "('a) wyze_scheme \<Rightarrow> jsval \<Rightarrow> jsval action" where
  "irrigationGetZones w deviceMac =
     await (maybeLogin w) (\<lambda>_.
     await (this_get access_token) (\<lambda>token.
     await Date_now (\<lambda>now.
       irrigation_get w ''zone'' (oliveCreateGetPayloadIrrigation now deviceMac) token)))"

definition irrigationQuickRun :: "('a) wyze_scheme \<Rightarrow> jsval \<Rightarrow> jsval \<Rightarrow> jsval \<Rightarrow> jsval action" where
  "irrigationQuickRun w deviceMac zoneNumber duration =
     await (maybeLogin w) (\<lambda>_.
     await (this_get access_token) (\<lambda>token.
     await Date_now (\<lambda>now.
       irrigation_post w ''quickrun'' (oliveCreatePostPayloadIrrigationQuickRun now deviceMac zoneNumber duration) token)))"

definition irrigationStop :: "('a) wyze_scheme \<Rightarrow> jsval \<Rightarrow> jsval action" where
  "irrigationStop w deviceMac =
     await (maybeLogin w) (\<lambda>_.
     await (this_get access_token) (\<lambda>token.
     await Date_now (\<lambda>now.
       irrigation_post w ''runningschedule'' (oliveCreatePostPayloadIrrigationStop now deviceMac ''STOP'') token)))"

definition irrigationGetScheduleRuns :: "('a) wyze_scheme \<Rightarrow> jsval \<Rightarrow> jsval \<Rightarrow> jsval action" where
  "irrigationGetScheduleRuns w deviceMac limit =
     await (maybeLogin w) (\<lambda>_.
     await (this_get access_token) (\<lambda>token.
     await Date_now (\<lambda>now.
       let payload = set_prop (oliveCreateGetPayloadIrrigationScheduleRuns now deviceMac) ''limit''
             (js_default limit (JNum 2))
       in irrigation_get w ''schedule_runs'' payload token)))"

section \<open>Bulbs on the local network\<close>

text \<open>\<open>replace(/\\\\/g, '\\')\<close>: two backslashes become one.\<close>

fun single_backslashes :: "string \<Rightarrow> string" where
  "single_backslashes (c # d # s) =
     (if c = CHR 0x5C \<and> d = CHR 0x5C then c # single_backslashes s else c # single_backslashes (d # s))"
| "single_backslashes s = s"

text \<open>The names a module can see: the module imports neither \<open>moment\<close> nor a function
  \<open>runActionList\<close>. \<open>moment\<close> is what \<open>moment().valueOf()\<close> would return if it were
  imported.\<close>

definition localBulbCommand ::
  "('a) wyze_scheme \<Rightarrow> int option \<Rightarrow> jsval \<Rightarrow> string \<Rightarrow> string \<Rightarrow> string \<Rightarrow> jsval \<Rightarrow> unit action" where
  "localBulbCommand w moment deviceMac deviceEnr deviceIp propertyId propertyValue =
     (let plist = JArr [JObj [(''pid'', JStr propertyId), (''pvalue'', JStr (js_String propertyValue))]] in
      await (case deviceMac of JStr mac \<Rightarrow> ret (toUpperCase mac)
             | _ \<Rightarrow> throw (TypeError ''deviceMac.toUpperCase is not a function'')) (\<lambda>mac.
      await (case moment of Some ts \<Rightarrow> ret ts | None \<Rightarrow> throw (ReferenceError ''moment is not defined'')) (\<lambda>ts.
      let characteristicsStr = stringify (JObj
            [(''mac'', JStr mac), (''index'', JStr ''1''), (''ts'', JNum ts), (''plist'', plist)]) in
      await (lift_err (wyzeEncrypt w deviceEnr characteristicsStr)) (\<lambda>characteristicsEnc.
      let payloadStr = single_backslashes (stringify (JObj
            [(''request'', JStr ''set_status''), (''isSendQueue'', JNum 0), (''characteristics'', JStr characteristicsEnc)]));
          url = ''http://'' @ deviceIp @ '':88/device_request'' in
      try_catch
        (await (axios_post w url (JStr payloadStr) (JObj [(''headers'', JObj [(''Content-Type'', JStr ''application/json'')])]))
           (\<lambda>response. await (lift_err (member response ''data'')) (\<lambda>_. ret ())))
        (\<lambda>error. case err_response error of
             Some response \<Rightarrow> throw (ReferenceError ''runActionList is not defined'')
           | None \<Rightarrow> ret ())))))"

section \<open>IoT3 locks\<close>

definition iot3ExtractModel :: "jsval \<Rightarrow> jsval \<Rightarrow> err + jsval" where
  "iot3ExtractModel deviceMac deviceModel =
     (if truthy deviceModel then Inr deviceModel
      else case deviceMac of
        JStr mac \<Rightarrow>
          (let parts = split_on (CHR ''_'') mac in
           Inr (if length parts \<ge> 3 then JStr (join ''_'' (take 2 parts)) else deviceMac))
      | _ \<Rightarrow> Inl (TypeError ''deviceMac.split is not a function''))"

definition iot3BuildHeaders :: "('a) wyze_scheme \<Rightarrow> string \<Rightarrow> jsval action" where
  "iot3BuildHeaders w bodyStr =
     await (this_get access_token) (\<lambda>token.
     await (randomBytes_hex w 16) (\<lambda>requestid.
       ret (JObj
         [(''access_token'', token), (''appid'', oliveAppId w), (''appinfo'', JStr constants_iot3AppInfo),
          (''appversion'', JStr constants_iot3AppVersion), (''env'', JStr ''Prod''), (''phoneid'', phoneId w),
          (''requestid'', JStr requestid), (''Signature2'', JStr (iot3CreateSignature w bodyStr token)),
          (''Content-Type'', JStr ''application/json; charset=utf-8'')])))"

definition iot3Post :: "('a) wyze_scheme \<Rightarrow> string \<Rightarrow> jsval \<Rightarrow> jsval action" where
  "iot3Post w urlPath payload =
     (let body = stringify payload in
      await (iot3BuildHeaders w body) (\<lambda>headers.
        logged (data_of (axios_post w (constants_iot3BaseUrl @ urlPath) (JStr body) (JObj [(''headers'', headers)])))))"

definition iot3GetProperties :: "('a) wyze_scheme \<Rightarrow> jsval \<Rightarrow> jsval \<Rightarrow> string list \<Rightarrow> jsval action" where
  "iot3GetProperties w deviceMac deviceModel props =
     await (maybeLogin w) (\<lambda>_.
     await (lift_err (iot3ExtractModel deviceMac deviceModel)) (\<lambda>model.
     await Date_now (\<lambda>now.
     await (Math_random w) (\<lambda>rnd.
       iot3Post w ''/app/v4/iot3/get-property'' (iot3CreateGetPayload now rnd deviceMac model (JArr (map JStr props)))))))"

definition iot3RunAction :: "('a) wyze_scheme \<Rightarrow> jsval \<Rightarrow> jsval \<Rightarrow> string \<Rightarrow> jsval action" where
  "iot3RunAction w deviceMac deviceModel action =
     await (maybeLogin w) (\<lambda>_.
     await (lift_err (iot3ExtractModel deviceMac deviceModel)) (\<lambda>model.
     await Date_now (\<lambda>now.
     await (Math_random w) (\<lambda>rnd1.
     await (Math_random w) (\<lambda>rnd2.
       iot3Post w ''/app/v4/iot3/run-action''
         (iot3CreateRunActionPayload now rnd1 rnd2 deviceMac model action (username w)))))))"

definition lockBoltV2GetProperties :: "('a) wyze_scheme \<Rightarrow> jsval \<Rightarrow> jsval \<Rightarrow> jsval action" where
  "lockBoltV2GetProperties w deviceMac deviceModel = iot3GetProperties w deviceMac deviceModel
     [''lock::lock-status'', ''lock::door-status'', ''iot-device::iot-state'', ''battery::battery-level'',
      ''battery::power-source'', ''device-info::firmware-ver'']"

definition lockBoltV2Lock :: "('a) wyze_scheme \<Rightarrow> jsval \<Rightarrow> jsval \<Rightarrow> jsval action" where
  "lockBoltV2Lock w deviceMac deviceModel = iot3RunAction w deviceMac deviceModel ''lock::lock''"

definition lockBoltV2Unlock :: "('a) wyze_scheme \<Rightarrow> jsval \<Rightarrow> jsval \<Rightarrow> jsval action" where
  "lockBoltV2Unlock w deviceMac deviceModel = iot3RunAction w deviceMac deviceModel ''lock::unlock''"

definition palmLockGetProperties :: "('a) wyze_scheme \<Rightarrow> jsval \<Rightarrow> jsval \<Rightarrow> jsval action" where
  "palmLockGetProperties w deviceMac deviceModel = iot3GetProperties w deviceMac deviceModel
     [''lock::lock-status'', ''battery::battery-level'', ''iot-device::iot-state'', ''device-info::firmware-ver'']"

section \<open>Frames\<close>

context session_frame
begin

lemma keeps_axios_verbs [frame_intros]:
  "keeps R (axios_get w u c)" "keeps R (axios_post w u d c)" "keeps R (axios_patch w u d c)"
  "keeps R (axios_delete w u c)"
  by (simp_all add: axios_get_def axios_post_def axios_patch_def axios_delete_def keeps_axios)

lemma keeps_data_of [frame_intros]: "keeps R m \<Longrightarrow> keeps R (data_of m)"
  unfolding data_of_def by (intro frame_intros)

lemma keeps_logged [frame_intros]: "keeps R m \<Longrightarrow> keeps R (logged m)"
  unfolding logged_def by (intro frame_intros)

lemma keeps_call_log [frame_intros]: "keeps R (call_log w)"
  unfolding call_log_def by (intro frame_intros)

lemma keeps_main_api [frame_intros]:
  "keeps R (getObjectList w)" "keeps R (getPropertyList w m d)" "keeps R (setProperty w m d p v)"
  "keeps R (runAction w m d k)" "keeps R (runActionList w m d p v a)"
  unfolding getObjectList_def getPropertyList_def setProperty_def runAction_def runActionList_def
  by (intro frame_intros)+

lemma keeps_locks [frame_intros]: "keeps R (controlLock w m d a)" "keeps R (getLockInfo w m d)"
  unfolding controlLock_def getLockInfo_def by (intro frame_intros)+

lemma keeps_olive [frame_intros]: "keeps R (olive_get w p u v t)" "keeps R (olive_post w u v t)"
  unfolding olive_get_def olive_post_def by (intro frame_intros)+

lemma keeps_olive_calls [frame_intros]:
  "keeps R (getIotProp w m)" "keeps R (setIotProp w m d k v)" "keeps R (getUserProfile w)"
  "keeps R (disableRemeAlarm w h)" "keeps R (getPlanBindingListByUser w)"
  "keeps R (monitoringProfileStateStatus w h)" "keeps R (monitoringProfileActive w h a b)"
  "keeps R (thermostatGetIotProp w m)" "keeps R (thermostatSetIotProp w m d k v)"
  unfolding getIotProp_def setIotProp_def getUserProfile_def disableRemeAlarm_def getPlanBindingListByUser_def
    monitoringProfileStateStatus_def monitoringProfileActive_def thermostatGetIotProp_def thermostatSetIotProp_def
  by (intro frame_intros)+

lemma keeps_hms [frame_intros]: "keeps R (getHmsID w)" "keeps R (setHMSState w h m)" "keeps R (getHmsUpdate w h)"
  unfolding getHmsID_def setHMSState_def getHmsUpdate_def by (intro frame_intros)+

lemma keeps_irrigation [frame_intros]:
  "keeps R (irrigationGetIotProp w m)" "keeps R (irrigationGetDeviceInfo w m)" "keeps R (irrigationGetZones w m)"
  "keeps R (irrigationQuickRun w m z d)" "keeps R (irrigationStop w m)" "keeps R (irrigationGetScheduleRuns w m l)"
  unfolding irrigationGetIotProp_def irrigationGetDeviceInfo_def irrigationGetZones_def irrigationQuickRun_def
    irrigationStop_def irrigationGetScheduleRuns_def irrigation_get_def irrigation_post_def
  by (intro frame_intros)+

lemma keeps_localBulbCommand [frame_intros]: "keeps R (localBulbCommand w t m e i p v)"
  unfolding localBulbCommand_def by (intro frame_intros)

lemma keeps_iot3 [frame_intros]:
  "keeps R (iot3GetProperties w m d ps)" "keeps R (iot3RunAction w m d a)"
  unfolding iot3GetProperties_def iot3RunAction_def iot3Post_def iot3BuildHeaders_def by (intro frame_intros)+

end

section \<open>One signed request per call\<close>

lemma logged_id [simp]: "logged m = m"
  by (auto simp: logged_def try_catch_def throw_def fun_eq_iff split: prod.splits res.splits)

text \<open>A call in its normal form: log in if necessary, then send one request built from the
  session as it is after the login, and return the \<open>data\<close> of the answer.\<close>

definition via_login :: "('a) wyze_scheme \<Rightarrow> (world \<Rightarrow> http_req) \<Rightarrow> jsval action" where
  "via_login w q = await (maybeLogin w) (\<lambda>_ s. data_of (axios_request w (q s)) s)"

text \<open>What every such call promises, whatever its request is.\<close>

locale login_service =
  fixes w :: "('a) wyze_scheme" and call :: "jsval action" and q :: "world \<Rightarrow> http_req"
  assumes call_via_login: "call = via_login w q"
begin

lemma login_rejected: "maybeLogin w s = (Throw e, s1) \<Longrightarrow> call s = (Throw e, s1)"
  by (simp add: call_via_login via_login_def await_def)

lemma answered:
  assumes "maybeLogin w s = (Ok (), s1)"
  shows "call s = (case axios w (ticks s1) (q s1) of Inl e \<Rightarrow> Throw e
      | Inr v \<Rightarrow> (case member v ''data'' of Inl e \<Rightarrow> Throw e | Inr d \<Rightarrow> Ok d), sent w (q s1) s1)"
  using assms
  by (auto simp: call_via_login via_login_def data_of_def await_def axios_request_def sent_def lift_err_def ret_def
      throw_def split: sum.splits)

lemma one_request:
  assumes "maybeLogin w s = (Ok (), s1)"
  shows "trace (snd (call s)) = trace s1 @ [EHttp (q s1)]"
  by (simp add: answered [OF assms])

lemma budget_call:
  assumes "renewal_answers w" and "151 \<le> fuel w"
  shows "budget w 4 call"
proof -
  have "budget w 1 (\<lambda>s. data_of (axios_request w (q s)) s)"
    by (auto intro!: budgetI simp: data_of_def await_def axios_request_def lift_err_def http_count_def ret_def throw_def
        split: sum.splits)
  then show ?thesis
    unfolding call_via_login via_login_def
    by - (rule budget_mono, (rule assms budget_maybeLogin budget_await frame_intros | assumption)+, simp)
qed

end

text \<open>A request is signed when it carries the session's token, and its signature is the one of
  what it sends: of its text if it has one, of its query otherwise.\<close>

definition signed_request :: "('a) wyze_scheme \<Rightarrow> world \<Rightarrow> http_req \<Rightarrow> bool" where
  "signed_request w s r =
     (let token = access_token (sess s) in
      attr (req_headers r) ''access_token'' = token \<and>
      attr (req_headers r) ''signature2'' = JStr (case req_data r of
          JStr body \<Rightarrow> oliveCreateSignatureSingle w body token
        | _ \<Rightarrow> oliveCreateSignature w (req_params r) token))"

locale signed_service = login_service +
  assumes q_signed: "signed_request w s (q s)"
begin

lemma signed_call:
  assumes "maybeLogin w s = (Ok (), s1)"
  shows "\<exists>r. signed_request w s1 r \<and> trace (snd (call s)) = trace s1 @ [EHttp r] \<and>
    fst (call s) = (case axios w (ticks s1) r of Inl e \<Rightarrow> Throw e
      | Inr v \<Rightarrow> (case member v ''data'' of Inl e \<Rightarrow> Throw e | Inr d \<Rightarrow> Ok d))"
  using q_signed [of s1] by (auto simp: answered [OF assms])

end

text \<open>The request of each of the services.\<close>

definition olive_get_request :: "('a) wyze_scheme \<Rightarrow> jsval \<Rightarrow> string \<Rightarrow> jsval \<Rightarrow> jsval \<Rightarrow> http_req" where
  "olive_get_request w phoneid url payload token =
     \<lparr>req_method = JStr ''GET'', req_url = JStr url, req_baseURL = JUndef, req_data = JUndef, req_params = payload,
      req_headers = JObj ((''Accept-Encoding'', JStr ''gzip'') #
        olive_headers w phoneid token (oliveCreateSignature w payload token))\<rparr>"

definition olive_post_request :: "('a) wyze_scheme \<Rightarrow> string \<Rightarrow> jsval \<Rightarrow> jsval \<Rightarrow> http_req" where
  "olive_post_request w url payload token =
     \<lparr>req_method = JStr ''POST'', req_url = JStr url, req_baseURL = JUndef, req_data = JStr (stringify payload),
      req_params = JUndef,
      req_headers = JObj ((''Accept-Encoding'', JStr ''gzip'') # (''Content-Type'', JStr ''application/json'') #
        olive_headers w (phoneId w) token (oliveCreateSignatureSingle w (stringify payload) token))\<rparr>"

lemma olive_get_eq: "olive_get w p url payload token = axios_request w (olive_get_request w p url payload token)"
  by (simp add: olive_get_def axios_get_def olive_get_request_def request_of_def spread_def)

lemma olive_post_eq: "olive_post w url payload token = axios_request w (olive_post_request w url payload token)"
  by (simp add: olive_post_def axios_post_def olive_post_request_def request_of_def spread_def)

lemma olive_requests_signed:
  "signed_request w s (olive_get_request w p url payload (access_token (sess s)))"
  "signed_request w s (olive_post_request w url payload (access_token (sess s)))"
  by (simp_all add: signed_request_def olive_get_request_def olive_post_request_def olive_headers_def)

lemma via_login_now:
  "await (maybeLogin w) (\<lambda>_. await (this_get access_token) (\<lambda>token. await Date_now (\<lambda>now. data_of (axios_request w (f token now))))) =
   via_login w (\<lambda>s. f (access_token (sess s)) (clock s))"
  by (simp add: via_login_def await_def this_get_def Date_now_def fun_eq_iff)

interpretation iot_get: signed_service w "getIotProp w mac"
    "\<lambda>s. olive_get_request w (phoneId w) (sirius_url @ ''get_iot_prop'')
       (oliveCreateGetPayload (clock s) mac iot_prop_keys) (access_token (sess s))" for w mac
  by unfold_locales (simp_all add: getIotProp_def olive_get_eq via_login_now olive_requests_signed)

interpretation iot_set: signed_service w "setIotProp w mac model key v"
    "\<lambda>s. olive_post_request w (sirius_url @ ''set_iot_prop_by_topic'')
       (oliveCreatePostPayload (clock s) mac model key v) (access_token (sess s))" for w mac model key v
  by unfold_locales (simp_all add: setIotProp_def olive_post_eq via_login_now olive_requests_signed)

interpretation profile: signed_service w "getUserProfile w"
    "\<lambda>s. olive_get_request w (phoneId w) ''https://wyze-platform-service.wyzecam.com/app/v2/platform/get_user_profile''
       (oliveCreateUserInfoPayload (clock s)) (access_token (sess s))" for w
  by unfold_locales (simp_all add: getUserProfile_def olive_get_eq via_login_now olive_requests_signed)

interpretation plans: signed_service w "getPlanBindingListByUser w"
    "\<lambda>s. olive_get_request w (phoneId w)
       ''https://wyze-membership-service.wyzecam.com/platform/v2/membership/get_plan_binding_list_by_user''
       (oliveCreateHmsPayload (clock s)) (access_token (sess s))" for w
  by unfold_locales (simp_all add: getPlanBindingListByUser_def olive_get_eq via_login_now olive_requests_signed)

interpretation thermostat_get: signed_service w "thermostatGetIotProp w mac"
    "\<lambda>s. olive_get_request w (JStr constants_phoneId) (earth_url @ ''get_iot_prop'')
       (oliveCreateGetPayload (clock s) mac thermostat_keys) (access_token (sess s))" for w mac
  by unfold_locales (simp_all add: thermostatGetIotProp_def olive_get_eq via_login_now olive_requests_signed)

interpretation thermostat_set: signed_service w "thermostatSetIotProp w mac model key v"
    "\<lambda>s. olive_post_request w (earth_url @ ''set_iot_prop_by_topic'')
       (oliveCreatePostPayload (clock s) mac model key v) (access_token (sess s))" for w mac model key v
  by unfold_locales (simp_all add: thermostatSetIotProp_def olive_post_eq via_login_now olive_requests_signed)

definition hms_status_request :: "('a) wyze_scheme \<Rightarrow> jsval \<Rightarrow> jsval \<Rightarrow> http_req" where
  "hms_status_request w query token =
     \<lparr>req_method = JStr ''GET'', req_url = JStr ''https://hms.api.wyze.com/api/v1/monitoring/v1/profile/state-status'',
      req_baseURL = JUndef, req_data = JUndef, req_params = query,
      req_headers = JObj (olive_headers w (phoneId w) token (oliveCreateSignature w query token) @
        [(''Authorization'', token), (''Content-Type'', JStr ''application/json'')])\<rparr>"

definition hms_active_request :: "('a) wyze_scheme \<Rightarrow> jsval \<Rightarrow> jsval \<Rightarrow> jsval \<Rightarrow> jsval \<Rightarrow> http_req" where
  "hms_active_request w payload home away token =
     \<lparr>req_method = JStr ''PATCH'', req_url = JStr ''https://hms.api.wyze.com/api/v1/monitoring/v1/profile/active'',
      req_baseURL = JUndef,
      req_data = JArr [JObj [(''state'', JStr ''home''), (''active'', home)], JObj [(''state'', JStr ''away''), (''active'', away)]],
      req_params = payload,
      req_headers = JObj (olive_headers w (JStr constants_phoneId) token (oliveCreateSignature w payload token) @
        [(''Authorization'', token)])\<rparr>"

interpretation hms_status: signed_service w "monitoringProfileStateStatus w h"
    "\<lambda>s. hms_status_request w (oliveCreateHmsGetPayload (clock s) h) (access_token (sess s))" for w h
proof
  have "axios_get w ''https://hms.api.wyze.com/api/v1/monitoring/v1/profile/state-status'' (JObj
         [(''headers'', JObj (olive_headers w (phoneId w) token (oliveCreateSignature w query token) @
             [(''Authorization'', token), (''Content-Type'', JStr ''application/json'')])),
          (''params'', query)]) = axios_request w (hms_status_request w query token)" for query token
    by (simp add: axios_get_def request_of_def spread_def hms_status_request_def)
  then show "monitoringProfileStateStatus w h = via_login w
      (\<lambda>s. hms_status_request w (oliveCreateHmsGetPayload (clock s) h) (access_token (sess s)))"
    by (simp add: monitoringProfileStateStatus_def Let_def via_login_now)
  show "signed_request w s (hms_status_request w (oliveCreateHmsGetPayload (clock s) h) (access_token (sess s)))" for s
    by (simp add: signed_request_def hms_status_request_def olive_headers_def)
qed

lemma via_login_token:
  "await (maybeLogin w) (\<lambda>_. await (this_get access_token) (\<lambda>token. data_of (axios_request w (f token)))) =
   via_login w (\<lambda>s. f (access_token (sess s)))"
  by (simp add: via_login_def await_def this_get_def fun_eq_iff)

interpretation hms_active: signed_service w "monitoringProfileActive w h home away"
    "\<lambda>s. hms_active_request w (oliveCreateHmsPatchPayload h) home away (access_token (sess s))" for w h home away
proof
  have "axios_patch w ''https://hms.api.wyze.com/api/v1/monitoring/v1/profile/active''
         (JArr [JObj [(''state'', JStr ''home''), (''active'', home)], JObj [(''state'', JStr ''away''), (''active'', away)]])
         (JObj [(''headers'', JObj (olive_headers w (JStr constants_phoneId) token (oliveCreateSignature w payload token) @
               [(''Authorization'', token)])), (''params'', payload)]) =
      axios_request w (hms_active_request w payload home away token)" for payload token
    by (simp add: axios_patch_def request_of_def spread_def hms_active_request_def)
  then show "monitoringProfileActive w h home away = via_login w
      (\<lambda>s. hms_active_request w (oliveCreateHmsPatchPayload h) home away (access_token (sess s)))"
    by (simp add: monitoringProfileActive_def Let_def via_login_token)
  show "signed_request w s (hms_active_request w (oliveCreateHmsPatchPayload h) home away (access_token (sess s)))" for s
    by (simp add: signed_request_def hms_active_request_def olive_headers_def)
qed

text \<open>C9. Each call of the Sirius, Earth, membership, profile and home-monitoring services sends
  exactly one request after the login, with the token the session has at that moment, and
  what is signed is what is sent: the signature is computed over the very text, or else the
  very query, of that request. The call settles with the \<open>data\<close> of the answer.\<close>

theorem service_calls_signed:
  assumes "call \<in> {getIotProp w mac, setIotProp w mac model key v, getUserProfile w, getPlanBindingListByUser w,
      monitoringProfileStateStatus w hms, monitoringProfileActive w hms home away,
      thermostatGetIotProp w mac, thermostatSetIotProp w mac model key v}"
    and "maybeLogin w s = (Ok (), s1)"
  shows "\<exists>r. signed_request w s1 r \<and> trace (snd (call s)) = trace s1 @ [EHttp r] \<and>
    fst (call s) = (case axios w (ticks s1) r of Inl e \<Rightarrow> Throw e
      | Inr v \<Rightarrow> (case member v ''data'' of Inl e \<Rightarrow> Throw e | Inr d \<Rightarrow> Ok d))"
  using assms(1)
  by (elim insertE emptyE; hypsubst)
    (rule iot_get.signed_call iot_set.signed_call profile.signed_call plans.signed_call hms_status.signed_call
      hms_active.signed_call thermostat_get.signed_call thermostat_set.signed_call, rule assms(2))+

theorem service_calls_signed_witness:
  "\<exists>r. signed_request (demo (answering [])) (demo_world ''t'') r \<and>
     trace (snd (getUserProfile (demo (answering [])) (demo_world ''t''))) = trace (demo_world ''t'') @ [EHttp r]"
proof -
  let ?w = "demo (answering [])" and ?s = "demo_world ''t''"
  have "maybeLogin ?w ?s = (Ok (), ?s)" by (simp add: maybeLogin_token)
  then have "\<exists>r. signed_request ?w ?s r \<and> trace (snd (getUserProfile ?w ?s)) = trace ?s @ [EHttp r] \<and>
      fst (getUserProfile ?w ?s) = (case axios ?w (ticks ?s) r of Inl e \<Rightarrow> Throw e
        | Inr v \<Rightarrow> (case member v ''data'' of Inl e \<Rightarrow> Throw e | Inr d \<Rightarrow> Ok d))"
    by (rule service_calls_signed [where mac = JNull and model = JNull and key = "[]" and v = JNull and hms = JNull
          and home = JNull and away = JNull, rotated]) simp
  then show ?thesis by blast
qed

definition hms_disable_request :: "('a) wyze_scheme \<Rightarrow> jsval \<Rightarrow> jsval \<Rightarrow> http_req" where
  "hms_disable_request w hms_id token =
     \<lparr>req_method = JStr ''DELETE'', req_url = JStr ''https://hms.api.wyze.com/api/v1/reme-alarm'', req_baseURL = JUndef,
      req_data = JObj [(''hms_id'', hms_id), (''remediation_id'', JStr ''emergency'')], req_params = JUndef,
      req_headers = JObj [(''Authorization'', token), (''User-Agent'', userAgent w)]\<rparr>"

lemma disableRemeAlarm_via_login:
  "disableRemeAlarm w h = via_login w (\<lambda>s. hms_disable_request w h (access_token (sess s)))"
  by (simp add: disableRemeAlarm_def axios_delete_def request_of_def spread_def flip: hms_disable_request_def)
    (simp add: via_login_token)

lemma via_login_run:
  assumes "truthy (access_token (sess s))"
  shows "via_login w q s = (case axios w (ticks s) (q s) of Inl e \<Rightarrow> Throw e
      | Inr v \<Rightarrow> (case member v ''data'' of Inl e \<Rightarrow> Throw e | Inr d \<Rightarrow> Ok d), sent w (q s) s)"
  by (auto simp: via_login_def await_def maybeLogin_token [OF assms] data_of_def axios_request_def sent_def lift_err_def
      ret_def throw_def split: sum.splits)

text \<open>C34. Home monitoring is disarmed in two steps, in this order: the running alarm is deleted,
  and only if that was answered are the home and away profiles both switched off, with the
  same token. If deleting the alarm fails the call rejects and the profiles stay as they
  are.\<close>

theorem disarm_order:
  fixes h :: jsval
  assumes "alone w" and "truthy (access_token (sess s))"
  defines "del \<equiv> hms_disable_request w h (access_token (sess s))"
    and "off \<equiv> hms_active_request w (oliveCreateHmsPatchPayload h) (JNum 0) (JNum 0) (access_token (sess s))"
  shows "trace (snd (setHMSState w h (JStr ''off'') s)) = trace s @ EHttp del #
    (case axios w (ticks s) del of Inr v \<Rightarrow> if nullish v then [] else [EHttp off] | Inl e \<Rightarrow> [])"
proof -
  let ?s1 = "sent w del s"
  have tok: "access_token (sess ?s1) = access_token (sess s)" using assms(1) by (simp add: sent_alone)
  have first: "disableRemeAlarm w h s = (case axios w (ticks s) del of Inl e \<Rightarrow> Throw e
      | Inr v \<Rightarrow> (case member v ''data'' of Inl e \<Rightarrow> Throw e | Inr d \<Rightarrow> Ok d), ?s1)"
    using via_login_run [OF assms(2)] by (simp add: disableRemeAlarm_via_login del_def)
  have second: "trace (snd (await (monitoringProfileActive w h (JNum 0) (JNum 0)) f ?s1)) = trace s @ [EHttp del, EHttp off]"
    if "\<And>v s. trace (snd (f v s)) = trace s" for f :: "jsval \<Rightarrow> unit action"
    using that via_login_run [of ?s1 w] assms(2) tok
    by (auto simp: hms_active.call_via_login await_def off_def split: sum.splits)
  show ?thesis
    using second [of "\<lambda>_. ret ()"]
    by (auto simp: setHMSState_def await_def [of "disableRemeAlarm w h"] first ret_def member_def
        split: sum.splits)
qed

theorem disarm_order_witness:
  "map (\<lambda>e. case e of EHttp r \<Rightarrow> req_method r | _ \<Rightarrow> JNull)
     (trace (snd (setHMSState (demo (answering [])) (JStr ''h'') (JStr ''off'') (demo_world ''t'')))) =
   [JStr ''DELETE'', JStr ''PATCH'']"
  by (subst disarm_order)
    (simp_all add: alone_def answering_def hms_disable_request_def hms_active_request_def)

section \<open>Irrigation and logging\<close>

lemma irrigation_posts:
  "irrigationQuickRun w mac z d = await (maybeLogin w) (\<lambda>_ s. irrigation_post w ''quickrun''
     (oliveCreatePostPayloadIrrigationQuickRun (clock s) mac z d) (access_token (sess s)) s)"
  "irrigationStop w mac = await (maybeLogin w) (\<lambda>_ s. irrigation_post w ''runningschedule''
     (oliveCreatePostPayloadIrrigationStop (clock s) mac ''STOP'') (access_token (sess s)) s)"
  by (simp_all add: irrigationQuickRun_def irrigationStop_def await_def this_get_def Date_now_def fun_eq_iff)

lemma irrigation_post_logging:
  assumes "apiLogEnabled w"
  shows "\<exists>e r. irrigation_post w path payload token s = (Throw e, sent w r s)"
  using assms
  by (auto simp: irrigation_post_def olive_post_eq await_def call_log_def axios_request_def sent_def throw_def
      split: sum.splits)

text \<open>With API logging on, the irrigation commands are reported as failures although they
  were sent: whatever the service answers, a quick run or a stop issues its request and then
  rejects, because the logger is called as a function.\<close>

lemma irrigation_sent_but_rejected:
  assumes "apiLogEnabled w" and "maybeLogin w s = (Ok (), s1)"
    and "call \<in> {irrigationQuickRun w mac zone duration, irrigationStop w mac}"
  shows "\<exists>e r. fst (call s) = Throw e \<and> trace (snd (call s)) = trace s1 @ [EHttp r]"
  using assms(3)
proof (elim insertE emptyE; hypsubst)
  show "\<exists>e r. fst (irrigationQuickRun w mac zone duration s) = Throw e \<and>
      trace (snd (irrigationQuickRun w mac zone duration s)) = trace s1 @ [EHttp r]"
    using irrigation_post_logging [OF assms(1), of "''quickrun''"
        "oliveCreatePostPayloadIrrigationQuickRun (clock s1) mac zone duration" "access_token (sess s1)" s1] assms(2)
    by (auto simp: irrigation_posts await_def)
  show "\<exists>e r. fst (irrigationStop w mac s) = Throw e \<and> trace (snd (irrigationStop w mac s)) = trace s1 @ [EHttp r]"
    using irrigation_post_logging [OF assms(1), of "''runningschedule''"
        "oliveCreatePostPayloadIrrigationStop (clock s1) mac ''STOP''" "access_token (sess s1)" s1] assms(2)
    by (auto simp: irrigation_posts await_def)
qed

section \<open>Locks\<close>

text \<open>C35. A lock command is authenticated, a lock query is not: the command that is sent carries
  the token, the application key, the time and the signature over its own fields, for the
  path it is sent to; the query is sent with the identifier and the keypad flag only, since
  the signed copy of its parameters is dropped, and it has no headers.\<close>

theorem lock_requests:
  assumes "maybeLogin w s = (Ok (), s1)"
  shows "(\<exists>r. trace (snd (controlLock w (JStr mac) model action s)) = trace s1 @ [EHttp r] \<and>
      attr (req_data r) ''accessToken'' = access_token (sess s1) \<and>
      attr (req_data r) ''sign'' = JStr (fordCreateSignature w ''/openapi/lock/v1/control'' ''post''
        (JObj [(''uuid'', attr (req_data r) ''uuid''), (''action'', JStr action)]))) \<and>
    (\<exists>r u. trace (snd (getLockInfo w (JStr mac) model s)) = trace s1 @ [EHttp r] \<and>
      req_params r = JObj [(''uuid'', JStr u), (''with_keypad'', JStr ''1'')] \<and> req_headers r = JUndef \<and> req_data r = JUndef)"
  using assms
  by (auto simp: controlLock_def getLockInfo_def getUuid_def await_def this_get_def Date_now_def ret_def data_of_def
      axios_post_def axios_get_def axios_request_def request_of_def spread_def fordCreatePayload_def lift_err_def throw_def Let_def
      split: sum.splits)

theorem lock_requests_witness:
  "\<exists>r u. trace (snd (getLockInfo (demo (answering [])) (JStr ''M.1'') (JStr ''M'') (demo_world ''t''))) =
       trace (demo_world ''t'') @ [EHttp r] \<and>
     req_params r = JObj [(''uuid'', JStr u), (''with_keypad'', JStr ''1'')] \<and> req_headers r = JUndef"
  using lock_requests [of "demo (answering [])" "demo_world ''t''" "demo_world ''t''" "''M.1''" "JStr ''M''" "''lock''"]
  by (auto simp: maybeLogin_token)

text \<open>The identifier of a lock is its address without the model in front of it; an address
  that does not contain the model and a dot is used as it is.\<close>

lemma getUuid_strips_model:
  "getUuid (JStr (model @ ''.'' @ rest)) (JStr model) = Inr rest \<and>
   (js_includes mac (model @ ''.'') \<or> getUuid (JStr mac) (JStr model) = Inr mac)"
proof -
  have "replace_first (p @ rest) p [] = rest" if "p \<noteq> []" for p
    using that by (cases p) auto
  from this [of "model @ ''.''"] show ?thesis
    using replace_first_absent [of mac "model @ ''.''" "[]"] by (auto simp: getUuid_def)
qed

section \<open>Local bulbs\<close>

definition rejects :: "'b action \<Rightarrow> bool" where
  "rejects m = (\<forall>s. \<exists>e. fst (m s) = Throw e)"

lemma rejects_intros:
  "rejects (throw e)" "(\<And>v. rejects (f v)) \<Longrightarrow> rejects (await (lift_err r) f)"
  by (cases r; auto simp: rejects_def run_simps)+

text \<open>A command to a bulb on the local network never gets anywhere: as the module does not
  import \<open>moment\<close>, every call rejects, with no request sent and nothing changed. Even with
  \<open>moment\<close>, a bulb that answers with an error would not lead to the announced fallback to the
  cloud but to a rejection.\<close>

lemma localBulbCommand_fails:
  assumes "\<And>t r. axios w t r = Inl (HttpError m (Some resp))"
  shows "(\<exists>e. localBulbCommand w None mac enr ip pid v s = (Throw e, s)) \<and>
    (\<exists>e. fst (localBulbCommand w (Some ts) mac enr ip pid v s) = Throw e)"
proof -
  have post: "rejects (try_catch (await (axios_post w u d c) f)
      (\<lambda>error. case err_response error of Some response \<Rightarrow> throw (ReferenceError x) | None \<Rightarrow> ret ()))" for u d c f x
    by (auto simp: rejects_def axios_post_def axios_request_def run_simps assms)
  have "rejects (localBulbCommand w (Some ts) mac enr ip pid v)"
    unfolding localBulbCommand_def Let_def option.case
    by (cases mac) (auto intro!: rejects_intros post)
  moreover have "\<exists>e. localBulbCommand w None mac enr ip pid v s = (Throw e, s)"
    unfolding localBulbCommand_def Let_def option.case by (cases mac) (simp_all, simp_all add: throw_def)
  ultimately show ?thesis by (simp add: rejects_def)
qed

section \<open>IoT3 locks\<close>

lemma split_on_first: "d \<notin> set a \<Longrightarrow> split_on d (a @ d # r) = a # split_on d r"
  by (induction a) auto

lemma split_on_nonempty: "split_on d s \<noteq> []"
  by (induction s) (auto split: list.splits)

lemma iot3ExtractModel_address:
  assumes "CHR ''_'' \<notin> set a" and "CHR ''_'' \<notin> set b"
  shows "iot3ExtractModel (JStr (a @ ''_'' @ b @ ''_'' @ rest)) JNull = Inr (JStr (a @ ''_'' @ b))"
  using assms split_on_nonempty [of "CHR ''_''" rest]
  by (auto simp: iot3ExtractModel_def split_on_first Suc_le_eq)

text \<open>C33. A lock command without a model takes the model from the address, which is
  \<open>MODEL_VARIANT_ADDRESS\<close>: the first two parts. The request is signed over exactly the text it
  sends, with the session's token, and that text parses back to the payload.\<close>

theorem iot3_request:
  assumes "maybeLogin w s = (Ok (), s1)" and "CHR ''_'' \<notin> set a" and "CHR ''_'' \<notin> set b"
    and "wf_json (username w)"
  shows "\<exists>r body. trace (snd (iot3RunAction w (JStr (a @ ''_'' @ b @ ''_'' @ rest)) JNull action s)) = trace s1 @ [EHttp r] \<and>
     req_data r = JStr body \<and>
     attr (req_headers r) ''Signature2'' = JStr (iot3CreateSignature w body (access_token (sess s1))) \<and>
     (\<exists>p. json_parse body = Some p \<and> attr (attr p ''targetInfo'') ''model'' = JStr (a @ ''_'' @ b) \<and>
          attr (attr p ''payload'') ''action'' = JStr action)"
proof -
  define mac where "mac = JStr (a @ ''_'' @ b @ ''_'' @ rest)"
  define p where "p = iot3CreateRunActionPayload (clock s1) (math_random w (draws s1)) (math_random w (Suc (draws s1)))
    mac (JStr (a @ ''_'' @ b)) action (username w)"
  define body where "body = stringify p"
  have wf: "wf_json p" using assms(4) by (simp add: p_def iot3CreateRunActionPayload_def mac_def)
  then have parse: "json_parse body = Some p" by (simp add: json_parse_stringify body_def)
  have run: "iot3RunAction w mac JNull action s = iot3Post w ''/app/v4/iot3/run-action'' p (s1\<lparr>draws := draws s1 + 2\<rparr>)"
    using assms(1) iot3ExtractModel_address [OF assms(2,3), of rest]
    by (simp add: iot3RunAction_def await_def Date_now_def Math_random_def ret_def p_def mac_def)
  have post: "\<exists>r. trace (snd (iot3Post w u p s2)) = trace s2 @ [EHttp r] \<and> req_data r = JStr body \<and>
      attr (req_headers r) ''Signature2'' = JStr (iot3CreateSignature w body (access_token (sess s2)))" for u s2
    by (auto simp: iot3Post_def iot3BuildHeaders_def body_def [symmetric] await_def this_get_def randomBytes_hex_def ret_def
        data_of_def axios_post_def axios_request_def request_of_def spread_def lift_err_def throw_def split: sum.splits)
  obtain r where "trace (snd (iot3RunAction w mac JNull action s)) = trace s1 @ [EHttp r]"
    "req_data r = JStr body" "attr (req_headers r) ''Signature2'' = JStr (iot3CreateSignature w body (access_token (sess s1)))"
    using post [of "''/app/v4/iot3/run-action''" "s1\<lparr>draws := draws s1 + 2\<rparr>"] unfolding run by auto
  moreover have "attr (attr p ''targetInfo'') ''model'' = JStr (a @ ''_'' @ b)" "attr (attr p ''payload'') ''action'' = JStr action"
    by (simp_all add: p_def iot3CreateRunActionPayload_def)
  ultimately show ?thesis
    using parse unfolding mac_def by blast
qed

theorem iot3_request_witness:
  "\<exists>r body. trace (snd (iot3RunAction (demo (answering [])) (JStr (''DX'' @ ''_'' @ ''LB2'' @ ''_'' @ ''80'')) JNull ''lock::lock''
       (demo_world ''t''))) = trace (demo_world ''t'') @ [EHttp r] \<and> req_data r = JStr body \<and>
     attr (req_headers r) ''Signature2'' = JStr (iot3CreateSignature (demo (answering [])) body (JStr ''t''))"
proof -
  have "\<exists>r body. trace (snd (iot3RunAction (demo (answering [])) (JStr (''DX'' @ ''_'' @ ''LB2'' @ ''_'' @ ''80'')) JNull ''lock::lock''
       (demo_world ''t''))) = trace (demo_world ''t'') @ [EHttp r] \<and>
     req_data r = JStr body \<and>
     attr (req_headers r) ''Signature2'' =
       JStr (iot3CreateSignature (demo (answering [])) body (access_token (sess (demo_world ''t'')))) \<and>
     (\<exists>p. json_parse body = Some p \<and> attr (attr p ''targetInfo'') ''model'' = JStr (''DX'' @ ''_'' @ ''LB2'') \<and>
          attr (attr p ''payload'') ''action'' = JStr ''lock::lock'')"
    by (rule iot3_request) (simp_all add: maybeLogin_token)
  then show ?thesis by auto
qed

end
