(* ===== verification/JS_Ops.thy ===== *)
theory JS_Ops
  imports JS_Value
begin

text \<open>
  The loose comparisons of JavaScript (\<open>==\<close>, \<open><=\<close>, \<open>>=\<close>), and \<open>find\<close> and \<open>filter\<close> of
  arrays whose predicates can throw, with their laws for predicates that do not.
\<close>

section \<open>Comparisons\<close>

fun is_object :: "jsval \<Rightarrow> bool" where
  "is_object (JArr xs) = True"
| "is_object (JObj kvs) = True"
| "is_object v = False"

definition to_primitive :: "jsval \<Rightarrow> jsval" where
  "to_primitive v = (if is_object v then JStr (js_String v) else v)"

text \<open>\<open>a == b\<close>. Two objects are equal only when they are the same object; values here are
  distinct ones.\<close>

definition loose_eq :: "jsval \<Rightarrow> jsval \<Rightarrow> bool" where
  "loose_eq a b =
     (if is_object a \<and> is_object b then False
      else if nullish a \<or> nullish b then nullish a \<and> nullish b
      else (case (to_primitive a, to_primitive b) of
              (JStr x, JStr y) \<Rightarrow> x = y
            | (x, y) \<Rightarrow> js_Number x = js_Number y \<and> js_Number x \<noteq> NaN))"

text \<open>\<open>a <= b\<close>: two texts are compared as texts, anything else as numbers.\<close>

definition js_le :: "jsval \<Rightarrow> jsval \<Rightarrow> bool" where
  "js_le a b = (case (to_primitive a, to_primitive b) of
      (JStr x, JStr y) \<Rightarrow> x \<le> y
    | (x, y) \<Rightarrow> num_le (js_Number x) (js_Number y))"

lemma js_le_num [simp]: "js_le (JNum a) (JNum b) \<longleftrightarrow> a \<le> b"
  by (auto simp: js_le_def to_primitive_def num_le_def)

lemma js_le_nullish [simp]: "\<not> js_le a JUndef" "\<not> js_le JUndef a"
  by (cases a; simp add: js_le_def to_primitive_def num_le_def)+

section \<open>Arrays\<close>

definition array_of :: "jsval \<Rightarrow> err + jsval list" where
  "array_of v = (case v of JArr xs \<Rightarrow> Inr xs | _ \<Rightarrow> Inl (TypeError ''not a function''))"

text \<open>The values \<open>for (... of v)\<close> goes through.\<close>

definition iterable_of :: "jsval \<Rightarrow> err + jsval list" where
  "iterable_of v = (case v of JArr xs \<Rightarrow> Inr xs | JStr s \<Rightarrow> Inr (map (\<lambda>c. JStr [c]) s)
     | _ \<Rightarrow> Inl (TypeError ''not iterable''))"

fun js_find :: "(jsval \<Rightarrow> err + bool) \<Rightarrow> jsval list \<Rightarrow> err + jsval" where
  "js_find p [] = Inr JUndef"
| "js_find p (x # xs) = (case p x of Inl e \<Rightarrow> Inl e | Inr b \<Rightarrow> if b then Inr x else js_find p xs)"

fun js_filter :: "(jsval \<Rightarrow> err + bool) \<Rightarrow> jsval list \<Rightarrow> err + jsval list" where
  "js_filter p [] = Inr []"
| "js_filter p (x # xs) = (case p x of Inl e \<Rightarrow> Inl e
     | Inr b \<Rightarrow> (case js_filter p xs of Inl e \<Rightarrow> Inl e | Inr ys \<Rightarrow> Inr (if b then x # ys else ys)))"

text \<open>\<open>v.k.toLowerCase()\<close>.\<close>

definition lower_member :: "jsval \<Rightarrow> string \<Rightarrow> err + string" where
  "lower_member v k = (case member v k of Inl e \<Rightarrow> Inl e
     | Inr x \<Rightarrow> (case x of JStr s \<Rightarrow> Inr (toLowerCase s) | _ \<Rightarrow> Inl (TypeError (k @ ''.toLowerCase is not a function''))))"

text \<open>\<open>s.toLowerCase()\<close> of an argument.\<close>

definition lower_arg :: "jsval \<Rightarrow> err + string" where
  "lower_arg v = (case v of JStr s \<Rightarrow> Inr (toLowerCase s) | _ \<Rightarrow> Inl (TypeError ''toLowerCase is not a function''))"

text \<open>
  What a lookup promises: on the values its predicate is defined for, \<open>filter\<close> returns
  exactly the matching ones in order, and \<open>find\<close> the first of them, or \<open>undefined\<close>.
\<close>

locale lookup =
  fixes test :: "jsval \<Rightarrow> err + bool" and defd matches :: "jsval \<Rightarrow> bool"
  assumes test_defd: "defd x \<Longrightarrow> test x = Inr (matches x)"
begin

lemma filter_matches: "list_all defd xs \<Longrightarrow> js_filter test xs = Inr (filter matches xs)"
  by (induction xs) (auto simp: test_defd)

lemma find_first:
  "list_all defd xs \<Longrightarrow> js_find test xs = Inr (case filter matches xs of [] \<Rightarrow> JUndef | x # _ \<Rightarrow> x)"
  by (induction xs) (auto simp: test_defd)

lemma find_before: "matches x \<Longrightarrow> defd x \<Longrightarrow> list_all defd xs \<Longrightarrow> filter matches xs = [] \<Longrightarrow>
   js_find test (xs @ x # ys) = Inr x"
  by (induction xs) (auto simp: test_defd)

end

end
