(* ===== verification/Wyze_Directory.thy ===== *)
theory Wyze_Directory
  imports Wyze_Services JS_Ops
begin

text \<open>
  The devices of an account: the lists the object list holds, looking devices up by name,
  address, type or model, and reading the state of one.
\<close>

section \<open>Lists\<close>

definition getObjectListSafe :: "('a) wyze_scheme \<Rightarrow> jsval action" where
  "getObjectListSafe w = logged (getObjectList w)"

text \<open>\<open>result.data.k || []\<close>.\<close>

definition object_list_part :: "('a) wyze_scheme \<Rightarrow> string \<Rightarrow> jsval action" where
  "object_list_part w k =
     await (getObjectListSafe w) (\<lambda>result.
     await (lift_err (member result ''data'')) (\<lambda>data.
     await (lift_err (member data k)) (\<lambda>list. ret (js_or list (JArr [])))))"

definition getDeviceList :: "('a) wyze_scheme \<Rightarrow> jsval action" where
  "getDeviceList w = object_list_part w ''device_list''"

definition getDeviceGroupsList :: "('a) wyze_scheme \<Rightarrow> jsval action" where
  "getDeviceGroupsList w = object_list_part w ''device_group_list''"

definition getDeviceSortList :: "('a) wyze_scheme \<Rightarrow> jsval action" where
  "getDeviceSortList w = object_list_part w ''device_sort_list''"

section \<open>Lookups\<close>

definition find_device :: "('a) wyze_scheme \<Rightarrow> (jsval \<Rightarrow> err + bool) \<Rightarrow> jsval action" where
  "find_device w test =
     await (getDeviceList w) (\<lambda>devices.
     await (lift_err (array_of devices)) (\<lambda>xs. lift_err (js_find test xs)))"

definition filter_devices :: "('a) wyze_scheme \<Rightarrow> (jsval \<Rightarrow> err + bool) \<Rightarrow> jsval action" where
  "filter_devices w test =
     await (getDeviceList w) (\<lambda>devices.
     await (lift_err (array_of devices)) (\<lambda>xs.
     await (lift_err (js_filter test xs)) (\<lambda>ys. ret (JArr ys))))"

text \<open>\<open>device.k.toLowerCase() === v.toLowerCase()\<close>.\<close>

definition same_text :: "string \<Rightarrow> jsval \<Rightarrow> jsval \<Rightarrow> err + bool" where
  "same_text k v device = (case lower_member device k of Inl e \<Rightarrow> Inl e
     | Inr a \<Rightarrow> (case lower_arg v of Inl e \<Rightarrow> Inl e | Inr b \<Rightarrow> Inr (a = b)))"

text \<open>\<open>device.mac === mac\<close>.\<close>

definition same_mac :: "jsval \<Rightarrow> jsval \<Rightarrow> err + bool" where
  "same_mac mac device = (case member device ''mac'' of Inl e \<Rightarrow> Inl e | Inr m \<Rightarrow> Inr (m = mac \<and> \<not> is_object m))"

definition getDeviceByName :: "('a) wyze_scheme \<Rightarrow> jsval \<Rightarrow> jsval action" where
  "getDeviceByName w nickname = find_device w (same_text ''nickname'' nickname)"

definition getDeviceByMac :: "('a) wyze_scheme \<Rightarrow> jsval \<Rightarrow> jsval action" where
  "getDeviceByMac w mac = find_device w (same_mac mac)"

definition getDevicesByType :: "('a) wyze_scheme \<Rightarrow> jsval \<Rightarrow> jsval action" where
  "getDevicesByType w type = filter_devices w (same_text ''product_type'' type)"

definition getDevicesByModel :: "('a) wyze_scheme \<Rightarrow> jsval \<Rightarrow> jsval action" where
  "getDevicesByModel w model = filter_devices w (same_text ''product_model'' model)"

section \<open>The state of a device\<close>

definition getDeviceStatus :: "jsval \<Rightarrow> jsval action" where
  "getDeviceStatus device = lift_err (member device ''device_params'')"

definition getDevicePID :: "('a) wyze_scheme \<Rightarrow> jsval \<Rightarrow> jsval \<Rightarrow> jsval action" where
  "getDevicePID w deviceMac deviceModel = getPropertyList w deviceMac deviceModel"

definition getDeviceState :: "jsval \<Rightarrow> jsval action" where
  "getDeviceState device =
     await (lift_err (member device ''device_params'')) (\<lambda>params.
     await (lift_err (member params ''power_switch'')) (\<lambda>power.
       if power \<noteq> JUndef then ret (JStr (if power = JNum 1 then ''on'' else ''off''))
       else await (lift_err (member params ''open_close_state'')) (\<lambda>open_close.
         ret (JStr (if open_close \<noteq> JUndef then (if open_close = JNum 1 then ''open'' else ''closed'') else '''')))))"

text \<open>The loop over the property list; \<open>undefined\<close> when it ends without a match.\<close>

fun pid_loop :: "jsval \<Rightarrow> jsval list \<Rightarrow> err + jsval" where
  "pid_loop pid [] = Inr JUndef"
| "pid_loop pid (property # rest) =
     (case member property ''pid'' of Inl e \<Rightarrow> Inl e
      | Inr p \<Rightarrow>
         if loose_eq pid p then
           (let v = attr property ''value'' in
            Inr (if v \<noteq> JUndef then (if v = JStr ''1'' then JNum 1 else JNum 0) else JStr ''''))
         else pid_loop pid rest)"

definition getDeviceStatePID :: "('a) wyze_scheme \<Rightarrow> jsval \<Rightarrow> jsval \<Rightarrow> jsval \<Rightarrow> jsval action" where
  "getDeviceStatePID w deviceMac deviceModel pid =
     await (getDevicePID w deviceMac deviceModel) (\<lambda>result.
     await (lift_err (member result ''data'')) (\<lambda>data.
     await (lift_err (member data ''property_list'')) (\<lambda>list.
     await (lift_err (iterable_of list)) (\<lambda>xs. lift_err (pid_loop pid xs)))))"

section \<open>Frames\<close>

context session_frame
begin

lemma keeps_directory [frame_intros]:
  "keeps R (object_list_part w k)" "keeps R (getDeviceList w)" "keeps R (getDeviceGroupsList w)" "keeps R (getDeviceSortList w)"
  unfolding object_list_part_def getObjectListSafe_def getDeviceList_def getDeviceGroupsList_def getDeviceSortList_def
  by (intro frame_intros)+

lemma keeps_find_device [frame_intros]: "keeps R (find_device w p)" "keeps R (filter_devices w p)"
  unfolding find_device_def filter_devices_def by (intro frame_intros)+

lemma keeps_lookups [frame_intros]:
  "keeps R (getDeviceByName w v)" "keeps R (getDeviceByMac w v)" "keeps R (getDevicesByType w v)"
  "keeps R (getDevicesByModel w v)" "keeps R (getDeviceStatePID w m d p)"
  unfolding getDeviceByName_def getDeviceByMac_def getDevicesByType_def getDevicesByModel_def getDeviceStatePID_def
    getDevicePID_def by (intro frame_intros)+

end

text \<open>The list costs as much as one request.\<close>

lemma budget_getDeviceList:
  assumes "renewal_answers w" and "151 \<le> fuel w"
  shows "budget w 12 (getDeviceList w)"
  unfolding getDeviceList_def object_list_part_def getObjectListSafe_def getObjectList_def data_of_def logged_id
  by (rule budget_mono, (rule budget_request [OF assms] budget_intros frame_intros)+) simp

section \<open>What the lookups find\<close>

definition has_text :: "string \<Rightarrow> jsval \<Rightarrow> bool" where
  "has_text k d = (case attr d k of JStr t \<Rightarrow> True | _ \<Rightarrow> False)"

definition text_is :: "string \<Rightarrow> string \<Rightarrow> jsval \<Rightarrow> bool" where
  "text_is k v d = (case attr d k of JStr t \<Rightarrow> toLowerCase t = toLowerCase v | _ \<Rightarrow> False)"

lemma nullish_attr: "nullish d \<Longrightarrow> attr d k = JUndef"
  by (cases d) simp_all

interpretation by_text: lookup "same_text k (JStr v)" "has_text k" "text_is k v" for k v
proof
  fix x assume "has_text k x"
  then obtain t where "attr x k = JStr t" by (auto simp: has_text_def split: jsval.splits)
  moreover from this have "\<not> nullish x" using nullish_attr [of x k] by auto
  ultimately show "same_text k (JStr v) x = Inr (text_is k v x)"
    by (auto simp: same_text_def lower_member_def member_def text_is_def lower_arg_def)
qed

interpretation by_mac: lookup "same_mac (JStr m)" "\<lambda>d. \<not> nullish d" "\<lambda>d. attr d ''mac'' = JStr m" for m
  by unfold_locales (auto simp: same_mac_def member_def)

lemma filter_devices_run:
  "getDeviceList w s = (Ok (JArr ds), s1) \<Longrightarrow>
   filter_devices w test s = ((case js_filter test ds of Inl e \<Rightarrow> Throw e | Inr ys \<Rightarrow> Ok (JArr ys)), s1)"
  by (auto simp: filter_devices_def await_def array_of_def ret_def lift_err_def throw_def split: sum.splits)

lemma find_device_run:
  "getDeviceList w s = (Ok (JArr ds), s1) \<Longrightarrow>
   find_device w test s = ((case js_find test ds of Inl e \<Rightarrow> Throw e | Inr d \<Rightarrow> Ok d), s1)"
  by (auto simp: find_device_def await_def array_of_def ret_def lift_err_def throw_def split: sum.splits)

text \<open>C36. Looking devices up by type or model returns exactly the devices of the account with that
  type or model, in the account's order, without regard to case; looking one up by name or
  address returns the first such device, or \<open>undefined\<close> if there is none. The lookup makes no
  request besides the one for the list.\<close>

theorem device_lookups:
  assumes "getDeviceList w s = (Ok (JArr ds), s1)"
    and "list_all (has_text ''product_type'') ds" and "list_all (has_text ''product_model'') ds"
    and "list_all (has_text ''nickname'') ds"
  shows "getDevicesByType w (JStr t) s = (Ok (JArr (filter (text_is ''product_type'' t) ds)), s1) \<and>
    getDevicesByModel w (JStr m) s = (Ok (JArr (filter (text_is ''product_model'' m) ds)), s1) \<and>
    getDeviceByName w (JStr n) s =
      (Ok (case filter (text_is ''nickname'' n) ds of [] \<Rightarrow> JUndef | d # _ \<Rightarrow> d), s1) \<and>
    getDeviceByMac w (JStr a) s =
      (Ok (case filter (\<lambda>d. attr d ''mac'' = JStr a) ds of [] \<Rightarrow> JUndef | d # _ \<Rightarrow> d), s1)"
proof -
  have "list_all (\<lambda>d. \<not> nullish d) ds"
    using assms(4) nullish_attr by (fastforce simp: list_all_iff has_text_def)
  then show ?thesis
    using assms
    by (simp add: getDevicesByType_def getDevicesByModel_def getDeviceByName_def getDeviceByMac_def
        filter_devices_run [OF assms(1)] find_device_run [OF assms(1)] by_text.filter_matches by_text.find_first
        by_mac.find_first)
qed

definition demo_devices :: "jsval list" where
  "demo_devices =
     [JObj [(''mac'', JStr ''A1''), (''nickname'', JStr ''Porch''), (''product_type'', JStr ''Camera''), (''product_model'', JStr ''WYZEC1'')],
      JObj [(''mac'', JStr ''B2''), (''nickname'', JStr ''Lamp''), (''product_type'', JStr ''Light''), (''product_model'', JStr ''WLPA19'')]]"

definition demo_account :: "jsval list \<Rightarrow> (string \<times> jsval) list \<Rightarrow> nat \<Rightarrow> http_req \<Rightarrow> err + jsval" where
  "demo_account ds rest = answering [(''code'', JNum 1), (''data'', JObj ((''device_list'', JArr ds) # rest))]"

definition demo_home :: "jsval list \<Rightarrow> nat \<Rightarrow> http_req \<Rightarrow> err + jsval" where
  "demo_home ds = demo_account ds []"

lemma demo_account_any:
  assumes "truthy (access_token (sess s))" and "\<not> dumpData (sess s)"
  shows "\<exists>s1. getDeviceList (demo (demo_account ds rest)) s = (Ok (JArr ds), s1) \<and> sess s1 = sess s \<and> clock s1 = clock s + 10"
proof -
  let ?w = "demo (demo_account ds rest)"
  have "performRequest (fuel ?w) ?w u d (JObj []) s =
      (Ok (JObj [(''data'', JObj [(''code'', JNum 1), (''data'', JObj ((''device_list'', JArr ds) # rest))]),
         (''ok'', JBool True)]), received ?w u d (JObj [(''data'', JObj [(''code'', JNum 1),
           (''data'', JObj ((''device_list'', JArr ds) # rest))])]) s)" for u d
  proof -
    have "fuel ?w = Suc 199" by simp
    then show ?thesis
      using performRequest_run [of ?w s u d _ 199] assms(2)
      by (simp add: alone_def demo_account_def answering_def handleApiResponse_ok answer_ok_def answer_code_def spread_def
          del: performRequest.simps)
  qed
  then show ?thesis
    using assms(1)
    by (simp add: getDeviceList_def object_list_part_def getObjectListSafe_def getObjectList_def data_of_def
        request_def handleRequest_def await_def maybeLogin_token ret_def js_or_def received_def sent_def await_point_def del: performRequest.simps)
qed

lemma demo_account_list:
  "\<exists>s1. getDeviceList (demo (demo_account ds rest)) (demo_world ''t'') = (Ok (JArr ds), s1) \<and> sess s1 = demo_session ''t''"
  using demo_account_any [of "demo_world ''t''" ds rest] by auto

lemma demo_home_list: "\<exists>s1. getDeviceList (demo (demo_home ds)) (demo_world ''t'') = (Ok (JArr ds), s1)"
  unfolding demo_home_def using demo_account_list by blast

theorem device_lookups_witness:
  "\<exists>s1. getDevicesByType (demo (demo_home demo_devices)) (JStr ''CAMERA'') (demo_world ''t'') = (Ok (JArr [hd demo_devices]), s1) \<and>
     getDeviceByMac (demo (demo_home demo_devices)) (JStr ''B2'') (demo_world ''t'') = (Ok (hd (tl demo_devices)), s1)"
proof -
  obtain s1 where list: "getDeviceList (demo (demo_home demo_devices)) (demo_world ''t'') = (Ok (JArr demo_devices), s1)"
    using demo_home_list by blast
  have low: "toLowerCase ''Camera'' = toLowerCase ''CAMERA''" "toLowerCase ''Light'' \<noteq> toLowerCase ''CAMERA''"
    by code_simp+
  have wf: "list_all (has_text ''product_type'') demo_devices" "list_all (has_text ''product_model'') demo_devices"
    "list_all (has_text ''nickname'') demo_devices"
    by (simp_all add: demo_devices_def has_text_def)
  show ?thesis
    using device_lookups [OF list wf, of "''CAMERA''" "''x''" "''x''" "''B2''"] low
    by (simp add: demo_devices_def text_is_def)
qed

lemma js_filter_error: "x \<in> set xs \<Longrightarrow> test x = Inl e \<Longrightarrow> \<exists>e'. js_filter test xs = Inl e'"
  by (induction xs) (auto split: sum.splits)

lemma same_text_missing: "\<not> has_text k d \<Longrightarrow> \<exists>e. same_text k v d = Inl e"
  by (auto simp: has_text_def same_text_def lower_member_def member_def split: jsval.splits)

text \<open>A lookup by type or model is all or nothing: one device of the account without that
  property, or with one that is not a text, makes the whole lookup reject, whatever the other
  devices are.\<close>

lemma lookup_rejects_on_odd_device:
  assumes "getDeviceList w s = (Ok (JArr ds), s1)" and "d \<in> set ds"
  shows "(\<not> has_text ''product_type'' d \<longrightarrow> (\<exists>e. getDevicesByType w t s = (Throw e, s1))) \<and>
    (\<not> has_text ''product_model'' d \<longrightarrow> (\<exists>e. getDevicesByModel w t s = (Throw e, s1)))"
proof -
  have "\<exists>e. filter_devices w (same_text k t) s = (Throw e, s1)" if odd: "\<not> has_text k d" for k
  proof -
    obtain e where "same_text k t d = Inl e" using same_text_missing [OF odd] by blast
    then obtain e' where "js_filter (same_text k t) ds = Inl e'" using js_filter_error [OF assms(2)] by blast
    then show ?thesis using filter_devices_run [OF assms(1)] by simp
  qed
  then show ?thesis by (simp add: getDevicesByType_def getDevicesByModel_def)
qed

section \<open>Reading a property\<close>

text \<open>\<open>getDeviceStatePID\<close> reads the first property with the given identifier, compared
  loosely, so a number finds its text: 1 for the text \<open>1\<close>, 0 for any other value, the empty
  text if it has none, and \<open>undefined\<close> if there is no such property.\<close>

lemma pid_loop_first:
  assumes "list_all (\<lambda>p. \<not> nullish p) ps"
  shows "pid_loop pid ps = Inr (case filter (\<lambda>p. loose_eq pid (attr p ''pid'')) ps of
       [] \<Rightarrow> JUndef
     | p # _ \<Rightarrow> if attr p ''value'' = JUndef then JStr '''' else if attr p ''value'' = JStr ''1'' then JNum 1 else JNum 0)"
  using assms by (induction ps) (auto simp: member_def)

end
