(* ===== verification/Wyze_Camera.thy ===== *)
theory Wyze_Camera
  imports Wyze_Directory
begin

text \<open>
  Cameras: what a device object says about one, looking them up, the WebRTC stream
  information with its cache, client identifiers, retries with exponential backoff, and
  snapshots. The options of a call are records of the values the source destructures, with
  its defaults. Capturing a frame is an argument: it runs a WebRTC session and ffmpeg.
\<close>

section \<open>Device objects\<close>

definition cameraIsOnline :: "jsval \<Rightarrow> bool" where
  "cameraIsOnline device =
     (if attr device ''conn_state'' \<noteq> JUndef then attr device ''conn_state'' = JNum 1
      else if attr (attr device ''device_params'') ''status'' \<noteq> JUndef
        then attr (attr device ''device_params'') ''status'' = JNum 1
      else if attr device ''is_online'' \<noteq> JUndef then truthy (attr device ''is_online'')
      else False)"

definition camera_thumbnails :: "jsval \<Rightarrow> jsval" where
  "camera_thumbnails device = attr (attr device ''device_params'') ''camera_thumbnails''"

definition cameraGetThumbnail :: "jsval \<Rightarrow> jsval" where
  "cameraGetThumbnail device =
     (case camera_thumbnails device of
        JArr (t # ts) \<Rightarrow> js_coalesce (attr t ''url'') JNull
      | _ \<Rightarrow> JNull)"

definition cameraGetSnapshot :: "jsval \<Rightarrow> jsval" where
  "cameraGetSnapshot device =
     (case camera_thumbnails device of JArr (t # ts) \<Rightarrow> js_coalesce t JNull | _ \<Rightarrow> JNull)"

definition cameraToSummary :: "jsval \<Rightarrow> jsval" where
  "cameraToSummary device = JObj
     [(''mac'', attr device ''mac''), (''productModel'', attr device ''product_model''),
      (''nickname'', attr device ''nickname''), (''online'', JBool (cameraIsOnline device)),
      (''thumbnail'', cameraGetThumbnail device)]"

definition cameraGetSignalStrength :: "jsval \<Rightarrow> jsval" where
  "cameraGetSignalStrength device = js_coalesce (attr (attr device ''device_params'') ''signal_strength'') JNull"

definition cameraGetIp :: "jsval \<Rightarrow> jsval" where
  "cameraGetIp device = js_coalesce (attr (attr device ''device_params'') ''ip'') JNull"

definition cameraGetFirmware :: "jsval \<Rightarrow> jsval" where
  "cameraGetFirmware device = js_coalesce (attr device ''firmware_ver'') JNull"

definition cameraGetTimezone :: "jsval \<Rightarrow> jsval" where
  "cameraGetTimezone device = js_coalesce (attr device ''timezone_name'') JNull"

text \<open>A \<open>Date\<close> is its time in milliseconds; \<open>None\<close> is \<open>null\<close>.\<close>

definition cameraGetLastSeen :: "jsval \<Rightarrow> int option" where
  "cameraGetLastSeen device =
     (case attr (attr device ''device_params'') ''last_login_time'' of JNum ts \<Rightarrow> Some ts | _ \<Rightarrow> None)"

definition parseCameraStatus :: "jsval \<Rightarrow> jsval" where
  "parseCameraStatus streamInfoResponse =
     (let item = attr (attr streamInfoResponse ''data'') ''0'' in
      if \<not> truthy (attr item ''property'') then JNull
      else JObj [(''online'', JBool (attr (attr item ''property'') ''iot-device::iot-state'' = JNum 1)),
                 (''powered'', JBool (attr (attr item ''property'') ''iot-device::iot-power'' = JNum 1))])"

section \<open>Lookups\<close>

definition getCameras :: "('a) wyze_scheme \<Rightarrow> jsval action" where
  "getCameras w = getDevicesByType w (JStr ''Camera'')"

definition filter_cameras :: "('a) wyze_scheme \<Rightarrow> (jsval \<Rightarrow> bool) \<Rightarrow> jsval action" where
  "filter_cameras w p =
     await (getCameras w) (\<lambda>cameras.
     await (lift_err (array_of cameras)) (\<lambda>xs. ret (JArr (filter p xs))))"

definition getOnlineCameras :: "('a) wyze_scheme \<Rightarrow> jsval action" where
  "getOnlineCameras w = filter_cameras w cameraIsOnline"

definition getOfflineCameras :: "('a) wyze_scheme \<Rightarrow> jsval action" where
  "getOfflineCameras w = filter_cameras w (\<lambda>camera. \<not> cameraIsOnline camera)"

definition find_camera :: "('a) wyze_scheme \<Rightarrow> (jsval \<Rightarrow> err + bool) \<Rightarrow> jsval action" where
  "find_camera w test =
     await (getCameras w) (\<lambda>cameras.
     await (lift_err (array_of cameras)) (\<lambda>xs. lift_err (js_find test xs)))"

definition getCamera :: "('a) wyze_scheme \<Rightarrow> jsval \<Rightarrow> jsval action" where
  "getCamera w mac = find_camera w (same_mac mac)"

text \<open>\<open>camera?.nickname?.toLowerCase() === nickname?.toLowerCase()\<close>: \<open>None\<close> is \<open>undefined\<close>.\<close>

definition opt_lower :: "jsval \<Rightarrow> err + string option" where
  "opt_lower v = (if nullish v then Inr None
     else case v of JStr t \<Rightarrow> Inr (Some (toLowerCase t)) | _ \<Rightarrow> Inl (TypeError ''toLowerCase is not a function''))"

definition same_nickname :: "jsval \<Rightarrow> jsval \<Rightarrow> err + bool" where
  "same_nickname nickname camera = (case opt_lower (attr camera ''nickname'') of Inl e \<Rightarrow> Inl e
     | Inr a \<Rightarrow> (case opt_lower nickname of Inl e \<Rightarrow> Inl e | Inr b \<Rightarrow> Inr (a = b)))"

definition getCameraByName :: "('a) wyze_scheme \<Rightarrow> jsval \<Rightarrow> jsval action" where
  "getCameraByName w nickname = find_camera w (same_nickname nickname)"

definition getCameraSnapshot :: "('a) wyze_scheme \<Rightarrow> jsval \<Rightarrow> jsval action" where
  "getCameraSnapshot w mac =
     await (getCamera w mac) (\<lambda>camera. ret (if truthy camera then cameraGetSnapshot camera else JNull))"

definition getCameraSnapshotUrl :: "('a) wyze_scheme \<Rightarrow> jsval \<Rightarrow> jsval action" where
  "getCameraSnapshotUrl w mac =
     await (getCameraSnapshot w mac) (\<lambda>snapshot. ret (js_coalesce (attr snapshot ''url'') JNull))"

definition getCameraSummaries :: "('a) wyze_scheme \<Rightarrow> jsval action" where
  "getCameraSummaries w =
     await (getCameras w) (\<lambda>cameras.
     await (lift_err (array_of cameras)) (\<lambda>xs. ret (JArr (map cameraToSummary xs))))"

section \<open>Stream information\<close>

definition stream_body :: "int \<Rightarrow> jsval \<Rightarrow> jsval \<Rightarrow> bool \<Rightarrow> string" where
  "stream_body now deviceMac deviceModel substream = stringify (JObj
     [(''device_list'', JArr [JObj
        [(''device_id'', deviceMac), (''device_model'', deviceModel), (''provider'', JStr ''webrtc''),
         (''parameters'', JObj ((''use_trickle'', JBool True) #
            (if substream then [(''sub_stream'', JBool True)] else [])))]]),
      (''nonce'', JStr (show_int now))])"

text \<open>What is left of the answer when its code is not an error.\<close>

definition stream_entry :: "jsval \<Rightarrow> err + jsval" where
  "stream_entry data =
     (case member data ''data'' of Inl e \<Rightarrow> Inl e
      | Inr list \<Rightarrow>
         (case list of JArr [entry] \<Rightarrow>
            (case member entry ''property'' of Inl e \<Rightarrow> Inl e
             | Inr property \<Rightarrow>
                if \<not> truthy property then
                  Inl (Error (''Unexpected response from cameraGetStreamInfo: '' @ stringify entry))
                else if attr property ''iot-device::iot-state'' \<noteq> JNum 1 then
                  Inl (Error (''Camera is offline: '' @ stringify entry))
                else if attr property ''iot-device::iot-power'' \<noteq> JNum 1 then
                  Inl (Error (''Camera is off: '' @ stringify entry))
                else Inr (attr entry ''params''))
          | _ \<Rightarrow> Inl (Error (''Unexpected response from cameraGetStreamInfo: '' @ stringify data))))"

definition stream_answer :: "('a) wyze_scheme \<Rightarrow> jsval \<Rightarrow> jsval action" where
  "stream_answer w response =
     (let data = attr response ''data'';
          code = attr data ''code'';
          errorMessage = js_or (attr data ''msg'') (js_or (attr data ''description'') (JStr '''')) in
      if code \<noteq> JUndef \<and> js_Number code \<noteq> Fin 1 then
        await (lift_err (isAccessTokenError code errorMessage)) (\<lambda>expired.
        if expired then
          await (handleAccessTokenError (performRequest (fuel w)) w response errorMessage code) (\<lambda>_.
            throw (Error (''Wyze access token error ('' @ js_String code @ ''): '' @ js_String errorMessage @
              ''. Token has been refreshed; retry the call.'')))
        else await (lift_err (isRateLimitError code errorMessage)) (\<lambda>limited.
        if limited then
          throw (Error (''Wyze API rate limited ('' @ js_String code @ ''): '' @ js_String errorMessage))
        else if js_String code = constants_deviceOfflineCode then
          throw (Error (''Camera is offline: '' @ stringify data))
        else throw (Error (''Wyze API Error ('' @ js_String code @ '') - '' @ js_String errorMessage))))
      else lift_err (stream_entry data))"

definition cameraGetStreamInfo :: "('a) wyze_scheme \<Rightarrow> jsval \<Rightarrow> jsval \<Rightarrow> jsval \<Rightarrow> jsval action" where
  "cameraGetStreamInfo w deviceMac deviceModel substream =
     await (maybeLogin w) (\<lambda>_.
     await Date_now (\<lambda>now.
     await (this_get access_token) (\<lambda>token.
       let body = stream_body now deviceMac deviceModel (truthy substream) in
       await (lift_err (web_create_signature w (JStr body) token)) (\<lambda>signature.
       let headers = JObj
         [(''Accept-Encoding'', JStr ''gzip''), (''appId'', JStr constants_webAppId), (''appInfo'', JStr constants_webAppInfo),
          (''access_token'', token), (''Authorization'', token), (''signature2'', JStr signature),
          (''requestid'', JStr (show_int (now mod 100000))), (''Content-Type'', JStr ''application/json; charset=utf-8'')]
       in logged (
         await (axios_post w (constants_iot3BaseUrl @ ''/app/v4/camera/get-streams'') (JStr body) (JObj [(''headers'', headers)])) (\<lambda>response.
         await (lift_err (member response ''headers'')) (\<lambda>h.
         await (checkRateLimit w h) (\<lambda>_. stream_answer w response))))))))"

definition cameraGetSignalingUrl :: "('a) wyze_scheme \<Rightarrow> jsval \<Rightarrow> jsval \<Rightarrow> jsval \<Rightarrow> jsval action" where
  "cameraGetSignalingUrl w deviceMac deviceModel substream =
     await (cameraGetStreamInfo w deviceMac deviceModel substream) (\<lambda>info. lift_err (member info ''signaling_url''))"

definition cameraGetIceServers :: "('a) wyze_scheme \<Rightarrow> jsval \<Rightarrow> jsval \<Rightarrow> jsval \<Rightarrow> jsval action" where
  "cameraGetIceServers w deviceMac deviceModel substream =
     await (cameraGetStreamInfo w deviceMac deviceModel substream) (\<lambda>info. lift_err (member info ''ice_servers''))"

section \<open>Connection information\<close>

definition is_alnum :: "char \<Rightarrow> bool" where
  "is_alnum c = (let n = of_char c :: nat in
     (48 \<le> n \<and> n \<le> 57) \<or> (65 \<le> n \<and> n \<le> 90) \<or> (97 \<le> n \<and> n \<le> 122))"

text \<open>\<open>String(prefix || "viewer").replace(/[^a-zA-Z0-9_-]/g, "-")\<close>.\<close>

definition safe_prefix :: "jsval \<Rightarrow> string" where
  "safe_prefix pre =
     map (\<lambda>c. if is_alnum c \<or> c = CHR ''_'' \<or> c = CHR ''-'' then c else CHR ''-'')
       (js_String (js_or pre (JStr ''viewer'')))"

definition mac_slug :: "jsval \<Rightarrow> err + string" where
  "mac_slug mac =
     (case js_or mac (JStr ''camera'') of
        JStr m \<Rightarrow> (let slug = toLowerCase (slice_last 8 (filter is_alnum m)) in
                  Inr (if slug = [] then ''camera'' else slug))
      | _ \<Rightarrow> Inl (TypeError ''(mac || \"camera\").replace is not a function''))"

definition createCameraStreamClientId :: "('a) wyze_scheme \<Rightarrow> jsval \<Rightarrow> jsval \<Rightarrow> jsval action" where
  "createCameraStreamClientId w deviceOrMac pre =
     (let mac = (case deviceOrMac of JStr m \<Rightarrow> JStr m | _ \<Rightarrow> attr deviceOrMac ''mac'') in
      await (lift_err (mac_slug mac)) (\<lambda>slug.
      await (randomBytes_hex w 4) (\<lambda>random.
      await Date_now (\<lambda>now.
        ret (JStr (safe_prefix pre @ ''-'' @ slug @ ''-'' @ show_int now @ ''-'' @ random))))))"

definition normalizeCameraSignalingUrl :: "jsval \<Rightarrow> jsval" where
  "normalizeCameraSignalingUrl signalingUrl =
     (case signalingUrl of
        JStr u \<Rightarrow> if js_includes u ''%25'' then
                   (case decodeURIComponent u of Inl e \<Rightarrow> signalingUrl | Inr v \<Rightarrow> JStr v)
                 else signalingUrl
      | _ \<Rightarrow> signalingUrl)"

definition ice_entry :: "jsval \<Rightarrow> jsval" where
  "ice_entry server =
     (if \<not> truthy server \<or> \<not> truthy (attr server ''url'') then JNull
      else JObj ((''urls'', attr server ''url'') #
        (if truthy (attr server ''username'') then [(''username'', attr server ''username'')] else []) @
        (if truthy (attr server ''credential'') then [(''credential'', attr server ''credential'')] else [])))"

definition sanitizeCameraIceServers :: "jsval \<Rightarrow> err + jsval" where
  "sanitizeCameraIceServers iceServers =
     (case js_default iceServers (JArr []) of
        JArr xs \<Rightarrow> Inr (JArr (filter truthy (map ice_entry xs)))
      | _ \<Rightarrow> Inl (TypeError ''iceServers.map is not a function''))"

definition streamCacheKey :: "jsval \<Rightarrow> jsval \<Rightarrow> jsval \<Rightarrow> string" where
  "streamCacheKey deviceMac deviceModel substream =
     js_String deviceMac @ '':'' @ js_String deviceModel @ '':'' @ (if truthy substream then ''sub'' else ''main'')"


text \<open>\<open>if (entry && entry.expiresAt > Date.now())\<close>.\<close>

definition fresh_entry :: "ttl_map \<Rightarrow> string \<Rightarrow> int \<Rightarrow> jsval option" where
  "fresh_entry m k now =
     (case map_of m k of Some (v, expiresAt) \<Rightarrow> if expiresAt > now then Some v else None | None \<Rightarrow> None)"

text \<open>\<open>this.cache.set(...)\<close> on a cache that is not there is a type error.\<close>

definition cache_put :: "ttl_map option \<Rightarrow> string \<Rightarrow> jsval \<times> int \<Rightarrow> err + ttl_map option" where
  "cache_put c k v = (case c of None \<Rightarrow> Inl (TypeError ''Cannot read properties of undefined (reading 'set')'')
     | Some m \<Rightarrow> Inr (Some (map_set m k v)))"

record stream_options =
  substream :: jsval
  includeClientId :: jsval
  clientId :: jsval
  clientIdPrefix :: jsval
  noCache :: jsval
  cacheTtlMs :: int

definition default_stream_options :: stream_options where
  "default_stream_options = \<lparr>substream = JBool False, includeClientId = JBool True, clientId = JUndef,
     clientIdPrefix = JStr ''viewer'', noCache = JBool False, cacheTtlMs = 60000\<rparr>"

definition stream_bundle :: "jsval \<Rightarrow> err + jsval" where
  "stream_bundle info =
     (case member info ''signaling_url'' of Inl e \<Rightarrow> Inl e
      | Inr url \<Rightarrow> (case sanitizeCameraIceServers (attr info ''ice_servers'') of Inl e \<Rightarrow> Inl e
        | Inr ice \<Rightarrow> Inr (JObj
            [(''signalingUrl'', normalizeCameraSignalingUrl url), (''iceServers'', ice),
             (''authToken'', js_coalesce (attr info ''auth_token'') JNull)])))"

definition fetch_bundle :: "('a) wyze_scheme \<Rightarrow> jsval \<Rightarrow> jsval \<Rightarrow> stream_options \<Rightarrow> jsval action" where
  "fetch_bundle w deviceMac deviceModel options =
     await (cameraGetStreamInfo w deviceMac deviceModel (substream options)) (\<lambda>info.
     await (lift_err (stream_bundle info)) (\<lambda>bundle.
     await (if truthy (noCache options) then ret ()
            else await Date_now (\<lambda>now.
              await (this_get streamInfoCache) (\<lambda>c.
              await (lift_err (cache_put c (streamCacheKey deviceMac deviceModel (substream options))
                       (bundle, now + cacheTtlMs options))) (\<lambda>c'.
                this_set (streamInfoCache_update (\<lambda>_. c')))))) (\<lambda>_.
       ret bundle)))"

definition connection_result :: "('a) wyze_scheme \<Rightarrow> jsval \<Rightarrow> jsval \<Rightarrow> stream_options \<Rightarrow> jsval \<Rightarrow> bool \<Rightarrow> jsval action" where
  "connection_result w deviceMac deviceModel options bundle cached =
     (let result = spread bundle [(''mac'', deviceMac), (''model'', deviceModel), (''substream'', substream options),
                                  (''cached'', JBool cached)] in
      if truthy (includeClientId options) then
        await (if truthy (clientId options) then ret (clientId options)
               else createCameraStreamClientId w deviceMac (clientIdPrefix options)) (\<lambda>cid.
          ret (set_prop result ''clientId'' cid))
      else ret result)"

definition getCameraWebRTCConnectionInfo :: "('a) wyze_scheme \<Rightarrow> jsval \<Rightarrow> jsval \<Rightarrow> stream_options \<Rightarrow> jsval action" where
  "getCameraWebRTCConnectionInfo w deviceMac deviceModel options =
     await (this_get streamInfoCache) (\<lambda>c.
     await (if c = None then this_set (streamInfoCache_update (\<lambda>_. Some [])) else ret ()) (\<lambda>_.
     await Date_now (\<lambda>now.
     await (this_get streamInfoCache) (\<lambda>c.
       let hit = (if truthy (noCache options) then None
                  else case c of None \<Rightarrow> None
                    | Some m \<Rightarrow> fresh_entry m (streamCacheKey deviceMac deviceModel (substream options)) now)
       in case hit of
            Some bundle \<Rightarrow> connection_result w deviceMac deviceModel options bundle True
          | None \<Rightarrow> await (fetch_bundle w deviceMac deviceModel options) (\<lambda>bundle.
              connection_result w deviceMac deviceModel options bundle False)))))"

text \<open>The retry loop; the first argument counts the retries left, and an absent \<open>onRetry\<close> is
  \<open>None\<close>.\<close>

primrec reconnect_loop :: "nat \<Rightarrow> ('a) wyze_scheme \<Rightarrow> 'b action \<Rightarrow> int \<Rightarrow> (nat \<Rightarrow> err \<Rightarrow> unit action) option \<Rightarrow>
    nat \<Rightarrow> 'b action" where
  "reconnect_loop 0 w fn baseDelayMs onRetry attempt = fn"
| "reconnect_loop (Suc k) w fn baseDelayMs onRetry attempt =
     try_catch fn (\<lambda>err.
       await (case onRetry of None \<Rightarrow> ret () | Some f \<Rightarrow> f (Suc attempt) err) (\<lambda>_.
       await (set_timeout w (Some (baseDelayMs * 2 ^ attempt))) (\<lambda>_.
         reconnect_loop k w fn baseDelayMs onRetry (Suc attempt))))"

definition cameraStreamWithReconnect ::
  "('a) wyze_scheme \<Rightarrow> 'b action \<Rightarrow> int \<Rightarrow> int \<Rightarrow> (nat \<Rightarrow> err \<Rightarrow> unit action) option \<Rightarrow> 'b action" where
  "cameraStreamWithReconnect w fn maxAttempts baseDelayMs onRetry =
     reconnect_loop (nat (maxAttempts - 1)) w fn baseDelayMs onRetry 0"

definition getCameraWebRTCConnectionInfoWithReconnect ::
  "('a) wyze_scheme \<Rightarrow> jsval \<Rightarrow> jsval \<Rightarrow> stream_options \<Rightarrow> int \<Rightarrow> int \<Rightarrow> (nat \<Rightarrow> err \<Rightarrow> unit action) option \<Rightarrow> jsval action" where
  "getCameraWebRTCConnectionInfoWithReconnect w deviceMac deviceModel options maxAttempts baseDelayMs onRetry =
     cameraStreamWithReconnect w (getCameraWebRTCConnectionInfo w deviceMac deviceModel options) maxAttempts baseDelayMs onRetry"

definition clear_key :: "jsval \<Rightarrow> ttl_map \<Rightarrow> ttl_map" where
  "clear_key deviceMac m =
     (if truthy deviceMac then filter (\<lambda>(k, v). \<not> startsWith k (js_String deviceMac @ '':'')) m else [])"

definition clearCameraStreamCache :: "jsval \<Rightarrow> unit action" where
  "clearCameraStreamCache deviceMac =
     await (this_get streamInfoCache) (\<lambda>c.
       case c of None \<Rightarrow> ret ()
       | Some m \<Rightarrow> this_set (streamInfoCache_update (\<lambda>_. Some (clear_key deviceMac m))))"

section \<open>Snapshots\<close>

text \<open>\<open>captureStreamFrame\<close> from the signaling URL, the ICE servers and the timeout.\<close>

type_synonym capture = "jsval \<Rightarrow> jsval \<Rightarrow> int \<Rightarrow> jsval action"

record snapshot_options =
  skipCloud :: jsval
  snap_timeoutMs :: int
  snap_noCache :: jsval
  snap_cacheTtlMs :: int

definition default_snapshot_options :: snapshot_options where
  "default_snapshot_options = \<lparr>skipCloud = JBool False, snap_timeoutMs = 20000, snap_noCache = JBool False,
     snap_cacheTtlMs = 10000\<rparr>"

definition capture_now :: "capture \<Rightarrow> ('a) wyze_scheme \<Rightarrow> string \<Rightarrow> jsval \<Rightarrow> snapshot_options \<Rightarrow> jsval action" where
  "capture_now captureStreamFrame w deviceMac deviceModel options =
     await (getCameraWebRTCConnectionInfo w (JStr deviceMac) deviceModel
              (default_stream_options\<lparr>noCache := JBool True, includeClientId := JBool False\<rparr>)) (\<lambda>conn.
     await (captureStreamFrame (attr conn ''signalingUrl'') (attr conn ''iceServers'') (snap_timeoutMs options)) (\<lambda>buffer.
     await (if truthy (snap_noCache options) then ret ()
            else await Date_now (\<lambda>now.
              await (this_get snapshotCaptureCache) (\<lambda>c.
              await (lift_err (cache_put c deviceMac (buffer, now + snap_cacheTtlMs options))) (\<lambda>c'.
                this_set (snapshotCaptureCache_update (\<lambda>_. c')))))) (\<lambda>_.
       ret buffer)))"

definition cameraCaptureSnapshot :: "capture \<Rightarrow> ('a) wyze_scheme \<Rightarrow> string \<Rightarrow> jsval \<Rightarrow> snapshot_options \<Rightarrow> jsval action" where
  "cameraCaptureSnapshot captureStreamFrame w deviceMac deviceModel options =
     await (this_get snapshotCaptureCache) (\<lambda>c.
     await (if c = None then this_set (snapshotCaptureCache_update (\<lambda>_. Some [])) else ret ()) (\<lambda>_.
     await Date_now (\<lambda>now.
     await (this_get snapshotCaptureCache) (\<lambda>c.
       let hit = (if truthy (snap_noCache options) then None
                  else case c of None \<Rightarrow> None | Some m \<Rightarrow> fresh_entry m deviceMac now)
       in case hit of
            Some buffer \<Rightarrow> ret buffer
          | None \<Rightarrow> capture_now captureStreamFrame w deviceMac deviceModel options))))"

text \<open>\<open>Buffer.from(resp.data)\<close>: bytes are a text of characters below 256 here.\<close>

definition buffer_from :: "jsval \<Rightarrow> err + jsval" where
  "buffer_from v = (case v of JStr s \<Rightarrow> Inr (JStr s)
     | _ \<Rightarrow> Inl (TypeError ''The first argument must be of type string or an instance of Buffer''))"

definition cloud_image :: "('a) wyze_scheme \<Rightarrow> string \<Rightarrow> snapshot_options \<Rightarrow> jsval option action" where
  "cloud_image w mac options =
     (if truthy (skipCloud options) then ret None
      else await (getCameraSnapshot w (JStr mac)) (\<lambda>cloud.
        if truthy (attr cloud ''url'') then
          try_catch
            (await (axios_request w \<lparr>req_method = JStr ''GET'', req_url = attr cloud ''url'', req_baseURL = JUndef,
                      req_data = JUndef, req_params = JUndef, req_headers = JUndef\<rparr>) (\<lambda>resp.
             await (lift_err (member resp ''data'')) (\<lambda>data.
             await (lift_err (buffer_from data)) (\<lambda>buffer.
               ret (Some (JObj [(''buffer'', buffer), (''source'', JStr ''cloud'')]))))))
            (\<lambda>err. ret None)
        else ret None))"

definition getCameraSnapshotImage :: "capture \<Rightarrow> ('a) wyze_scheme \<Rightarrow> string \<Rightarrow> snapshot_options \<Rightarrow> jsval action" where
  "getCameraSnapshotImage captureStreamFrame w mac options =
     await (cloud_image w mac options) (\<lambda>image.
       case image of Some v \<Rightarrow> ret v
       | None \<Rightarrow>
          await (getCamera w (JStr mac)) (\<lambda>camera.
          if \<not> truthy camera then throw (Error (''Camera not found: '' @ mac))
          else await (cameraCaptureSnapshot captureStreamFrame w mac (attr camera ''product_model'') options) (\<lambda>buffer.
            ret (JObj [(''buffer'', buffer), (''source'', JStr ''capture'')]))))"

section \<open>Stream states\<close>

datatype StreamStatus = OFFLINE | STOPPING | DISABLED | STOPPED | CONNECTING | CONNECTED

fun status_code :: "StreamStatus \<Rightarrow> int" where
  "status_code OFFLINE = -90"
| "status_code STOPPING = -1"
| "status_code DISABLED = 0"
| "status_code STOPPED = 1"
| "status_code CONNECTING = 2"
| "status_code CONNECTED = 3"

lemma status_code_inject [simp]: "status_code a = status_code b \<longleftrightarrow> a = b"
  by (cases a; cases b) simp_all

instantiation StreamStatus :: linorder
begin

definition less_eq_StreamStatus :: "StreamStatus \<Rightarrow> StreamStatus \<Rightarrow> bool" where
  "less_eq_StreamStatus a b = (status_code a \<le> status_code b)"

definition less_StreamStatus :: "StreamStatus \<Rightarrow> StreamStatus \<Rightarrow> bool" where
  "less_StreamStatus a b = (status_code a < status_code b)"

instance
  by standard (auto simp: less_eq_StreamStatus_def less_StreamStatus_def order_antisym)

end

section \<open>Frames\<close>

lemma ice_entries_ok: "list_all ice_ok (filter truthy (map ice_entry xs))"
  by (induction xs) (auto simp: ice_entry_def ice_ok_def)

lemma stream_bundle_shape: "stream_bundle info = Inr b \<Longrightarrow> stream_shape b"
  by (auto simp: stream_bundle_def sanitizeCameraIceServers_def stream_shape_def ice_entries_ok
      split: sum.splits jsval.splits)

context session_frame
begin

lemma keeps_camera_lookups [frame_intros]:
  "keeps R (getCameras w)" "keeps R (getOnlineCameras w)" "keeps R (getOfflineCameras w)" "keeps R (getCamera w m)"
  "keeps R (getCameraByName w n)" "keeps R (getCameraSummaries w)"
  unfolding getCameras_def getOnlineCameras_def getOfflineCameras_def getCamera_def getCameraByName_def getCameraSummaries_def
    filter_cameras_def find_camera_def
  by (intro frame_intros)+

lemma keeps_getCameraSnapshot [frame_intros]: "keeps R (getCameraSnapshot w m)" "keeps R (getCameraSnapshotUrl w m)"
  unfolding getCameraSnapshot_def getCameraSnapshotUrl_def by (intro frame_intros)+

lemma keeps_cameraGetStreamInfo [frame_intros]: "keeps R (cameraGetStreamInfo w m d opts)"
  unfolding cameraGetStreamInfo_def stream_answer_def by (intro frame_intros)

lemma keeps_clientId [frame_intros]: "keeps R (createCameraStreamClientId w m p)"
  unfolding createCameraStreamClientId_def by (intro frame_intros)

lemma keeps_connection_result [frame_intros]: "keeps R (connection_result w m d opts b c)"
  unfolding connection_result_def by (intro frame_intros)

lemma keeps_cloud_image [frame_intros]: "keeps R (cloud_image w mac opts)"
  unfolding cloud_image_def by (intro frame_intros)

lemma keeps_reconnect_loop:
  "keeps R fn \<Longrightarrow> (\<And>f n e. on = Some f \<Longrightarrow> keeps R (f n e)) \<Longrightarrow> keeps R (reconnect_loop k w fn b on a)"
proof (induction k arbitrary: a)
  case (Suc k)
  then show ?case by (cases on) (auto intro!: frame_intros)
qed simp

end

context cache_frame
begin
text \<open>The changes of the caches, as the methods make them.\<close>

lemma keeps_stream_create:
  assumes "keeps R m"
  shows "keeps R (await (this_get streamInfoCache) (\<lambda>c.
     await (if c = None then this_set (streamInfoCache_update (\<lambda>_. Some [])) else ret ()) (\<lambda>_. m)))"
proof (rule keepsI)
  fix s :: world
  let ?t = "if streamInfoCache (sess s) = None then s\<lparr>sess := (sess s)\<lparr>streamInfoCache := Some []\<rparr>\<rparr> else s"
  have "R s ?t" by (simp add: frame_stream_create frame_refl)
  moreover have "R ?t (snd (m ?t))" using assms by (simp add: keeps_def)
  ultimately have "R s (snd (m ?t))" by (rule frame_trans)
  then show "R s (snd (await (this_get streamInfoCache) (\<lambda>c.
     await (if c = None then this_set (streamInfoCache_update (\<lambda>_. Some [])) else ret ()) (\<lambda>_. m)) s))"
    by (auto simp: run_simps split: if_splits)
qed

lemma keeps_stream_store:
  "stream_shape v \<Longrightarrow> may_stream k ttl \<Longrightarrow> keeps R (await Date_now (\<lambda>now. await (this_get streamInfoCache) (\<lambda>c.
     await (lift_err (cache_put c k (v, now + ttl))) (\<lambda>c'. this_set (streamInfoCache_update (\<lambda>_. c'))))))"
  by (auto intro!: keepsI simp: run_simps lift_err_def cache_put_def frame_refl frame_stream_store split: option.split)

lemma keeps_snapshot_create:
  assumes "keeps R m"
  shows "keeps R (await (this_get snapshotCaptureCache) (\<lambda>c.
     await (if c = None then this_set (snapshotCaptureCache_update (\<lambda>_. Some [])) else ret ()) (\<lambda>_. m)))"
proof (rule keepsI)
  fix s :: world
  let ?t = "if snapshotCaptureCache (sess s) = None then s\<lparr>sess := (sess s)\<lparr>snapshotCaptureCache := Some []\<rparr>\<rparr> else s"
  have "R s ?t" by (simp add: frame_snapshot_create frame_refl)
  moreover have "R ?t (snd (m ?t))" using assms by (simp add: keeps_def)
  ultimately have "R s (snd (m ?t))" by (rule frame_trans)
  then show "R s (snd (await (this_get snapshotCaptureCache) (\<lambda>c.
     await (if c = None then this_set (snapshotCaptureCache_update (\<lambda>_. Some [])) else ret ()) (\<lambda>_. m)) s))"
    by (auto simp: run_simps split: if_splits)
qed

lemma keeps_snapshot_store:
  "good v \<Longrightarrow> may_frame k ttl \<Longrightarrow> keeps R (await Date_now (\<lambda>now. await (this_get snapshotCaptureCache) (\<lambda>c.
     await (lift_err (cache_put c k (v, now + ttl))) (\<lambda>c'. this_set (snapshotCaptureCache_update (\<lambda>_. c'))))))"
  by (auto intro!: keepsI simp: run_simps lift_err_def cache_put_def frame_refl frame_snapshot_store split: option.split)

lemma keeps_fetch_bundle:
  assumes "\<not> truthy (noCache opts) \<Longrightarrow> may_stream (streamCacheKey m d (substream opts)) (cacheTtlMs opts)"
  shows "keeps R (fetch_bundle w m d opts)"
proof -
  have shape: "returns (lift_err (stream_bundle info)) stream_shape" for info
    by (rule returns_intros) (rule stream_bundle_shape)
  show ?thesis
    unfolding fetch_bundle_def
    by (rule keeps_await [OF keeps_cameraGetStreamInfo], rule keeps_await_returns [OF keeps_lift_err shape])
      (intro keeps_await keeps_if keeps_ret keeps_stream_store assms)
qed

lemma keeps_connection_info:
  assumes "\<not> truthy (noCache opts) \<Longrightarrow> may_stream (streamCacheKey m d (substream opts)) (cacheTtlMs opts)"
  shows "keeps R (getCameraWebRTCConnectionInfo w m d opts)"
  unfolding getCameraWebRTCConnectionInfo_def
  by (rule keeps_stream_create) (intro frame_intros keeps_fetch_bundle assms)
lemma keeps_clear_cache: "cleared m \<Longrightarrow> keeps R (clearCameraStreamCache m)"
  by (auto intro!: keepsI simp: clearCameraStreamCache_def clear_key_def run_simps frame_refl frame_stream_forget
      frame_stream_clear split: option.split)

lemma keeps_capture_now:
  assumes cap: "\<And>u i. keeps R (cap u i (snap_timeoutMs opts))" "\<And>u i. returns (cap u i (snap_timeoutMs opts)) good"
    and "\<not> truthy (snap_noCache opts) \<Longrightarrow> may_frame m (snap_cacheTtlMs opts)"
  shows "keeps R (capture_now cap w m d opts)"
proof -
  have info: "keeps R (getCameraWebRTCConnectionInfo w (JStr m) d (default_stream_options\<lparr>noCache := JBool True, includeClientId := JBool False\<rparr>))"
    by (rule keeps_connection_info) simp
  show ?thesis
    unfolding capture_now_def
    by (rule keeps_await [OF info], rule keeps_await_returns [OF cap])
      (intro keeps_await keeps_if keeps_ret keeps_snapshot_store assms)
qed

lemma keeps_snapshots:
  assumes "\<And>u i. keeps R (cap u i (snap_timeoutMs opts))" and "\<And>u i. returns (cap u i (snap_timeoutMs opts)) good"
    and "\<not> truthy (snap_noCache opts) \<Longrightarrow> may_frame m (snap_cacheTtlMs opts)"
  shows "keeps R (cameraCaptureSnapshot cap w m d opts)" and "keeps R (getCameraSnapshotImage cap w m opts)"
proof -
  show capture: "keeps R (cameraCaptureSnapshot cap w m d opts)" for d
    unfolding cameraCaptureSnapshot_def
    by (rule keeps_snapshot_create) (intro frame_intros keeps_capture_now assms)
  show "keeps R (getCameraSnapshotImage cap w m opts)"
    unfolding getCameraSnapshotImage_def by (intro frame_intros capture)
qed

end

text \<open>Every client frame, with no condition on the keys.\<close>

context client_frame
begin

lemma keeps_cache_calls [frame_intros]:
  "keeps R (fetch_bundle w m d opts)" "keeps R (getCameraWebRTCConnectionInfo w m d opts)" "keeps R (clearCameraStreamCache m)"
  by (rule keeps_fetch_bundle keeps_connection_info keeps_clear_cache, rule TrueI)+

lemma keeps_snapshot_calls:
  assumes "\<And>u i t. keeps R (cap u i t)" and "\<And>u i t. returns (cap u i t) is_buffer"
  shows "keeps R (cameraCaptureSnapshot cap w m d opts)" and "keeps R (getCameraSnapshotImage cap w m opts)"
  by (rule keeps_snapshots, rule assms, rule assms, rule TrueI)+

end

end
