(* ===== verification/Wyze_Camera_Laws.thy ===== *)
theory Wyze_Camera_Laws
  imports Wyze_Camera "HOL-Library.Multiset"
begin

text \<open>
  The properties of the camera component: what its caches promise, the answers of the
  stream service, retries, client identifiers and the lookups.
\<close>

section \<open>Caches with expiry\<close>

text \<open>What a cache with expiry promises: the value stored last under a key is found until its
  time has come, and not after; other keys are not affected.\<close>

locale ttl_store =
  fixes get :: "'c \<Rightarrow> string \<Rightarrow> int \<Rightarrow> jsval option" and put :: "'c \<Rightarrow> string \<Rightarrow> jsval \<times> int \<Rightarrow> 'c"
  assumes get_put: "get (put c k (v, e)) k' now = (if k' = k then if now < e then Some v else None else get c k' now)"
begin

lemma get_fresh: "now < e \<Longrightarrow> get (put c k (v, e)) k now = Some v"
  by (simp add: get_put)

lemma get_expired: "e \<le> now \<Longrightarrow> get (put c k (v, e)) k now = None"
  by (simp add: get_put)

lemma put_again: "get (put (put c k x) k y) k' now = get (put c k y) k' now"
  by (cases x; cases y) (simp add: get_put)

end

lemma map_of_map_set: "map_of (map_set m k v) = (map_of m)(k \<mapsto> v)"
  by (induction m k v rule: map_set.induct) auto

interpretation cache: ttl_store fresh_entry map_set
  by unfold_locales (simp add: fresh_entry_def map_of_map_set)

section \<open>Connection information\<close>

lemma fetch_bundle_stored:
  assumes "fetch_bundle w mac model opts s = (Ok b, s1)" and "\<not> truthy (noCache opts)"
  shows "\<exists>m. streamInfoCache (sess s1) = Some (map_set m (streamCacheKey mac model (substream opts)) (b, clock s1 + cacheTtlMs opts)) \<and>
     (\<exists>url ice tok. b = JObj [(''signalingUrl'', url), (''iceServers'', ice), (''authToken'', tok)])"
  using assms
  by (auto simp: fetch_bundle_def await_def Date_now_def this_get_def this_set_def ret_def throw_def lift_err_def
      cache_put_def stream_bundle_def split: prod.splits res.splits sum.splits option.splits)

lemma mac_slug_text: "\<exists>slug. mac_slug (JStr m) = Inr slug"
  by (auto simp: mac_slug_def js_or_def Let_def)

lemma connection_result_text:
  "\<exists>v s1. connection_result w (JStr m) model opts (JObj [(''signalingUrl'', url), (''iceServers'', ice), (''authToken'', tok)]) c s = (Ok v, s1) \<and>
     trace s1 = trace s \<and> attr v ''signalingUrl'' = url \<and> attr v ''iceServers'' = ice \<and> attr v ''authToken'' = tok \<and>
     attr v ''cached'' = JBool c"
proof -
  obtain slug where "mac_slug (JStr m) = Inr slug" using mac_slug_text by blast
  then show ?thesis
    by (auto simp: connection_result_def Let_def await_def createCameraStreamClientId_def randomBytes_hex_def Date_now_def
        ret_def spread_def)
qed

text \<open>C10. Connection information is fetched once per expiry time: after a call that fetched it, any
  later call for the same camera, model and stream finds it without a request as long as the
  time to live has not passed and its entry was not cleared or replaced, whatever happened to
  the entries of other cameras and streams, with the same signaling URL, ICE servers and token,
  and says that it is cached.\<close>

theorem connection_info_cached:
  assumes fetched: "fetch_bundle w (JStr m) model opts s = (Ok b, s1)" "\<not> truthy (noCache opts)"
    and later: "streamInfoCache (sess s1) = Some m1" "streamInfoCache (sess s2) = Some m2"
      "map_of m2 (streamCacheKey (JStr m) model (substream opts)) = map_of m1 (streamCacheKey (JStr m) model (substream opts))"
      "clock s2 < clock s1 + cacheTtlMs opts"
    and same: "\<not> truthy (noCache opts2)" "truthy (substream opts2) = truthy (substream opts)"
  shows "\<exists>v s3. getCameraWebRTCConnectionInfo w (JStr m) model opts2 s2 = (Ok v, s3) \<and> trace s3 = trace s2 \<and>
    attr v ''signalingUrl'' = attr b ''signalingUrl'' \<and> attr v ''iceServers'' = attr b ''iceServers'' \<and>
    attr v ''authToken'' = attr b ''authToken'' \<and> attr v ''cached'' = JBool True"
proof -
  obtain url ice tok where c: "map_of m2 (streamCacheKey (JStr m) model (substream opts)) = Some (b, clock s1 + cacheTtlMs opts)"
    and b: "b = JObj [(''signalingUrl'', url), (''iceServers'', ice), (''authToken'', tok)]"
    using fetch_bundle_stored [OF fetched] later(1,3) by (auto simp: map_of_map_set)
  have "streamCacheKey (JStr m) model (substream opts2) = streamCacheKey (JStr m) model (substream opts)"
    using same(2) by (simp add: streamCacheKey_def)
  then have "getCameraWebRTCConnectionInfo w (JStr m) model opts2 s2 = connection_result w (JStr m) model opts2 b True s2"
    using c later(2,4) same(1)
    by (simp add: getCameraWebRTCConnectionInfo_def await_def this_get_def Date_now_def ret_def Let_def fresh_entry_def)
  then show ?thesis using connection_result_text [of w m model opts2 url ice tok True s2] by (simp add: b)
qed

section \<open>Signaling URLs\<close>

text \<open>A URL encoded once more: every percent sign becomes \<open>%25\<close>.\<close>

definition encoded_again :: "string \<Rightarrow> string" where
  "encoded_again u = concat (map (\<lambda>c. if c = CHR ''%'' then ''%25'' else [c]) u)"

lemma decode_encoded_again: "decodeURI_opt (encoded_again u) = Some u"
proof (induction u)
  case (Cons c u)
  have "hex2 (''25'' @ s) = Some 37" for s by (simp add: hex2_def hex_val_def radix_val_def)
  moreover have "char_of (37 :: nat) = CHR ''%''" by code_simp
  ultimately show ?case using Cons by (simp add: encoded_again_def)
qed (simp add: encoded_again_def)

lemma encoded_again_includes: "CHR ''%'' \<in> set u \<Longrightarrow> js_includes (encoded_again u) ''%25''"
proof -
  assume "CHR ''%'' \<in> set u"
  then obtain a b where "u = a @ CHR ''%'' # b" by (meson split_list)
  then have "encoded_again u = encoded_again a @ ''%25'' @ encoded_again b" by (simp add: encoded_again_def)
  then show ?thesis by (metis js_includes_iff)
qed

text \<open>A signaling URL that arrives encoded once too often is restored exactly, one that does
  not contain \<open>%25\<close> is returned untouched, and nothing that is not a text is changed.\<close>

theorem signaling_url_restored:
  "(CHR ''%'' \<in> set u \<longrightarrow> normalizeCameraSignalingUrl (JStr (encoded_again u)) = JStr u) \<and>
   (\<not> js_includes u ''%25'' \<longrightarrow> normalizeCameraSignalingUrl (JStr u) = JStr u) \<and>
   ((\<nexists>s. v = JStr s) \<longrightarrow> normalizeCameraSignalingUrl v = v)"
  using encoded_again_includes [of u]
  by (auto simp: normalizeCameraSignalingUrl_def decodeURIComponent_def decode_encoded_again split: jsval.splits)

theorem signaling_url_restored_witness:
  "normalizeCameraSignalingUrl (JStr (encoded_again ''wss://h/?a=%2F'')) = JStr ''wss://h/?a=%2F'' \<and>
   normalizeCameraSignalingUrl (JNum 3) = JNum 3"
  using signaling_url_restored [of "''wss://h/?a=%2F''" "JNum 3"] by auto

section \<open>ICE servers\<close>

text \<open>The ICE servers handed to a WebRTC client are the usable ones of the answer in their
  order: each has a URL under the name \<open>urls\<close>, and a user name or credential only where the
  answer had one; entries without a URL are dropped.\<close>

lemma ice_servers_usable:
  "\<exists>out. sanitizeCameraIceServers (JArr xs) = Inr (JArr out) \<and>
     map (\<lambda>d. attr d ''urls'') out = map (\<lambda>x. attr x ''url'') (filter (\<lambda>x. truthy (attr x ''url'')) xs) \<and>
     list_all (\<lambda>d. truthy (attr d ''urls'')) out \<and>
     map (\<lambda>d. attr d ''credential'') out =
       map (\<lambda>x. if truthy (attr x ''credential'') then attr x ''credential'' else JUndef)
         (filter (\<lambda>x. truthy (attr x ''url'')) xs)"
proof -
  have untruthy: "\<not> truthy x \<Longrightarrow> \<not> truthy (attr x ''url'')" for x
    by (cases x) (auto simp: indexed_def)
  then have entry: "truthy (ice_entry x) = truthy (attr x ''url'')" for x
    by (auto simp: ice_entry_def)
  show ?thesis
    using untruthy
    by (induction xs) (auto simp: sanitizeCameraIceServers_def js_default_def entry ice_entry_def)
qed

section \<open>The answer of the stream service\<close>

text \<open>The stream service's answer is accepted exactly when it lists one camera that is both
  connected and switched on, and then its parameters are returned; every other answer without
  an error code rejects.\<close>

lemma stream_entry_accepts:
  "stream_entry data = Inr p \<longleftrightarrow>
    (\<exists>entry. attr data ''data'' = JArr [entry] \<and> attr (attr entry ''property'') ''iot-device::iot-state'' = JNum 1 \<and>
      attr (attr entry ''property'') ''iot-device::iot-power'' = JNum 1 \<and> truthy (attr entry ''property'') \<and> p = attr entry ''params'')"
proof -
  have "nullish data \<Longrightarrow> attr data ''data'' = JUndef" "nullish e \<Longrightarrow> attr e ''property'' = JUndef" for e
    by (simp_all add: nullish_attr)
  then show ?thesis
    by (auto simp: stream_entry_def member_def split: jsval.splits list.splits)
qed

section \<open>Retries\<close>

lemma reconnect_failing:
  assumes "\<And>s. \<exists>s'. fn s = (Throw e, s') \<and> trace s' = trace s @ tr"
  shows "\<exists>s'. reconnect_loop k w fn b None a s = (Throw e, s') \<and>
    trace s' = trace s @ concat (map (\<lambda>i. tr @ [ESleep (timer_delay (Some (b * 2 ^ i)))]) [a ..< a + k]) @ tr"
proof (induction k arbitrary: a s)
  case 0
  show ?case using assms [of s] by simp
next
  case (Suc k)
  obtain s1 where s1: "fn s = (Throw e, s1)" "trace s1 = trace s @ tr" using assms by blast
  define s2 where "s2 = snd (set_timeout w (Some (b * 2 ^ a)) s1)"
  have s2: "set_timeout w (Some (b * 2 ^ a)) s1 = (Ok (), s2)" "trace s2 = trace s1 @ [ESleep (timer_delay (Some (b * 2 ^ a)))]"
    by (simp_all add: s2_def set_timeout_def)
  from Suc [of "Suc a" s2] show ?case
    using s1 s2 by (simp add: try_catch_def await_def ret_def upt_conv_Cons del: upt_Suc)
qed

text \<open>C11. A stream call that keeps failing is tried exactly \<open>maxAttempts\<close> times, or once if that is
  less than one, with pauses of the base delay doubled each time in between and none after the
  last attempt, and rejects with the error of the call.\<close>

theorem reconnect_backoff:
  assumes "\<And>s. \<exists>s'. fn s = (Throw e, s') \<and> trace s' = trace s @ tr"
  shows "\<exists>s'. cameraStreamWithReconnect w fn maxAttempts base None s = (Throw e, s') \<and>
    trace s' = trace s @
      concat (map (\<lambda>i. tr @ [ESleep (timer_delay (Some (base * 2 ^ i)))]) [0 ..< nat (maxAttempts - 1)]) @ tr"
  unfolding cameraStreamWithReconnect_def using reconnect_failing [of fn e tr "nat (maxAttempts - 1)" w base 0 s] assms by simp

theorem reconnect_backoff_witness:
  "\<exists>s'. cameraStreamWithReconnect (demo (answering [])) (throw URIError :: unit action) 3 2000 None (demo_world ''t'') = (Throw URIError, s') \<and>
     trace s' = [ESleep 2000, ESleep 4000]"
  using reconnect_backoff [of "throw URIError :: unit action" URIError "[]" "demo (answering [])" 3 2000 "demo_world ''t''"]
  by (simp add: throw_def timer_delay_def upt_rec)

text \<open>The budget of the stream calls, and of their retries.\<close>

lemma budget_verbs [budget_intros]:
  "budget w 1 (axios_get w u c)" "budget w 1 (axios_post w u d c)"
  unfolding axios_get_def axios_post_def by (rule budget_simple)+

lemma budget_small [budget_intros]: "budget w 0 (randomBytes_hex w n)" "budget w 0 (Math_random w)"
  by (simp_all add: budget_def randomBytes_hex_def Math_random_def http_count_def)

lemma budget_handleAccessTokenError_full:
  assumes "renewal_answers w" and "2 \<le> fuel w"
  shows "budget w 2 (handleAccessTokenError (performRequest (fuel w)) w r m c)"
proof -
  obtain n where n: "fuel w = Suc n" using assms(2) by (cases "fuel w") auto
  have "budget w (2 * 1) (handleAccessTokenError (performRequest (Suc n)) w r m c)"
    by (intro budget_handleAccessTokenError budget_renewal assms(1) frame_intros)
  then show ?thesis by (simp add: n)
qed

lemma budget_cameraGetStreamInfo:
  assumes "renewal_answers w" and "151 \<le> fuel w"
  shows "budget w 6 (cameraGetStreamInfo w mac model sub)"
proof -
  have fuel: "2 \<le> fuel w" using assms(2) by simp
  note renew = budget_handleAccessTokenError_full [OF assms(1) fuel]
  show ?thesis
    unfolding cameraGetStreamInfo_def stream_answer_def logged_id
    by (rule budget_mono, (rule renew assms budget_intros frame_intros)+) simp
qed

lemma budget_getCameraWebRTCConnectionInfo:
  assumes "renewal_answers w" and "151 \<le> fuel w"
  shows "budget w 6 (getCameraWebRTCConnectionInfo w mac model opts)"
  unfolding getCameraWebRTCConnectionInfo_def fetch_bundle_def connection_result_def createCameraStreamClientId_def
  by (rule budget_mono, (rule budget_cameraGetStreamInfo [OF assms] budget_intros frame_intros)+) simp

lemma budget_reconnect_loop:
  assumes "budget w j fn" and "keeps (debounce_kept w) fn"
  shows "budget w (Suc k * j) (reconnect_loop k w fn b None a)"
proof (induction k arbitrary: a)
  case (Suc k)
  have keeps: "keeps (debounce_kept w) (reconnect_loop k w fn b None (Suc a))"
    by (rule deb.keeps_reconnect_loop) (use assms(2) in auto)
  show ?case
    unfolding reconnect_loop.simps option.case
    by (rule budget_mono, (rule Suc assms keeps budget_intros frame_intros)+) simp
qed (simp add: assms)

text \<open>Fetching connection information with retries always settles, after at most six HTTP
  requests per attempt (a login with its renewal, the request itself and its renewal),
  whatever the service answers, as long as it does not reject the renewal's own token.\<close>

theorem reconnect_settles:
  assumes "renewal_answers w" and "151 \<le> fuel w" and "rely_debounce w" and "debounce_ok (sess s)"
    and "getCameraWebRTCConnectionInfoWithReconnect w mac model opts maxAttempts base None s = (r, s')"
  shows "((\<exists>v. r = Ok v) \<or> (\<exists>e. r = Throw e)) \<and> http_count s' \<le> http_count s + 6 * max 1 (nat maxAttempts)"
proof -
  let ?k = "nat (maxAttempts - 1)"
  have "budget w (Suc ?k * 6) (getCameraWebRTCConnectionInfoWithReconnect w mac model opts maxAttempts base None)"
    unfolding getCameraWebRTCConnectionInfoWithReconnect_def cameraStreamWithReconnect_def
    by (intro budget_reconnect_loop budget_getCameraWebRTCConnectionInfo assms frame_intros)
  from budgetD [OF this assms(3,4,5)] have "r \<noteq> OutOfFuel" "http_count s' \<le> http_count s + Suc ?k * 6" .
  moreover have "Suc ?k = max 1 (nat maxAttempts)" by auto
  ultimately show ?thesis by (cases r) auto
qed

theorem reconnect_settles_witness:
  "\<exists>r s'. getCameraWebRTCConnectionInfoWithReconnect (demo (answering [(''code'', JNum 1)])) (JStr ''A'') (JStr ''M'')
       default_stream_options 3 2000 None (demo_world ''t'') = (r, s') \<and> http_count s' \<le> http_count (demo_world ''t'') + 18"
proof -
  have "renewal_answers (demo (answering [(''code'', JNum 1)]))"
    by (simp add: renewal_answers_def answering_def token_expired_def answer_ok_def answer_code_def)
  moreover obtain r s' where run: "getCameraWebRTCConnectionInfoWithReconnect (demo (answering [(''code'', JNum 1)])) (JStr ''A'')
      (JStr ''M'') default_stream_options 3 2000 None (demo_world ''t'') = (r, s')" by fastforce
  ultimately show ?thesis using reconnect_settles [OF _ _ _ _ run] by auto
qed

section \<open>A camera that answers\<close>

definition demo_stream :: "nat \<Rightarrow> http_req \<Rightarrow> err + jsval" where
  "demo_stream = answering [(''code'', JNum 1), (''data'', JArr [JObj
     [(''property'', JObj [(''iot-device::iot-state'', JNum 1), (''iot-device::iot-power'', JNum 1)]),
      (''params'', JObj [(''signaling_url'', JStr ''wss://h''), (''ice_servers'', JArr [])])]])]"

definition demo_cached_world :: world where
  "demo_cached_world = (demo_world ''t'')\<lparr>sess := (demo_session ''t'')\<lparr>streamInfoCache := Some [], snapshotCaptureCache := Some []\<rparr>\<rparr>"

lemma demo_stream_info:
  "\<exists>s1. cameraGetStreamInfo (demo demo_stream) (JStr ''A'') (JStr ''M'') (JBool False) demo_cached_world =
     (Ok (JObj [(''signaling_url'', JStr ''wss://h''), (''ice_servers'', JArr [])]), s1) \<and> sess s1 = sess demo_cached_world"
  by (simp add: cameraGetStreamInfo_def maybeLogin_token demo_cached_world_def await_def Date_now_def this_get_def
      web_create_signature_def signature_body_def axios_post_def axios_request_def demo_stream_def answering_def
      checkRateLimit_def stream_answer_def stream_entry_def ret_def await_point_def Let_def del: stringify.simps)

lemma demo_fetch:
  "\<exists>b s1. fetch_bundle (demo demo_stream) (JStr ''A'') (JStr ''M'') default_stream_options demo_cached_world = (Ok b, s1)"
proof -
  obtain s1 where "cameraGetStreamInfo (demo demo_stream) (JStr ''A'') (JStr ''M'') (JBool False) demo_cached_world =
     (Ok (JObj [(''signaling_url'', JStr ''wss://h''), (''ice_servers'', JArr [])]), s1)" "sess s1 = sess demo_cached_world"
    using demo_stream_info by blast
  then show ?thesis
    by (simp add: fetch_bundle_def default_stream_options_def await_def stream_bundle_def sanitizeCameraIceServers_def
        js_default_def ret_def Date_now_def this_get_def this_set_def cache_put_def demo_cached_world_def)
qed

theorem connection_info_cached_witness:
  "\<exists>b s1 v s3. fetch_bundle (demo demo_stream) (JStr ''A'') (JStr ''M'') default_stream_options demo_cached_world = (Ok b, s1) \<and>
     getCameraWebRTCConnectionInfo (demo demo_stream) (JStr ''A'') (JStr ''M'') default_stream_options s1 = (Ok v, s3) \<and>
     trace s3 = trace s1 \<and> attr v ''cached'' = JBool True"
proof -
  obtain b s1 where fetch: "fetch_bundle (demo demo_stream) (JStr ''A'') (JStr ''M'') default_stream_options demo_cached_world = (Ok b, s1)"
    using demo_fetch by blast
  have "\<not> truthy (noCache default_stream_options)" "clock s1 < clock s1 + cacheTtlMs default_stream_options"
    by (simp_all add: default_stream_options_def)
  moreover obtain m1 where "streamInfoCache (sess s1) = Some m1" using fetch_bundle_stored [OF fetch calculation(1)] by blast
  ultimately show ?thesis using connection_info_cached [OF fetch] fetch by blast
qed

section \<open>Clearing the cache\<close>

lemma startsWith_key:
  assumes "CHR '':'' \<notin> set a" and "CHR '':'' \<notin> set b"
  shows "startsWith (a @ CHR '':'' # x) (b @ '':'') \<longleftrightarrow> a = b"
  using assms
proof (induction a arbitrary: b)
  case Nil
  then show ?case by (cases b) auto
next
  case (Cons c a)
  then show ?case by (cases b) auto
qed

text \<open>Clearing the stream cache for one camera forgets every entry of that camera, of each model
  and stream, and no entry of another camera, provided the addresses contain no colon;
  without an address everything is forgotten.\<close>

theorem clear_stream_cache:
  assumes "streamInfoCache (sess s) = Some m" and "CHR '':'' \<notin> set a" and "CHR '':'' \<notin> set b" and "a \<noteq> []"
  shows "\<exists>m'. clearCameraStreamCache (JStr a) s = (Ok (), s\<lparr>sess := (sess s)\<lparr>streamInfoCache := Some m'\<rparr>\<rparr>) \<and>
    map_of m' (streamCacheKey (JStr a) model sub) = None \<and>
    (b \<noteq> a \<longrightarrow> map_of m' (streamCacheKey (JStr b) model sub) = map_of m (streamCacheKey (JStr b) model sub)) \<and>
    clearCameraStreamCache JUndef s = (Ok (), s\<lparr>sess := (sess s)\<lparr>streamInfoCache := Some []\<rparr>\<rparr>)"
proof -
  let ?keep = "\<lambda>(k, v). \<not> startsWith k (a @ '':'')"
  have filter: "map_of (filter ?keep m) k = (if startsWith k (a @ '':'') then None else map_of m k)" for k
    by (induction m) auto
  have "startsWith (streamCacheKey (JStr c) model sub) (a @ '':'') \<longleftrightarrow> c = a" if "CHR '':'' \<notin> set c" for c
    using startsWith_key [OF that assms(2)] by (simp add: streamCacheKey_def)
  then show ?thesis
    using assms filter
    by (auto simp: clearCameraStreamCache_def await_def this_get_def this_set_def clear_key_def)
qed

theorem clear_stream_cache_witness:
  "\<exists>m'. clearCameraStreamCache (JStr ''A'') demo_cached_world =
       (Ok (), demo_cached_world\<lparr>sess := (sess demo_cached_world)\<lparr>streamInfoCache := Some m'\<rparr>\<rparr>) \<and>
     map_of m' (streamCacheKey (JStr ''A'') JNull JNull) = None"
proof -
  have "streamInfoCache (sess demo_cached_world) = Some []" by (simp add: demo_cached_world_def)
  from clear_stream_cache [OF this, of "''A''" "''B''" JNull JNull] show ?thesis by auto
qed

section \<open>Snapshots\<close>

lemma capture_now_stored:
  assumes "capture_now cap w mac model opts s = (Ok buf, s1)" and "\<not> truthy (snap_noCache opts)"
  shows "\<exists>m. snapshotCaptureCache (sess s1) = Some (map_set m mac (buf, clock s1 + snap_cacheTtlMs opts))"
  using assms
  by (auto simp: capture_now_def await_def Date_now_def this_get_def this_set_def ret_def throw_def lift_err_def
      cache_put_def split: prod.splits res.splits sum.splits option.splits)

text \<open>A captured frame is shared: after a capture, every call for the same camera within the
  time to live gets that frame, without negotiating a session, without a request and without
  changing anything; once the time has passed, the call captures again.\<close>

theorem snapshot_shared:
  assumes captured: "capture_now cap w mac model opts s = (Ok buf, s1)" "\<not> truthy (snap_noCache opts)"
    and later: "snapshotCaptureCache (sess s2) = snapshotCaptureCache (sess s1)" "\<not> truthy (snap_noCache opts2)"
  shows "cameraCaptureSnapshot cap w mac model2 opts2 s2 =
    (if clock s2 < clock s1 + snap_cacheTtlMs opts then (Ok buf, s2) else capture_now cap w mac model2 opts2 s2)"
proof -
  obtain c where c: "snapshotCaptureCache (sess s2) = Some (map_set c mac (buf, clock s1 + snap_cacheTtlMs opts))"
    using capture_now_stored [OF captured] later(1) by auto
  then show ?thesis
    using later(2) cache.get_put
    by (simp add: cameraCaptureSnapshot_def await_def this_get_def Date_now_def ret_def)
qed

definition demo_capture :: capture where
  "demo_capture u i t = ret (JStr ''jpeg'')"

lemma demo_capture_now:
  "\<exists>s1. capture_now demo_capture (demo demo_stream) ''A'' (JStr ''M'') default_snapshot_options demo_cached_world = (Ok (JStr ''jpeg''), s1)"
proof -
  obtain s1 where info: "cameraGetStreamInfo (demo demo_stream) (JStr ''A'') (JStr ''M'') (JBool False) demo_cached_world =
     (Ok (JObj [(''signaling_url'', JStr ''wss://h''), (''ice_servers'', JArr [])]), s1)" "sess s1 = sess demo_cached_world"
    using demo_stream_info by blast
  have cache: "streamInfoCache (sess demo_cached_world) = Some []" "snapshotCaptureCache (sess demo_cached_world) = Some []"
    by (simp_all add: demo_cached_world_def)
  show ?thesis
    using info cache
    by (simp add: capture_now_def getCameraWebRTCConnectionInfo_def fetch_bundle_def connection_result_def default_stream_options_def
        default_snapshot_options_def await_def stream_bundle_def sanitizeCameraIceServers_def js_default_def ret_def Date_now_def
        this_get_def this_set_def cache_put_def demo_capture_def)
qed

theorem snapshot_shared_witness:
  "\<exists>s1. capture_now demo_capture (demo demo_stream) ''A'' (JStr ''M'') default_snapshot_options demo_cached_world = (Ok (JStr ''jpeg''), s1) \<and>
     cameraCaptureSnapshot demo_capture (demo demo_stream) ''A'' (JStr ''M'') default_snapshot_options s1 = (Ok (JStr ''jpeg''), s1)"
proof -
  obtain s1 where run: "capture_now demo_capture (demo demo_stream) ''A'' (JStr ''M'') default_snapshot_options demo_cached_world =
      (Ok (JStr ''jpeg''), s1)" using demo_capture_now by blast
  have opts: "\<not> truthy (snap_noCache default_snapshot_options)" by (simp add: default_snapshot_options_def)
  show ?thesis
    using snapshot_shared [OF run opts refl opts, of "JStr ''M''"] run by (simp add: default_snapshot_options_def)
qed

section \<open>Client identifiers\<close>

definition url_safe :: "char \<Rightarrow> bool" where
  "url_safe c = (is_alnum c \<or> c = CHR ''_'' \<or> c = CHR ''-'')"

lemma is_alnum_lower: "is_alnum c \<Longrightarrow> is_alnum (lower_char c)"
  by (auto simp: is_alnum_def lower_char_def Let_def)

lemma mac_slug_safe: "mac_slug mac = Inr slug \<Longrightarrow> list_all url_safe slug"
proof -
  have "list_all url_safe (toLowerCase (slice_last 8 (filter is_alnum m)))" for m
    by (auto simp: list_all_iff toLowerCase_def slice_last_def url_safe_def is_alnum_lower dest!: in_set_dropD)
  moreover have "list_all url_safe ''camera''" by code_simp
  ultimately show "mac_slug mac = Inr slug \<Longrightarrow> list_all url_safe slug"
    by (auto simp: mac_slug_def Let_def split: jsval.splits if_splits)
qed

lemma show_int_safe: "list_all url_safe (show_int i)"
proof -
  have "is_digit c \<Longrightarrow> url_safe c" for c
    by (auto simp: is_digit_def url_safe_def is_alnum_def Let_def)
  then show ?thesis using show_nat_digits by (auto simp: show_int_def list_all_iff url_safe_def)
qed

text \<open>A generated client identifier is safe in a URL, whatever the prefix and the address are:
  it consists of letters, digits, underscores and hyphens only, if the random part does.\<close>

theorem client_id_safe:
  assumes "\<And>d k. list_all url_safe (random_hex w d k)"
    and "createCameraStreamClientId w mac pre s = (Ok v, s')"
  shows "\<exists>cid. v = JStr cid \<and> list_all url_safe cid"
proof -
  have "list_all url_safe (safe_prefix pre)" "url_safe (CHR ''-'')"
    by (auto simp: safe_prefix_def list_all_iff url_safe_def)
  then show ?thesis
    using assms mac_slug_safe show_int_safe
    by (auto simp: createCameraStreamClientId_def await_def lift_err_def randomBytes_hex_def Date_now_def ret_def throw_def
        split: sum.splits)
qed

lemma demo_hex: "list_all url_safe (random_hex (demo service) d k)"
proof -
  have "url_safe (CHR ''0'')" by code_simp
  then show ?thesis by (simp add: demo_def WyzeAPI_def demo_env_def env.defs cipher_lib.defs list_all_iff)
qed

theorem client_id_safe_witness:
  "\<exists>v s' cid. createCameraStreamClientId (demo (answering [])) (JStr ''2C:AA/01'') (JStr ''a b'') (demo_world ''t'') = (Ok v, s') \<and>
     v = JStr cid \<and> list_all url_safe cid"
proof -
  obtain slug where "mac_slug (JStr ''2C:AA/01'') = Inr slug" using mac_slug_text by blast
  then obtain v s' where "createCameraStreamClientId (demo (answering [])) (JStr ''2C:AA/01'') (JStr ''a b'') (demo_world ''t'') = (Ok v, s')"
    by (simp add: createCameraStreamClientId_def await_def randomBytes_hex_def Date_now_def ret_def)
  with client_id_safe [OF demo_hex this] show ?thesis by blast
qed

section \<open>Cameras of an account\<close>

text \<open>The online and the offline cameras are the cameras of the account, each exactly once and in
  order: a camera is listed as one or the other, never both.\<close>

theorem cameras_partition:
  assumes "getDeviceList w s = (Ok (JArr ds), s1)" and "list_all (has_text ''product_type'') ds"
  shows "\<exists>on off. getOnlineCameras w s = (Ok (JArr on), s1) \<and> getOfflineCameras w s = (Ok (JArr off), s1) \<and>
    mset on + mset off = mset (filter (text_is ''product_type'' ''Camera'') ds) \<and>
    list_all cameraIsOnline on \<and> \<not> list_ex cameraIsOnline off \<and>
    getCameraSummaries w s = (Ok (JArr (map cameraToSummary (filter (text_is ''product_type'' ''Camera'') ds))), s1)"
proof -
  have "getCameras w s = (Ok (JArr (filter (text_is ''product_type'' ''Camera'') ds)), s1)"
    using assms by (simp add: getCameras_def getDevicesByType_def filter_devices_run by_text.filter_matches)
  moreover have "mset (filter p xs) + mset (filter (\<lambda>x. \<not> p x) xs) = mset xs" for p and xs :: "jsval list"
    by (simp flip: multiset_partition)
  ultimately show ?thesis
    by (intro exI [of _ "filter cameraIsOnline (filter (text_is ''product_type'' ''Camera'') ds)"]
        exI [of _ "filter (\<lambda>c. \<not> cameraIsOnline c) (filter (text_is ''product_type'' ''Camera'') ds)"])
      (simp add: getOnlineCameras_def getOfflineCameras_def getCameraSummaries_def filter_cameras_def await_def array_of_def
        ret_def list_all_iff list_ex_iff del: filter_filter mset_filter)
qed

theorem cameras_partition_witness:
  "\<exists>on off s1. getOnlineCameras (demo (demo_home demo_devices)) (demo_world ''t'') = (Ok (JArr on), s1) \<and>
     getOfflineCameras (demo (demo_home demo_devices)) (demo_world ''t'') = (Ok (JArr off), s1)"
proof -
  obtain s1 where list: "getDeviceList (demo (demo_home demo_devices)) (demo_world ''t'') = (Ok (JArr demo_devices), s1)"
    using demo_home_list by blast
  have "list_all (has_text ''product_type'') demo_devices" by (simp add: demo_devices_def has_text_def)
  from cameras_partition [OF list this] show ?thesis by blast
qed

end
