(* ===== verification/Wyze_Capture.thy ===== *)
theory Wyze_Capture
  imports Wyze_Camera "HOL-Library.Sublist"
begin

text \<open>
  The frame capture of \<open>src/cameraStreamCapture.js\<close>: the signaling messages, the files and
  arguments of ffmpeg, and \<open>captureStreamFrame\<close> as a state machine.

  The peer connection, the WebSocket, the ffmpeg process and the timer are outside: what they
  do arrives as events, one at a time and in any order the handlers allow. A state holds the
  promises of the function, the point it awaits at, the messages it sent and the resources it
  released. After each event the function runs on as far as the settled promises let it.
  A rejection of a promise nobody has awaited yet, and an error event nobody listens to, end
  the process in Node; the state records it and makes no further steps.

  The laws are invariants of the reachable states: the resources are released exactly once and
  exactly when the capture settles, the offer is sent once and first, a frame is what ffmpeg
  wrote, and the timeout settles the capture except while the local description is made. They
  also show when a failure ends the process.
\<close>

section \<open>Signaling messages\<close>

datatype ready_state = WsConnecting | WsOpen | WsClosing | WsClosed

text \<open>What \<open>_sendSignal\<close> sends, if the socket is open.\<close>

definition sendSignal :: "ready_state \<Rightarrow> string \<Rightarrow> jsval \<Rightarrow> string \<Rightarrow> string option" where
  "sendSignal readyState action payload recipientClientId =
     (if readyState \<noteq> WsOpen then None
      else Some (stringify (JObj
        [(''action'', JStr action), (''messagePayload'', JStr (b64_encode (stringify payload))),
         (''recipientClientId'', JStr recipientClientId)])))"

text \<open>The inner payload: a text in base64 that parses. The service sends texts; any other value
  counts as unreadable.\<close>

definition signal_payload :: "jsval \<Rightarrow> jsval" where
  "signal_payload v = (case v of
     JStr t \<Rightarrow> if t = [] then JNull else (case json_parse (b64_decode t) of None \<Rightarrow> JNull | Some p \<Rightarrow> p)
   | _ \<Rightarrow> JNull)"

definition parseSignalMessage :: "jsval \<Rightarrow> jsval" where
  "parseSignalMessage raw = (case raw of
     JStr text \<Rightarrow>
       if text = [] then JNull
       else (case json_parse text of None \<Rightarrow> JNull
         | Some msg \<Rightarrow>
             if nullish msg then JNull
             else let type = js_or (attr msg ''messageType'') (attr msg ''action'') in
               if \<not> truthy type then JNull
               else JObj [(''type'', type), (''payload'', signal_payload (attr msg ''messagePayload''))])
   | _ \<Rightarrow> JNull)"

section \<open>Files and arguments of ffmpeg\<close>

text \<open>\<open>_resolveFfmpegPath\<close>, with the remembered path, what \<open>require\<close> gives for the package and the
  file test as arguments: the path, and the path to remember.\<close>

definition resolveFfmpegPath :: "string option \<Rightarrow> err + jsval \<Rightarrow> (string \<Rightarrow> bool) \<Rightarrow> string \<times> string option" where
  "resolveFfmpegPath known package existsSync =
     (case known of Some (c # p) \<Rightarrow> (c # p, known)
      | _ \<Rightarrow> (case package of
            Inr (JStr p) \<Rightarrow> if p \<noteq> [] \<and> existsSync p then (p, Some p) else (''ffmpeg'', Some ''ffmpeg'')
          | _ \<Rightarrow> (''ffmpeg'', Some ''ffmpeg'')))"

definition newline :: string where
  "newline = [CHR 0x0A]"

definition sdp_text :: "int \<Rightarrow> string" where
  "sdp_text rtpPort = concat (map (\<lambda>l. l @ newline)
     [''v=0'', ''o=- 0 0 IN IP4 127.0.0.1'', ''s=WyzeCapture'', ''c=IN IP4 127.0.0.1'', ''t=0 0'',
      ''m=video '' @ show_int rtpPort @ '' RTP/AVP 96'', ''a=rtpmap:96 H264/90000'', ''a=fmtp:96 packetization-mode=1''])"

text \<open>The path and the content of the file \<open>_writeSdpFile\<close> writes.\<close>

definition writeSdpFile :: "('a) wyze_scheme \<Rightarrow> jsval \<Rightarrow> int \<Rightarrow> string \<Rightarrow> int \<Rightarrow> err + string \<times> string" where
  "writeSdpFile w tmpdir pid random rtpPort =
     (case path_join w tmpdir (''wyze-capture-'' @ show_int pid @ ''-'' @ random @ ''.sdp'') of Inl e \<Rightarrow> Inl e
      | Inr sdpPath \<Rightarrow> Inr (sdpPath, sdp_text rtpPort))"

definition ffmpeg_args :: "string \<Rightarrow> string list" where
  "ffmpeg_args sdpPath =
     [''-loglevel'', ''error'', ''-protocol_whitelist'', ''file,rtp,udp'', ''-fflags'', ''+genpts+discardcorrupt+nobuffer'',
      ''-flags'', ''low_delay'', ''-i'', sdpPath, ''-frames:v'', ''1'', ''-vsync'', ''passthrough'', ''-f'', ''image2'',
      ''-c:v'', ''mjpeg'', ''-q:v'', ''2'', ''pipe:1'']"

section \<open>Promises and the port\<close>

text \<open>A promise settles once; settling it again changes nothing.\<close>

datatype 'v promise = Pending | Fulfilled 'v | Rejected err

definition settle :: "'v promise \<Rightarrow> 'v promise \<Rightarrow> 'v promise" where
  "settle p q = (if p = Pending then q else p)"

text \<open>\<open>_pickFreeUdpPort\<close>: what the socket reports, and the promise. The port is known when the
  socket is bound and handed out when the socket has closed again; only the first error event
  has a listener.\<close>

datatype port_event = UdpError err | UdpBound int | UdpClosed

record port_state =
  udp_port :: "int option"
  udp_listens :: bool
  udp_unhandled :: "err option"
  picked :: "int promise"

fun port_step :: "port_event \<Rightarrow> port_state \<Rightarrow> port_state" where
  "port_step (UdpError e) s =
     (if udp_listens s then s\<lparr>udp_listens := False, picked := settle (picked s) (Rejected e)\<rparr>
      else s\<lparr>udp_unhandled := Some e\<rparr>)"
| "port_step (UdpBound p) s = s\<lparr>udp_port := Some p\<rparr>"
| "port_step UdpClosed s = (case udp_port s of None \<Rightarrow> s | Some p \<Rightarrow> s\<lparr>picked := settle (picked s) (Fulfilled p)\<rparr>)"

definition pickFreeUdpPort :: "port_event list \<Rightarrow> int promise" where
  "pickFreeUdpPort es = picked (fold port_step es
     \<lparr>udp_port = None, udp_listens = True, udp_unhandled = None, picked = Pending\<rparr>)"

section \<open>The codec and the peer connection\<close>

text \<open>\<open>H264_CODECS\<close>: what is passed to \<open>RTCRtpCodecParameters\<close>.\<close>

definition H264_CODECS :: jsval where
  "H264_CODECS = JArr [JObj
     [(''mimeType'', JStr ''video/H264''), (''clockRate'', JNum 90000),
      (''rtcpFeedback'', JArr [JObj [(''type'', JStr ''nack'')], JObj [(''type'', JStr ''nack''), (''parameter'', JStr ''pli'')],
         JObj [(''type'', JStr ''goog-remb'')]]),
      (''parameters'', JStr ''level-asymmetry-allowed=1;packetization-mode=1;profile-level-id=42001f'')]]"

definition peer_config :: "jsval \<Rightarrow> jsval" where
  "peer_config iceServers = JObj [(''iceServers'', iceServers), (''codecs'', JObj [(''video'', H264_CODECS)])]"

section \<open>The state of a capture\<close>
text \<open>Where the function awaits: the opening of the socket, the offer, the local description, the
  answer, the frame; or it has settled.\<close>

datatype phase = Opening | Offering | Describing | Negotiating | Waiting | Finished "err + string"

datatype resource = RSocket | RPeer | RForward | RFfmpeg | RSdpFile

fun settled :: "phase \<Rightarrow> bool" where
  "settled (Finished r) = True"
| "settled p = False"

text \<open>\<open>forwarded\<close> holds what was sent over the forwarding socket: the packet, the port and the
  address.\<close>

record capture_state =
  phase :: phase
  opened :: "unit promise"
  ffmpegOutcome :: "string promise"
  remoteAnswered :: "unit promise"
  timeout :: "err option"
  outcome_awaited :: bool
  answer_awaited :: bool
  stdoutChunks :: "string list"
  stderrChunks :: "string list"
  ffmpeg_closed :: bool
  ffmpeg_listens :: bool
  socket :: "ready_state option"
  socket_listens :: bool
  applying :: "bool list"
  ice_subscribed :: bool
  outbox :: "string list"
  rtp_port :: int
  tracks :: nat
  forwarded :: "(string \<times> int \<times> string) list"
  resources :: "resource list"
  released :: "resource list"
  unhandled :: "err option"

text \<open>What the libraries report.\<close>

datatype capture_event =
    FfmpegStdout string
  | FfmpegStderr string
  | FfmpegError bool err
  | FfmpegClose int
  | SocketOpen
  | SocketError err
  | SocketClose int
  | SocketMessage string
  | Applied nat "err option"
  | OfferMade "err option"
  | LocalSet "err + jsval"
  | IceCandidate jsval
  | TrackReceived
  | RtpReceived "err + string"
  | ForwardError err
  | TimerFired

section \<open>Settling promises\<close>

definition die :: "err \<Rightarrow> capture_state \<Rightarrow> capture_state" where
  "die e s = s\<lparr>unhandled := (case unhandled s of None \<Rightarrow> Some e | Some e' \<Rightarrow> Some e')\<rparr>"

definition settle_outcome :: "string promise \<Rightarrow> capture_state \<Rightarrow> capture_state" where
  "settle_outcome p s =
     (let s' = s\<lparr>ffmpegOutcome := settle (ffmpegOutcome s) p\<rparr> in
      case p of Rejected e \<Rightarrow> if ffmpegOutcome s = Pending \<and> \<not> outcome_awaited s then die e s' else s' | _ \<Rightarrow> s')"

definition settle_answer :: "unit promise \<Rightarrow> capture_state \<Rightarrow> capture_state" where
  "settle_answer p s =
     (let s' = s\<lparr>remoteAnswered := settle (remoteAnswered s) p\<rparr> in
      case p of Rejected e \<Rightarrow> if remoteAnswered s = Pending \<and> \<not> answer_awaited s then die e s' else s' | _ \<Rightarrow> s')"

section \<open>Running on\<close>

text \<open>\<open>finally { cleanup(); }\<close> and the end of the function.\<close>

definition finish :: "err + string \<Rightarrow> capture_state \<Rightarrow> capture_state" where
  "finish r s = s\<lparr>phase := Finished r, released := released s @ resources s,
     socket := (case socket s of Some WsClosed \<Rightarrow> Some WsClosed | Some _ \<Rightarrow> Some WsClosing | None \<Rightarrow> None)\<rparr>"

text \<open>\<open>Promise.race\<close>: the first of the list that has settled.\<close>

fun race :: "'v promise list \<Rightarrow> 'v promise" where
  "race [] = Pending"
| "race (p # ps) = (if p = Pending then race ps else p)"

definition as_unit :: "'v promise \<Rightarrow> unit promise" where
  "as_unit p = (case p of Pending \<Rightarrow> Pending | Fulfilled v \<Rightarrow> Fulfilled () | Rejected e \<Rightarrow> Rejected e)"

text \<open>The timeout is a promise that only rejects.\<close>

definition timeout_promise :: "err option \<Rightarrow> 'v promise" where
  "timeout_promise t = (case t of None \<Rightarrow> Pending | Some e \<Rightarrow> Rejected e)"

definition run_waiting :: "capture_state \<Rightarrow> capture_state" where
  "run_waiting s = (case race [ffmpegOutcome s, timeout_promise (timeout s)] of
     Pending \<Rightarrow> s\<lparr>phase := Waiting\<rparr> | Fulfilled buffer \<Rightarrow> finish (Inr buffer) s | Rejected e \<Rightarrow> finish (Inl e) s)"

definition run_negotiating :: "capture_state \<Rightarrow> capture_state" where
  "run_negotiating s = (case race [remoteAnswered s, as_unit (ffmpegOutcome s), timeout_promise (timeout s)] of
     Pending \<Rightarrow> s\<lparr>phase := Negotiating\<rparr> | Fulfilled _ \<Rightarrow> run_waiting s | Rejected e \<Rightarrow> finish (Inl e) s)"

definition run_opening :: "capture_state \<Rightarrow> capture_state" where
  "run_opening s = (case race [opened s, as_unit (ffmpegOutcome s), timeout_promise (timeout s)] of
     Pending \<Rightarrow> s\<lparr>phase := Opening\<rparr> | Fulfilled _ \<Rightarrow> s\<lparr>phase := Offering\<rparr> | Rejected e \<Rightarrow> finish (Inl e) s)"

definition run_on :: "capture_state \<Rightarrow> capture_state" where
  "run_on s = (case phase s of
     Opening \<Rightarrow> run_opening s | Negotiating \<Rightarrow> run_negotiating s | Waiting \<Rightarrow> run_waiting s | _ \<Rightarrow> s)"

section \<open>Events\<close>

definition ffmpeg_error :: "string \<Rightarrow> bool \<Rightarrow> err \<Rightarrow> err" where
  "ffmpeg_error ffmpegPath enoent e =
     (if enoent then Error (''ffmpeg binary not found (tried: '' @ ffmpegPath @ ''). '' @
        ''Re-run `npm install` to fetch the bundled ffmpeg via ffmpeg-static, '' @
        ''or install ffmpeg on your system PATH if your platform isn't supported.'') else e)"

definition on_ffmpeg_close :: "int \<Rightarrow> capture_state \<Rightarrow> capture_state" where
  "on_ffmpeg_close code s = settle_outcome
     (if stdoutChunks s \<noteq> [] then Fulfilled (concat (stdoutChunks s))
      else Rejected (Error (''ffmpeg exited ('' @ show_int code @ '') without producing a frame: '' @ concat (stderrChunks s))))
     (s\<lparr>ffmpeg_closed := True\<rparr>)"

definition on_message :: "string \<Rightarrow> capture_state \<Rightarrow> capture_state" where
  "on_message raw s =
     (let msg = parseSignalMessage (JStr raw) in
      if attr msg ''type'' = JStr ''SDP_ANSWER'' then s\<lparr>applying := applying s @ [True]\<rparr>
      else if attr msg ''type'' = JStr ''ICE_CANDIDATE'' then s\<lparr>applying := applying s @ [False]\<rparr>
      else s)"

definition send :: "string \<Rightarrow> jsval \<Rightarrow> capture_state \<Rightarrow> capture_state" where
  "send action payload s = (case socket s of None \<Rightarrow> s
     | Some st \<Rightarrow> (case sendSignal st action payload ''MASTER'' of None \<Rightarrow> s | Some t \<Rightarrow> s\<lparr>outbox := outbox s @ [t]\<rparr>))"

definition offer_payload :: "jsval \<Rightarrow> jsval" where
  "offer_payload sdp = JObj [(''type'', JStr ''offer''), (''sdp'', sdp)]"

text \<open>After \<open>setLocalDescription\<close>: the offer is sent, candidates are subscribed to, and the answer
  is awaited.\<close>

definition negotiate :: "jsval \<Rightarrow> capture_state \<Rightarrow> capture_state" where
  "negotiate sdp s =
     (send ''SDP_OFFER'' (offer_payload sdp) s)\<lparr>phase := Negotiating, ice_subscribed := True, answer_awaited := True\<rparr>"

text \<open>A packet of a track, serialized, goes to the port ffmpeg reads from. Serializing it, and
  sending it over a closed socket, can throw, which is ignored.\<close>

definition forward :: "err + string \<Rightarrow> capture_state \<Rightarrow> capture_state" where
  "forward rtp s = (case rtp of Inl e \<Rightarrow> s
     | Inr packet \<Rightarrow> if settled (phase s) then s
         else s\<lparr>forwarded := forwarded s @ [(packet, rtp_port s, ''127.0.0.1'')]\<rparr>)"

fun handle :: "string \<Rightarrow> int \<Rightarrow> capture_event \<Rightarrow> capture_state \<Rightarrow> capture_state" where
  "handle ff ms (FfmpegStdout chunk) s = s\<lparr>stdoutChunks := stdoutChunks s @ [chunk]\<rparr>"
| "handle ff ms (FfmpegStderr chunk) s = s\<lparr>stderrChunks := stderrChunks s @ [chunk]\<rparr>"
| "handle ff ms (FfmpegError enoent e) s =
     (if ffmpeg_listens s then settle_outcome (Rejected (ffmpeg_error ff enoent e)) (s\<lparr>ffmpeg_listens := False\<rparr>) else die e s)"
| "handle ff ms (FfmpegClose code) s = on_ffmpeg_close code s"
| "handle ff ms SocketOpen s = s\<lparr>socket := Some WsOpen, opened := settle (opened s) (Fulfilled ())\<rparr>"
| "handle ff ms (SocketError e) s =
     (if socket_listens s then settle_answer (Rejected e) (s\<lparr>socket_listens := False, opened := settle (opened s) (Rejected e)\<rparr>)
      else die e s)"
| "handle ff ms (SocketClose code) s =
     (let s' = s\<lparr>socket := Some WsClosed\<rparr> in
      if code \<noteq> 1000 then settle_answer (Rejected (Error (''signaling WS closed ('' @ show_int code @ '')''))) s' else s')"
| "handle ff ms (SocketMessage raw) s = on_message raw s"
| "handle ff ms (Applied i r) s =
     (let s' = s\<lparr>applying := take i (applying s) @ drop (Suc i) (applying s)\<rparr> in
      case r of Some e \<Rightarrow> settle_answer (Rejected e) s'
      | None \<Rightarrow> if applying s ! i then settle_answer (Fulfilled ()) s' else s')"
| "handle ff ms (OfferMade r) s = (case r of Some e \<Rightarrow> finish (Inl e) s | None \<Rightarrow> s\<lparr>phase := Describing\<rparr>)"
| "handle ff ms (LocalSet r) s = (case r of Inl e \<Rightarrow> finish (Inl e) s | Inr sdp \<Rightarrow> negotiate sdp s)"
| "handle ff ms (IceCandidate c) s = (if truthy (attr c ''candidate'') then send ''ICE_CANDIDATE'' c s else s)"
| "handle ff ms TrackReceived s = s\<lparr>tracks := Suc (tracks s)\<rparr>"
| "handle ff ms (RtpReceived rtp) s = forward rtp s"
| "handle ff ms (ForwardError e) s = die e s"
| "handle ff ms TimerFired s =
     s\<lparr>timeout := Some (Error (''capture timed out after '' @ show_int ms @ ''ms''))\<rparr>"

text \<open>Which events the libraries can report in a state. A process that died reports none.\<close>

fun enabled :: "capture_event \<Rightarrow> capture_state \<Rightarrow> bool" where
  "enabled (FfmpegStdout chunk) s = (RFfmpeg \<in> set (resources s) \<and> \<not> ffmpeg_closed s)"
| "enabled (FfmpegStderr chunk) s = (RFfmpeg \<in> set (resources s) \<and> \<not> ffmpeg_closed s)"
| "enabled (FfmpegError enoent e) s = (RFfmpeg \<in> set (resources s))"
| "enabled (FfmpegClose code) s = (RFfmpeg \<in> set (resources s) \<and> \<not> ffmpeg_closed s)"
| "enabled SocketOpen s = (socket s = Some WsConnecting)"
| "enabled (SocketError e) s = (socket s \<noteq> None \<and> socket s \<noteq> Some WsClosed)"
| "enabled (SocketClose code) s = (socket s \<noteq> None \<and> socket s \<noteq> Some WsClosed)"
| "enabled (SocketMessage raw) s = (socket s = Some WsOpen \<or> socket s = Some WsClosing)"
| "enabled (Applied i r) s = (i < length (applying s))"
| "enabled (OfferMade r) s = (phase s = Offering)"
| "enabled (LocalSet r) s = (phase s = Describing)"
| "enabled (IceCandidate c) s = ice_subscribed s"
| "enabled TrackReceived s = (RPeer \<in> set (resources s))"
| "enabled (RtpReceived rtp) s = (0 < tracks s)"
| "enabled (ForwardError e) s = (forwarded s \<noteq> [])"
| "enabled TimerFired s = (socket s \<noteq> None \<and> timeout s = None)"

section \<open>Starting a capture\<close>

text \<open>Picking the port and writing the SDP file can fail, outside the \<open>try\<close>: nothing is released then,
  not even a file that a failing write has left behind.
  Spawning ffmpeg and the constructors of the peer connection and of the socket can throw; the
  resources made until then are released. A start that succeeds has its port.\<close>

datatype start = PortFails err | SdpFails err | SpawnFails err | PeerFails err | SocketFails err | Started int

definition capture_start :: "int promise \<Rightarrow> (int \<Rightarrow> err + string \<times> string) \<Rightarrow> (int \<Rightarrow> start) \<Rightarrow> start option" where
  "capture_start port sdpFile rest = (case port of Pending \<Rightarrow> None | Rejected e \<Rightarrow> Some (PortFails e)
     | Fulfilled rtpPort \<Rightarrow> (case sdpFile rtpPort of Inl e \<Rightarrow> Some (SdpFails e) | Inr _ \<Rightarrow> Some (rest rtpPort)))"

definition fresh_capture :: capture_state where
  "fresh_capture = \<lparr>phase = Opening, opened = Pending, ffmpegOutcome = Pending, remoteAnswered = Pending, timeout = None,
     outcome_awaited = False, answer_awaited = False, stdoutChunks = [], stderrChunks = [], ffmpeg_closed = False,
     ffmpeg_listens = True, socket = None, socket_listens = False, applying = [], ice_subscribed = False, outbox = [],
     rtp_port = 0, tracks = 0, forwarded = [],
     resources = [RForward, RFfmpeg, RSdpFile], released = [], unhandled = None\<rparr>"

fun start_capture :: "start \<Rightarrow> capture_state" where
  "start_capture (PortFails e) = finish (Inl e) (fresh_capture\<lparr>resources := []\<rparr>)"
| "start_capture (SdpFails e) = finish (Inl e) (fresh_capture\<lparr>resources := []\<rparr>)"
| "start_capture (SpawnFails e) = finish (Inl e) (fresh_capture\<lparr>resources := [RSdpFile]\<rparr>)"
| "start_capture (PeerFails e) = finish (Inl e) fresh_capture"
| "start_capture (SocketFails e) = finish (Inl e) (fresh_capture\<lparr>resources := [RPeer, RForward, RFfmpeg, RSdpFile]\<rparr>)"
| "start_capture (Started port) = fresh_capture\<lparr>rtp_port := port, resources := [RSocket, RPeer, RForward, RFfmpeg, RSdpFile], socket := Some WsConnecting,
     socket_listens := True, outcome_awaited := True\<rparr>"

inductive step :: "string \<Rightarrow> int \<Rightarrow> capture_state \<Rightarrow> capture_event \<Rightarrow> capture_state \<Rightarrow> bool" for ff ms where
  step: "unhandled s = None \<Longrightarrow> enabled ev s \<Longrightarrow> step ff ms s ev (run_on (handle ff ms ev s))"

inductive reachable :: "string \<Rightarrow> int \<Rightarrow> capture_state \<Rightarrow> bool" for ff ms where
  start: "reachable ff ms (start_capture st)"
| event: "reachable ff ms s \<Longrightarrow> step ff ms s ev s' \<Longrightarrow> reachable ff ms s'"

inductive_cases stepE: "step ff ms s ev s'"

text \<open>The same, run on a list of events; an event that cannot happen is ignored.\<close>

definition next_state :: "string \<Rightarrow> int \<Rightarrow> capture_event \<Rightarrow> capture_state \<Rightarrow> capture_state" where
  "next_state ff ms ev s = (if unhandled s = None \<and> enabled ev s then run_on (handle ff ms ev s) else s)"

definition run_events :: "string \<Rightarrow> int \<Rightarrow> capture_event list \<Rightarrow> capture_state \<Rightarrow> capture_state" where
  "run_events ff ms es s = fold (next_state ff ms) es s"

text \<open>The capture as the camera component calls it. \<open>cam\<close> gives for a call at some tick how the capture
  starts and what the libraries report during it. It settles when the machine has; a capture
  during which something goes unhandled ends the process, so it has no result, and the trace
  shows what was not handled.\<close>

type_synonym camera_side = "nat \<Rightarrow> start \<times> capture_event list"

definition capture_run :: "string \<Rightarrow> int \<Rightarrow> start \<times> capture_event list \<Rightarrow> capture_state" where
  "capture_run ff timeoutMs side = run_events ff timeoutMs (snd side) (start_capture (fst side))"

definition captureStreamFrame :: "('a) wyze_scheme \<Rightarrow> string \<Rightarrow> camera_side \<Rightarrow> capture" where
  "captureStreamFrame w ff cam signalingUrl iceServers timeoutMs = (\<lambda>s.
     let c = capture_run ff timeoutMs (cam (ticks s)) in
     case unhandled c of
       Some e \<Rightarrow> (OutOfFuel, await_point w (s\<lparr>trace := trace s @ [EUnhandled e]\<rparr>))
     | None \<Rightarrow>
        (case phase c of Finished (Inl e) \<Rightarrow> Throw e | Finished (Inr buffer) \<Rightarrow> Ok (JStr buffer) | _ \<Rightarrow> OutOfFuel,
         await_point w s))"
section \<open>Messages come back\<close>

lemma b64_encode_nonempty: "s \<noteq> [] \<Longrightarrow> b64_encode s \<noteq> []"
  using b64_decode_encode [of s] by (auto simp: b64_decode_def)

text \<open>A signaling message is understood as it was meant: what \<open>_sendSignal\<close> sends over an open
  socket, \<open>_parseSignalMessage\<close> reads back as the same type and the same payload, through two
  layers of JSON and one of base64; over a socket that is not open nothing is sent.\<close>

theorem signal_round_trip:
  assumes "wf_json payload" and "action \<noteq> ''''"
  shows "\<exists>text. sendSignal WsOpen action payload recipient = Some text \<and>
    parseSignalMessage (JStr text) = JObj [(''type'', JStr action), (''payload'', payload)] \<and>
    (st \<noteq> WsOpen \<longrightarrow> sendSignal st action payload recipient = None)"
proof -
  let ?msg = "JObj [(''action'', JStr action), (''messagePayload'', JStr (b64_encode (stringify payload))),
     (''recipientClientId'', JStr recipient)]"
  have "json_parse (stringify ?msg) = Some ?msg" by (rule json_parse_stringify) simp
  moreover have "signal_payload (JStr (b64_encode (stringify payload))) = payload"
    using json_parse_stringify [OF assms(1)] b64_encode_nonempty [OF stringify_not_Nil]
    by (simp add: signal_payload_def b64_decode_encode)
  ultimately show ?thesis
    using assms(2) stringify_not_Nil [of ?msg]
    by (simp add: sendSignal_def parseSignalMessage_def js_or_def del: stringify.simps)
qed

theorem signal_round_trip_witness:
  "\<exists>text. sendSignal WsOpen ''SDP_OFFER'' (offer_payload (JStr ''v=0'')) ''MASTER'' = Some text \<and>
     parseSignalMessage (JStr text) = JObj [(''type'', JStr ''SDP_OFFER''), (''payload'', offer_payload (JStr ''v=0''))]"
  using signal_round_trip [of "offer_payload (JStr ''v=0'')" "''SDP_OFFER''" "''MASTER''"] by (auto simp: offer_payload_def)

section \<open>What settling and running on change\<close>

lemma die_simps [simp]:
  "phase (die e s) = phase s" "opened (die e s) = opened s" "ffmpegOutcome (die e s) = ffmpegOutcome s"
  "remoteAnswered (die e s) = remoteAnswered s" "timeout (die e s) = timeout s" "outcome_awaited (die e s) = outcome_awaited s"
  "answer_awaited (die e s) = answer_awaited s" "stdoutChunks (die e s) = stdoutChunks s" "ffmpeg_closed (die e s) = ffmpeg_closed s"
  "socket (die e s) = socket s" "socket_listens (die e s) = socket_listens s" "ice_subscribed (die e s) = ice_subscribed s"
  "outbox (die e s) = outbox s" "forwarded (die e s) = forwarded s" "rtp_port (die e s) = rtp_port s" "tracks (die e s) = tracks s"
  "resources (die e s) = resources s" "released (die e s) = released s"
  by (simp_all add: die_def)

lemma settle_outcome_simps [simp]:
  "phase (settle_outcome p s) = phase s" "opened (settle_outcome p s) = opened s"
  "ffmpegOutcome (settle_outcome p s) = settle (ffmpegOutcome s) p"
  "remoteAnswered (settle_outcome p s) = remoteAnswered s" "timeout (settle_outcome p s) = timeout s"
  "outcome_awaited (settle_outcome p s) = outcome_awaited s" "answer_awaited (settle_outcome p s) = answer_awaited s"
  "stdoutChunks (settle_outcome p s) = stdoutChunks s" "ffmpeg_closed (settle_outcome p s) = ffmpeg_closed s"
  "socket (settle_outcome p s) = socket s" "socket_listens (settle_outcome p s) = socket_listens s"
  "ice_subscribed (settle_outcome p s) = ice_subscribed s" "outbox (settle_outcome p s) = outbox s"
  "forwarded (settle_outcome p s) = forwarded s" "rtp_port (settle_outcome p s) = rtp_port s" "tracks (settle_outcome p s) = tracks s"
  "resources (settle_outcome p s) = resources s" "released (settle_outcome p s) = released s"
  by (auto simp: settle_outcome_def Let_def split: promise.splits)

lemma settle_answer_simps [simp]:
  "phase (settle_answer p s) = phase s" "opened (settle_answer p s) = opened s"
  "ffmpegOutcome (settle_answer p s) = ffmpegOutcome s"
  "remoteAnswered (settle_answer p s) = settle (remoteAnswered s) p" "timeout (settle_answer p s) = timeout s"
  "outcome_awaited (settle_answer p s) = outcome_awaited s" "answer_awaited (settle_answer p s) = answer_awaited s"
  "stdoutChunks (settle_answer p s) = stdoutChunks s" "ffmpeg_closed (settle_answer p s) = ffmpeg_closed s"
  "socket (settle_answer p s) = socket s" "socket_listens (settle_answer p s) = socket_listens s"
  "ice_subscribed (settle_answer p s) = ice_subscribed s" "outbox (settle_answer p s) = outbox s"
  "forwarded (settle_answer p s) = forwarded s" "rtp_port (settle_answer p s) = rtp_port s" "tracks (settle_answer p s) = tracks s"
  "resources (settle_answer p s) = resources s" "released (settle_answer p s) = released s"
  by (auto simp: settle_answer_def Let_def split: promise.splits)

lemma settle_simps [simp]: "settle Pending p = p" "settle (Fulfilled v) p = Fulfilled v" "settle (Rejected e) p = Rejected e"
  by (simp_all add: settle_def)

abbreviation finished :: "capture_state \<Rightarrow> bool" where
  "finished s \<equiv> settled (phase s)"

text \<open>Running on leaves the state alone, moves to the next await, or finishes: the case analysis
  every invariant needs.\<close>

lemma run_on_cases:
  assumes "finished s \<or> phase s = Offering \<or> phase s = Describing \<Longrightarrow> P s"
    and "phase s = Opening \<Longrightarrow> opened s = Pending \<Longrightarrow> ffmpegOutcome s = Pending \<Longrightarrow> timeout s = None \<Longrightarrow> P s"
    and "phase s = Opening \<Longrightarrow> opened s = Fulfilled () \<or> (\<exists>b. ffmpegOutcome s = Fulfilled b) \<Longrightarrow> P (s\<lparr>phase := Offering\<rparr>)"
    and "phase s = Negotiating \<Longrightarrow> ffmpegOutcome s = Pending \<Longrightarrow> timeout s = None \<Longrightarrow> P s"
    and "phase s = Negotiating \<or> phase s = Waiting \<Longrightarrow> ffmpegOutcome s = Pending \<Longrightarrow> timeout s = None \<Longrightarrow> P (s\<lparr>phase := Waiting\<rparr>)"
    and "\<And>b. phase s = Negotiating \<or> phase s = Waiting \<Longrightarrow> ffmpegOutcome s = Fulfilled b \<Longrightarrow> P (finish (Inr b) s)"
    and "\<And>e. phase s = Opening \<or> phase s = Negotiating \<or> phase s = Waiting \<Longrightarrow> P (finish (Inl e) s)"
  shows "P (run_on s)"
proof -
  have same: "s\<lparr>phase := p\<rparr> = s" if "phase s = p" for p using that by simp
  have waiting: "P (run_waiting s)" if "phase s = Negotiating \<or> phase s = Waiting"
    using that assms(5-7) by (auto simp: run_waiting_def timeout_promise_def split: promise.splits option.splits)
  show ?thesis
  proof (cases "phase s")
    case Opening
    then show ?thesis using assms(2,3,7)
      by (auto simp: same [OF Opening] run_on_def run_opening_def as_unit_def timeout_promise_def split: promise.splits option.splits)
  next
    case Negotiating
    then show ?thesis using assms(4,7) waiting
      by (auto simp: same [OF Negotiating] run_on_def run_negotiating_def as_unit_def timeout_promise_def split: promise.splits option.splits)
  next
    case Waiting
    then show ?thesis using waiting by (simp add: run_on_def)
  qed (use assms(1) in \<open>simp_all add: run_on_def\<close>)
qed

lemma finish_simps [simp]:
  "phase (finish r s) = Finished r" "released (finish r s) = released s @ resources s" "resources (finish r s) = resources s"
  "opened (finish r s) = opened s" "ffmpegOutcome (finish r s) = ffmpegOutcome s" "timeout (finish r s) = timeout s"
  "remoteAnswered (finish r s) = remoteAnswered s" "outbox (finish r s) = outbox s"
  "stdoutChunks (finish r s) = stdoutChunks s" "ffmpeg_closed (finish r s) = ffmpeg_closed s"
  "answer_awaited (finish r s) = answer_awaited s" "outcome_awaited (finish r s) = outcome_awaited s"
  "socket (finish r s) = None \<longleftrightarrow> socket s = None" "socket (finish r s) \<noteq> Some WsConnecting" "socket (finish r s) \<noteq> Some WsOpen"
  "unhandled (finish r s) = unhandled s" "forwarded (finish r s) = forwarded s" "rtp_port (finish r s) = rtp_port s"
  "tracks (finish r s) = tracks s" "socket_listens (finish r s) = socket_listens s"
  by (auto simp: finish_def split: option.splits ready_state.splits)

section \<open>Invariants\<close>

text \<open>A property of the states that holds at the start and that every event keeps, given the
  handler's change and then the running on, holds in every reachable state.\<close>

locale capture_invariant =
  fixes ff :: string and ms :: int and I J :: "capture_state \<Rightarrow> bool"
  assumes at_start: "I (start_capture st)"
    and on_event: "reachable ff ms s \<Longrightarrow> I s \<Longrightarrow> unhandled s = None \<Longrightarrow> enabled ev s \<Longrightarrow> J (handle ff ms ev s)"
    and on_run: "J s \<Longrightarrow> I (run_on s)"
begin

lemma always: "reachable ff ms s \<Longrightarrow> I s"
  by (induction rule: reachable.induct) (auto elim!: stepE intro: at_start on_run on_event)

end

definition released_ok :: "capture_state \<Rightarrow> bool" where
  "released_ok s = (distinct (resources s) \<and> released s = (if finished s then resources s else []))"

lemma send_simps [simp]:
  "phase (send a p s) = phase s" "released (send a p s) = released s" "resources (send a p s) = resources s"
  "opened (send a p s) = opened s" "ffmpegOutcome (send a p s) = ffmpegOutcome s" "timeout (send a p s) = timeout s"
  "remoteAnswered (send a p s) = remoteAnswered s" "stdoutChunks (send a p s) = stdoutChunks s"
  "ffmpeg_closed (send a p s) = ffmpeg_closed s" "socket (send a p s) = socket s" "answer_awaited (send a p s) = answer_awaited s"
  "outcome_awaited (send a p s) = outcome_awaited s" "ice_subscribed (send a p s) = ice_subscribed s"
  "unhandled (send a p s) = unhandled s" "forwarded (send a p s) = forwarded s" "rtp_port (send a p s) = rtp_port s"
  "tracks (send a p s) = tracks s" "socket_listens (send a p s) = socket_listens s"
  by (auto simp: send_def split: option.splits)

lemma on_message_simps [simp]:
  "phase (on_message a s) = phase s" "released (on_message a s) = released s" "resources (on_message a s) = resources s"
  "opened (on_message a s) = opened s" "ffmpegOutcome (on_message a s) = ffmpegOutcome s" "timeout (on_message a s) = timeout s"
  "stdoutChunks (on_message a s) = stdoutChunks s" "outbox (on_message a s) = outbox s"
  "ffmpeg_closed (on_message a s) = ffmpeg_closed s" "socket (on_message a s) = socket s"
  "answer_awaited (on_message a s) = answer_awaited s" "outcome_awaited (on_message a s) = outcome_awaited s"
  "ice_subscribed (on_message a s) = ice_subscribed s" "unhandled (on_message a s) = unhandled s"
  "socket_listens (on_message a s) = socket_listens s" "forwarded (on_message a s) = forwarded s" "rtp_port (on_message a s) = rtp_port s" "tracks (on_message a s) = tracks s"
  by (simp_all add: on_message_def Let_def)

lemma forward_simps [simp]:
  "phase (forward r s) = phase s" "released (forward r s) = released s" "resources (forward r s) = resources s"
  "opened (forward r s) = opened s" "ffmpegOutcome (forward r s) = ffmpegOutcome s" "timeout (forward r s) = timeout s"
  "remoteAnswered (forward r s) = remoteAnswered s" "stdoutChunks (forward r s) = stdoutChunks s"
  "outbox (forward r s) = outbox s" "ffmpeg_closed (forward r s) = ffmpeg_closed s" "socket (forward r s) = socket s"
  "answer_awaited (forward r s) = answer_awaited s" "outcome_awaited (forward r s) = outcome_awaited s"
  "ice_subscribed (forward r s) = ice_subscribed s" "unhandled (forward r s) = unhandled s"
  "socket_listens (forward r s) = socket_listens s" "rtp_port (forward r s) = rtp_port s" "tracks (forward r s) = tracks s"
  by (auto simp: forward_def split: sum.splits)

lemmas handle_simps = negotiate_def on_ffmpeg_close_def Let_def 

interpretation resources: capture_invariant ff ms released_ok released_ok for ff ms
proof
  show "released_ok (start_capture st)" for st
    by (cases st) (simp_all add: released_ok_def fresh_capture_def)
  show "released_ok (handle ff ms ev s)" if "released_ok s" "enabled ev s" for ev s
    using that by (cases ev) (auto simp: released_ok_def handle_simps split: option.splits sum.splits)
  show "released_ok (run_on s)" if "released_ok s" for s
    by (rule run_on_cases [where P = released_ok]) (use that in \<open>auto simp: released_ok_def\<close>)
qed

definition frame_ok :: "capture_state \<Rightarrow> bool" where
  "frame_ok s = ((\<forall>b. ffmpegOutcome s = Fulfilled b \<longrightarrow> ffmpeg_closed s \<and> stdoutChunks s \<noteq> [] \<and> b = concat (stdoutChunks s)) \<and>
     (\<forall>b. phase s = Finished (Inr b) \<longrightarrow> ffmpegOutcome s = Fulfilled b))"

lemma settle_Fulfilled: "settle p q = Fulfilled b \<longleftrightarrow> p = Fulfilled b \<or> p = Pending \<and> q = Fulfilled b"
  by (cases p) auto

interpretation frames: capture_invariant ff ms frame_ok frame_ok for ff ms
proof
  show "frame_ok (start_capture st)" for st
    by (cases st) (simp_all add: frame_ok_def fresh_capture_def)
  show "frame_ok (handle ff ms ev s)" if "frame_ok s" "enabled ev s" for ev s
    using that by (cases ev) (auto simp: frame_ok_def handle_simps settle_Fulfilled split: option.splits sum.splits if_splits)
  show "frame_ok (run_on s)" if "frame_ok s" for s
    by (rule run_on_cases [where P = frame_ok]) (use that in \<open>auto simp: frame_ok_def\<close>)
qed

definition timer_ok :: "capture_state \<Rightarrow> bool" where
  "timer_ok s = (timeout s = None \<or> finished s \<or> phase s = Offering \<or> phase s = Describing)"

interpretation timer: capture_invariant ff ms timer_ok "\<lambda>_. True" for ff ms
proof
  show "timer_ok (start_capture st)" for st
    by (cases st) (simp_all add: timer_ok_def fresh_capture_def)
  show "timer_ok (run_on s)" for s
    by (rule run_on_cases [where P = timer_ok]) (auto simp: timer_ok_def)
qed simp

definition awaited_ok :: "capture_state \<Rightarrow> bool" where
  "awaited_ok s = ((answer_awaited s \<longrightarrow> socket s \<noteq> None) \<and> (socket s \<noteq> None \<longrightarrow> outcome_awaited s) \<and> (\<not> finished s \<longrightarrow> socket s \<noteq> None))"

interpretation awaited: capture_invariant ff ms awaited_ok awaited_ok for ff ms
proof
  show "awaited_ok (start_capture st)" for st
    by (cases st) (simp_all add: awaited_ok_def fresh_capture_def finish_def)
  show "awaited_ok (handle ff ms ev s)" if "awaited_ok s" "enabled ev s" for ev s
    using that by (cases ev) (auto simp: awaited_ok_def handle_simps simp del: not_None_eq split: option.splits sum.splits)
  show "awaited_ok (run_on s)" if "awaited_ok s" for s
    by (rule run_on_cases [where P = awaited_ok]) (use that in \<open>auto simp: awaited_ok_def simp del: not_None_eq\<close>)
qed

text \<open>The messages of a capture: nothing, or the offer and then candidates.\<close>

definition outbox_ok :: "string list \<Rightarrow> bool" where
  "outbox_ok msgs = (case msgs of [] \<Rightarrow> True
     | m # cs \<Rightarrow> (\<exists>sdp. sendSignal WsOpen ''SDP_OFFER'' (offer_payload sdp) ''MASTER'' = Some m) \<and>
         list_all (\<lambda>m. \<exists>c. truthy (attr c ''candidate'') \<and> sendSignal WsOpen ''ICE_CANDIDATE'' c ''MASTER'' = Some m) cs)"

text \<open>Before the answer is awaited nothing is sent; from then on the socket is past connecting, and
  without an offer it is not open. Once the capture has settled it is closing.\<close>

definition quiet :: "capture_state \<Rightarrow> bool" where
  "quiet s = (outbox s = [] \<and> \<not> ice_subscribed s)"

definition talk_common :: "capture_state \<Rightarrow> bool" where
  "talk_common s = (outbox_ok (outbox s) \<and>
     (phase s = Opening \<or> phase s = Offering \<or> phase s = Describing \<longrightarrow> quiet s) \<and>
     (phase s = Offering \<or> phase s = Describing \<longrightarrow> opened s = Fulfilled () \<or> (\<exists>b. ffmpegOutcome s = Fulfilled b)) \<and>
     (opened s = Fulfilled () \<longrightarrow> socket s \<noteq> Some WsConnecting) \<and>
     (phase s = Negotiating \<or> phase s = Waiting \<longrightarrow> outbox s = [] \<longrightarrow> socket s \<noteq> Some WsOpen) \<and>
     (finished s \<longrightarrow> socket s \<noteq> Some WsConnecting \<and> socket s \<noteq> Some WsOpen))"

definition talk_ok :: "capture_state \<Rightarrow> bool" where
  "talk_ok s = (talk_common s \<and> (phase s = Negotiating \<or> phase s = Waiting \<longrightarrow> socket s \<noteq> Some WsConnecting))"

definition talk_mid :: "capture_state \<Rightarrow> bool" where
  "talk_mid s = (talk_common s \<and> (phase s = Negotiating \<or> phase s = Waiting \<longrightarrow> socket s = Some WsConnecting \<longrightarrow>
     (\<exists>b. ffmpegOutcome s = Fulfilled b)))"

lemma outbox_ok_snoc:
  "outbox_ok msgs \<Longrightarrow> msgs \<noteq> [] \<Longrightarrow> truthy (attr c ''candidate'') \<Longrightarrow> sendSignal WsOpen ''ICE_CANDIDATE'' c ''MASTER'' = Some m \<Longrightarrow>
   outbox_ok (msgs @ [m])"
  by (auto simp: outbox_ok_def split: list.splits)

lemma send_open: "outbox (send a p s) = (if socket s = Some WsOpen then outbox s @ [the (sendSignal WsOpen a p ''MASTER'')] else outbox s)"
  by (auto simp: send_def sendSignal_def split: option.splits)

lemma sendSignal_open: "sendSignal WsOpen a p r = Some (the (sendSignal WsOpen a p r))"
  by (simp add: sendSignal_def)

lemma talk_negotiate:
  assumes "talk_ok s" and "phase s = Describing"
  shows "talk_mid (negotiate sdp s)"
  using assms sendSignal_open [of "''SDP_OFFER''" "offer_payload sdp" "''MASTER''"]
  by (auto simp: talk_ok_def talk_mid_def talk_common_def quiet_def negotiate_def send_open outbox_ok_def)

lemma talk_candidate:
  assumes "talk_ok s" and "ice_subscribed s" and "truthy (attr c ''candidate'')"
  shows "talk_mid (send ''ICE_CANDIDATE'' c s)"
proof (cases "socket s = Some WsOpen")
  case True
  then have "outbox s \<noteq> []" and "phase s = Negotiating \<or> phase s = Waiting"
    using assms(1,2) by (cases "phase s"; auto simp: talk_ok_def talk_common_def quiet_def)+
  then show ?thesis
    using assms True outbox_ok_snoc [of "outbox s" c, OF _ _ _ sendSignal_open]
    by (auto simp: talk_ok_def talk_mid_def talk_common_def quiet_def send_open)
next
  case False
  then show ?thesis
    using assms by (auto simp: talk_ok_def talk_mid_def talk_common_def quiet_def send_open)
qed

lemma talk_keep:
  assumes "talk_ok s" and "phase s' = phase s" and "outbox s' = outbox s" and "ice_subscribed s' = ice_subscribed s"
    and "opened s = Fulfilled () \<Longrightarrow> opened s' = Fulfilled ()"
    and "\<And>b. ffmpegOutcome s = Fulfilled b \<Longrightarrow> ffmpegOutcome s' = Fulfilled b"
    and "opened s' = Fulfilled () \<Longrightarrow> opened s = Fulfilled () \<or> socket s' = Some WsOpen"
    and "socket s' = socket s \<or> socket s' = Some WsClosed \<or> (socket s = Some WsConnecting \<and> socket s' = Some WsOpen)"
  shows "talk_mid s'"
  using assms unfolding talk_ok_def talk_mid_def talk_common_def quiet_def by (cases "phase s") auto

interpretation talk: capture_invariant ff ms talk_ok talk_mid for ff ms
proof
  show "talk_ok (start_capture st)" for st
    by (cases st) (simp_all add: talk_ok_def talk_common_def quiet_def outbox_ok_def fresh_capture_def)
  show "talk_mid (handle ff ms ev s)" if s: "talk_ok s" "enabled ev s" for ev s
  proof (cases ev)
    case (LocalSet r)
    show ?thesis
    proof (cases r)
      case (Inl e)
      then show ?thesis using LocalSet s by (auto simp: talk_ok_def talk_mid_def talk_common_def quiet_def)
    next
      case (Inr sdp)
      then show ?thesis using LocalSet s talk_negotiate [of s] by simp
    qed
  next
    case (IceCandidate c)
    then show ?thesis
      using s talk_candidate [of s c] by (auto simp: talk_ok_def talk_mid_def)
  next
    case (OfferMade r)
    then show ?thesis using s by (cases r) (auto simp: talk_ok_def talk_mid_def talk_common_def quiet_def)
  qed (use s in \<open>auto intro!: talk_keep [OF s(1)] simp: on_ffmpeg_close_def Let_def settle_Fulfilled split: option.splits\<close>)
  show "talk_ok (run_on s)" if "talk_mid s" for s
    by (rule run_on_cases [where P = talk_ok])
      (use that in \<open>auto simp: talk_mid_def talk_ok_def talk_common_def quiet_def\<close>)
qed

section \<open>What a capture promises\<close>

lemma next_state_reachable: "reachable ff ms s \<Longrightarrow> reachable ff ms (next_state ff ms ev s)"
  by (auto simp: next_state_def intro: reachable.event step.step)

lemma run_events_reachable: "reachable ff ms s \<Longrightarrow> reachable ff ms (run_events ff ms es s)"
  unfolding run_events_def by (induction es arbitrary: s) (auto intro: next_state_reachable)

text \<open>A capture that goes well: the socket opens, the offer is answered, ffmpeg writes a frame.\<close>

definition demo_answer :: string where
  "demo_answer = stringify (JObj [(''messageType'', JStr ''SDP_ANSWER'')])"

definition demo_events :: "capture_event list" where
  "demo_events = [SocketOpen, OfferMade None, LocalSet (Inr (JStr ''v=0'')), SocketMessage demo_answer, Applied 0 None,
     FfmpegStdout ''JF'', FfmpegStdout ''IF'', FfmpegClose 0]"

lemma demo_answer_type: "attr (parseSignalMessage (JStr demo_answer)) ''type'' = JStr ''SDP_ANSWER''"
proof -
  have "json_parse demo_answer = Some (JObj [(''messageType'', JStr ''SDP_ANSWER'')])"
    unfolding demo_answer_def by (rule json_parse_stringify) simp
  moreover have "demo_answer \<noteq> []" unfolding demo_answer_def by (rule stringify_not_Nil)
  ultimately show ?thesis by (simp add: parseSignalMessage_def js_or_def)
qed

lemmas run_simps_capture = run_events_def next_state_def run_on_def run_opening_def run_negotiating_def run_waiting_def
  as_unit_def timeout_promise_def negotiate_def on_ffmpeg_close_def finish_def fresh_capture_def settle_outcome_def
  settle_answer_def die_def

lemma demo_capture_run:
  "phase (run_events ff ms demo_events (start_capture (Started port))) = Finished (Inr ''JFIF'')"
  "resources (run_events ff ms demo_events (start_capture (Started port))) = [RSocket, RPeer, RForward, RFfmpeg, RSdpFile]"
  by (simp_all add: demo_events_def run_simps_capture send_def sendSignal_def on_message_def demo_answer_type)

text \<open>C19. A capture gives back everything it took, exactly once and exactly when it settles: in every
  state it can reach, whatever the libraries report and in whatever order, the released
  resources are all that were made (socket, peer connection, forwarding socket, ffmpeg process
  and SDP file) if it has settled, and none before.\<close>

theorem capture_releases_once:
  assumes "reachable ff ms s"
  shows "distinct (resources s) \<and> released s = (case phase s of Finished r \<Rightarrow> resources s | _ \<Rightarrow> [])"
  using resources.always [OF assms] by (auto simp: released_ok_def split: phase.splits)

theorem capture_releases_once_witness:
  "released (run_events ''ffmpeg'' 20000 demo_events (start_capture (Started 5004))) = [RSocket, RPeer, RForward, RFfmpeg, RSdpFile]"
  using capture_releases_once [OF run_events_reachable [OF reachable.start], of "''ffmpeg''" 20000 demo_events "Started 5004"]
  by (simp add: demo_capture_run del: start_capture.simps)

text \<open>C21. What a capture says and returns: its first message is the offer, sent at most once, and all
  others are ICE candidates; and if it resolves, it resolves with exactly what ffmpeg had
  written to its output when it closed, which is not nothing.\<close>

theorem capture_protocol:
  assumes "reachable ff ms s"
  shows "outbox_ok (outbox s) \<and>
    (phase s = Finished (Inr b) \<longrightarrow> ffmpeg_closed s \<and> stdoutChunks s \<noteq> [] \<and> b = concat (stdoutChunks s))"
  using talk.always [OF assms] frames.always [OF assms] by (auto simp: talk_ok_def talk_common_def frame_ok_def)

theorem capture_protocol_witness:
  "outbox_ok (outbox (run_events ''ffmpeg'' 20000 demo_events (start_capture (Started 5004)))) \<and>
   ''JFIF'' = concat (stdoutChunks (run_events ''ffmpeg'' 20000 demo_events (start_capture (Started 5004))))"
  using capture_protocol [OF run_events_reachable [OF reachable.start]] demo_capture_run(1) by blast

text \<open>C23. The timeout settles a capture, except while the local description is being made: once the
  timer has fired, the capture has settled, or it is still waiting for the peer connection to
  make its offer or set it; and as soon as that is done, it settles, too.\<close>

theorem capture_times_out:
  assumes "reachable ff ms s" and "timeout s \<noteq> None"
  shows "(\<exists>r. phase s = Finished r) \<or>
    (phase s = Offering \<or> phase s = Describing) \<and> (\<forall>r s'. step ff ms s (LocalSet r) s' \<longrightarrow> (\<exists>r'. phase s' = Finished r'))"
proof -
  have settled: "settled p \<longleftrightarrow> (\<exists>r. p = Finished r)" for p by (cases p) auto
  have "\<exists>r'. phase s' = Finished r'" if st: "step ff ms s (LocalSet r) s'" for r s'
  proof -
    have s': "s' = run_on (handle ff ms (LocalSet r) s)" using st by (auto elim: stepE)
    have "timeout s' = timeout (handle ff ms (LocalSet r) s)"
      unfolding s' by (rule run_on_cases [where P = "\<lambda>t. timeout t = timeout (handle ff ms (LocalSet r) s)"]) simp_all
    also have "\<dots> = timeout s" by (cases r) (simp_all add: negotiate_def)
    finally have "timeout s' \<noteq> None" using assms(2) by simp
    moreover have "phase s' \<noteq> Offering \<and> phase s' \<noteq> Describing"
      unfolding s' by (rule run_on_cases [where P = "\<lambda>t. phase t \<noteq> Offering \<and> phase t \<noteq> Describing"])
        (cases r; simp add: negotiate_def)+
    ultimately show ?thesis
      using timer.always [OF reachable.event [OF assms(1) st]] by (auto simp: timer_ok_def settled)
  qed
  then show ?thesis using timer.always [OF assms(1)] assms(2) by (auto simp: timer_ok_def settled)
qed

theorem capture_times_out_witness:
  "\<exists>r. phase (run_events ''ffmpeg'' 20000 [SocketOpen, OfferMade None, LocalSet (Inr (JStr ''v=0'')), TimerFired] (start_capture (Started 5004))) = Finished r"
  using capture_times_out [OF run_events_reachable [OF reachable.start], of "''ffmpeg''" 20000
      "[SocketOpen, OfferMade None, LocalSet (Inr (JStr ''v=0'')), TimerFired]" "Started 5004"]
  by (simp add: run_simps_capture send_def sendSignal_def)

lemma unhandled_run_on: "unhandled (run_on s) = unhandled s"
  by (rule run_on_cases [where P = "\<lambda>t. unhandled t = unhandled s"]) simp_all

lemma unhandled_settle:
  "outcome_awaited s \<Longrightarrow> unhandled (settle_outcome p s) = unhandled s"
  "answer_awaited s \<Longrightarrow> unhandled (settle_answer q s) = unhandled s"
  by (auto simp: settle_outcome_def settle_answer_def Let_def split: promise.splits)

text \<open>C24. Once the answer is awaited, no rejection goes unhandled: from then on, whatever is reported,
  the only thing that can end the process is a second error event of the socket or of ffmpeg,
  for which there is no listener any more, or one of the forwarding socket, which never has one.\<close>

theorem capture_rejections_handled:
  assumes "reachable ff ms s" and "answer_awaited s" and "step ff ms s ev s'"
    and "\<And>e. ev = SocketError e \<Longrightarrow> socket_listens s" and "\<And>b e. ev = FfmpegError b e \<Longrightarrow> ffmpeg_listens s"
    and "\<And>e. ev \<noteq> ForwardError e"
  shows "unhandled s' = None"
proof -
  have ok: "outcome_awaited s" using awaited.always [OF assms(1)] assms(2) by (auto simp: awaited_ok_def)
  from assms(3) obtain "unhandled s = None" and "s' = run_on (handle ff ms ev s)" by (auto elim: stepE)
  moreover have "unhandled (handle ff ms ev s) = unhandled s"
    using assms(2,4,5,6) ok
    by (cases ev) (auto simp: unhandled_settle on_ffmpeg_close_def negotiate_def Let_def split: option.splits sum.splits)
  ultimately show ?thesis by (simp add: unhandled_run_on)
qed

theorem capture_rejections_handled_witness:
  "unhandled (run_on (handle ''ffmpeg'' 20000 (SocketClose 1006)
     (run_events ''ffmpeg'' 20000 [SocketOpen, OfferMade None, LocalSet (Inr (JStr ''v=0''))] (start_capture (Started 5004))))) = None"
proof -
  let ?s = "run_events ''ffmpeg'' 20000 [SocketOpen, OfferMade None, LocalSet (Inr (JStr ''v=0''))] (start_capture (Started 5004))"
  have "unhandled ?s = None" "enabled (SocketClose 1006) ?s" "answer_awaited ?s"
    by (simp_all add: run_simps_capture send_def sendSignal_def)
  then show ?thesis
    by - (rule capture_rejections_handled [OF run_events_reachable [OF reachable.start] _ step.step], simp_all del: start_capture.simps)
qed

text \<open>Before the answer is awaited: no promise of it is; and while the socket is awaited nothing has
  settled.\<close>

definition early_mid :: "capture_state \<Rightarrow> bool" where
  "early_mid s = ((phase s = Opening \<or> phase s = Offering \<or> phase s = Describing \<longrightarrow> \<not> answer_awaited s) \<and>
     (socket s = None \<longrightarrow> \<not> outcome_awaited s) \<and> (phase s = Opening \<longrightarrow> socket_listens s \<or> opened s \<noteq> Pending))"

definition early_ok :: "capture_state \<Rightarrow> bool" where
  "early_ok s = (early_mid s \<and> (phase s = Opening \<longrightarrow> opened s = Pending \<and> ffmpegOutcome s = Pending \<and> timeout s = None))"

interpretation early: capture_invariant ff ms early_ok early_mid for ff ms
proof
  show "early_ok (start_capture st)" for st
    by (cases st) (simp_all add: early_ok_def early_mid_def fresh_capture_def)
  show "early_mid (handle ff ms ev s)" if "early_ok s" "enabled ev s" for ev s
    using that by (cases ev) (auto simp: early_ok_def early_mid_def handle_simps split: option.splits sum.splits)
  show "early_ok (run_on s)" if "early_mid s" for s
    by (rule run_on_cases [where P = early_ok]) (use that in \<open>auto simp: early_ok_def early_mid_def\<close>)
qed

lemma unhandled_settle_answer:
  "\<not> answer_awaited s \<Longrightarrow> remoteAnswered s = Pending \<Longrightarrow> unhandled s = None \<Longrightarrow> unhandled (settle_answer (Rejected e) s) = Some e"
  by (simp add: settle_answer_def die_def)

lemma unhandled_settle_outcome:
  "\<not> outcome_awaited s \<Longrightarrow> ffmpegOutcome s = Pending \<Longrightarrow> unhandled s = None \<Longrightarrow> unhandled (settle_outcome (Rejected e) s) = Some e"
  by (simp add: settle_outcome_def die_def)

lemma run_on_same:
  "early_ok s \<Longrightarrow> phase s \<noteq> Negotiating \<Longrightarrow> phase s \<noteq> Waiting \<Longrightarrow> opened t = opened s \<Longrightarrow> ffmpegOutcome t = ffmpegOutcome s \<Longrightarrow>
   timeout t = timeout s \<Longrightarrow> phase t = phase s \<Longrightarrow> phase (run_on t) = phase s"
  by (cases "phase s") (auto simp: early_ok_def run_on_def run_opening_def as_unit_def timeout_promise_def)

text \<open>C25. Before that, a failure of the socket ends the process: as long as the offer has not been
  sent, also when the capture has settled before and has closed the socket itself, an error of
  the socket, or its closing with another code than 1000, rejects the promise of the answer,
  which nobody awaits. While the socket is being opened the call is also rejected with the error.
  And when the socket or the peer connection could not be made at all, the ffmpeg that is killed
  then ends the process the same way, unless it has written something.\<close>

theorem early_failure_unhandled:
  assumes "reachable ff ms s" and "remoteAnswered s = Pending"
    and "phase s \<in> {Opening, Offering, Describing} \<or> (\<exists>r. phase s = Finished r) \<and> \<not> answer_awaited s"
  shows "(step ff ms s (SocketError e) s1 \<longrightarrow> unhandled s1 = Some e \<and>
      phase s1 = (if phase s = Opening then Finished (Inl e) else phase s)) \<and>
    (step ff ms s (SocketClose code) s2 \<longrightarrow> code \<noteq> 1000 \<longrightarrow>
      unhandled s2 = Some (Error (''signaling WS closed ('' @ show_int code @ '')'')) \<and> phase s2 = phase s) \<and>
    (step ff ms s (FfmpegClose code) s3 \<longrightarrow> socket s = None \<longrightarrow> ffmpegOutcome s = Pending \<longrightarrow> stdoutChunks s = [] \<longrightarrow>
      unhandled s3 = Some (Error (''ffmpeg exited ('' @ show_int code @ '') without producing a frame: '' @ concat (stderrChunks s))))"
proof -
  have ok: "early_ok s" by (rule early.always [OF assms(1)])
  then have free: "\<not> answer_awaited s" "phase s \<noteq> Negotiating" "phase s \<noteq> Waiting" "socket s = None \<Longrightarrow> \<not> outcome_awaited s"
    using assms(3) by (auto simp: early_ok_def early_mid_def)
  have error: "unhandled s1 = Some e \<and> phase s1 = (if phase s = Opening then Finished (Inl e) else phase s)"
    if "step ff ms s (SocketError e) s1"
  proof -
    have alive: "unhandled s = None" and s1: "s1 = run_on (handle ff ms (SocketError e) s)" using that by (auto elim: stepE)
    have "unhandled s1 = Some e"
      using alive free(1) assms(2) by (simp add: s1 unhandled_run_on unhandled_settle_answer) (simp add: die_def)
    moreover have "phase s1 = (if phase s = Opening then Finished (Inl e) else phase s)"
    proof (cases "phase s = Opening")
      case True
      then have "socket_listens s" "opened s = Pending" using ok by (auto simp: early_ok_def early_mid_def)
      then show ?thesis using True by (simp add: s1 run_on_def run_opening_def)
    next
      case False
      then have "run_on t = t" if "phase t = phase s" for t using that free(2,3) by (cases "phase s") (simp_all add: run_on_def)
      then show ?thesis using False by (simp add: s1)
    qed
    ultimately show ?thesis by simp
  qed
  have close: "unhandled s2 = Some (Error (''signaling WS closed ('' @ show_int code @ '')'')) \<and> phase s2 = phase s"
    if "step ff ms s (SocketClose code) s2" "code \<noteq> 1000"
    using that ok free assms(2)
    by (auto elim!: stepE simp: unhandled_run_on unhandled_settle_answer Let_def intro!: run_on_same)
  have exit: "unhandled s3 = Some (Error (''ffmpeg exited ('' @ show_int code @ '') without producing a frame: '' @ concat (stderrChunks s)))"
    if "step ff ms s (FfmpegClose code) s3" "socket s = None" "ffmpegOutcome s = Pending" "stdoutChunks s = []"
    using that free(4) by (auto elim!: stepE simp: unhandled_run_on unhandled_settle_outcome on_ffmpeg_close_def)
  from error close exit show ?thesis by blast
qed

theorem early_failure_unhandled_witness:
  "unhandled (run_on (handle ''ffmpeg'' 20000 (SocketError (Error ''refused'')) (run_events ''ffmpeg'' 20000 [TimerFired] (start_capture (Started 5004))))) =
     Some (Error ''refused'')"
proof -
  let ?s = "run_events ''ffmpeg'' 20000 [TimerFired] (start_capture (Started 5004))"
  have s: "unhandled ?s = None" "enabled (SocketError (Error ''refused'')) ?s" "remoteAnswered ?s = Pending"
    "\<exists>r. phase ?s = Finished r" "\<not> answer_awaited ?s"
    by (simp_all add: run_simps_capture)
  with early_failure_unhandled [OF run_events_reachable [OF reachable.start] s(3), of "Error ''refused''"
      "run_on (handle ''ffmpeg'' 20000 (SocketError (Error ''refused'')) ?s)"]
  show ?thesis using step.step [OF s(1,2), of "''ffmpeg''" 20000] by blast
qed
section \<open>The port\<close>

lemma port_steps:
  assumes "picked (fold port_step es s) = Fulfilled p"
  shows "picked s = Fulfilled p \<or> UdpClosed \<in> set es \<and> (udp_port s = Some p \<or> UdpBound p \<in> set es)"
  using assms
proof (induction es arbitrary: s)
  case (Cons ev es)
  then show ?case by (cases ev) (fastforce simp: settle_def split: if_splits option.splits)+
qed simp

lemma pickFreeUdpPort_bound: "pickFreeUdpPort es = Fulfilled p \<Longrightarrow> UdpBound p \<in> set es \<and> UdpClosed \<in> set es"
  using port_steps unfolding pickFreeUdpPort_def by fastforce

section \<open>Packets\<close>

text \<open>The packets the tracks deliver, in the order of the events.\<close>

fun packets :: "capture_event list \<Rightarrow> string list" where
  "packets (RtpReceived (Inr p) # es) = p # packets es"
| "packets (ev # es) = packets es"
| "packets [] = []"

lemma packets_append [simp]: "packets (xs @ ys) = packets xs @ packets ys"
  by (induction xs rule: packets.induct) auto

lemma run_on_keeps [simp]:
  "forwarded (run_on s) = forwarded s" "rtp_port (run_on s) = rtp_port s" "outbox (run_on s) = outbox s"
  by (rule run_on_cases [where P = "\<lambda>t. forwarded t = forwarded s"], simp_all)
    (rule run_on_cases [where P = "\<lambda>t. rtp_port t = rtp_port s"], simp_all,
     rule run_on_cases [where P = "\<lambda>t. outbox t = outbox s"], simp_all)

lemma handle_rtp_port [simp]: "rtp_port (handle ff ms ev s) = rtp_port s"
  by (cases ev) (auto simp: handle_simps split: option.splits sum.splits)

lemma handle_forwarded:
  "forwarded (handle ff ms ev s) = forwarded s @ (if finished s then [] else map (\<lambda>p. (p, rtp_port s, ''127.0.0.1'')) (packets [ev]))"
  by (cases ev) (auto simp: handle_simps forward_def split: option.splits sum.splits)

lemma run_events_snoc: "run_events ff ms (es @ [ev]) s = next_state ff ms ev (run_events ff ms es s)"
  by (simp add: run_events_def)

lemma run_events_rtp_port [simp]: "rtp_port (run_events ff ms es s) = rtp_port s"
  by (induction es rule: rev_induct) (auto simp: run_events_snoc next_state_def, simp add: run_events_def)

lemma run_events_forwarded:
  "\<exists>ps. forwarded (run_events ff ms es s) = forwarded s @ map (\<lambda>p. (p, rtp_port s, ''127.0.0.1'')) ps \<and> subseq ps (packets es)"
proof (induction es rule: rev_induct)
  case Nil
  show ?case by (rule exI [of _ "[]"]) (simp add: run_events_def)
next
  case (snoc ev es)
  then obtain ps where ps: "forwarded (run_events ff ms es s) = forwarded s @ map (\<lambda>p. (p, rtp_port s, ''127.0.0.1'')) ps"
    "subseq ps (packets es)" by blast
  let ?t = "run_events ff ms es s"
  show ?case
  proof (cases "unhandled ?t = None \<and> enabled ev ?t \<and> \<not> finished ?t")
    case True
    then show ?thesis
      using ps by (intro exI [of _ "ps @ packets [ev]"]) (auto simp: run_events_snoc next_state_def handle_forwarded intro: list_emb_append_mono)
  next
    case False
    then show ?thesis
      using ps by (intro exI [of _ ps]) (auto simp: run_events_snoc next_state_def handle_forwarded)
  qed
qed

text \<open>The SDP file ffmpeg is started on names the port and the codec of the packets it is sent: the
  one the peer connection negotiates.\<close>

lemma sdp_describes_codec:
  assumes "writeSdpFile w tmpdir pid rnd port = Inr (sdpPath, content)"
  shows "\<exists>before after. content = before @ ''m=video '' @ show_int port @ '' RTP/AVP 96'' @ newline @
      ''a=rtpmap:96 H264/'' @ js_String (attr (attr H264_CODECS ''0'') ''clockRate'') @ newline @ after"
proof -
  have "show_nat 0 = ''0''" by code_simp
  then have "js_String (attr (attr H264_CODECS ''0'') ''clockRate'') = show_int 90000"
    by (simp add: H264_CODECS_def indexed_def)
  also have "\<dots> = [digit_char 9, digit_char 0, digit_char 0, digit_char 0, digit_char 0]"
    by (simp add: show_int_def show_nat.simps [of 90000] show_nat.simps [of 9000] show_nat.simps [of 900] show_nat.simps [of 90]
        show_nat.simps [of 9])
  also have "\<dots> = ''90000''" by code_simp
  finally have "content = (''v=0'' @ newline @ ''o=- 0 0 IN IP4 127.0.0.1'' @ newline @ ''s=WyzeCapture'' @ newline @
      ''c=IN IP4 127.0.0.1'' @ newline @ ''t=0 0'' @ newline) @ ''m=video '' @ show_int port @ '' RTP/AVP 96'' @ newline @
      ''a=rtpmap:96 H264/'' @ js_String (attr (attr H264_CODECS ''0'') ''clockRate'') @ newline @
      (''a=fmtp:96 packetization-mode=1'' @ newline)"
    using assms by (simp add: writeSdpFile_def sdp_text_def split: sum.splits)
  then show ?thesis by blast
qed

text \<open>C22. The camera's packets reach ffmpeg: whatever is reported, what a capture has sent over its
  forwarding socket are packets of the tracks, each at most once and in their order, all to the
  local port that was free when it was picked, which is the one the SDP file tells ffmpeg to
  read from.\<close>

theorem capture_forwards_to_ffmpeg:
  assumes "capture_start (pickFreeUdpPort udp) (writeSdpFile w tmpdir pid rnd) Started = Some (Started port)"
  shows "UdpBound port \<in> set udp \<and> UdpClosed \<in> set udp \<and>
    (\<exists>sdpPath content ps before after. writeSdpFile w tmpdir pid rnd port = Inr (sdpPath, content) \<and>
       content = before @ ''m=video '' @ show_int port @ '' RTP/AVP 96'' @ newline @ after \<and>
       forwarded (run_events ff ms es (start_capture (Started port))) = map (\<lambda>p. (p, port, ''127.0.0.1'')) ps \<and>
       subseq ps (packets es))"
proof -
  from assms obtain sdpPath content where picked: "pickFreeUdpPort udp = Fulfilled port"
    and sdp: "writeSdpFile w tmpdir pid rnd port = Inr (sdpPath, content)"
    by (auto simp: capture_start_def split: promise.splits sum.splits)
  obtain before after where "content = before @ ''m=video '' @ show_int port @ '' RTP/AVP 96'' @ newline @ after"
    using sdp_describes_codec [OF sdp] by blast
  moreover obtain ps where "forwarded (run_events ff ms es (start_capture (Started port))) = map (\<lambda>p. (p, port, ''127.0.0.1'')) ps"
    "subseq ps (packets es)"
    using run_events_forwarded [of ff ms es "start_capture (Started port)"] by (auto simp: fresh_capture_def)
  ultimately show ?thesis using pickFreeUdpPort_bound [OF picked] sdp by blast
qed

theorem capture_forwards_to_ffmpeg_witness:
  "capture_start (pickFreeUdpPort [UdpBound 5004, UdpClosed]) (writeSdpFile (demo (answering [])) JUndef 7 ''ab'') Started =
     Some (Started 5004) \<and>
   (\<exists>ps. forwarded (run_events ''ffmpeg'' 20000 [TrackReceived, RtpReceived (Inr ''p'')] (start_capture (Started 5004))) =
      map (\<lambda>p. (p, 5004, ''127.0.0.1'')) ps \<and> subseq ps (packets [TrackReceived, RtpReceived (Inr ''p'')]))"
proof
  show start: "capture_start (pickFreeUdpPort [UdpBound 5004, UdpClosed]) (writeSdpFile (demo (answering [])) JUndef 7 ''ab'') Started =
     Some (Started 5004)"
    by (simp add: capture_start_def pickFreeUdpPort_def writeSdpFile_def)
  show "\<exists>ps. forwarded (run_events ''ffmpeg'' 20000 [TrackReceived, RtpReceived (Inr ''p'')] (start_capture (Started 5004))) =
      map (\<lambda>p. (p, 5004, ''127.0.0.1'')) ps \<and> subseq ps (packets [TrackReceived, RtpReceived (Inr ''p'')])"
    using capture_forwards_to_ffmpeg [OF start] by blast
qed

text \<open>C20. A settled capture is over: whatever the libraries still report, its result does not change,
  nothing more is sent over the signaling socket or the forwarding socket, and nothing is
  released again.\<close>

theorem capture_final:
  assumes "reachable ff ms s" and "phase s = Finished r" and "step ff ms s ev s'"
  shows "phase s' = Finished r \<and> outbox s' = outbox s \<and> forwarded s' = forwarded s \<and> released s' = released s"
proof -
  have s': "s' = run_on (handle ff ms ev s)" and en: "enabled ev s" using assms(3) by (auto elim: stepE)
  have closed: "socket s \<noteq> Some WsOpen" using talk.always [OF assms(1)] assms(2) by (simp add: talk_ok_def talk_common_def)
  have "phase (handle ff ms ev s) = Finished r" "outbox (handle ff ms ev s) = outbox s" "released (handle ff ms ev s) = released s"
    using en assms(2) closed by (cases ev; auto simp: handle_simps send_open split: option.splits sum.splits)+
  moreover have "run_on t = t" if "phase t = Finished r" for t using that by (simp add: run_on_def)
  ultimately show ?thesis unfolding s' using assms(2) by (simp add: handle_forwarded)
qed

theorem capture_final_witness:
  "phase (run_on (handle ''ffmpeg'' 20000 TimerFired (run_events ''ffmpeg'' 20000 demo_events (start_capture (Started 5004))))) = Finished (Inr ''JFIF'')"
proof -
  let ?s = "run_events ''ffmpeg'' 20000 demo_events (start_capture (Started 5004))"
  have "unhandled ?s = None" "enabled TimerFired ?s"
    by (simp_all add: demo_events_def run_simps_capture send_def sendSignal_def on_message_def demo_answer_type)
  then show ?thesis
    using capture_final [OF run_events_reachable [OF reachable.start] demo_capture_run(1) step.step] by blast
qed

end
