(* ===== verification/Wyze_Vacuum.thy ===== *)
theory Wyze_Vacuum
  imports Wyze_Directory
begin

text \<open>
  The robot vacuum of \<open>src/index.js\<close>: the requests of the Venus service with their own
  signing scheme, the vacuums of the account, the combined state of one vacuum, its controls,
  and the accessors that read that state.

  The laws show that every Venus call sends one request whose signature is the one of what it
  sends, that the combined state never rejects because one of its parts is missing, that each
  named control sends the codes it stands for, and which of the arguments of a usage report
  reach the service.
\<close>

section \<open>Requests of the Venus service\<close>

definition venusBuildHeaders :: "('a) wyze_scheme \<Rightarrow> jsval \<Rightarrow> int \<Rightarrow> string \<Rightarrow> jsval" where
  "venusBuildHeaders w token nonce signature = JObj
     [(''Accept-Encoding'', JStr ''gzip''), (''User-Agent'', userAgent w), (''access_token'', token),
      (''appid'', JStr constants_venusAppId), (''appinfo'', appInfo w), (''phoneid'', phoneId w),
      (''requestid'', JStr (venusRequestId w nonce)), (''signature2'', JStr signature)]"

definition venusSortedQuery :: "jsval \<Rightarrow> string" where
  "venusSortedQuery params = join ''&'' (map (query_pair params) (sort (keys_of params)))"

text \<open>\<open>axios.get(url, { headers, params })\<close> and \<open>axios.request({ url, method, headers, data })\<close>,
  after the token and the time are read.\<close>

definition venus_send :: "('a) wyze_scheme \<Rightarrow> string \<Rightarrow> string \<Rightarrow> jsval \<Rightarrow> jsval \<Rightarrow> int \<Rightarrow> jsval action" where
  "venus_send w verb url payload token nonce =
     (if verb = ''GET'' then
        let params = spread payload [(''nonce'', JNum nonce)];
            signature = venusGenerateDynamicSignature w (venusSortedQuery params) token;
            headers = venusBuildHeaders w token nonce signature
        in axios_get w url (JObj [(''headers'', headers), (''params'', params)])
      else
        let body = spread payload [(''nonce'', JStr (show_int nonce))];
            bodyStr = stringify body;
            signature = venusGenerateDynamicSignature w bodyStr token;
            headers = spread (venusBuildHeaders w token nonce signature)
              [(''Content-Type'', JStr ''application/json; charset=utf-8'')]
        in axios_request w (request_of (JObj
             [(''url'', JStr url), (''method'', JStr verb), (''headers'', headers), (''data'', JStr bodyStr)])))"

definition venusRequest :: "('a) wyze_scheme \<Rightarrow> string \<Rightarrow> string \<Rightarrow> jsval \<Rightarrow> jsval action" where
  "venusRequest w method path payload =
     await (maybeLogin w) (\<lambda>_.
     await Date_now (\<lambda>nonce.
     await (this_get access_token) (\<lambda>token.
     await (logged (venus_send w (toUpperCase method) (constants_venusBaseUrl @ path) payload token nonce)) (\<lambda>response.
       lift_err (member response ''data'')))))"

text \<open>\<open>args.forEach((value, index) => { payload[`arg${index + 1}`] = value })\<close>.\<close>

definition arg_key :: "nat \<Rightarrow> string" where
  "arg_key i = ''arg'' @ show_nat (Suc i)"

fun arg_loop :: "nat \<Rightarrow> jsval list \<Rightarrow> jsval \<Rightarrow> jsval" where
  "arg_loop index [] payload = payload"
| "arg_loop index (value # args) payload = arg_loop (Suc index) args (set_prop payload (arg_key index) value)"

definition tracking_payload :: "('a) wyze_scheme \<Rightarrow> int \<Rightarrow> jsval \<Rightarrow> int \<Rightarrow> jsval \<Rightarrow> jsval list \<Rightarrow> jsval" where
  "tracking_payload w now mac typeCode valueCode args =
     (let payload = JObj
        [(''uuid'', JStr constants_vacuumEventTrackingUuid), (''deviceId'', mac), (''createTime'', JStr (show_int now)),
         (''mcuSysVersion'', JStr constants_vacuumFirmwareVersion), (''appVersion'', appVersion w),
         (''pluginVersion'', JStr constants_venusPluginVersion), (''phoneId'', phoneId w), (''phoneOsVersion'', JStr ''16.0''),
         (''eventKey'', code_entry VacuumControlTypeDescription typeCode), (''eventType'', valueCode)]
      in set_prop (set_prop (arg_loop 0 args payload) ''arg11'' (JStr ''ios'')) ''arg12'' (JStr ''iPhone 13 mini''))"

definition vacuumEventTracking :: "('a) wyze_scheme \<Rightarrow> jsval \<Rightarrow> int \<Rightarrow> jsval \<Rightarrow> jsval \<Rightarrow> jsval action" where
  "vacuumEventTracking w mac typeCode valueCode args =
     await Date_now (\<lambda>now.
     await (lift_err (array_of args)) (\<lambda>xs.
       venusRequest w ''POST'' ''/plugin/venus/event_tracking'' (tracking_payload w now mac typeCode valueCode xs)))"

section \<open>The vacuums of the account\<close>

definition is_vacuum :: "jsval \<Rightarrow> err + bool" where
  "is_vacuum d = (case member d ''product_model'' of Inl e \<Rightarrow> Inl e
     | Inr m \<Rightarrow> Inr (m \<in> set (map JStr constants_vacuumModels)))"

definition getVacuumDeviceList :: "('a) wyze_scheme \<Rightarrow> jsval action" where
  "getVacuumDeviceList w = filter_devices w is_vacuum"

definition getVacuum :: "('a) wyze_scheme \<Rightarrow> jsval \<Rightarrow> jsval action" where
  "getVacuum w mac =
     await (getVacuumDeviceList w) (\<lambda>vacuums.
     await (lift_err (array_of vacuums)) (\<lambda>vs. lift_err (js_find (same_mac mac) vs)))"

section \<open>Reading a vacuum\<close>

text \<open>\<open>if (keys != null) params.keys = Array.isArray(keys) ? keys.join(",") : keys\<close>.\<close>

definition with_keys :: "jsval \<Rightarrow> jsval \<Rightarrow> jsval" where
  "with_keys params keys =
     (if nullish keys then params
      else set_prop params ''keys'' (case keys of JArr xs \<Rightarrow> JStr (join '','' (js_elems xs)) | _ \<Rightarrow> keys))"

definition getVacuumIotProp :: "('a) wyze_scheme \<Rightarrow> jsval \<Rightarrow> jsval \<Rightarrow> jsval action" where
  "getVacuumIotProp w mac keys = venusRequest w ''GET'' ''/plugin/venus/get_iot_prop'' (with_keys (JObj [(''did'', mac)]) keys)"

definition getVacuumDeviceInfo :: "('a) wyze_scheme \<Rightarrow> jsval \<Rightarrow> jsval \<Rightarrow> jsval action" where
  "getVacuumDeviceInfo w mac keys =
     venusRequest w ''GET'' ''/plugin/venus/device_info'' (with_keys (JObj [(''device_id'', mac)]) keys)"

definition getVacuumStatus :: "('a) wyze_scheme \<Rightarrow> jsval \<Rightarrow> jsval action" where
  "getVacuumStatus w mac = venusRequest w ''GET'' (''/plugin/venus/'' @ js_String mac @ ''/status'') (JObj [])"

definition getVacuumCurrentPosition :: "('a) wyze_scheme \<Rightarrow> jsval \<Rightarrow> jsval action" where
  "getVacuumCurrentPosition w mac =
     venusRequest w ''GET'' ''/plugin/venus/memory_map/current_position'' (JObj [(''did'', mac)])"

definition getVacuumCurrentMap :: "('a) wyze_scheme \<Rightarrow> jsval \<Rightarrow> jsval action" where
  "getVacuumCurrentMap w mac = venusRequest w ''GET'' ''/plugin/venus/memory_map/current_map'' (JObj [(''did'', mac)])"

definition getVacuumMaps :: "('a) wyze_scheme \<Rightarrow> jsval \<Rightarrow> jsval action" where
  "getVacuumMaps w mac = venusRequest w ''GET'' ''/plugin/venus/memory_map/list'' (JObj [(''did'', mac)])"

definition setVacuumCurrentMap :: "('a) wyze_scheme \<Rightarrow> jsval \<Rightarrow> jsval \<Rightarrow> jsval action" where
  "setVacuumCurrentMap w mac mapId =
     venusRequest w ''POST'' ''/plugin/venus/memory_map/current_map'' (JObj [(''device_id'', mac), (''map_id'', mapId)])"

text \<open>The start of the sweep history: a \<open>Date\<close>, by its time value, or any other value.\<close>

datatype since = SinceDate int | Since jsval

definition getVacuumSweepRecords :: "('a) wyze_scheme \<Rightarrow> jsval \<Rightarrow> jsval \<Rightarrow> since \<Rightarrow> jsval action" where
  "getVacuumSweepRecords w mac limit since =
     await Date_now (\<lambda>now.
       let lastTime = (case since of SinceDate t \<Rightarrow> JNum t | Since v \<Rightarrow> js_default v (JNum now)) in
       venusRequest w ''GET'' ''/plugin/venus/sweep_record/query_data''
         (JObj [(''did'', mac), (''purpose'', JStr ''history_map''), (''count'', js_default limit (JNum 20)),
                (''last_time'', lastTime)]))"

text \<open>\<open>safe\<close>: a part that fails is \<open>null\<close>. \<open>assign\<close> is \<open>if (part) Object.assign(result, part)\<close>, and
  \<open>put\<close> is \<open>if (part) result.k = part\<close>.\<close>

definition safe :: "jsval action \<Rightarrow> jsval action" where
  "safe fn = try_catch fn (\<lambda>err. ret JNull)"

definition assign :: "jsval \<Rightarrow> jsval \<Rightarrow> jsval" where
  "assign result part = (if truthy part then JObj (aspread (entries result) (entries part)) else result)"

definition put :: "jsval \<Rightarrow> string \<Rightarrow> jsval \<Rightarrow> jsval" where
  "put result k part = (if truthy part then set_prop result k part else result)"

definition vacuum_parts :: "('a) wyze_scheme \<Rightarrow> jsval \<Rightarrow> jsval \<Rightarrow> jsval action" where
  "vacuum_parts w mac result =
     await (safe (getVacuumIotProp w mac (JArr (map JStr VacuumIotPropKeys)))) (\<lambda>iotProp.
     let result = assign result (attr (attr iotProp ''data'') ''props'') in
     await (safe (getVacuumDeviceInfo w mac (JArr (map JStr VacuumDeviceInfoKeys)))) (\<lambda>deviceInfo.
     let result = assign result (attr (attr deviceInfo ''data'') ''settings'') in
     await (safe (getVacuumStatus w mac)) (\<lambda>status.
     let result = assign result (attr (attr status ''data'') ''eventFlag'');
         result = assign result (attr (attr status ''data'') ''heartBeat'') in
     await (safe (getVacuumCurrentPosition w mac)) (\<lambda>position.
     let result = put result ''current_position'' (attr position ''data'') in
     await (safe (getVacuumCurrentMap w mac)) (\<lambda>map.
       ret (put result ''current_map'' (attr map ''data'')))))))"

definition getVacuumInfo :: "('a) wyze_scheme \<Rightarrow> jsval \<Rightarrow> jsval action" where
  "getVacuumInfo w mac =
     await (getVacuum w mac) (\<lambda>vacuum.
       if \<not> truthy vacuum then ret JNull else vacuum_parts w mac (spread vacuum []))"

section \<open>Controls\<close>

definition vacuumControl :: "('a) wyze_scheme \<Rightarrow> jsval \<Rightarrow> jsval \<Rightarrow> jsval \<Rightarrow> jsval \<Rightarrow> jsval action" where
  "vacuumControl w mac type value extras =
     venusRequest w ''POST'' (''/plugin/venus/'' @ js_String mac @ ''/control'')
       (merge (JObj [(''type'', type), (''value'', value), (''vacuumMopMode'', JNum 0)]) extras)"

definition control :: "('a) wyze_scheme \<Rightarrow> jsval \<Rightarrow> VacuumControlType \<Rightarrow> VacuumControlValue \<Rightarrow> jsval \<Rightarrow> jsval action" where
  "control w mac type value extras =
     vacuumControl w mac (JNum (control_type_code type)) (JNum (control_value_code value)) extras"

definition vacuumClean :: "('a) wyze_scheme \<Rightarrow> jsval \<Rightarrow> jsval action" where
  "vacuumClean w mac = control w mac GLOBAL_SWEEPING START (JObj [])"

definition vacuumPause :: "('a) wyze_scheme \<Rightarrow> jsval \<Rightarrow> jsval action" where
  "vacuumPause w mac = control w mac GLOBAL_SWEEPING PAUSE (JObj [])"

definition vacuumDock :: "('a) wyze_scheme \<Rightarrow> jsval \<Rightarrow> jsval action" where
  "vacuumDock w mac = control w mac RETURN_TO_CHARGING START (JObj [])"

definition vacuumStop :: "('a) wyze_scheme \<Rightarrow> jsval \<Rightarrow> jsval action" where
  "vacuumStop w mac = control w mac RETURN_TO_CHARGING STOP (JObj [])"

definition vacuumCancel :: "('a) wyze_scheme \<Rightarrow> jsval \<Rightarrow> jsval action" where
  "vacuumCancel w mac = control w mac RETURN_TO_CHARGING STOP (JObj [])"

definition vacuumSweepRooms :: "('a) wyze_scheme \<Rightarrow> jsval \<Rightarrow> jsval \<Rightarrow> jsval action" where
  "vacuumSweepRooms w mac roomIds =
     (let ids = (case roomIds of JArr xs \<Rightarrow> xs | _ \<Rightarrow> [roomIds])
      in control w mac GLOBAL_SWEEPING START (JObj [(''rooms_id'', JArr ids)]))"

definition vacuumSetSuctionLevel :: "('a) wyze_scheme \<Rightarrow> jsval \<Rightarrow> jsval \<Rightarrow> jsval \<Rightarrow> jsval action" where
  "vacuumSetSuctionLevel w mac model level =
     venusRequest w ''POST'' ''/plugin/venus/set_iot_action'' (JObj
       [(''did'', mac), (''model'', model), (''cmd'', JStr ''set_preference''),
        (''params'', JArr [JObj [(''ctrltype'', JNum VacuumPreferenceType_SUCTION), (''value'', level)]]),
        (''is_sub_device'', JNum 0)])"

text \<open>The helpers that take a device object; reading the address of \<open>undefined\<close> or \<open>null\<close>
  rejects.\<close>

definition of_device :: "jsval \<Rightarrow> (jsval \<Rightarrow> 'b action) \<Rightarrow> 'b action" where
  "of_device device f = await (lift_err (member device ''mac'')) f"

definition vacuumStartCleaning :: "('a) wyze_scheme \<Rightarrow> jsval \<Rightarrow> jsval action" where
  "vacuumStartCleaning w device = of_device device (vacuumClean w)"

definition vacuumPauseCleaning :: "('a) wyze_scheme \<Rightarrow> jsval \<Rightarrow> jsval action" where
  "vacuumPauseCleaning w device = of_device device (vacuumPause w)"

definition vacuumReturnToDock :: "('a) wyze_scheme \<Rightarrow> jsval \<Rightarrow> jsval action" where
  "vacuumReturnToDock w device = of_device device (vacuumDock w)"

definition vacuumCleanRooms :: "('a) wyze_scheme \<Rightarrow> jsval \<Rightarrow> jsval \<Rightarrow> jsval action" where
  "vacuumCleanRooms w device roomIds = of_device device (\<lambda>mac. vacuumSweepRooms w mac roomIds)"

definition suction_of_device :: "('a) wyze_scheme \<Rightarrow> jsval \<Rightarrow> VacuumSuctionLevel \<Rightarrow> jsval action" where
  "suction_of_device w device level =
     of_device device (\<lambda>mac. vacuumSetSuctionLevel w mac (attr device ''product_model'') (JNum (suction_code level)))"

definition vacuumQuiet :: "('a) wyze_scheme \<Rightarrow> jsval \<Rightarrow> jsval action" where
  "vacuumQuiet w device = suction_of_device w device QUIET"

definition vacuumStandard :: "('a) wyze_scheme \<Rightarrow> jsval \<Rightarrow> jsval action" where
  "vacuumStandard w device = suction_of_device w device STANDARD"

definition vacuumStrong :: "('a) wyze_scheme \<Rightarrow> jsval \<Rightarrow> jsval action" where
  "vacuumStrong w device = suction_of_device w device STRONG"

definition vacuumInfo :: "('a) wyze_scheme \<Rightarrow> jsval \<Rightarrow> jsval action" where
  "vacuumInfo w device = of_device device (getVacuumInfo w)"

section \<open>Accessors\<close>

definition vacuumGetBattery :: "jsval \<Rightarrow> jsval" where
  "vacuumGetBattery info = (case attr info ''battary'' of JNum n \<Rightarrow> JNum n | _ \<Rightarrow> JNull)"

definition vacuumGetMode :: "jsval \<Rightarrow> jsval" where
  "vacuumGetMode info = parseVacuumMode (attr info ''mode'')"

definition vacuumGetFault :: "jsval \<Rightarrow> jsval" where
  "vacuumGetFault info = (case attr info ''fault_code'' of
     JNum code \<Rightarrow> if code = 0 then JNull
       else JObj [(''code'', JNum code), (''description'', js_coalesce (code_entry VacuumFaultCode code) JNull)]
   | _ \<Rightarrow> JNull)"

definition vacuumIsCharging :: "jsval \<Rightarrow> bool" where
  "vacuumIsCharging info = truthy (attr info ''chargeState'')"

definition vacuumIsCleaning :: "jsval \<Rightarrow> bool" where
  "vacuumIsCleaning info = (vacuumGetMode info = JStr ''CLEANING'')"

definition vacuumIsDocked :: "jsval \<Rightarrow> bool" where
  "vacuumIsDocked info = (vacuumGetMode info = JStr ''IDLE'' \<or> vacuumIsCharging info)"

section \<open>What is sent\<close>

definition venus_http :: "('a) wyze_scheme \<Rightarrow> string \<Rightarrow> string \<Rightarrow> jsval \<Rightarrow> jsval \<Rightarrow> int \<Rightarrow> http_req" where
  "venus_http w verb url payload token nonce =
     (if verb = ''GET'' then
        let params = spread payload [(''nonce'', JNum nonce)] in
        \<lparr>req_method = JStr ''GET'', req_url = JStr url, req_baseURL = JUndef, req_data = JUndef, req_params = params,
         req_headers = venusBuildHeaders w token nonce (venusGenerateDynamicSignature w (venusSortedQuery params) token)\<rparr>
      else
        let body = stringify (spread payload [(''nonce'', JStr (show_int nonce))]) in
        \<lparr>req_method = JStr verb, req_url = JStr url, req_baseURL = JUndef, req_data = JStr body, req_params = JUndef,
         req_headers = spread (venusBuildHeaders w token nonce (venusGenerateDynamicSignature w body token))
           [(''Content-Type'', JStr ''application/json; charset=utf-8'')]\<rparr>)"

lemma venus_send_eq: "venus_send w verb url payload token nonce = axios_request w (venus_http w verb url payload token nonce)"
  by (simp add: venus_send_def venus_http_def Let_def axios_get_def request_of_def)
    (simp add: spread_def)

text \<open>A request of the Venus service is signed when it carries the session's token, the request
  id of the moment and the signature of what it sends, and what it sends carries that moment.\<close>

definition venus_signed :: "('a) wyze_scheme \<Rightarrow> world \<Rightarrow> http_req \<Rightarrow> bool" where
  "venus_signed w s r =
     (let token = access_token (sess s); h = req_headers r in
      attr h ''access_token'' = token \<and> attr h ''requestid'' = JStr (venusRequestId w (clock s)) \<and>
      (case req_data r of
         JStr body \<Rightarrow> attr h ''signature2'' = JStr (venusGenerateDynamicSignature w body token) \<and>
           (\<exists>kvs. body = stringify (JObj kvs) \<and> alookup kvs ''nonce'' = JStr (show_int (clock s)))
       | _ \<Rightarrow> attr h ''signature2'' = JStr (venusGenerateDynamicSignature w (venusSortedQuery (req_params r)) token) \<and>
           attr (req_params r) ''nonce'' = JNum (clock s)))"

locale venus_service = login_service +
  assumes q_venus: "venus_signed w s (q s)"
begin

lemma venus_call:
  assumes "maybeLogin w s = (Ok (), s1)"
  shows "\<exists>r. venus_signed w s1 r \<and> trace (snd (call s)) = trace s1 @ [EHttp r] \<and>
    fst (call s) = (case axios w (ticks s1) r of Inl e \<Rightarrow> Throw e
      | Inr v \<Rightarrow> (case member v ''data'' of Inl e \<Rightarrow> Throw e | Inr d \<Rightarrow> Ok d))"
  using q_venus [of s1] by (auto simp: answered [OF assms])

end

lemma attr_spread_last: "attr (spread a [(k, v)]) k = v"
  by (simp add: spread_def)

lemma attr_spread_other: "k' \<noteq> k \<Longrightarrow> attr (spread (JObj kvs) [(k, v)]) k' = alookup (aspread [] kvs) k'"
  by (simp add: spread_def)

lemma venus_http_signed: "venus_signed w s (venus_http w verb url payload (access_token (sess s)) (clock s))"
proof (cases "verb = ''GET''")
  case True
  then show ?thesis
    by (simp add: venus_signed_def venus_http_def Let_def attr_spread_last) (simp add: venusBuildHeaders_def)
next
  case False
  then show ?thesis
    by (simp add: venus_signed_def venus_http_def Let_def)
      (auto simp: venusBuildHeaders_def spread_def intro!: exI [of _ "aset (aspread [] (entries payload)) ''nonce'' (JStr (show_int (clock s)))"])
qed

interpretation venus: venus_service w "venusRequest w m path payload"
    "\<lambda>s. venus_http w (toUpperCase m) (constants_venusBaseUrl @ path) payload (access_token (sess s)) (clock s)"
    for w m path payload
proof
  show "venusRequest w m path payload = via_login w
      (\<lambda>s. venus_http w (toUpperCase m) (constants_venusBaseUrl @ path) payload (access_token (sess s)) (clock s))"
    by (simp add: venusRequest_def via_login_def venus_send_eq data_of_def await_def this_get_def Date_now_def fun_eq_iff)
qed (rule venus_http_signed)

lemmas vacuum_reads = getVacuumIotProp_def getVacuumDeviceInfo_def getVacuumStatus_def getVacuumCurrentPosition_def
  getVacuumCurrentMap_def getVacuumMaps_def

lemmas vacuum_controls = control_def vacuumControl_def vacuumClean_def vacuumPause_def vacuumDock_def vacuumStop_def
  vacuumCancel_def vacuumSweepRooms_def vacuumSetSuctionLevel_def setVacuumCurrentMap_def

text \<open>C26. Each of the calls to the Venus service sends exactly one request after the login, with the
  token the session has at that moment, the request id of that moment, and the signature of
  the very query or text that is sent, which itself carries that moment. It settles with the
  \<open>data\<close> of the answer.\<close>

theorem venus_calls_signed:
  assumes "call \<in> {getVacuumIotProp w mac keys, getVacuumDeviceInfo w mac keys, getVacuumStatus w mac,
      getVacuumCurrentPosition w mac, getVacuumCurrentMap w mac, getVacuumMaps w mac, setVacuumCurrentMap w mac mapId,
      getVacuumSweepRecords w mac limit since, vacuumControl w mac type value extras, vacuumSweepRooms w mac rooms,
      vacuumSetSuctionLevel w mac model level, vacuumEventTracking w mac typeCode valueCode (JArr args)}"
    and "maybeLogin w s = (Ok (), s1)"
  shows "\<exists>r. venus_signed w s1 r \<and> trace (snd (call s)) = trace s1 @ [EHttp r] \<and>
    fst (call s) = (case axios w (ticks s1) r of Inl e \<Rightarrow> Throw e
      | Inr v \<Rightarrow> (case member v ''data'' of Inl e \<Rightarrow> Throw e | Inr d \<Rightarrow> Ok d))"
proof -
  have "\<exists>m path payload. call s = venusRequest w m path payload s"
    using assms(1)
    by (elim insertE emptyE; hypsubst)
      (simp_all only: vacuum_reads vacuum_controls getVacuumSweepRecords_def vacuumEventTracking_def await_def Date_now_def
        array_of_def lift_err_simps ret_def Let_def prod.case res.case jsval.case, blast+)
  then show ?thesis using venus.venus_call [OF assms(2)] by fastforce
qed

theorem venus_calls_signed_witness:
  "\<exists>r. venus_signed (demo (answering [])) (demo_world ''t'') r \<and>
     trace (snd (getVacuumStatus (demo (answering [])) (JStr ''JA_RO2_1'') (demo_world ''t''))) = [EHttp r]"
proof -
  let ?w = "demo (answering [])" and ?s = "demo_world ''t''" and ?c = "getVacuumStatus (demo (answering [])) (JStr ''JA_RO2_1'')"
  have "maybeLogin ?w ?s = (Ok (), ?s)" by (simp add: maybeLogin_token)
  then have "\<exists>r. venus_signed ?w ?s r \<and> trace (snd (?c ?s)) = trace ?s @ [EHttp r] \<and>
      fst (?c ?s) = (case axios ?w (ticks ?s) r of Inl e \<Rightarrow> Throw e
        | Inr v \<Rightarrow> (case member v ''data'' of Inl e \<Rightarrow> Throw e | Inr d \<Rightarrow> Ok d))"
    by (rule venus_calls_signed [where mac = "JStr ''JA_RO2_1''", rotated]) simp
  then show ?thesis by (auto simp del: demo_simps)
qed

lemma of_device_run: "attr d ''mac'' = JStr mac \<Longrightarrow> of_device d f = f (JStr mac)"
  using nullish_attr [of d "''mac''"] by (auto simp: of_device_def member_def)

lemma control_sends:
  assumes "maybeLogin w s = (Ok (), s1)" and "wf_json (JObj kvs)"
    and "set (map fst kvs) \<inter> {''type'', ''value'', ''vacuumMopMode'', ''nonce''} = {}"
  shows "\<exists>r body. trace (snd (control w (JStr mac) t v (JObj kvs) s)) = trace s1 @ [EHttp r] \<and> req_data r = JStr body \<and>
    req_url r = JStr (constants_venusBaseUrl @ ''/plugin/venus/'' @ mac @ ''/control'') \<and>
    json_parse body = Some (JObj ([(''type'', JNum (control_type_code t)), (''value'', JNum (control_value_code v)),
      (''vacuumMopMode'', JNum 0)] @ kvs @ [(''nonce'', JStr (show_int (clock s1)))]))"
proof -
  let ?p = "[(''type'', JNum (control_type_code t)), (''value'', JNum (control_value_code v)), (''vacuumMopMode'', JNum 0)] @ kvs"
  let ?kvs = "?p @ [(''nonce'', JStr (show_int (clock s1)))]"
  have wf: "distinct (map fst kvs)" "wf_members kvs" using assms(2) by simp_all
  have d: "distinct (map fst ?kvs)" using wf assms(3) by (auto simp: image_iff)
  have members: "wf_members (xs @ ys) = (wf_members xs \<and> wf_members ys)" for xs ys by (induction xs) auto
  have m: "merge (JObj [(''type'', JNum (control_type_code t)), (''value'', JNum (control_value_code v)),
      (''vacuumMopMode'', JNum 0)]) (JObj kvs) = JObj ?p"
    using d by (simp add: merge_def spread_def) (subst aspread_fresh, auto)
  have n: "spread (JObj ?p) [(''nonce'', JStr (show_int (clock s1)))] = JObj ?kvs"
    using d by (simp only: spread_def entries.simps) (subst aspread_fresh, simp, subst aspread_fresh, auto)
  have "json_parse (stringify (JObj ?kvs)) = Some (JObj ?kvs)"
    using d wf by (intro json_parse_stringify) (simp add: members)
  then show ?thesis
    using venus.one_request [OF assms(1)]
    by (simp add: control_def vacuumControl_def m n [unfolded append.simps] venus_http_def Let_def toUpperCase_def upper_char_def)
qed

text \<open>C29. Each named control of a vacuum, also through the helper that takes the device, posts to the
  control address of that vacuum a text that parses back to the type and the value the
  control stands for, with the moment it is sent; cleaning rooms adds the list of the rooms,
  and a single room is sent as a list of one.\<close>

theorem vacuum_commands:
  assumes "(cmd, t, v, extra) \<in> {(vacuumStartCleaning w d, 0, 1, []), (vacuumPauseCleaning w d, 0, 2, []),
      (vacuumReturnToDock w d, 3, 1, []), (vacuumClean w (JStr mac), 0, 1, []), (vacuumPause w (JStr mac), 0, 2, []),
      (vacuumDock w (JStr mac), 3, 1, []), (vacuumStop w (JStr mac), 3, 0, []), (vacuumCancel w (JStr mac), 3, 0, []),
      (vacuumCleanRooms w d (JArr (map JNum rooms)), 0, 1, [(''rooms_id'', JArr (map JNum rooms))]),
      (vacuumCleanRooms w d (JNum room), 0, 1, [(''rooms_id'', JArr [JNum room])])}"
    and "attr d ''mac'' = JStr mac" and "maybeLogin w s = (Ok (), s1)"
  shows "\<exists>r body. trace (snd (cmd s)) = trace s1 @ [EHttp r] \<and> req_data r = JStr body \<and>
    req_url r = JStr (constants_venusBaseUrl @ ''/plugin/venus/'' @ mac @ ''/control'') \<and>
    json_parse body = Some (JObj ([(''type'', JNum t), (''value'', JNum v), (''vacuumMopMode'', JNum 0)] @ extra @
      [(''nonce'', JStr (show_int (clock s1)))]))"
proof -
  have "wf_elems (map JNum rooms)" by (induction rooms) auto
  then have "\<exists>ct cv. cmd = control w (JStr mac) ct cv (JObj extra) \<and> control_type_code ct = t \<and> control_value_code cv = v \<and>
      wf_json (JObj extra) \<and> set (map fst extra) \<inter> {''type'', ''value'', ''vacuumMopMode'', ''nonce''} = {}"
    using assms(1)
    by (elim insertE emptyE Pair_inject; hypsubst)
      (force simp: vacuumStartCleaning_def vacuumPauseCleaning_def vacuumReturnToDock_def vacuumCleanRooms_def
        vacuumClean_def vacuumPause_def vacuumDock_def vacuumStop_def vacuumCancel_def vacuumSweepRooms_def
        of_device_run [OF assms(2)])+
  then show ?thesis using control_sends [OF assms(3)] by metis
qed

theorem vacuum_commands_witness:
  "\<exists>r body. trace (snd (vacuumCleanRooms (demo (answering [])) (JObj [(''mac'', JStr ''v'')]) (JNum 11) (demo_world ''t''))) = [EHttp r] \<and>
     req_data r = JStr body \<and> json_parse body = Some (JObj [(''type'', JNum 0), (''value'', JNum 1), (''vacuumMopMode'', JNum 0),
       (''rooms_id'', JArr [JNum 11]), (''nonce'', JStr (show_int 5000))])"
proof -
  let ?w = "demo (answering [])" and ?s = "demo_world ''t''"
  have "maybeLogin ?w ?s = (Ok (), ?s)" by (simp add: maybeLogin_token)
  then have "\<exists>r body. trace (snd (vacuumCleanRooms ?w (JObj [(''mac'', JStr ''v'')]) (JNum 11) ?s)) = trace ?s @ [EHttp r] \<and>
      req_data r = JStr body \<and> req_url r = JStr (constants_venusBaseUrl @ ''/plugin/venus/'' @ ''v'' @ ''/control'') \<and>
      json_parse body = Some (JObj ([(''type'', JNum 0), (''value'', JNum 1), (''vacuumMopMode'', JNum 0)] @
        [(''rooms_id'', JArr [JNum 11])] @ [(''nonce'', JStr (show_int (clock ?s)))]))"
    by (rule vacuum_commands [where room = 11 and d = "JObj [(''mac'', JStr ''v'')]", rotated 2]) simp_all
  then show ?thesis by auto
qed

section \<open>The combined state\<close>

context session_frame
begin

lemma keeps_venusRequest [frame_intros]: "keeps R (venusRequest w m p v)"
  unfolding venusRequest_def venus_send_eq logged_id by (intro frame_intros)

lemma keeps_vacuum_reads [frame_intros]:
  "keeps R (getVacuumIotProp w m k)" "keeps R (getVacuumDeviceInfo w m k)" "keeps R (getVacuumStatus w m)"
  "keeps R (getVacuumCurrentPosition w m)" "keeps R (getVacuumCurrentMap w m)" "keeps R (getVacuumMaps w m)"
  unfolding vacuum_reads by (intro frame_intros)+

lemma keeps_safe [frame_intros]: "keeps R m \<Longrightarrow> keeps R (safe m)"
  unfolding safe_def by (intro frame_intros)

lemma keeps_getVacuum [frame_intros]: "keeps R (getVacuum w mac)"
  unfolding getVacuum_def getVacuumDeviceList_def by (intro frame_intros)

lemma keeps_getVacuumInfo [frame_intros]: "keeps R (getVacuumInfo w mac)"
  unfolding getVacuumInfo_def vacuum_parts_def Let_def by (intro frame_intros)

end

text \<open>One part of the state, fetched safely: it settles with a value, \<open>null\<close> if the fetch
  rejects, within the budget of the fetch.\<close>

lemma safe_budget: "budget w k m \<Longrightarrow> budget w k (safe m)"
  by (auto simp: budget_def safe_def try_catch_def ret_def split: prod.splits res.splits)

lemma safe_ok: "fst (m s) \<noteq> OutOfFuel \<Longrightarrow> \<exists>v. fst (safe m s) = Ok v"
  by (auto simp: safe_def try_catch_def ret_def split: prod.splits res.splits)

lemma safe_rejected: "m s = (Throw e, s') \<Longrightarrow> safe m s = (Ok JNull, s')"
  by (simp add: safe_def try_catch_def ret_def)

text \<open>An action that always resolves, within a number of requests and with a value of a certain
  kind, from every world whose debounce is in order.\<close>

definition resolves :: "('a) wyze_scheme \<Rightarrow> nat \<Rightarrow> 'b action \<Rightarrow> ('b \<Rightarrow> bool) \<Rightarrow> bool" where
  "resolves w k m P = (rely_debounce w \<longrightarrow> (\<forall>s. debounce_ok (sess s) \<longrightarrow>
     (\<exists>v s'. m s = (Ok v, s') \<and> http_count s' \<le> http_count s + k \<and> debounce_ok (sess s') \<and> P v)))"

lemma resolves_ret: "P v \<Longrightarrow> resolves w 0 (ret v) P"
  by (simp add: resolves_def ret_def)

lemma resolves_await:
  assumes "resolves w j m Q" and "\<And>v. Q v \<Longrightarrow> resolves w k (f v) P"
  shows "resolves w (j + k) (await m f) P"
  unfolding resolves_def
proof (intro impI allI)
  fix s :: world assume rely: "rely_debounce w" and ok: "debounce_ok (sess s)"
  then obtain v s' where m: "m s = (Ok v, s')" "http_count s' \<le> http_count s + j" "debounce_ok (sess s')" "Q v"
    using assms(1) unfolding resolves_def by blast
  then obtain u t where "f v s' = (Ok u, t)" "http_count t \<le> http_count s' + k" "debounce_ok (sess t)" "P u"
    using assms(2) rely unfolding resolves_def by blast
  with m show "\<exists>v s'. await m f s = (Ok v, s') \<and> http_count s' \<le> http_count s + (j + k) \<and> debounce_ok (sess s') \<and> P v"
    by (simp add: await_def)
qed

lemma resolves_safe:
  assumes "budget w k m" and "keeps (debounce_kept w) m"
    and "\<And>s v s'. m s = (Ok v, s') \<Longrightarrow> P v" and "P JNull"
  shows "resolves w k (safe m) P"
  unfolding resolves_def
proof (intro impI allI)
  fix s :: world assume rely: "rely_debounce w" and ok: "debounce_ok (sess s)"
  obtain r s' where m: "m s = (r, s')" by force
  have "debounce_ok (sess s')" using keepsD [OF assms(2) m] rely ok by (simp add: debounce_kept_def)
  then show "\<exists>v s'. safe m s = (Ok v, s') \<and> http_count s' \<le> http_count s + k \<and> debounce_ok (sess s') \<and> P v"
    using budgetD [OF assms(1) rely ok m] m assms(3,4)
    by (cases r) (auto simp: safe_def try_catch_def ret_def)
qed

text \<open>The service is down when it answers no request.\<close>

definition venus_down :: "('a) wyze_scheme \<Rightarrow> bool" where
  "venus_down w = (\<forall>t r u. req_url r = JStr (constants_venusBaseUrl @ u) \<longrightarrow> (\<exists>e. axios w t r = Inl e))"

lemma venus_http_url: "req_url (venus_http w verb url payload token nonce) = JStr url"
  by (simp add: venus_http_def Let_def)

lemma venus_down_rejects: "venus_down w \<Longrightarrow> venusRequest w m path payload s \<noteq> (Ok v, s')"
proof
  assume down: "venus_down w" and ok: "venusRequest w m path payload s = (Ok v, s')"
  obtain s1 where "maybeLogin w s = (Ok (), s1)"
    using ok by (cases "maybeLogin w s") (auto simp: venusRequest_def await_def split: res.splits)
  then show False
    using venus.answered [of w s s1 m path payload] ok down venus_http_url
    unfolding venus_down_def by (metis prod.inject res.distinct(1) sum.case(1))
qed

lemma safe_venus:
  assumes "renewal_answers w" and "151 \<le> fuel w"
  shows "resolves w 4 (safe (venusRequest w m path payload)) (\<lambda>v. venus_down w \<longrightarrow> v = JNull)"
  by (rule resolves_safe [OF venus.budget_call [OF assms] deb.keeps_venusRequest]) (auto dest: venus_down_rejects)

text \<open>What the merging steps keep of the entry they extend, and that they leave it alone when
  the service is down.\<close>

definition extends :: "bool \<Rightarrow> jsval \<Rightarrow> jsval \<Rightarrow> bool" where
  "extends down v i = ((\<exists>kvs. i = JObj kvs) \<and> set (keys_of v) \<subseteq> set (keys_of i) \<and> (down \<longrightarrow> i = v))"

lemma keys_spread: "set (keys_of (spread v [])) = set (keys_of v)"
  using keys_aspread [of "[]" "entries v"] by (simp add: keys_of_def spread_def)

lemma extends_assign: "extends d v r \<Longrightarrow> (d \<longrightarrow> \<not> truthy p) \<Longrightarrow> extends d v (assign r p)"
  using keys_aspread [of "entries r" "entries p"] by (auto simp: extends_def assign_def keys_of_def)

lemma extends_put: "extends d v r \<Longrightarrow> (d \<longrightarrow> \<not> truthy p) \<Longrightarrow> extends d v (put r k p)"
  by (auto simp: extends_def put_def keys_of_def keys_aset simp del: set_map)

lemma vacuum_parts_resolves:
  assumes "renewal_answers w" and "151 \<le> fuel w" and "extends (venus_down w) v result"
  shows "resolves w 20 (vacuum_parts w mac result) (extends (venus_down w) v)"
proof -
  note part = safe_venus [OF assms(1,2)]
  have "resolves w (4 + (4 + (4 + (4 + (4 + 0))))) (vacuum_parts w mac result) (extends (venus_down w) v)"
    unfolding vacuum_parts_def vacuum_reads Let_def
    by (rule resolves_await [OF part] resolves_ret)+ (auto intro!: extends_put extends_assign assms(3))
  then show ?thesis by simp
qed

lemma budget_getVacuum:
  assumes "renewal_answers w" and "151 \<le> fuel w"
  shows "budget w 12 (getVacuum w mac)"
  unfolding getVacuum_def getVacuumDeviceList_def filter_devices_def
  by (rule budget_mono, (rule budget_getDeviceList [OF assms] budget_intros frame_intros)+) simp

text \<open>C27. The combined state of a vacuum never rejects because a part of it is missing: unless the
  service rejects the renewal's own token, the lookup of the vacuum settles after at most twelve
  requests. If it rejects, the call rejects with the same error; otherwise the call resolves, after
  at most twenty more requests, thirty-two in all, whatever the service answers or fails to
  answer. The result is \<open>null\<close> if the account has no such vacuum; otherwise it has every property
  name of the vacuum's entry, and is just that entry if the service of the vacuums is down.\<close>

theorem vacuum_info_resolves:
  assumes "renewal_answers w" and "151 \<le> fuel w" and "rely_debounce w" and "debounce_ok (sess s)"
    and "getVacuum w mac s = (r, s1)"
  shows "http_count s1 \<le> http_count s + 12 \<and> (case r of
      Ok v \<Rightarrow> \<exists>i s2. getVacuumInfo w mac s = (Ok i, s2) \<and> http_count s2 \<le> http_count s1 + 20 \<and> http_count s2 \<le> http_count s + 32 \<and>
        (if truthy v then set (keys_of v) \<subseteq> set (keys_of i) \<and> (venus_down w \<longrightarrow> i = spread v []) else i = JNull \<and> s2 = s1)
    | Throw e \<Rightarrow> getVacuumInfo w mac s = (Throw e, s1)
    | OutOfFuel \<Rightarrow> False)"
proof -
  note lookup = budgetD [OF budget_getVacuum [OF assms(1,2)] assms(3-5)]
  show ?thesis
  proof (cases r)
    case (Ok v)
    have ok: "debounce_ok (sess s1)"
      using keepsD [OF deb.keeps_getVacuum assms(5)] assms(3,4) by (simp add: debounce_kept_def)
    have "extends (venus_down w) (spread v []) (spread v [])" by (simp add: extends_def) (simp add: spread_def)
    from vacuum_parts_resolves [OF assms(1,2) this] assms(3) ok
    obtain i s2 where "vacuum_parts w mac (spread v []) s1 = (Ok i, s2)" "http_count s2 \<le> http_count s1 + 20"
        "extends (venus_down w) (spread v []) i"
      unfolding resolves_def by blast
    then show ?thesis
      using assms(5) lookup(2) Ok keys_spread [of v] by (auto simp: getVacuumInfo_def await_def ret_def extends_def)
  qed (use lookup assms(5) in \<open>auto simp: getVacuumInfo_def await_def\<close>)
qed

text \<open>The demonstration account with one vacuum, and a service that answers every request with the
  list of devices and all parts of the state at once.\<close>

definition demo_vacuum :: jsval where
  "demo_vacuum = JObj [(''mac'', JStr ''v1''), (''product_model'', JStr ''JA_RO2''), (''battary'', JNum 50)]"

definition demo_vacuum_service :: "nat \<Rightarrow> http_req \<Rightarrow> err + jsval" where
  "demo_vacuum_service = demo_account [JObj [(''mac'', JStr ''A1'')], demo_vacuum]
     [(''props'', JObj [(''battary'', JNum 80), (''mode'', JNum 0)]), (''settings'', JObj [(''ipaddr'', JStr ''10.0.0.7'')]),
      (''eventFlag'', JObj [(''mode'', JNum 7)]), (''heartBeat'', JObj [(''mode'', JNum 1)])]"

lemma demo_getVacuum:
  "\<exists>s1. getVacuum (demo demo_vacuum_service) (JStr ''v1'') (demo_world ''t'') = (Ok demo_vacuum, s1) \<and> sess s1 = demo_session ''t''"
proof -
  obtain s1 where "getDeviceList (demo demo_vacuum_service) (demo_world ''t'') =
      (Ok (JArr [JObj [(''mac'', JStr ''A1'')], demo_vacuum]), s1)" "sess s1 = demo_session ''t''"
    unfolding demo_vacuum_service_def using demo_account_list by blast
  then show ?thesis
    by (auto simp: getVacuum_def getVacuumDeviceList_def filter_devices_run await_def array_of_def is_vacuum_def
        constants_vacuumModels_def demo_vacuum_def same_mac_def ret_def)
qed

lemma demo_vacuum_renewal: "renewal_answers (demo demo_vacuum_service)"
  by (simp add: renewal_answers_def demo_vacuum_service_def demo_account_def answering_def token_expired_def answer_ok_def
      answer_code_def)

theorem vacuum_info_resolves_witness:
  "\<exists>i s1 s2. getVacuum (demo demo_vacuum_service) (JStr ''v1'') (demo_world ''t'') = (Ok demo_vacuum, s1) \<and>
     getVacuumInfo (demo demo_vacuum_service) (JStr ''v1'') (demo_world ''t'') = (Ok i, s2) \<and>
     http_count s2 \<le> http_count (demo_world ''t'') + 32 \<and> {''mac'', ''product_model'', ''battary''} \<subseteq> set (keys_of i)"
proof -
  obtain s1 where v: "getVacuum (demo demo_vacuum_service) (JStr ''v1'') (demo_world ''t'') = (Ok demo_vacuum, s1)"
    using demo_getVacuum by blast
  from vacuum_info_resolves [OF demo_vacuum_renewal _ _ _ v] v show ?thesis
    by (auto simp: demo_vacuum_def keys_of_def)
qed

text \<open>The value of a property in a list of objects, the first of which wins.\<close>

fun layered :: "jsval list \<Rightarrow> string \<Rightarrow> jsval" where
  "layered [] k = JUndef"
| "layered (p # ps) k = (if k \<in> set (keys_of p) then alookup (entries p) k else layered ps k)"

lemma falsy_entries: "\<not> truthy p \<Longrightarrow> entries p = []"
  by (cases p) (simp_all add: indexed_def)

lemma attr_assign:
  assumes "distinct (keys_of p)" and "r = JObj kvs"
  shows "attr (assign r p) k = (if k \<in> set (keys_of p) then alookup (entries p) k else attr r k)"
  using assms by (auto simp: assign_def keys_of_def alookup_aspread falsy_entries simp del: set_map)

text \<open>An object presents such a list when it has the properties the list has.\<close>

definition presents :: "jsval \<Rightarrow> jsval list \<Rightarrow> bool" where
  "presents r ps = ((\<exists>kvs. r = JObj kvs) \<and> (\<forall>k. attr r k = layered ps k))"

lemma presents_spread: "distinct (keys_of v) \<Longrightarrow> presents (spread v []) [v]"
  using attr_spread [of "[]" v] by (auto simp: presents_def spread_def alookup_absent keys_of_def simp del: set_map)

lemma presents_assign: "presents r ps \<Longrightarrow> distinct (keys_of p) \<Longrightarrow> presents (assign r p) (p # ps)"
  using attr_assign [of p r] by (auto simp: presents_def) (auto simp: assign_def)

lemma presents_put:
  "presents r ps \<Longrightarrow> attr (put r k' p) k = (if k = k' \<and> truthy p then p else layered ps k)"
  by (auto simp: presents_def put_def)

lemma put_put:
  assumes "presents r ps" and "k1 \<noteq> k2"
  shows "attr (put (put r k1 p1) k2 p2) k =
    (if k = k2 \<and> truthy p2 then p2 else if k = k1 \<and> truthy p1 then p1 else layered ps k)"
  using assms by (auto simp: presents_def put_def)

text \<open>C28. In the combined state of a vacuum the live parts win over the entry of the account, later
  parts over earlier ones: the heartbeat, then the event flags, the device settings, the live
  properties, and last the entry itself. The current position and the current map are those
  the service answered, if it answered any. A part that failed counts as empty.\<close>

theorem vacuum_info_precedence:
  fixes a b c v :: jsval
  defines "layers \<equiv> [attr (attr c ''data'') ''heartBeat'', attr (attr c ''data'') ''eventFlag'', attr (attr b ''data'') ''settings'',
      attr (attr a ''data'') ''props'', v]"
  assumes "getVacuum w mac s = (Ok v, s1)" and "truthy v" and "list_all (\<lambda>p. distinct (keys_of p)) layers"
    and "safe (getVacuumIotProp w mac (JArr (map JStr VacuumIotPropKeys))) s1 = (Ok a, s2)"
    and "safe (getVacuumDeviceInfo w mac (JArr (map JStr VacuumDeviceInfoKeys))) s2 = (Ok b, s3)"
    and "safe (getVacuumStatus w mac) s3 = (Ok c, s4)"
    and "safe (getVacuumCurrentPosition w mac) s4 = (Ok d, s5)"
    and "safe (getVacuumCurrentMap w mac) s5 = (Ok e, s6)"
  shows "\<exists>i. getVacuumInfo w mac s = (Ok i, s6) \<and>
    attr i k = (if k = ''current_map'' \<and> truthy (attr e ''data'') then attr e ''data''
      else if k = ''current_position'' \<and> truthy (attr d ''data'') then attr d ''data'' else layered layers k)"
proof -
  have "presents (assign (assign (assign (assign (spread v []) (attr (attr a ''data'') ''props''))
      (attr (attr b ''data'') ''settings'')) (attr (attr c ''data'') ''eventFlag'')) (attr (attr c ''data'') ''heartBeat'')) layers"
    using assms(4) unfolding layers_def by (intro presents_assign presents_spread) simp_all
  from put_put [OF this, of "''current_position''" "''current_map''"] show ?thesis
    using assms(2,3,5-9) by (simp add: getVacuumInfo_def vacuum_parts_def Let_def await_def ret_def)
qed

text \<open>A part of the demonstration service: it answers every request with the same text.\<close>

lemma demo_part:
  assumes "sess s = demo_session ''t''"
  shows "\<exists>s'. safe (venusRequest (demo (answering body)) m path payload) s = (Ok (JObj body), s') \<and> sess s' = demo_session ''t''"
proof -
  have "maybeLogin (demo (answering body)) s = (Ok (), s)" using assms by (simp add: maybeLogin_token)
  from venus.answered [OF this] show ?thesis
    using assms by (simp add: safe_def try_catch_def answering_def sent_def await_point_def)
qed

theorem vacuum_info_precedence_witness:
  "\<exists>i s2. getVacuumInfo (demo demo_vacuum_service) (JStr ''v1'') (demo_world ''t'') = (Ok i, s2) \<and> attr i ''battary'' = JNum 80"
proof -
  let ?w = "demo demo_vacuum_service" and ?mac = "JStr ''v1''"
  define ans where "ans = JObj [(''code'', JNum 1), (''data'', JObj
     [(''device_list'', JArr [JObj [(''mac'', JStr ''A1'')], demo_vacuum]), (''props'', JObj [(''battary'', JNum 80), (''mode'', JNum 0)]),
      (''settings'', JObj [(''ipaddr'', JStr ''10.0.0.7'')]), (''eventFlag'', JObj [(''mode'', JNum 7)]),
      (''heartBeat'', JObj [(''mode'', JNum 1)])])]"
  have part: "\<exists>s'. safe (venusRequest ?w m path payload) s = (Ok ans, s') \<and> sess s' = demo_session ''t''"
    if "sess s = demo_session ''t''" for s m path payload
    using demo_part [OF that] by (simp add: demo_vacuum_service_def demo_account_def ans_def)
  obtain s1 where s1: "getVacuum ?w ?mac (demo_world ''t'') = (Ok demo_vacuum, s1)" "sess s1 = demo_session ''t''"
    using demo_getVacuum by blast
  obtain s2 where s2: "safe (getVacuumIotProp ?w ?mac (JArr (map JStr VacuumIotPropKeys))) s1 = (Ok ans, s2)" "sess s2 = demo_session ''t''"
    unfolding getVacuumIotProp_def using part [OF s1(2)] by blast
  obtain s3 where s3: "safe (getVacuumDeviceInfo ?w ?mac (JArr (map JStr VacuumDeviceInfoKeys))) s2 = (Ok ans, s3)" "sess s3 = demo_session ''t''"
    unfolding getVacuumDeviceInfo_def using part [OF s2(2)] by blast
  obtain s4 where s4: "safe (getVacuumStatus ?w ?mac) s3 = (Ok ans, s4)" "sess s4 = demo_session ''t''"
    unfolding getVacuumStatus_def using part [OF s3(2)] by blast
  obtain s5 where s5: "safe (getVacuumCurrentPosition ?w ?mac) s4 = (Ok ans, s5)" "sess s5 = demo_session ''t''"
    unfolding getVacuumCurrentPosition_def using part [OF s4(2)] by blast
  obtain s6 where s6: "safe (getVacuumCurrentMap ?w ?mac) s5 = (Ok ans, s6)"
    unfolding getVacuumCurrentMap_def using part [OF s5(2)] by blast
  show ?thesis
    using vacuum_info_precedence [OF s1(1) _ _ s2(1) s3(1) s4(1) s5(1) s6, of "''battary''"]
    by (auto simp: ans_def demo_vacuum_def keys_of_def)
qed

section \<open>Usage reports\<close>

lemma arg_key_inject [simp]: "arg_key i = arg_key j \<longleftrightarrow> i = j"
  by (simp add: arg_key_def show_nat_inject)

lemma arg_keys: "arg_key 10 = ''arg11''" "arg_key 11 = ''arg12''"
  by code_simp+

lemma arg_loop_obj: "\<exists>kvs'. arg_loop n args (JObj kvs) = JObj kvs' \<and> (distinct (map fst kvs) \<longrightarrow> distinct (map fst kvs'))"
proof (induction args arbitrary: n kvs)
  case (Cons a args)
  then show ?case using distinct_aset [of kvs] by (simp del: map_map) blast
qed simp

lemma arg_loop_other: "(\<And>j. k \<noteq> arg_key j) \<Longrightarrow> attr (arg_loop n args (JObj kvs)) k = alookup kvs k"
  by (induction args arbitrary: n kvs) simp_all

lemma arg_loop_before: "j < n \<Longrightarrow> attr (arg_loop n args (JObj kvs)) (arg_key j) = alookup kvs (arg_key j)"
  by (induction args arbitrary: n kvs) simp_all

lemma arg_loop_arg: "j < length args \<Longrightarrow> attr (arg_loop n args (JObj kvs)) (arg_key (n + j)) = args ! j"
proof (induction args arbitrary: n kvs j)
  case (Cons a args)
  show ?case
  proof (cases j)
    case 0
    then show ?thesis using arg_loop_before [of n "Suc n"] by simp
  next
    case (Suc i)
    then show ?thesis using Cons.IH [of i "Suc n"] Cons.prems by simp
  qed
qed simp

lemma code_entry_type: "code_entry VacuumControlTypeDescription c = JUndef \<longleftrightarrow> c \<notin> {0, 3, 6, 7}"
  by (simp add: code_entry_def VacuumControlTypeDescription_def)

lemma tracking_attr:
  "\<exists>kvs. tracking_payload w now mac typeCode valueCode args = JObj kvs \<and> distinct (map fst kvs) \<and>
     alookup kvs ''arg11'' = JStr ''ios'' \<and> alookup kvs ''arg12'' = JStr ''iPhone 13 mini'' \<and>
     (\<forall>j < length args. j \<notin> {10, 11} \<longrightarrow> alookup kvs (arg_key j) = args ! j) \<and>
     alookup kvs ''eventKey'' = code_entry VacuumControlTypeDescription typeCode"
proof -
  let ?base = "[(''uuid'', JStr constants_vacuumEventTrackingUuid), (''deviceId'', mac), (''createTime'', JStr (show_int now)),
         (''mcuSysVersion'', JStr constants_vacuumFirmwareVersion), (''appVersion'', appVersion w),
         (''pluginVersion'', JStr constants_venusPluginVersion), (''phoneId'', phoneId w), (''phoneOsVersion'', JStr ''16.0''),
         (''eventKey'', code_entry VacuumControlTypeDescription typeCode), (''eventType'', valueCode)]"
  obtain kvs where kvs: "arg_loop 0 args (JObj ?base) = JObj kvs" and d: "distinct (map fst kvs)"
    using arg_loop_obj [of 0 args ?base] by auto
  have args: "alookup kvs (arg_key j) = args ! j" if "j < length args" for j
    using arg_loop_arg [OF that, of 0 ?base] kvs by simp
  have key: "alookup kvs ''eventKey'' = code_entry VacuumControlTypeDescription typeCode"
    using arg_loop_other [of "''eventKey''" 0 args ?base] kvs by (simp add: arg_key_def)
  have other: "arg_key j \<noteq> ''arg11''" "arg_key j \<noteq> ''arg12''" if "j \<notin> {10, 11}" for j
    using that arg_key_inject [of j 10] arg_key_inject [of j 11] by (auto simp: arg_keys simp del: arg_key_inject)
  show ?thesis
    unfolding tracking_payload_def Let_def kvs
    using d key args other by (simp add: distinct_aset)
qed

text \<open>A usage report tells which of the caller's arguments reach the service: all but the
  eleventh and the twelfth, which are always the operating system and the model of the phone.
  The description of the control is there exactly for the four known types.\<close>

lemma event_tracking_args:
  assumes "maybeLogin w s = (Ok (), s1)"
  shows "\<exists>r kvs. trace (snd (vacuumEventTracking w mac typeCode valueCode (JArr args) s)) = trace s1 @ [EHttp r] \<and>
    req_data r = JStr (stringify (JObj kvs)) \<and>
    alookup kvs ''arg11'' = JStr ''ios'' \<and> alookup kvs ''arg12'' = JStr ''iPhone 13 mini'' \<and>
    (\<forall>j < length args. j \<notin> {10, 11} \<longrightarrow> alookup kvs (arg_key j) = args ! j) \<and>
    (alookup kvs ''eventKey'' = JUndef \<longleftrightarrow> typeCode \<notin> {0, 3, 6, 7})"
proof -
  obtain kvs where kvs: "tracking_payload w (clock s) mac typeCode valueCode args = JObj kvs" "distinct (map fst kvs)"
    and props: "alookup kvs ''arg11'' = JStr ''ios''" "alookup kvs ''arg12'' = JStr ''iPhone 13 mini''"
      "\<forall>j < length args. j \<notin> {10, 11} \<longrightarrow> alookup kvs (arg_key j) = args ! j"
      "alookup kvs ''eventKey'' = code_entry VacuumControlTypeDescription typeCode"
    using tracking_attr by blast
  let ?kvs = "aset kvs ''nonce'' (JStr (show_int (clock s1)))"
  have "spread (JObj kvs) [(''nonce'', JStr (show_int (clock s1)))] = JObj ?kvs"
    using kvs(2) aspread_fresh [of "[]" kvs] by (simp add: spread_def)
  then have sent: "trace (snd (vacuumEventTracking w mac typeCode valueCode (JArr args) s)) =
      trace s1 @ [EHttp (venus_http w ''POST'' (constants_venusBaseUrl @ ''/plugin/venus/event_tracking'') (JObj kvs)
        (access_token (sess s1)) (clock s1))]" and data: "req_data (venus_http w ''POST'' u (JObj kvs) t (clock s1)) = JStr (stringify (JObj ?kvs))" for u t
    using venus.one_request [OF assms, of "''POST''"] kvs(1)
    by (simp_all add: vacuumEventTracking_def await_def Date_now_def array_of_def ret_def toUpperCase_def upper_char_def
        venus_http_def Let_def)
  have "arg_key j \<noteq> ''nonce''" for j by (simp add: arg_key_def)
  then show ?thesis
    using props by (intro exI conjI) (rule sent, rule data, simp_all add: code_entry_type)
qed

section \<open>Reading the state\<close>

text \<open>A vacuum is never reported as cleaning and docked at once unless it says that it is charging;
  it is idle or cleaning exactly on the codes of these modes, and a fault is reported exactly
  for a number other than zero.\<close>

lemma vacuum_state:
  "vacuumIsCleaning i \<Longrightarrow> vacuumIsDocked i \<Longrightarrow> vacuumIsCharging i"
  "vacuumGetFault i = JNull \<longleftrightarrow> (\<nexists>c. c \<noteq> 0 \<and> attr i ''fault_code'' = JNum c)"
  "vacuumGetBattery i \<noteq> JNull \<Longrightarrow> vacuumGetBattery i = attr i ''battary''"
  by (auto simp: vacuumIsCleaning_def vacuumIsDocked_def vacuumGetFault_def vacuumGetBattery_def split: jsval.splits)

end
