(* ===== verification/Wyze_Controls.thy ===== *)
theory Wyze_Controls
  imports Wyze_Directory
begin

text \<open>
  The one-line commands of the client: cameras, plugs, bulbs, mesh bulbs, wall switches and
  locks. Each is one property set or one action, and most drop the answer.
\<close>

definition discard :: "jsval action \<Rightarrow> unit action" where
  "discard m = await m (\<lambda>_. ret ())"

section \<open>Camera actions\<close>

definition cameraPrivacy :: "('a) wyze_scheme \<Rightarrow> jsval \<Rightarrow> jsval \<Rightarrow> jsval \<Rightarrow> unit action" where
  "cameraPrivacy w deviceMac deviceModel value = discard (runAction w deviceMac deviceModel value)"

definition cameraTurnOn :: "('a) wyze_scheme \<Rightarrow> jsval \<Rightarrow> jsval \<Rightarrow> unit action" where
  "cameraTurnOn w deviceMac deviceModel = discard (runAction w deviceMac deviceModel (JStr ''power_on''))"

definition cameraTurnOff :: "('a) wyze_scheme \<Rightarrow> jsval \<Rightarrow> jsval \<Rightarrow> unit action" where
  "cameraTurnOff w deviceMac deviceModel = discard (runAction w deviceMac deviceModel (JStr ''power_off''))"

definition garageDoor :: "('a) wyze_scheme \<Rightarrow> jsval \<Rightarrow> jsval \<Rightarrow> unit action" where
  "garageDoor w deviceMac deviceModel = discard (runAction w deviceMac deviceModel (JStr ''garage_door_trigger''))"

definition cameraSiren :: "('a) wyze_scheme \<Rightarrow> jsval \<Rightarrow> jsval \<Rightarrow> jsval \<Rightarrow> unit action" where
  "cameraSiren w deviceMac deviceModel value = discard (runAction w deviceMac deviceModel value)"

definition cameraSirenOn :: "('a) wyze_scheme \<Rightarrow> jsval \<Rightarrow> jsval \<Rightarrow> unit action" where
  "cameraSirenOn w deviceMac deviceModel = discard (runAction w deviceMac deviceModel (JStr ''siren_on''))"

definition cameraSirenOff :: "('a) wyze_scheme \<Rightarrow> jsval \<Rightarrow> jsval \<Rightarrow> unit action" where
  "cameraSirenOff w deviceMac deviceModel = discard (runAction w deviceMac deviceModel (JStr ''siren_off''))"

section \<open>Camera properties\<close>

definition cameraFloodLight :: "('a) wyze_scheme \<Rightarrow> jsval \<Rightarrow> jsval \<Rightarrow> jsval \<Rightarrow> unit action" where
  "cameraFloodLight w deviceMac deviceModel value = discard (setProperty w deviceMac deviceModel ''P1056'' value)"

definition cameraFloodLightOn :: "('a) wyze_scheme \<Rightarrow> jsval \<Rightarrow> jsval \<Rightarrow> unit action" where
  "cameraFloodLightOn w deviceMac deviceModel = discard (setProperty w deviceMac deviceModel ''P1056'' (JStr ''1''))"

definition cameraFloodLightOff :: "('a) wyze_scheme \<Rightarrow> jsval \<Rightarrow> jsval \<Rightarrow> unit action" where
  "cameraFloodLightOff w deviceMac deviceModel = discard (setProperty w deviceMac deviceModel ''P1056'' (JStr ''2''))"

definition cameraSpotLight :: "('a) wyze_scheme \<Rightarrow> jsval \<Rightarrow> jsval \<Rightarrow> jsval \<Rightarrow> unit action" where
  "cameraSpotLight w deviceMac deviceModel value = discard (setProperty w deviceMac deviceModel ''P1056'' value)"

definition cameraSpotLightOn :: "('a) wyze_scheme \<Rightarrow> jsval \<Rightarrow> jsval \<Rightarrow> unit action" where
  "cameraSpotLightOn w deviceMac deviceModel = discard (setProperty w deviceMac deviceModel ''P1056'' (JStr ''1''))"

definition cameraSpotLightOff :: "('a) wyze_scheme \<Rightarrow> jsval \<Rightarrow> jsval \<Rightarrow> unit action" where
  "cameraSpotLightOff w deviceMac deviceModel = discard (setProperty w deviceMac deviceModel ''P1056'' (JStr ''2''))"

definition cameraMotionOn :: "('a) wyze_scheme \<Rightarrow> jsval \<Rightarrow> jsval \<Rightarrow> unit action" where
  "cameraMotionOn w deviceMac deviceModel = discard (setProperty w deviceMac deviceModel ''P1001'' (JNum 1))"

definition cameraMotionOff :: "('a) wyze_scheme \<Rightarrow> jsval \<Rightarrow> jsval \<Rightarrow> unit action" where
  "cameraMotionOff w deviceMac deviceModel = discard (setProperty w deviceMac deviceModel ''P1001'' (JNum 0))"

definition cameraSoundNotificationOn :: "('a) wyze_scheme \<Rightarrow> jsval \<Rightarrow> jsval \<Rightarrow> unit action" where
  "cameraSoundNotificationOn w deviceMac deviceModel = discard (setProperty w deviceMac deviceModel ''P1048'' (JStr ''1''))"

definition cameraSoundNotificationOff :: "('a) wyze_scheme \<Rightarrow> jsval \<Rightarrow> jsval \<Rightarrow> unit action" where
  "cameraSoundNotificationOff w deviceMac deviceModel = discard (setProperty w deviceMac deviceModel ''P1048'' (JStr ''0''))"

definition cameraNotifications :: "('a) wyze_scheme \<Rightarrow> jsval \<Rightarrow> jsval \<Rightarrow> jsval \<Rightarrow> unit action" where
  "cameraNotifications w deviceMac deviceModel value = discard (setProperty w deviceMac deviceModel ''P1'' value)"

definition cameraNotificationsOn :: "('a) wyze_scheme \<Rightarrow> jsval \<Rightarrow> jsval \<Rightarrow> unit action" where
  "cameraNotificationsOn w deviceMac deviceModel = discard (setProperty w deviceMac deviceModel ''P1'' (JStr ''1''))"

definition cameraNotificationsOff :: "('a) wyze_scheme \<Rightarrow> jsval \<Rightarrow> jsval \<Rightarrow> unit action" where
  "cameraNotificationsOff w deviceMac deviceModel = discard (setProperty w deviceMac deviceModel ''P1'' (JStr ''0''))"

definition cameraMotionRecording :: "('a) wyze_scheme \<Rightarrow> jsval \<Rightarrow> jsval \<Rightarrow> jsval \<Rightarrow> unit action" where
  "cameraMotionRecording w deviceMac deviceModel value = discard (setProperty w deviceMac deviceModel ''P1047'' value)"

definition cameraMotionRecordingOn :: "('a) wyze_scheme \<Rightarrow> jsval \<Rightarrow> jsval \<Rightarrow> unit action" where
  "cameraMotionRecordingOn w deviceMac deviceModel = discard (setProperty w deviceMac deviceModel ''P1047'' (JStr ''1''))"

definition cameraMotionRecordingOff :: "('a) wyze_scheme \<Rightarrow> jsval \<Rightarrow> jsval \<Rightarrow> unit action" where
  "cameraMotionRecordingOff w deviceMac deviceModel = discard (setProperty w deviceMac deviceModel ''P1047'' (JStr ''0''))"

section \<open>Plugs and bulbs\<close>

definition plugPower :: "('a) wyze_scheme \<Rightarrow> jsval \<Rightarrow> jsval \<Rightarrow> jsval \<Rightarrow> unit action" where
  "plugPower w deviceMac deviceModel value = discard (setProperty w deviceMac deviceModel ''P3'' value)"

definition plugTurnOn :: "('a) wyze_scheme \<Rightarrow> jsval \<Rightarrow> jsval \<Rightarrow> unit action" where
  "plugTurnOn w deviceMac deviceModel = discard (setProperty w deviceMac deviceModel ''P3'' (JStr ''1''))"

definition plugTurnOff :: "('a) wyze_scheme \<Rightarrow> jsval \<Rightarrow> jsval \<Rightarrow> unit action" where
  "plugTurnOff w deviceMac deviceModel = discard (setProperty w deviceMac deviceModel ''P3'' (JStr ''0''))"

definition lightPower :: "('a) wyze_scheme \<Rightarrow> jsval \<Rightarrow> jsval \<Rightarrow> jsval \<Rightarrow> unit action" where
  "lightPower w deviceMac deviceModel value = discard (setProperty w deviceMac deviceModel ''P3'' value)"

definition lightTurnOn :: "('a) wyze_scheme \<Rightarrow> jsval \<Rightarrow> jsval \<Rightarrow> unit action" where
  "lightTurnOn w deviceMac deviceModel = discard (setProperty w deviceMac deviceModel ''P3'' (JStr ''1''))"

definition lightTurnOff :: "('a) wyze_scheme \<Rightarrow> jsval \<Rightarrow> jsval \<Rightarrow> unit action" where
  "lightTurnOff w deviceMac deviceModel = discard (setProperty w deviceMac deviceModel ''P3'' (JStr ''0''))"

definition setBrightness :: "('a) wyze_scheme \<Rightarrow> jsval \<Rightarrow> jsval \<Rightarrow> jsval \<Rightarrow> unit action" where
  "setBrightness w deviceMac deviceModel value = discard (setProperty w deviceMac deviceModel ''P1501'' value)"

definition setColorTemperature :: "('a) wyze_scheme \<Rightarrow> jsval \<Rightarrow> jsval \<Rightarrow> jsval \<Rightarrow> unit action" where
  "setColorTemperature w deviceMac deviceModel value = discard (setProperty w deviceMac deviceModel ''P1502'' value)"

section \<open>Mesh bulbs\<close>

definition turnMeshOn :: "('a) wyze_scheme \<Rightarrow> jsval \<Rightarrow> jsval \<Rightarrow> jsval action" where
  "turnMeshOn w deviceMac deviceModel = runActionList w deviceMac deviceModel ''P3'' (JStr ''1'') ''set_mesh_property''"

definition turnMeshOff :: "('a) wyze_scheme \<Rightarrow> jsval \<Rightarrow> jsval \<Rightarrow> jsval action" where
  "turnMeshOff w deviceMac deviceModel = runActionList w deviceMac deviceModel ''P3'' (JStr ''0'') ''set_mesh_property''"

definition lightMeshPower :: "('a) wyze_scheme \<Rightarrow> jsval \<Rightarrow> jsval \<Rightarrow> jsval \<Rightarrow> unit action" where
  "lightMeshPower w deviceMac deviceModel value =
     discard (runActionList w deviceMac deviceModel ''P3'' value ''set_mesh_property'')"

definition lightMeshOn :: "('a) wyze_scheme \<Rightarrow> jsval \<Rightarrow> jsval \<Rightarrow> unit action" where
  "lightMeshOn w deviceMac deviceModel =
     discard (runActionList w deviceMac deviceModel ''P3'' (JStr ''1'') ''set_mesh_property'')"

definition lightMeshOff :: "('a) wyze_scheme \<Rightarrow> jsval \<Rightarrow> jsval \<Rightarrow> unit action" where
  "lightMeshOff w deviceMac deviceModel =
     discard (runActionList w deviceMac deviceModel ''P3'' (JStr ''0'') ''set_mesh_property'')"

definition setMeshBrightness :: "('a) wyze_scheme \<Rightarrow> jsval \<Rightarrow> jsval \<Rightarrow> jsval \<Rightarrow> unit action" where
  "setMeshBrightness w deviceMac deviceModel value =
     discard (runActionList w deviceMac deviceModel ''P1501'' value ''set_mesh_property'')"

definition setMeshColorTemperature :: "('a) wyze_scheme \<Rightarrow> jsval \<Rightarrow> jsval \<Rightarrow> jsval \<Rightarrow> unit action" where
  "setMeshColorTemperature w deviceMac deviceModel value =
     discard (runActionList w deviceMac deviceModel ''P1502'' value ''set_mesh_property'')"

definition setMeshHue :: "('a) wyze_scheme \<Rightarrow> jsval \<Rightarrow> jsval \<Rightarrow> jsval \<Rightarrow> unit action" where
  "setMeshHue w deviceMac deviceModel value =
     discard (runActionList w deviceMac deviceModel ''P1507'' value ''set_mesh_property'')"

definition setMeshSaturation :: "('a) wyze_scheme \<Rightarrow> jsval \<Rightarrow> jsval \<Rightarrow> jsval \<Rightarrow> unit action" where
  "setMeshSaturation w deviceMac deviceModel value =
     discard (runActionList w deviceMac deviceModel ''P1507'' value ''set_mesh_property'')"

section \<open>Wall switches\<close>

definition wallSwitchPower :: "('a) wyze_scheme \<Rightarrow> jsval \<Rightarrow> jsval \<Rightarrow> jsval \<Rightarrow> unit action" where
  "wallSwitchPower w deviceMac deviceModel value = discard (setIotProp w deviceMac deviceModel ''switch-power'' value)"

definition wallSwitchPowerOn :: "('a) wyze_scheme \<Rightarrow> jsval \<Rightarrow> jsval \<Rightarrow> unit action" where
  "wallSwitchPowerOn w deviceMac deviceModel = discard (setIotProp w deviceMac deviceModel ''switch-power'' (JBool True))"

definition wallSwitchPowerOff :: "('a) wyze_scheme \<Rightarrow> jsval \<Rightarrow> jsval \<Rightarrow> unit action" where
  "wallSwitchPowerOff w deviceMac deviceModel = discard (setIotProp w deviceMac deviceModel ''switch-power'' (JBool False))"

definition wallSwitchIot :: "('a) wyze_scheme \<Rightarrow> jsval \<Rightarrow> jsval \<Rightarrow> jsval \<Rightarrow> unit action" where
  "wallSwitchIot w deviceMac deviceModel value = discard (setIotProp w deviceMac deviceModel ''switch-iot'' value)"

definition wallSwitchIotOn :: "('a) wyze_scheme \<Rightarrow> jsval \<Rightarrow> jsval \<Rightarrow> unit action" where
  "wallSwitchIotOn w deviceMac deviceModel = discard (setIotProp w deviceMac deviceModel ''switch-iot'' (JBool True))"

definition wallSwitchIotOff :: "('a) wyze_scheme \<Rightarrow> jsval \<Rightarrow> jsval \<Rightarrow> unit action" where
  "wallSwitchIotOff w deviceMac deviceModel = discard (setIotProp w deviceMac deviceModel ''switch-iot'' (JBool False))"

definition wallSwitchLedStateOn :: "('a) wyze_scheme \<Rightarrow> jsval \<Rightarrow> jsval \<Rightarrow> unit action" where
  "wallSwitchLedStateOn w deviceMac deviceModel = discard (setIotProp w deviceMac deviceModel ''led_state'' (JBool True))"

definition wallSwitchLedStateOff :: "('a) wyze_scheme \<Rightarrow> jsval \<Rightarrow> jsval \<Rightarrow> unit action" where
  "wallSwitchLedStateOff w deviceMac deviceModel = discard (setIotProp w deviceMac deviceModel ''led_state'' (JBool False))"

definition wallSwitchVacationModeOn :: "('a) wyze_scheme \<Rightarrow> jsval \<Rightarrow> jsval \<Rightarrow> unit action" where
  "wallSwitchVacationModeOn w deviceMac deviceModel = discard (setIotProp w deviceMac deviceModel ''vacation_mode'' (JNum 0))"

definition wallSwitchVacationModeOff :: "('a) wyze_scheme \<Rightarrow> jsval \<Rightarrow> jsval \<Rightarrow> unit action" where
  "wallSwitchVacationModeOff w deviceMac deviceModel = discard (setIotProp w deviceMac deviceModel ''vacation_mode'' (JNum 1))"

section \<open>Locks\<close>

definition on_device :: "jsval \<Rightarrow> (jsval \<Rightarrow> jsval \<Rightarrow> 'b action) \<Rightarrow> 'b action" where
  "on_device device f =
     await (lift_err (member device ''mac'')) (\<lambda>mac.
     await (lift_err (member device ''product_model'')) (\<lambda>model. f mac model))"

definition unlockLock :: "('a) wyze_scheme \<Rightarrow> jsval \<Rightarrow> jsval action" where
  "unlockLock w device = on_device device (\<lambda>mac model. controlLock w mac model ''remoteUnlock'')"

definition lockLock :: "('a) wyze_scheme \<Rightarrow> jsval \<Rightarrow> jsval action" where
  "lockLock w device = on_device device (\<lambda>mac model. controlLock w mac model ''remoteLock'')"

definition lockInfo :: "('a) wyze_scheme \<Rightarrow> jsval \<Rightarrow> jsval action" where
  "lockInfo w device = on_device device (getLockInfo w)"

section \<open>Frames\<close>

context session_frame
begin

lemma keeps_discard [frame_intros]: "keeps R m \<Longrightarrow> keeps R (discard m)"
  unfolding discard_def by (intro frame_intros)

lemma keeps_lock_controls [frame_intros]:
  "keeps R (unlockLock w d)" "keeps R (lockLock w d)" "keeps R (lockInfo w d)"
  unfolding unlockLock_def lockLock_def lockInfo_def on_device_def by (intro frame_intros)+

end

section \<open>What the commands send\<close>

lemma discard_trace: "trace (snd (discard m s)) = trace (snd (m s))"
  by (auto simp: discard_def await_def ret_def split: prod.splits res.splits)

text \<open>The first request of an action: its address, and its data beside those of every request.\<close>

definition first_sends :: "('a) wyze_scheme \<Rightarrow> world \<Rightarrow> 'b action \<Rightarrow> string \<Rightarrow> jsval \<Rightarrow> bool" where
  "first_sends w s m url body = (\<exists>r rest. trace (snd (m s)) = trace s @ EHttp r # rest \<and> req_method r = JStr ''POST'' \<and>
     req_url r = JStr url \<and> req_data r = stamped w (access_token (sess s)) (clock s) body)"

lemma first_sends_request:
  assumes "truthy (access_token (sess s))" and "0 < fuel w"
  shows "first_sends w s (data_of (request w url body)) url body"
proof -
  have "starts_with (trace s @ [EHttp (post_request w url (stamped w (access_token (sess s)) (clock s) body))]) (data_of (request w url body)) s"
    unfolding data_of_def by (intro starts_with_await request_starts assms frame_intros)
  then show ?thesis by (auto simp: starts_with_def first_sends_def post_request_def)
qed

lemma first_sends_discard [simp]: "first_sends w s (discard m) url body = first_sends w s m url body"
  by (simp add: first_sends_def discard_trace)

text \<open>What each of the named controls is to send: where \<open>types.js\<close> names a property for it, that one,
  whatever the method has written out. One that takes a value sends the value given.\<close>

definition pid_named :: "string \<Rightarrow> string" where
  "pid_named name = js_String (attr propertyIds name)"

definition property_controls :: "('a) wyze_scheme \<Rightarrow> jsval \<Rightarrow> jsval \<Rightarrow> jsval \<Rightarrow> (unit action \<times> string \<times> jsval) list" where
  "property_controls w mac model v =
     [(plugPower w mac model v, pid_named ''ON'', v), (plugTurnOn w mac model, pid_named ''ON'', JStr ''1''),
      (plugTurnOff w mac model, pid_named ''ON'', JStr ''0''), (lightPower w mac model v, pid_named ''ON'', v),
      (lightTurnOn w mac model, pid_named ''ON'', JStr ''1''), (lightTurnOff w mac model, pid_named ''ON'', JStr ''0''),
      (setBrightness w mac model v, pid_named ''BRIGHTNESS'', v), (setColorTemperature w mac model v, pid_named ''COLOR_TEMP'', v),
      (cameraFloodLight w mac model v, pid_named ''CAMERA_FLOOD_LIGHT'', v),
      (cameraFloodLightOn w mac model, pid_named ''CAMERA_FLOOD_LIGHT'', JStr ''1''),
      (cameraFloodLightOff w mac model, pid_named ''CAMERA_FLOOD_LIGHT'', JStr ''2''),
      (cameraSpotLight w mac model v, pid_named ''CAMERA_FLOOD_LIGHT'', v),
      (cameraSpotLightOn w mac model, pid_named ''CAMERA_FLOOD_LIGHT'', JStr ''1''),
      (cameraSpotLightOff w mac model, pid_named ''CAMERA_FLOOD_LIGHT'', JStr ''2''),
      (cameraNotifications w mac model v, pid_named ''NOTIFICATION'', v),
      (cameraNotificationsOn w mac model, pid_named ''NOTIFICATION'', JStr ''1''),
      (cameraNotificationsOff w mac model, pid_named ''NOTIFICATION'', JStr ''0''),
      (cameraMotionOn w mac model, ''P1001'', JNum 1), (cameraMotionOff w mac model, ''P1001'', JNum 0),
      (cameraSoundNotificationOn w mac model, ''P1048'', JStr ''1''), (cameraSoundNotificationOff w mac model, ''P1048'', JStr ''0''),
      (cameraMotionRecording w mac model v, ''P1047'', v), (cameraMotionRecordingOn w mac model, ''P1047'', JStr ''1''),
      (cameraMotionRecordingOff w mac model, ''P1047'', JStr ''0'')]"

definition action_controls :: "('a) wyze_scheme \<Rightarrow> jsval \<Rightarrow> jsval \<Rightarrow> jsval \<Rightarrow> (unit action \<times> jsval) list" where
  "action_controls w mac model v =
     [(cameraPrivacy w mac model v, v), (cameraTurnOn w mac model, JStr ''power_on''), (cameraTurnOff w mac model, JStr ''power_off''),
      (garageDoor w mac model, JStr ''garage_door_trigger''), (cameraSiren w mac model v, v),
      (cameraSirenOn w mac model, JStr ''siren_on''), (cameraSirenOff w mac model, JStr ''siren_off'')]"

text \<open>For a mesh bulb: the property and its value. Saturation has no property of its own: it is written as
  the hue.\<close>

definition mesh_controls :: "('a) wyze_scheme \<Rightarrow> jsval \<Rightarrow> jsval \<Rightarrow> jsval \<Rightarrow> (unit action \<times> string \<times> jsval) list" where
  "mesh_controls w mac model v =
     [(lightMeshPower w mac model v, pid_named ''ON'', v), (lightMeshOn w mac model, pid_named ''ON'', JStr ''1''),
      (lightMeshOff w mac model, pid_named ''ON'', JStr ''0''), (discard (turnMeshOn w mac model), pid_named ''ON'', JStr ''1''),
      (discard (turnMeshOff w mac model), pid_named ''ON'', JStr ''0''),
      (setMeshBrightness w mac model v, pid_named ''BRIGHTNESS'', v),
      (setMeshColorTemperature w mac model v, pid_named ''COLOR_TEMP'', v),
      (setMeshHue w mac model v, ''P1507'', v), (setMeshSaturation w mac model v, ''P1507'', v)]"

text \<open>What a mesh bulb is sent for a property: its value as a text, and unless the property is the power
  itself, that the power is on.\<close>

definition mesh_plist :: "string \<Rightarrow> jsval \<Rightarrow> jsval" where
  "mesh_plist pid x = JArr (map (\<lambda>(p, t). JObj [(''pid'', JStr p), (''pvalue'', JStr t)])
     ((pid, js_String x) # (if pid = pid_named ''ON'' then [] else [(pid_named ''ON'', ''1'')])))"

lemma pid_named_simps:
  "pid_named ''ON'' = ''P3''" "pid_named ''BRIGHTNESS'' = ''P1501''" "pid_named ''COLOR_TEMP'' = ''P1502''"
  "pid_named ''CAMERA_FLOOD_LIGHT'' = ''P1056''" "pid_named ''NOTIFICATION'' = ''P1''"
  by (simp_all add: pid_named_def propertyIds_def)

lemma property_controls_set:
  "list_all (\<lambda>(cmd, pid, x). cmd = discard (setProperty w mac model pid x)) (property_controls w mac model v)"
  by (simp add: property_controls_def pid_named_simps cameraFloodLight_def cameraFloodLightOn_def cameraFloodLightOff_def cameraSpotLight_def
      cameraSpotLightOn_def cameraSpotLightOff_def cameraMotionOn_def cameraMotionOff_def cameraSoundNotificationOn_def
      cameraSoundNotificationOff_def cameraNotifications_def cameraNotificationsOn_def cameraNotificationsOff_def cameraMotionRecording_def
      cameraMotionRecordingOn_def cameraMotionRecordingOff_def plugPower_def plugTurnOn_def plugTurnOff_def lightPower_def lightTurnOn_def
      lightTurnOff_def setBrightness_def setColorTemperature_def)

lemma action_controls_run:
  "list_all (\<lambda>(cmd, key). cmd = discard (runAction w mac model key)) (action_controls w mac model v)"
  by (simp add: action_controls_def cameraPrivacy_def cameraTurnOn_def cameraTurnOff_def garageDoor_def cameraSiren_def cameraSirenOn_def
      cameraSirenOff_def)

lemma mesh_controls_run:
  "list_all (\<lambda>(cmd, pid, x). cmd = discard (runActionList w mac model pid x ''set_mesh_property'')) (mesh_controls w mac model v)"
  by (simp add: mesh_controls_def pid_named_simps lightMeshPower_def lightMeshOn_def lightMeshOff_def turnMeshOn_def turnMeshOff_def
      setMeshBrightness_def setMeshColorTemperature_def setMeshHue_def setMeshSaturation_def)

lemma mesh_plist_sent: "mesh_plist pid x = JArr (action_plist pid x)"
  by (simp add: mesh_plist_def action_plist_def pid_named_simps)

text \<open>C39. The named controls of cameras, plugs, bulbs and mesh bulbs: each sends one action, or one property
  with its value, to the device it was given and with the session's token. The property is the one
  \<open>types.js\<close> names for power, brightness, colour temperature, notifications and the flood light,
  though the methods do not refer to that table; and one not listed there for motion, sound
  and the hue. The saturation of a mesh bulb is written as its hue. For a mesh bulb the value is
  sent as a text, and every change of something else than its power switches it on as well.\<close>

theorem named_controls_send:
  assumes "truthy (access_token (sess s))" and "0 < fuel w"
  shows "list_all (\<lambda>(cmd, pid, x). first_sends w s cmd ''app/v2/device/set_property''
        (JObj [(''device_mac'', mac), (''device_model'', model), (''pid'', JStr pid), (''pvalue'', x)])) (property_controls w mac model v) \<and>
    list_all (\<lambda>(cmd, key). first_sends w s cmd ''app/v2/auto/run_action''
        (JObj [(''instance_id'', mac), (''provider_key'', model), (''action_key'', key), (''action_params'', JObj []),
          (''custom_string'', JStr '''')])) (action_controls w mac model v) \<and>
    list_all (\<lambda>(cmd, pid, x). first_sends w s cmd ''app/v2/auto/run_action_list''
        (JObj [(''action_list'', JArr [JObj [(''instance_id'', mac), (''action_params'', JObj [(''list'', JArr [JObj [(''mac'', mac),
          (''plist'', mesh_plist pid x)]])]), (''provider_key'', model), (''action_key'', JStr ''set_mesh_property'')]])]))
      (mesh_controls w mac model v)"
  by (intro conjI list.pred_mono_strong [OF property_controls_set] list.pred_mono_strong [OF action_controls_run]
      list.pred_mono_strong [OF mesh_controls_run])
    (auto simp: setProperty_def runAction_def runActionList_def mesh_plist_sent first_sends_request [OF assms])

theorem named_controls_send_witness:
  "first_sends (demo (answering [])) (demo_world ''t'') (plugTurnOff (demo (answering [])) (JStr ''A'') (JStr ''M'')) ''app/v2/device/set_property''
     (JObj [(''device_mac'', JStr ''A''), (''device_model'', JStr ''M''), (''pid'', JStr ''P3''), (''pvalue'', JStr ''0'')])"
  using named_controls_send [of "demo_world ''t''" "demo (answering [])" "JStr ''A''" "JStr ''M''" JNull]
  by (simp add: property_controls_def pid_named_simps)

text \<open>Setting the saturation of a mesh bulb does exactly what setting its hue does: both write
  property \<open>P1507\<close>.\<close>

lemma mesh_saturation_sets_hue: "setMeshSaturation = setMeshHue"
  by (simp add: fun_eq_iff setMeshSaturation_def setMeshHue_def)

end
