(* ===== verification/Wyze_Client.thy ===== *)
theory Wyze_Client
  imports Wyze_Camera_Laws Wyze_Capture Wyze_Vacuum Wyze_Controls
begin

text \<open>
  The client as a whole: an instance on which methods of every component are called, one after
  the other and interleaved with others. The frame rules of the components give what every
  history of calls keeps, and that the assumption the components make about concurrent calls is
  met by the calls themselves.
\<close>

section \<open>Calls of an instance\<close>

text \<open>The methods of an instance. Those not listed (the named controls, the other lookups) are one of
  these with some of its arguments fixed or its result changed.\<close>

datatype main_call =
    ARequest string jsval
  | ALogin
  | AMaybeLogin
  | ARefreshToken
  | AGetObjectList
  | AGetPropertyList jsval jsval
  | ASetProperty jsval jsval string jsval
  | ARunAction jsval jsval jsval
  | ARunActionList jsval jsval string jsval string
  | ALocalBulbCommand "int option" jsval string string string jsval

datatype service_call =
    AControlLock jsval jsval string
  | AGetLockInfo jsval jsval
  | AGetIotProp jsval
  | ASetIotProp jsval jsval string jsval
  | AGetUserProfile
  | ADisableRemeAlarm jsval
  | AMonitoringProfileActive jsval jsval jsval
  | AMonitoringProfileStateStatus jsval
  | AGetPlanBindingListByUser
  | ASetHMSState jsval jsval
  | AThermostatGetIotProp jsval
  | AThermostatSetIotProp jsval jsval string jsval

datatype plugin_call =
    AIrrigationGetIotProp jsval
  | AIrrigationGetDeviceInfo jsval
  | AIrrigationGetZones jsval
  | AIrrigationQuickRun jsval int int
  | AIrrigationStop jsval
  | AIrrigationGetScheduleRuns jsval jsval
  | AIot3GetProperties jsval jsval "string list"
  | AIot3RunAction jsval jsval string

datatype device_call =
    AGetDeviceList
  | AGetDeviceByName jsval
  | AGetDeviceByMac jsval
  | AGetDevicesByType jsval
  | AGetDevicesByModel jsval
  | AGetDeviceStatePID jsval jsval jsval

datatype camera_call =
    AGetOnlineCameras
  | AGetCamera jsval
  | AGetCameraSummaries
  | AGetCameraSnapshot jsval
  | AGetStreamInfo jsval jsval jsval
  | AGetConnectionInfo jsval jsval stream_options
  | AGetConnectionInfoWithReconnect jsval jsval stream_options int int
  | AClearStreamCache jsval
  | ACaptureSnapshot string camera_side string jsval snapshot_options
  | AGetSnapshotImage string camera_side string snapshot_options

datatype vacuum_call =
    AVenusRequest string string jsval
  | AGetVacuum jsval
  | AGetVacuumInfo jsval
  | AGetVacuumSweepRecords jsval jsval since
  | ASetVacuumCurrentMap jsval jsval
  | AVacuumControl jsval jsval jsval jsval
  | AVacuumSetSuctionLevel jsval jsval jsval
  | AVacuumEventTracking jsval int jsval jsval

datatype api_call =
    OnMain main_call
  | OnService service_call
  | OnPlugin plugin_call
  | OnDevice device_call
  | OnCamera camera_call
  | OnVacuum vacuum_call

text \<open>The world after a call, whatever its result.\<close>

primrec perform_main :: "('a) wyze_scheme \<Rightarrow> main_call \<Rightarrow> world \<Rightarrow> world" where
  "perform_main w (ARequest url data) s = snd (request w url data s)"
| "perform_main w ALogin s = snd (login w s)"
| "perform_main w AMaybeLogin s = snd (maybeLogin w s)"
| "perform_main w ARefreshToken s = snd (refreshToken w s)"
| "perform_main w AGetObjectList s = snd (getObjectList w s)"
| "perform_main w (AGetPropertyList m d) s = snd (getPropertyList w m d s)"
| "perform_main w (ASetProperty m d p v) s = snd (setProperty w m d p v s)"
| "perform_main w (ARunAction m d k) s = snd (runAction w m d k s)"
| "perform_main w (ARunActionList m d p v k) s = snd (runActionList w m d p v k s)"
| "perform_main w (ALocalBulbCommand t m e i p v) s = snd (localBulbCommand w t m e i p v s)"

primrec perform_service :: "('a) wyze_scheme \<Rightarrow> service_call \<Rightarrow> world \<Rightarrow> world" where
  "perform_service w (AControlLock m d a) s = snd (controlLock w m d a s)"
| "perform_service w (AGetLockInfo m d) s = snd (getLockInfo w m d s)"
| "perform_service w (AGetIotProp m) s = snd (getIotProp w m s)"
| "perform_service w (ASetIotProp m d k v) s = snd (setIotProp w m d k v s)"
| "perform_service w AGetUserProfile s = snd (getUserProfile w s)"
| "perform_service w (ADisableRemeAlarm h) s = snd (disableRemeAlarm w h s)"
| "perform_service w (AMonitoringProfileActive h a b) s = snd (monitoringProfileActive w h a b s)"
| "perform_service w (AMonitoringProfileStateStatus h) s = snd (monitoringProfileStateStatus w h s)"
| "perform_service w AGetPlanBindingListByUser s = snd (getPlanBindingListByUser w s)"
| "perform_service w (ASetHMSState h m) s = snd (setHMSState w h m s)"
| "perform_service w (AThermostatGetIotProp m) s = snd (thermostatGetIotProp w m s)"
| "perform_service w (AThermostatSetIotProp m d k v) s = snd (thermostatSetIotProp w m d k v s)"

primrec perform_plugin :: "('a) wyze_scheme \<Rightarrow> plugin_call \<Rightarrow> world \<Rightarrow> world" where
  "perform_plugin w (AIrrigationGetIotProp m) s = snd (irrigationGetIotProp w m s)"
| "perform_plugin w (AIrrigationGetDeviceInfo m) s = snd (irrigationGetDeviceInfo w m s)"
| "perform_plugin w (AIrrigationGetZones m) s = snd (irrigationGetZones w m s)"
| "perform_plugin w (AIrrigationQuickRun m z n) s = snd (irrigationQuickRun w m (JNum z) (JNum n) s)"
| "perform_plugin w (AIrrigationStop m) s = snd (irrigationStop w m s)"
| "perform_plugin w (AIrrigationGetScheduleRuns m n) s = snd (irrigationGetScheduleRuns w m n s)"
| "perform_plugin w (AIot3GetProperties m d ps) s = snd (iot3GetProperties w m d ps s)"
| "perform_plugin w (AIot3RunAction m d a) s = snd (iot3RunAction w m d a s)"

primrec perform_device :: "('a) wyze_scheme \<Rightarrow> device_call \<Rightarrow> world \<Rightarrow> world" where
  "perform_device w AGetDeviceList s = snd (getDeviceList w s)"
| "perform_device w (AGetDeviceByName n) s = snd (getDeviceByName w n s)"
| "perform_device w (AGetDeviceByMac m) s = snd (getDeviceByMac w m s)"
| "perform_device w (AGetDevicesByType t) s = snd (getDevicesByType w t s)"
| "perform_device w (AGetDevicesByModel m) s = snd (getDevicesByModel w m s)"
| "perform_device w (AGetDeviceStatePID m d p) s = snd (getDeviceStatePID w m d p s)"

primrec perform_camera :: "('a) wyze_scheme \<Rightarrow> camera_call \<Rightarrow> world \<Rightarrow> world" where
  "perform_camera w AGetOnlineCameras s = snd (getOnlineCameras w s)"
| "perform_camera w (AGetCamera m) s = snd (getCamera w m s)"
| "perform_camera w AGetCameraSummaries s = snd (getCameraSummaries w s)"
| "perform_camera w (AGetCameraSnapshot m) s = snd (getCameraSnapshot w m s)"
| "perform_camera w (AGetStreamInfo m d b) s = snd (cameraGetStreamInfo w m d b s)"
| "perform_camera w (AGetConnectionInfo m d opts) s = snd (getCameraWebRTCConnectionInfo w m d opts s)"
| "perform_camera w (AGetConnectionInfoWithReconnect m d opts n base) s =
     snd (getCameraWebRTCConnectionInfoWithReconnect w m d opts n base None s)"
| "perform_camera w (AClearStreamCache m) s = snd (clearCameraStreamCache m s)"
| "perform_camera w (ACaptureSnapshot ff cam m d opts) s = snd (cameraCaptureSnapshot (captureStreamFrame w ff cam) w m d opts s)"
| "perform_camera w (AGetSnapshotImage ff cam m opts) s = snd (getCameraSnapshotImage (captureStreamFrame w ff cam) w m opts s)"

primrec perform_vacuum :: "('a) wyze_scheme \<Rightarrow> vacuum_call \<Rightarrow> world \<Rightarrow> world" where
  "perform_vacuum w (AVenusRequest method path payload) s = snd (venusRequest w method path payload s)"
| "perform_vacuum w (AGetVacuum m) s = snd (getVacuum w m s)"
| "perform_vacuum w (AGetVacuumInfo m) s = snd (getVacuumInfo w m s)"
| "perform_vacuum w (AGetVacuumSweepRecords m n t) s = snd (getVacuumSweepRecords w m n t s)"
| "perform_vacuum w (ASetVacuumCurrentMap m i) s = snd (setVacuumCurrentMap w m i s)"
| "perform_vacuum w (AVacuumControl m t v x) s = snd (vacuumControl w m t v x s)"
| "perform_vacuum w (AVacuumSetSuctionLevel m d l) s = snd (vacuumSetSuctionLevel w m d l s)"
| "perform_vacuum w (AVacuumEventTracking m t v xs) s = snd (vacuumEventTracking w m t v xs s)"

primrec perform :: "('a) wyze_scheme \<Rightarrow> api_call \<Rightarrow> world \<Rightarrow> world" where
  "perform w (OnMain c) s = perform_main w c s"
| "perform w (OnService c) s = perform_service w c s"
| "perform w (OnPlugin c) s = perform_plugin w c s"
| "perform w (OnDevice c) s = perform_device w c s"
| "perform w (OnCamera c) s = perform_camera w c s"
| "perform w (OnVacuum c) s = perform_vacuum w c s"

lemmas perform_parts = perform_main.simps perform_service.simps perform_plugin.simps perform_device.simps perform_camera.simps
  perform_vacuum.simps

text \<open>A frame is what ffmpeg wrote in a capture that has settled and released everything it used.\<close>

definition captured_frame :: "string \<Rightarrow> int \<Rightarrow> start \<times> capture_event list \<Rightarrow> string \<Rightarrow> bool" where
  "captured_frame ff timeoutMs side bytes = (let c = capture_run ff timeoutMs side in
     phase c = Finished (Inr bytes) \<and> unhandled c = None \<and> stdoutChunks c \<noteq> [] \<and> bytes = concat (stdoutChunks c) \<and>
     released c = resources c)"

lemma captured_frame_iff:
  "captured_frame ff ms side bytes \<longleftrightarrow> phase (capture_run ff ms side) = Finished (Inr bytes) \<and> unhandled (capture_run ff ms side) = None"
proof -
  have "reachable ff ms (capture_run ff ms side)"
    unfolding capture_run_def by (intro run_events_reachable reachable.start)
  from frames.always [OF this] resources.always [OF this] show ?thesis
    by (auto simp: captured_frame_def Let_def frame_ok_def released_ok_def)
qed

lemma captureStreamFrame_frame:
  "captureStreamFrame w ff cam u i t s = (Ok v, s') \<Longrightarrow>
   ticks s' = Suc (ticks s) \<and> (\<exists>bytes. v = JStr bytes \<and> captured_frame ff t (cam (ticks s)) bytes)"
  by (auto simp: captureStreamFrame_def Let_def captured_frame_iff split: option.splits phase.splits sum.splits)

text \<open>The frames a camera can give.\<close>

definition frame_of :: "string \<Rightarrow> int \<Rightarrow> camera_side \<Rightarrow> jsval \<Rightarrow> bool" where
  "frame_of ff t cam v = (\<exists>n bytes. v = JStr bytes \<and> captured_frame ff t (cam n) bytes)"

lemma captureStreamFrame_returns:
  "returns (captureStreamFrame w ff cam u i t) (frame_of ff t cam)" "returns (captureStreamFrame w ff cam u i t) is_buffer"
  by (auto simp: returns_def frame_of_def is_buffer_def dest!: captureStreamFrame_frame)

context session_frame
begin

lemma await_point_keeps: "R s (await_point w s)"
  using frame_read [of s "[]"] by (simp add: readFile_def)

lemma keeps_captureStreamFrame:
  assumes "(\<forall>s e. R s (s\<lparr>trace := trace s @ [EUnhandled e]\<rparr>)) \<or> (\<forall>n. unhandled (capture_run ff t (cam n)) = None)"
  shows "keeps R (captureStreamFrame w ff cam u i t)"
proof (rule keepsI)
  fix s :: world
  show "R s (snd (captureStreamFrame w ff cam u i t s))"
    using assms unfolding captureStreamFrame_def Let_def
    by (auto simp: await_point_keeps split: option.split intro: frame_trans [OF _ await_point_keeps])
qed

lemma keeps_vacuum_calls [frame_intros]:
  "keeps R (getVacuumSweepRecords w m n t)" "keeps R (setVacuumCurrentMap w m i)" "keeps R (vacuumControl w m a v x)"
  "keeps R (vacuumSetSuctionLevel w m d l)" "keeps R (vacuumEventTracking w m c v xs)"
  unfolding getVacuumSweepRecords_def setVacuumCurrentMap_def vacuumControl_def vacuumSetSuctionLevel_def vacuumEventTracking_def Let_def
  by (intro frame_intros)+

lemma keeps_run: "keeps R m \<Longrightarrow> R s (snd (m s))"
  by (simp add: keeps_def)

text \<open>The calls that do not use the caches keep every frame of the session.\<close>

lemma perform_parts_keep:
  "R s (perform_main w c1 s)" "R s (perform_service w c2 s)" "R s (perform_plugin w c3 s)" "R s (perform_device w c4 s)"
  "R s (perform_vacuum w c6 s)"
proof -
  show "R s (perform_main w c1 s)" by (cases c1; simp only: perform_parts; rule keeps_run; intro frame_intros)
  show "R s (perform_service w c2 s)" by (cases c2; simp only: perform_parts; rule keeps_run; intro frame_intros)
  show "R s (perform_plugin w c3 s)" by (cases c3; simp only: perform_parts; rule keeps_run; intro frame_intros)
  show "R s (perform_device w c4 s)" by (cases c4; simp only: perform_parts; rule keeps_run; intro frame_intros)
  show "R s (perform_vacuum w c6 s)" by (cases c6; simp only: perform_parts; rule keeps_run; intro frame_intros)
qed

lemma perform_lookups_keep:
  "R s (perform_camera w AGetOnlineCameras s)" "R s (perform_camera w (AGetCamera m) s)" "R s (perform_camera w AGetCameraSummaries s)"
  "R s (perform_camera w (AGetCameraSnapshot m) s)" "R s (perform_camera w (AGetStreamInfo m d b) s)"
  by (simp_all only: perform_parts) (rule keeps_run; intro frame_intros)+

end

context cache_frame
begin

lemma keeps_reconnect:
  assumes "\<not> truthy (noCache opts) \<Longrightarrow> may_stream (streamCacheKey m d (substream opts)) (cacheTtlMs opts)"
  shows "keeps R (getCameraWebRTCConnectionInfoWithReconnect w m d opts n base None)"
  unfolding getCameraWebRTCConnectionInfoWithReconnect_def cameraStreamWithReconnect_def
  by (rule keeps_reconnect_loop) (intro keeps_connection_info assms, simp_all)

end

context client_frame
begin

lemma keeps_capture [frame_intros]: "keeps R (captureStreamFrame w ff cam u i t)"
  by (rule keeps_captureStreamFrame) (simp add: frame_died)

lemma perform_camera_keeps: "R s (perform_camera w c s)"
proof (cases c)
  case (AGetConnectionInfoWithReconnect m d opts n base)
  then show ?thesis by (simp only: perform_parts) (rule keeps_run, rule keeps_reconnect, rule TrueI)
qed (simp only: perform_lookups_keep, (simp only: perform_parts; rule keeps_run; intro frame_intros keeps_snapshot_calls captureStreamFrame_returns)+)

lemma perform_keeps: "R s (perform w c s)"
  by (cases c) (simp_all add: perform_parts_keep perform_camera_keeps)

end

section \<open>Histories\<close>

text \<open>The worlds an instance can be in after some calls, with time passing in between and the
  refresh timer firing.\<close>

inductive history :: "('a) wyze_scheme \<Rightarrow> world \<Rightarrow> world \<Rightarrow> bool" for w where
  none: "history w s s"
| call: "history w s t \<Longrightarrow> history w s (perform w c t)"
| pause: "history w s t \<Longrightarrow> history w s (await_point w t)"
| timer: "history w s t \<Longrightarrow> history w s (snd (timer_refresh w t))"

context client_frame
begin

lemma history_keeps: "history w s t \<Longrightarrow> R s t"
  by (induction rule: history.induct)
    (blast intro: frame_refl frame_trans perform_keeps await_point_keeps keeps_run [OF keeps_timer_refresh])+

end

lemma history_run: "history w s (fold (perform w) cs s)"
proof -
  have "history w s t \<Longrightarrow> history w s (fold (perform w) cs t)" for t
    by (induction cs arbitrary: t) (auto intro: history.call)
  then show ?thesis by (simp add: history.none)
qed

text \<open>Concurrent activity that is made of calls: none, or at each await a history of an instance
  that is interrupted in the same way.\<close>

inductive interleaved :: "('a) wyze_scheme \<Rightarrow> bool" where
  alone: "alone w \<Longrightarrow> interleaved w"
| nested: "(\<And>n c. \<exists>w' s t. interleaved w' \<and> history w' s t \<and> sess s = c \<and> sess t = rely w n c) \<Longrightarrow> interleaved w"

text \<open>An instance on which a login runs during every await.\<close>

definition demo_busy :: wyze where
  "demo_busy = (demo (answering []))\<lparr>rely := (\<lambda>n c. sess (perform (demo (answering [])) (OnMain ALogin) ((demo_world ''t'')\<lparr>sess := c\<rparr>)))\<rparr>"

section \<open>Snapshots from the capture machine\<close>

text \<open>A snapshot of a camera is a frame: composed with the capture machine,
  \<open>cameraCaptureSnapshot\<close> returns the frame of this camera that is in its cache and has not expired,
  and then does nothing else, or the frame of the capture it has just made.\<close>

definition cached_frame :: "string \<Rightarrow> snapshot_options \<Rightarrow> world \<Rightarrow> jsval option" where
  "cached_frame mac opts s = (if truthy (snap_noCache opts) then None
     else case snapshotCaptureCache (sess s) of None \<Rightarrow> None | Some m \<Rightarrow> fresh_entry m mac (clock s))"

lemma snapshot_is_frame:
  assumes "cameraCaptureSnapshot (captureStreamFrame w ff cam) w mac model opts s = (Ok buf, s')"
  shows "case cached_frame mac opts s of Some b \<Rightarrow> buf = b \<and> s' = s
    | None \<Rightarrow> \<exists>n bytes. ticks s' = Suc n \<and> buf = JStr bytes \<and> captured_frame ff (snap_timeoutMs opts) (cam n) bytes"
proof -
  have now: "\<exists>n bytes. ticks s' = Suc n \<and> buf = JStr bytes \<and> captured_frame ff (snap_timeoutMs opts) (cam n) bytes"
    if run: "capture_now (captureStreamFrame w ff cam) w mac model opts t = (Ok buf, s')" for t
  proof -
    obtain u i t1 t2 where cap: "captureStreamFrame w ff cam u i (snap_timeoutMs opts) t1 = (Ok buf, t2)" "ticks s' = ticks t2"
      using run
      by (auto simp: capture_now_def ret_def Date_now_def this_get_def this_set_def lift_err_def throw_def
          elim!: await_OkE split: if_splits sum.splits)
    from captureStreamFrame_frame [OF cap(1)] show ?thesis unfolding cap(2) by blast
  qed
  show ?thesis
    using assms now
    by (auto simp: cameraCaptureSnapshot_def cached_frame_def await_def this_get_def this_set_def Date_now_def ret_def Let_def fresh_entry_def
        split: if_splits option.splits)
qed

end
