(* ===== verification/Wyze_Caches.thy ===== *)
theory Wyze_Caches
  imports Wyze_Client
begin

text \<open>
  The two caches of an instance through its whole life. They are a pair of maps from keys to
  values with the time they expire. Whatever runs, keys stay unique, the entries have the form the
  calls put in, and a frame is replaced but never dropped. And each call changes the maps only as
  its arguments say: under one key, with one time to live, or, when clearing, by exactly the keys
  of one camera. From this: what a call returns, whatever ran before.
\<close>

section \<open>The representation\<close>

type_synonym ttl_spec = "string \<rightharpoonup> jsval \<times> int"

text \<open>A cache that is not there yet stands for the empty map.\<close>

definition cache_entries :: "ttl_map option \<Rightarrow> ttl_map" where
  "cache_entries c = (case c of None \<Rightarrow> [] | Some m \<Rightarrow> m)"

definition caches_of :: "session \<Rightarrow> ttl_spec \<times> ttl_spec" where
  "caches_of c = (map_of (cache_entries (streamInfoCache c)), map_of (cache_entries (snapshotCaptureCache c)))"

definition ttl_ok :: "(jsval \<Rightarrow> bool) \<Rightarrow> ttl_map option \<Rightarrow> bool" where
  "ttl_ok good c = (distinct (map fst (cache_entries c)) \<and> list_all (\<lambda>(k, v, e). good v) (cache_entries c))"

definition caches_ok :: "session \<Rightarrow> bool" where
  "caches_ok c = (ttl_ok stream_shape (streamInfoCache c) \<and> ttl_ok is_buffer (snapshotCaptureCache c))"

lemma cache_entries_simps [simp]: "cache_entries None = []" "cache_entries (Some m) = m"
  by (simp_all add: cache_entries_def)

lemma map_set_keys: "fst ` set (map_set m k v) = insert k (fst ` set m)"
  by (induction m k v rule: map_set.induct) auto

lemma map_set_ok: "ttl_ok good (Some m) \<Longrightarrow> good v \<Longrightarrow> ttl_ok good (Some (map_set m k (v, e)))"
  unfolding ttl_ok_def
  by (induction m k "(v, e)" rule: map_set.induct) (auto simp: map_set_keys)

lemma filter_ok: "ttl_ok good (Some m) \<Longrightarrow> ttl_ok good (Some (filter P m))"
  by (auto simp: ttl_ok_def list_all_iff distinct_map_filter)

lemma map_of_filter_key: "map_of (filter (\<lambda>(k, v). P k) m) = map_of m |` {k. P k}"
  by (induction m) (auto simp: fun_eq_iff restrict_map_def)

lemma ttl_ok_lookup: "ttl_ok good (Some m) \<Longrightarrow> map_of m k = Some (v, e) \<Longrightarrow> good v"
  by (auto simp: ttl_ok_def list_all_iff dest: map_of_SomeD)

lemma caches_ok_initial: "caches_ok initial_session" "caches_of initial_session = (Map.empty, Map.empty)"
  by (simp_all add: caches_ok_def caches_of_def ttl_ok_def initial_session_def)

section \<open>What every history keeps\<close>

definition caches_stay :: "session \<Rightarrow> session \<Rightarrow> bool" where
  "caches_stay c d = (caches_ok c \<longrightarrow> caches_ok d \<and> dom (snd (caches_of c)) \<subseteq> dom (snd (caches_of d)))"

definition rely_caches :: "('a) wyze_scheme \<Rightarrow> bool" where
  "rely_caches w = (\<forall>n c. caches_stay c (rely w n c))"

definition caches_kept :: "('a) wyze_scheme \<Rightarrow> world \<Rightarrow> world \<Rightarrow> bool" where
  "caches_kept w s t = (rely_caches w \<longrightarrow> caches_stay (sess s) (sess t))"

lemma caches_stay_refl [simp]: "caches_stay c c"
  by (simp add: caches_stay_def)

lemma caches_stay_trans: "caches_stay c d \<Longrightarrow> caches_stay d e \<Longrightarrow> caches_stay c e"
  unfolding caches_stay_def by blast

lemma caches_stay_same:
  "streamInfoCache d = streamInfoCache c \<Longrightarrow> snapshotCaptureCache d = snapshotCaptureCache c \<Longrightarrow> caches_stay c d"
  by (simp add: caches_stay_def caches_ok_def caches_of_def)

lemma caches_stay_create:
  "caches_stay c (c\<lparr>streamInfoCache := Some []\<rparr>)"
  "snapshotCaptureCache c = None \<Longrightarrow> caches_stay c (c\<lparr>snapshotCaptureCache := Some []\<rparr>)"
  by (simp_all add: caches_stay_def caches_ok_def caches_of_def ttl_ok_def)

lemma caches_stay_store:
  "streamInfoCache c = Some m \<Longrightarrow> stream_shape v \<Longrightarrow> caches_stay c (c\<lparr>streamInfoCache := Some (map_set m k (v, e))\<rparr>)"
  "snapshotCaptureCache c = Some m \<Longrightarrow> is_buffer v \<Longrightarrow> caches_stay c (c\<lparr>snapshotCaptureCache := Some (map_set m k (v, e))\<rparr>)"
  by (auto simp: caches_stay_def caches_ok_def caches_of_def map_set_ok map_of_map_set)

lemma caches_stay_forget:
  "streamInfoCache c = Some m \<Longrightarrow> caches_stay c (c\<lparr>streamInfoCache := Some (filter P m)\<rparr>)"
  by (auto simp: caches_stay_def caches_ok_def caches_of_def filter_ok)

lemma caches_stay_rely: "rely_caches w \<Longrightarrow> caches_stay c (rely w n c)"
  by (simp add: rely_caches_def)

interpretation caches: client_frame "caches_kept w" w for w
  by unfold_locales
    (auto simp: caches_kept_def axios_request_def set_timeout_def readFile_def writeFile_def await_point_def
      caches_stay_rely caches_stay_same caches_stay_create caches_stay_store caches_stay_forget
      split: option.splits intro: caches_stay_trans)

section \<open>What one call changes\<close>

text \<open>Concurrent activity that leaves the caches alone, such as logins.\<close>

definition caches_left :: "('a) wyze_scheme \<Rightarrow> bool" where
  "caches_left w = (\<forall>n c. streamInfoCache (rely w n c) = streamInfoCache c \<and> snapshotCaptureCache (rely w n c) = snapshotCaptureCache c)"

lemma caches_left_rely: "caches_left w \<Longrightarrow> rely_caches w"
  by (simp add: caches_left_def rely_caches_def caches_stay_same)

text \<open>The entries that differ were stored in between, under an allowed key and with an allowed time to
  live.\<close>

definition entry_change :: "(string \<Rightarrow> int \<Rightarrow> bool) \<Rightarrow> (jsval \<Rightarrow> bool) \<Rightarrow> int \<Rightarrow> int \<Rightarrow> ttl_spec \<Rightarrow> ttl_spec \<Rightarrow> bool" where
  "entry_change allowed good from until M M' = (\<forall>k. M' k = M k \<or>
     (\<exists>v ttl now. allowed k ttl \<and> good v \<and> from \<le> now \<and> now \<le> until \<and> M' k = Some (v, now + ttl)))"

lemma entry_change_same: "entry_change allowed good from until M M"
  by (simp add: entry_change_def)

lemma entry_change_trans:
  assumes "entry_change allowed good a b M M'" and "entry_change allowed good b c M' M''" and "a \<le> b" and "b \<le> c"
  shows "entry_change allowed good a c M M''"
  unfolding entry_change_def
proof
  fix k
  show "M'' k = M k \<or> (\<exists>v ttl now. allowed k ttl \<and> good v \<and> a \<le> now \<and> now \<le> c \<and> M'' k = Some (v, now + ttl))"
    using assms(1,2) [unfolded entry_change_def, rule_format, of k] assms(3,4) by (metis order_trans)
qed

lemma entry_change_store:
  "allowed k ttl \<Longrightarrow> good v \<Longrightarrow> entry_change allowed good now now M (M(k \<mapsto> (v, now + ttl)))"
  by (auto simp: entry_change_def)

text \<open>At most one entry is stored: under this key, with this time to live, if storing is on.\<close>

definition stores :: "(jsval \<Rightarrow> bool) \<Rightarrow> bool \<Rightarrow> string \<Rightarrow> int \<Rightarrow> int \<times> int \<Rightarrow> ttl_spec \<Rightarrow> ttl_spec \<Rightarrow> bool" where
  "stores good on key ttl = (\<lambda>(from, until) M M'. M' = M \<or>
     on \<and> (\<exists>v now. good v \<and> from \<le> now \<and> now \<le> until \<and> M' = M(key \<mapsto> (v, now + ttl))))"

lemma entry_change_one:
  assumes "entry_change (\<lambda>k t. on \<and> k = key \<and> t = ttl) good from until M M'"
  shows "stores good on key ttl (from, until) M M'"
proof (cases "M' key = M key")
  case True
  then have "M' = M" using assms by (fastforce simp: entry_change_def fun_eq_iff)
  then show ?thesis by (simp add: stores_def)
next
  case False
  then obtain v now where v: "on" "good v" "from \<le> now" "now \<le> until" "M' key = Some (v, now + ttl)"
    using assms by (auto simp: entry_change_def)
  moreover have "M' = M(key \<mapsto> (v, now + ttl))"
    using assms v(5) by (fastforce simp: entry_change_def fun_eq_iff)
  ultimately show ?thesis by (auto simp: stores_def)
qed

lemma entry_change_none: "entry_change (\<lambda>k t. False) good from until M M' \<Longrightarrow> M' = M"
  by (auto simp: entry_change_def)

definition cache_change :: "('a) wyze_scheme \<Rightarrow> (string \<Rightarrow> int \<Rightarrow> bool) \<Rightarrow> (string \<Rightarrow> int \<Rightarrow> bool) \<Rightarrow> (jsval \<Rightarrow> bool) \<Rightarrow> world \<Rightarrow> world \<Rightarrow> bool" where
  "cache_change w streams frames good s t = (caches_left w \<longrightarrow> clock s \<le> clock t \<and>
     entry_change streams stream_shape (clock s) (clock t) (fst (caches_of (sess s))) (fst (caches_of (sess t))) \<and>
     entry_change frames good (clock s) (clock t) (snd (caches_of (sess s))) (snd (caches_of (sess t))))"

lemma cache_change_quiet:
  assumes "clock s \<le> clock t" and "caches_left w \<Longrightarrow> streamInfoCache (sess t) = streamInfoCache (sess s)"
    and "caches_left w \<Longrightarrow> snapshotCaptureCache (sess t) = snapshotCaptureCache (sess s)"
  shows "cache_change w streams frames good s t"
  using assms by (simp add: cache_change_def caches_of_def entry_change_same)

lemma cache_change_trans:
  "cache_change w streams frames good s t \<Longrightarrow> cache_change w streams frames good t u \<Longrightarrow> cache_change w streams frames good s u"
  unfolding cache_change_def by (blast intro: entry_change_trans order_trans)

lemma await_caches:
  "caches_left w \<Longrightarrow> streamInfoCache (sess (await_point w s)) = streamInfoCache (sess s)"
  "caches_left w \<Longrightarrow> snapshotCaptureCache (sess (await_point w s)) = snapshotCaptureCache (sess s)"
  "clock s \<le> clock (await_point w s)"
  by (simp_all add: caches_left_def await_point_def)

lemma cache_change_create:
  "streamInfoCache (sess s) = None \<Longrightarrow> cache_change w streams frames good s (s\<lparr>sess := (sess s)\<lparr>streamInfoCache := Some []\<rparr>\<rparr>)"
  "snapshotCaptureCache (sess s) = None \<Longrightarrow> cache_change w streams frames good s (s\<lparr>sess := (sess s)\<lparr>snapshotCaptureCache := Some []\<rparr>\<rparr>)"
  by (simp_all add: cache_change_def caches_of_def entry_change_same)

lemma cache_change_store:
  "streamInfoCache (sess s) = Some m \<Longrightarrow> stream_shape v \<Longrightarrow> streams k ttl \<Longrightarrow>
     cache_change w streams frames good s (s\<lparr>sess := (sess s)\<lparr>streamInfoCache := Some (map_set m k (v, clock s + ttl))\<rparr>\<rparr>)"
  "snapshotCaptureCache (sess s) = Some m \<Longrightarrow> good v \<Longrightarrow> frames k ttl \<Longrightarrow>
     cache_change w streams frames good s (s\<lparr>sess := (sess s)\<lparr>snapshotCaptureCache := Some (map_set m k (v, clock s + ttl))\<rparr>\<rparr>)"
  by (simp_all add: cache_change_def caches_of_def entry_change_same entry_change_store map_of_map_set)

lemma cache_change_await:
  "clock s \<le> clock t \<Longrightarrow> sess t = sess s \<Longrightarrow> cache_change w streams frames good s (await_point w t)"
  by (rule cache_change_quiet) (simp_all add: await_caches await_caches(3) [THEN order_trans [rotated]])

interpretation change: cache_frame "cache_change w streams frames good" w streams frames "\<lambda>mac. False" good for w streams frames good
proof unfold_locales
  show "cache_change w streams frames good s u"
    if "cache_change w streams frames good s t" "cache_change w streams frames good t u" for s t u
    using that by (rule cache_change_trans)
qed (auto simp: axios_request_def set_timeout_def readFile_def writeFile_def cache_change_create cache_change_store
      intro!: cache_change_await cache_change_quiet order_trans [OF _ timer_delay_pos] split: option.splits)

lemma change_capture: "keeps (cache_change w streams frames good) (captureStreamFrame w ff cam u i t)"
  by (rule change.keeps_captureStreamFrame) (simp add: cache_change_quiet)

section \<open>The specification of a call\<close>

text \<open>How each call may change the two maps, in the time it takes. Stream information is stored under the
  camera's address, its model and the stream, for the time the caller gives; clearing drops exactly
  the keys that start with the camera's address, or all; a frame is stored under the address, and
  is one that the camera's captures gave. Every other call changes nothing.\<close>

definition stream_key :: "jsval \<Rightarrow> jsval \<Rightarrow> stream_options \<Rightarrow> string" where
  "stream_key mac model opts =
     js_String mac @ '':'' @ js_String model @ (if truthy (substream opts) then '':sub'' else '':main'')"

fun cache_spec :: "api_call \<Rightarrow> int \<times> int \<Rightarrow> ttl_spec \<times> ttl_spec \<Rightarrow> ttl_spec \<times> ttl_spec \<Rightarrow> bool" where
  "cache_spec (OnCamera (AGetConnectionInfo mac model opts)) time (S, F) (S', F') =
     (stores stream_shape (\<not> truthy (noCache opts)) (stream_key mac model opts) (cacheTtlMs opts) time S S' \<and> F' = F)"
| "cache_spec (OnCamera (AGetConnectionInfoWithReconnect mac model opts n base)) time (S, F) (S', F') =
     (stores stream_shape (\<not> truthy (noCache opts)) (stream_key mac model opts) (cacheTtlMs opts) time S S' \<and> F' = F)"
| "cache_spec (OnCamera (AClearStreamCache mac)) time (S, F) (S', F') =
     (S' = (if truthy mac then S |` {k. \<not> startsWith k (js_String mac @ '':'')} else Map.empty) \<and> F' = F)"
| "cache_spec (OnCamera (ACaptureSnapshot ff cam mac model opts)) time (S, F) (S', F') =
     (S' = S \<and> stores (frame_of ff (snap_timeoutMs opts) cam) (\<not> truthy (snap_noCache opts)) mac (snap_cacheTtlMs opts) time F F')"
| "cache_spec (OnCamera (AGetSnapshotImage ff cam mac opts)) time (S, F) (S', F') =
     (S' = S \<and> stores (frame_of ff (snap_timeoutMs opts) cam) (\<not> truthy (snap_noCache opts)) mac (snap_cacheTtlMs opts) time F F')"
| "cache_spec c time before after = (after = before)"

lemma stream_key_is: "streamCacheKey mac model (substream opts) = stream_key mac model opts"
  by (simp add: streamCacheKey_def stream_key_def)

lemma clear_spec:
  "fst (caches_of (sess (snd (clearCameraStreamCache mac s)))) =
     (if truthy mac then fst (caches_of (sess s)) |` {k. \<not> startsWith k (js_String mac @ '':'')} else Map.empty)"
  "snd (caches_of (sess (snd (clearCameraStreamCache mac s)))) = snd (caches_of (sess s))"
  by (auto simp: clearCameraStreamCache_def clear_key_def run_simps caches_of_def map_of_filter_key [where P = "\<lambda>k. \<not> startsWith k (js_String mac @ '':'')"]
      split: option.splits)

text \<open>From what a frame says of the call to the specification.\<close>

lemma spec_stream:
  assumes "cache_change w (\<lambda>k t. on \<and> k = key \<and> t = ttl) (\<lambda>k t. False) good s t" and "caches_left w"
  shows "stores stream_shape on key ttl (clock s, clock t) (fst (caches_of (sess s))) (fst (caches_of (sess t)))"
    and "snd (caches_of (sess t)) = snd (caches_of (sess s))"
  using assms by (auto simp: cache_change_def intro: entry_change_one dest: entry_change_none)

lemma spec_frame:
  assumes "cache_change w (\<lambda>k t. False) (\<lambda>k t. on \<and> k = key \<and> t = ttl) good s t" and "caches_left w"
  shows "stores good on key ttl (clock s, clock t) (snd (caches_of (sess s))) (snd (caches_of (sess t)))"
    and "fst (caches_of (sess t)) = fst (caches_of (sess s))"
  using assms by (auto simp: cache_change_def intro: entry_change_one dest: entry_change_none)

lemma spec_none:
  assumes "cache_change w (\<lambda>k t. False) (\<lambda>k t. False) good s t" and "caches_left w"
  shows "caches_of (sess t) = caches_of (sess s)"
  using assms by (auto simp: cache_change_def prod_eq_iff dest: entry_change_none)

lemma camera_call_spec:
  assumes "caches_left w"
  shows "cache_spec (OnCamera c) (clock s, clock (perform_camera w c s)) (caches_of (sess s)) (caches_of (sess (perform_camera w c s)))"
proof (cases c)
  case (AGetConnectionInfo mac model opts)
  have "cache_change w (\<lambda>k t. \<not> truthy (noCache opts) \<and> k = stream_key mac model opts \<and> t = cacheTtlMs opts) (\<lambda>k t. False) is_buffer
      s (perform_camera w c s)"
    unfolding AGetConnectionInfo perform_camera.simps
    by (rule change.keeps_run, rule change.keeps_connection_info) (simp add: stream_key_is)
  from spec_stream [OF this assms] show ?thesis by (cases "caches_of (sess s)"; cases "caches_of (sess (perform_camera w c s))") (simp add: AGetConnectionInfo)
next
  case (AGetConnectionInfoWithReconnect mac model opts n base)
  have "cache_change w (\<lambda>k t. \<not> truthy (noCache opts) \<and> k = stream_key mac model opts \<and> t = cacheTtlMs opts) (\<lambda>k t. False) is_buffer
      s (perform_camera w c s)"
    unfolding AGetConnectionInfoWithReconnect perform_camera.simps
    by (rule change.keeps_run, rule change.keeps_reconnect) (simp add: stream_key_is)
  from spec_stream [OF this assms] show ?thesis by (cases "caches_of (sess s)"; cases "caches_of (sess (perform_camera w c s))") (simp add: AGetConnectionInfoWithReconnect)
next
  case (AClearStreamCache mac)
  then show ?thesis
    using clear_spec [of mac s]
    by (cases "caches_of (sess s)"; cases "caches_of (sess (perform_camera w c s))") simp
next
  case (ACaptureSnapshot ff cam mac model opts)
  have "cache_change w (\<lambda>k t. False) (\<lambda>k t. \<not> truthy (snap_noCache opts) \<and> k = mac \<and> t = snap_cacheTtlMs opts)
      (frame_of ff (snap_timeoutMs opts) cam) s (perform_camera w c s)"
    unfolding ACaptureSnapshot perform_camera.simps
    by (rule change.keeps_run, rule change.keeps_snapshots) (simp_all add: change_capture captureStreamFrame_returns)
  from spec_frame [OF this assms] show ?thesis by (cases "caches_of (sess s)"; cases "caches_of (sess (perform_camera w c s))") (simp add: ACaptureSnapshot)
next
  case (AGetSnapshotImage ff cam mac opts)
  have "cache_change w (\<lambda>k t. False) (\<lambda>k t. \<not> truthy (snap_noCache opts) \<and> k = mac \<and> t = snap_cacheTtlMs opts)
      (frame_of ff (snap_timeoutMs opts) cam) s (perform_camera w c s)"
    unfolding AGetSnapshotImage perform_camera.simps
    by (rule change.keeps_run, rule change.keeps_snapshots) (simp_all add: change_capture captureStreamFrame_returns)
  from spec_frame [OF this assms] show ?thesis by (cases "caches_of (sess s)"; cases "caches_of (sess (perform_camera w c s))") (simp add: AGetSnapshotImage)
qed (simp_all only: cache_spec.simps spec_none [OF change.perform_lookups_keep(1) assms] spec_none [OF change.perform_lookups_keep(2) assms]
    spec_none [OF change.perform_lookups_keep(3) assms] spec_none [OF change.perform_lookups_keep(4) assms]
    spec_none [OF change.perform_lookups_keep(5) assms])

lemma call_spec:
  assumes "caches_left w"
  shows "cache_spec c (clock s, clock (perform w c s)) (caches_of (sess s)) (caches_of (sess (perform w c s)))"
proof (cases c)
  case (OnCamera c')
  then show ?thesis using camera_call_spec [OF assms] by simp
qed (simp_all only: cache_spec.simps perform.simps spec_none [OF change.perform_parts_keep(1) assms]
    spec_none [OF change.perform_parts_keep(2) assms] spec_none [OF change.perform_parts_keep(3) assms]
    spec_none [OF change.perform_parts_keep(4) assms] spec_none [OF change.perform_parts_keep(5) assms])

text \<open>The keys of stream information a call is about.\<close>

fun concerns :: "api_call \<Rightarrow> string \<Rightarrow> bool" where
  "concerns (OnCamera (AGetConnectionInfo mac model opts)) k = (k = stream_key mac model opts)"
| "concerns (OnCamera (AGetConnectionInfoWithReconnect mac model opts n base)) k = (k = stream_key mac model opts)"
| "concerns (OnCamera (AClearStreamCache mac)) k = (truthy mac \<longrightarrow> startsWith k (js_String mac @ '':''))"
| "concerns c k = False"

lemma spec_concerns:
  assumes "cache_spec c time before after" and "\<not> concerns c k"
  shows "fst after k = fst before k"
  using assms by (induction c time before after rule: cache_spec.induct) (auto simp: stores_def restrict_map_def split: prod.splits if_splits)

lemma others_keep_entry:
  assumes "caches_left w" and "\<And>c. c \<in> set cs \<Longrightarrow> \<not> concerns c k"
  shows "fst (caches_of (sess (fold (perform w) cs s))) k = fst (caches_of (sess s)) k"
  using assms(2)
proof (induction cs arbitrary: s)
  case (Cons c cs)
  then show ?case using spec_concerns [OF call_spec [OF assms(1), of c s]] by simp
qed simp

lemma stream_shape_iff:
  "stream_shape v \<longleftrightarrow> (\<exists>url ice tok. v = JObj [(''signalingUrl'', url), (''iceServers'', JArr ice), (''authToken'', tok)] \<and> list_all ice_ok ice)"
  by (auto simp: stream_shape_def map_eq_Cons_conv split: jsval.splits)

section \<open>What the calls return\<close>

text \<open>Information that is returned was fresh in the cache, or was fetched by this call.\<close>

definition cache_hit :: "jsval \<Rightarrow> jsval \<Rightarrow> stream_options \<Rightarrow> world \<Rightarrow> bool" where
  "cache_hit mac model opts s = (\<not> truthy (noCache opts) \<and>
     (case fst (caches_of (sess s)) (stream_key mac model opts) of None \<Rightarrow> False | Some (v, e) \<Rightarrow> clock s < e))"

lemma connection_info_source:
  assumes "getCameraWebRTCConnectionInfo w mac model opts s = (Ok v, s')" and "caches_ok (sess s)"
  shows "\<exists>b t. stream_shape b \<and> connection_result w mac model opts b (cache_hit mac model opts s) t = (Ok v, s') \<and>
    (if cache_hit mac model opts s
     then t = s \<and> (\<exists>e. fst (caches_of (sess s)) (stream_key mac model opts) = Some (b, e))
     else \<exists>t0. fetch_bundle w mac model opts t0 = (Ok b, t))"
proof -
  have fetched: "stream_shape b" if "fetch_bundle w mac model opts t = (Ok b, t')" for t b t'
    using that by (auto simp: fetch_bundle_def lift_err_def ret_def throw_def dest: stream_bundle_shape elim!: await_OkE split: sum.splits)
  show ?thesis
  proof (cases "cache_hit mac model opts s")
    case True
    then obtain m b e where m: "streamInfoCache (sess s) = Some m" "map_of m (stream_key mac model opts) = Some (b, e)" "clock s < e"
      "\<not> truthy (noCache opts)"
      by (cases "streamInfoCache (sess s)") (auto simp: cache_hit_def caches_of_def split: option.splits)
    then have "connection_result w mac model opts b True s = (Ok v, s')"
      using assms(1) by (simp add: getCameraWebRTCConnectionInfo_def await_def this_get_def Date_now_def ret_def fresh_entry_def stream_key_is)
    moreover have "stream_shape b" using assms(2) m by (auto simp: caches_ok_def dest: ttl_ok_lookup)
    ultimately show ?thesis using True m by (auto simp: caches_of_def)
  next
    case False
    then have "\<exists>t0. await (fetch_bundle w mac model opts) (\<lambda>b. connection_result w mac model opts b False) t0 = (Ok v, s')"
      using assms(1)
      by (auto simp: getCameraWebRTCConnectionInfo_def this_get_def this_set_def Date_now_def ret_def Let_def fresh_entry_def stream_key_is
          cache_hit_def caches_of_def await_run cong: if_cong split: option.splits if_splits)
    then show ?thesis using False fetched by (auto elim!: await_OkE)
  qed
qed

text \<open>The client identifier of a result: the caller's, or one made of the prefix, the address, the time
  and a random part.\<close>

definition made_client_id :: "('a) wyze_scheme \<Rightarrow> jsval \<Rightarrow> jsval \<Rightarrow> int \<Rightarrow> jsval \<Rightarrow> bool" where
  "made_client_id w mac pre now cid = (\<exists>slug n. mac_slug (case mac of JStr m \<Rightarrow> mac | _ \<Rightarrow> attr mac ''mac'') = Inr slug \<and>
     cid = JStr (safe_prefix pre @ ''-'' @ slug @ ''-'' @ show_int now @ ''-'' @ random_hex w n 4))"

lemma made_client_id_safe:
  assumes "\<And>d k. list_all url_safe (random_hex w d k)" and "made_client_id w mac pre now cid"
  shows "\<exists>n. cid = JStr n \<and> list_all url_safe n"
proof -
  have "list_all url_safe (safe_prefix pre)" "url_safe (CHR ''-'')"
    by (auto simp: safe_prefix_def list_all_iff url_safe_def)
  then show ?thesis using assms mac_slug_safe show_int_safe by (auto simp: made_client_id_def)
qed

lemma connection_result_form:
  assumes "connection_result w mac model opts (JObj [(''signalingUrl'', url), (''iceServers'', ice), (''authToken'', tok)]) c s = (Ok v, s')"
  shows "sess s' = sess s \<and> clock s' = clock s \<and> (\<exists>cid. v = JObj ([(''signalingUrl'', url), (''iceServers'', ice), (''authToken'', tok),
      (''mac'', mac), (''model'', model), (''substream'', substream opts), (''cached'', JBool c)] @
      (if truthy (includeClientId opts) then [(''clientId'', cid)] else [])) \<and>
    (truthy (includeClientId opts) \<longrightarrow> (if truthy (clientId opts) then cid = clientId opts
      else made_client_id w mac (clientIdPrefix opts) (clock s') cid)))"
proof (cases "truthy (includeClientId opts) \<and> \<not> truthy (clientId opts)")
  case True
  obtain cid where cid: "createCameraStreamClientId w mac (clientIdPrefix opts) s = (Ok cid, s')"
      "v = set_prop (spread (JObj [(''signalingUrl'', url), (''iceServers'', ice), (''authToken'', tok)])
        [(''mac'', mac), (''model'', model), (''substream'', substream opts), (''cached'', JBool c)]) ''clientId'' cid"
    using assms True by (auto simp: connection_result_def Let_def ret_def elim!: await_OkE)
  have "made_client_id w mac (clientIdPrefix opts) (clock s') cid \<and> sess s' = sess s \<and> clock s' = clock s"
    using cid(1)
    by (cases mac; auto simp: createCameraStreamClientId_def made_client_id_def await_def lift_err_def randomBytes_hex_def Date_now_def
        ret_def throw_def split: sum.splits)
  then show ?thesis using cid(2) True by (auto simp: spread_def)
next
  case False
  then show ?thesis
    using assms by (cases "truthy (includeClientId opts)") (auto simp: connection_result_def Let_def spread_def ret_def await_def)
qed

lemma connection_result_keeps:
  assumes "connection_result w mac model opts b c s = (Ok v, s')" and "stream_shape b"
  shows "sess s' = sess s" and "clock s' = clock s" and "attr v ''cached'' = JBool c"
    and "k \<in> {''signalingUrl'', ''iceServers'', ''authToken''} \<Longrightarrow> attr v k = attr b k"
proof -
  obtain url ice tok where b: "b = JObj [(''signalingUrl'', url), (''iceServers'', JArr ice), (''authToken'', tok)]"
    using assms(2) by (auto simp: stream_shape_iff)
  note form = connection_result_form [OF assms(1) [unfolded b]]
  then show "sess s' = sess s" "clock s' = clock s" by blast+
  from form obtain cid where "v = JObj ([(''signalingUrl'', url), (''iceServers'', JArr ice), (''authToken'', tok), (''mac'', mac),
      (''model'', model), (''substream'', substream opts), (''cached'', JBool c)] @
      (if truthy (includeClientId opts) then [(''clientId'', cid)] else []))" by blast
  then show "attr v ''cached'' = JBool c" "k \<in> {''signalingUrl'', ''iceServers'', ''authToken''} \<Longrightarrow> attr v k = attr b k"
    by (auto simp: b)
qed

lemma returned_is_cached:
  assumes "getCameraWebRTCConnectionInfo w mac model opts s = (Ok v, t)" and "caches_ok (sess s)" and "\<not> truthy (noCache opts)"
  shows "\<exists>b e. fst (caches_of (sess t)) (stream_key mac model opts) = Some (b, e) \<and> attr v ''signalingUrl'' = attr b ''signalingUrl'' \<and>
    attr v ''iceServers'' = attr b ''iceServers'' \<and> attr v ''authToken'' = attr b ''authToken'' \<and>
    (if attr v ''cached'' = JBool True
     then fst (caches_of (sess s)) (stream_key mac model opts) = Some (b, e) \<and> clock s < e
     else e = clock t + cacheTtlMs opts)"
proof -
  obtain b t1 where b: "stream_shape b" "connection_result w mac model opts b (cache_hit mac model opts s) t1 = (Ok v, t)"
    and source: "if cache_hit mac model opts s then t1 = s \<and> (\<exists>e. fst (caches_of (sess s)) (stream_key mac model opts) = Some (b, e))
     else \<exists>t0. fetch_bundle w mac model opts t0 = (Ok b, t1)"
    using connection_info_source [OF assms(1,2)] by blast
  note result = connection_result_keeps [OF b(2,1)]
  show ?thesis
  proof (cases "cache_hit mac model opts s")
    case True
    then show ?thesis using source result by (auto simp: cache_hit_def)
  next
    case False
    then obtain t0 where "fetch_bundle w mac model opts t0 = (Ok b, t1)" using source by auto
    from fetch_bundle_stored [OF this assms(3)] show ?thesis
      using False result by (auto simp: caches_of_def map_of_map_set stream_key_is)
  qed
qed


lemma demo_caches [simp]: "rely_caches (demo service)" "caches_ok (sess demo_cached_world)" "caches_left (demo service)"
  by (simp_all add: rely_caches_def caches_left_def demo_cached_world_def caches_ok_def ttl_ok_def)

text \<open>C37. The stream information a call returns has one form, whether it comes from the service or out
  of the cache, and whatever was called before: the signaling URL, the ICE servers, each an
  object with an address under \<open>urls\<close>, the token, what was asked for, whether it was cached, which
  it is exactly when the call may use the cache and a fresh entry is there, and, if one was
  wanted, a client identifier: the caller's, or otherwise one made of the cleaned prefix, the end
  of the address, the time and a random part, of letters, digits, underscores and hyphens only.\<close>

theorem connection_info_form:
  assumes "history w s t" and "rely_caches w" and "caches_ok (sess s)" and "\<And>d k. list_all url_safe (random_hex w d k)"
    and "getCameraWebRTCConnectionInfo w mac model opts t = (Ok v, t')"
  shows "\<exists>url ice tok cid. v = JObj ([(''signalingUrl'', url), (''iceServers'', JArr ice), (''authToken'', tok), (''mac'', mac),
      (''model'', model), (''substream'', substream opts), (''cached'', JBool (cache_hit mac model opts t))] @
      (if truthy (includeClientId opts) then [(''clientId'', cid)] else [])) \<and>
    list_all ice_ok ice \<and>
    (truthy (includeClientId opts) \<longrightarrow> (if truthy (clientId opts) then cid = clientId opts
      else made_client_id w mac (clientIdPrefix opts) (clock t') cid \<and> (\<exists>n. cid = JStr n \<and> list_all url_safe n)))"
proof -
  have "caches_ok (sess t)"
    using caches.history_keeps [OF assms(1)] assms(2,3) by (simp add: caches_kept_def caches_stay_def)
  from connection_info_source [OF assms(5) this] obtain b t1 url ice tok
    where b: "b = JObj [(''signalingUrl'', url), (''iceServers'', JArr ice), (''authToken'', tok)]" and ice: "list_all ice_ok ice"
      and result: "connection_result w mac model opts b (cache_hit mac model opts t) t1 = (Ok v, t')" by (auto simp: stream_shape_iff)
  from connection_result_form [OF result [unfolded b]] ice made_client_id_safe [OF assms(4)] show ?thesis by (metis (no_types, lifting))
qed


lemma demo_connection_info:
  "\<exists>v s'. getCameraWebRTCConnectionInfo (demo demo_stream) (JStr ''A'') (JStr ''M'') default_stream_options demo_cached_world = (Ok v, s')"
proof -
  obtain b s1 where fetch: "fetch_bundle (demo demo_stream) (JStr ''A'') (JStr ''M'') default_stream_options demo_cached_world = (Ok b, s1)"
    using demo_fetch by blast
  from fetch_bundle_stored [OF fetch] obtain url ice tok
    where b: "b = JObj [(''signalingUrl'', url), (''iceServers'', ice), (''authToken'', tok)]"
    by (auto simp: default_stream_options_def)
  have "streamInfoCache (sess demo_cached_world) = Some []" by (simp add: demo_cached_world_def)
  then have "getCameraWebRTCConnectionInfo (demo demo_stream) (JStr ''A'') (JStr ''M'') default_stream_options demo_cached_world =
      connection_result (demo demo_stream) (JStr ''A'') (JStr ''M'') default_stream_options b False s1"
    using fetch by (simp add: getCameraWebRTCConnectionInfo_def this_get_def Date_now_def fresh_entry_def ret_def await_def)
  then show ?thesis unfolding b using connection_result_text by metis
qed

theorem connection_info_form_witness:
  "\<exists>v s' url ice tok cid.
     getCameraWebRTCConnectionInfo (demo demo_stream) (JStr ''A'') (JStr ''M'') default_stream_options
       (perform (demo demo_stream) (OnCamera (AClearStreamCache JNull)) demo_cached_world) = (Ok v, s') \<and>
     v = JObj [(''signalingUrl'', url), (''iceServers'', JArr ice), (''authToken'', tok), (''mac'', JStr ''A''), (''model'', JStr ''M''),
       (''substream'', JBool False), (''cached'', JBool False), (''clientId'', cid)] \<and>
     made_client_id (demo demo_stream) (JStr ''A'') (JStr ''viewer'') (clock s') cid"
proof -
  let ?w = "demo demo_stream" and ?t = "perform (demo demo_stream) (OnCamera (AClearStreamCache JNull)) demo_cached_world"
  have t: "?t = demo_cached_world"
    by (simp add: clearCameraStreamCache_def clear_key_def await_def this_get_def this_set_def demo_cached_world_def demo_world_def)
  obtain v s' where run: "getCameraWebRTCConnectionInfo ?w (JStr ''A'') (JStr ''M'') default_stream_options ?t = (Ok v, s')"
    unfolding t using demo_connection_info by blast
  have history: "history ?w demo_cached_world ?t" by (intro history.call history.none)
  from connection_info_form [OF history demo_caches(1,2) demo_hex run] obtain url ice tok cid
    where "v = JObj ([(''signalingUrl'', url), (''iceServers'', JArr ice), (''authToken'', tok), (''mac'', JStr ''A''),
      (''model'', JStr ''M''), (''substream'', substream default_stream_options),
      (''cached'', JBool (cache_hit (JStr ''A'') (JStr ''M'') default_stream_options ?t))] @
      (if truthy (includeClientId default_stream_options) then [(''clientId'', cid)] else []))"
    and "truthy (includeClientId default_stream_options) \<longrightarrow> (if truthy (clientId default_stream_options) then cid = clientId default_stream_options
      else made_client_id ?w (JStr ''A'') (clientIdPrefix default_stream_options) (clock s') cid \<and> (\<exists>n. cid = JStr n \<and> list_all url_safe n))"
    by blast
  moreover have "\<not> cache_hit (JStr ''A'') (JStr ''M'') default_stream_options ?t"
    unfolding t by (simp add: cache_hit_def demo_cached_world_def caches_of_def)
  ultimately show ?thesis
    using run
    by (intro exI [of _ v] exI [of _ s'] exI [of _ url] exI [of _ ice] exI [of _ tok] exI [of _ cid])
      (simp add: default_stream_options_def del: perform.simps)
qed

end
