(* ===== verification/Wyze_Viewer.thy ===== *)
theory Wyze_Viewer
  imports Wyze_Caches
begin

text \<open>
  The web server \<open>example/viewer.js\<close> that puts a browser in front of the camera calls.

  Node's URL parser, the page on disk, the sites thumbnails are fetched from and the capture of a
  frame are outside: they are the fields of \<open>viewer\<close>. A reply is what the handler gives to
  \<open>writeHead\<close> and \<open>end\<close>. A thumbnail is piped from the other site after the handler has
  returned; its reply is the one that comes of it.

  The laws: every request is replied to, whatever is asked, if the renewal's own token is not
  rejected and captures settle; a request that is not understood does nothing; the streams the
  viewer hands out are fresh; and its snapshots are images of the camera.
\<close>

section \<open>The web server\<close>

record page_url =
  pathname :: string
  searchParams :: "(string \<times> string) list"

record browser_request =
  req_verb :: string
  req_target :: string
  req_host :: jsval

text \<open>What comes of \<open>client.get(thumbUrl, ...)\<close>: it throws, the request fails, or there is an
  answer with its status, content type and body, which may break off.\<close>

datatype upstream =
    GetThrows err
  | GetFails err
  | GetAnswers int jsval string bool

record viewer =
  URL :: "string \<Rightarrow> string \<Rightarrow> err + page_url"
  viewerHtml :: "nat \<Rightarrow> err + string"
  site :: "string \<Rightarrow> nat \<Rightarrow> string \<Rightarrow> upstream"
  frames :: capture

record reply =
  reply_status :: int
  reply_headers :: jsval
  reply_body :: jsval
  reply_ended :: bool

definition sendJson :: "int \<Rightarrow> jsval \<Rightarrow> reply" where
  "sendJson statusCode payload = \<lparr>reply_status = statusCode,
     reply_headers = JObj [(''Content-Type'', JStr ''application/json'')], reply_body = JStr (stringify payload), reply_ended = True\<rparr>"

definition sendHtml :: "string \<Rightarrow> reply" where
  "sendHtml html = \<lparr>reply_status = 200,
     reply_headers = JObj [(''Content-Type'', JStr ''text/html; charset=utf-8'')], reply_body = JStr html, reply_ended = True\<rparr>"

text \<open>\<open>searchParams.get(name)\<close>: the first value of the name, or \<open>null\<close>.\<close>

definition search_get :: "page_url \<Rightarrow> string \<Rightarrow> jsval" where
  "search_get u name = (case map_of (searchParams u) name of None \<Rightarrow> JNull | Some v \<Rightarrow> JStr v)"

definition error_json :: "string \<Rightarrow> jsval" where
  "error_json message = JObj [(''error'', JStr message)]"

definition page_route :: "viewer \<Rightarrow> reply action" where
  "page_route V = (\<lambda>s. lift_err (case viewerHtml V (ticks s) of Inl e \<Rightarrow> Inl e | Inr html \<Rightarrow> Inr (sendHtml html)) s)"

definition cameras_route :: "('a) wyze_scheme \<Rightarrow> reply action" where
  "cameras_route w =
     await (maybeLogin w) (\<lambda>_.
     await (getCameraSummaries w) (\<lambda>cameras.
       ret (sendJson 200 (JObj [(''cameras'', cameras)]))))"

definition stream_params_route :: "('a) wyze_scheme \<Rightarrow> page_url \<Rightarrow> reply action" where
  "stream_params_route w u =
     (let mac = search_get u ''mac''; productModel = search_get u ''productModel'';
          sub = JBool (search_get u ''substream'' = JStr ''true'') in
      if \<not> truthy mac \<or> \<not> truthy productModel then ret (sendJson 400 (error_json ''Missing mac or productModel''))
      else
        await (maybeLogin w) (\<lambda>_.
        await (getCameraWebRTCConnectionInfo w mac productModel
                 (default_stream_options\<lparr>substream := sub, noCache := JBool True\<rparr>)) (\<lambda>params.
          ret (sendJson 200 (JObj [(''params'', params), (''cached'', attr params ''cached'')])))))"

definition snapshot_reply :: "jsval \<Rightarrow> reply" where
  "snapshot_reply img = \<lparr>reply_status = 200,
     reply_headers = JObj
       [(''Content-Type'', JStr ''image/jpeg''), (''Content-Length'', attr (attr img ''buffer'') ''length''),
        (''Cache-Control'', JStr ''public, max-age=10''), (''X-Snapshot-Source'', attr img ''source'')],
     reply_body = attr img ''buffer'', reply_ended = True\<rparr>"

definition snapshot_route :: "viewer \<Rightarrow> ('a) wyze_scheme \<Rightarrow> page_url \<Rightarrow> reply action" where
  "snapshot_route V w u =
     (case search_get u ''mac'' of
        JStr (c # mac) \<Rightarrow>
          await (maybeLogin w) (\<lambda>_.
            try_catch
              (await (getCameraSnapshotImage (frames V) w (c # mac) default_snapshot_options) (\<lambda>img.
                 ret (snapshot_reply img)))
              (\<lambda>error. ret (sendJson 502 (error_json (''Snapshot failed: '' @ err_message error)))))
      | _ \<Rightarrow> ret (sendJson 400 (error_json ''Missing mac'')))"

definition thumbnail_route :: "viewer \<Rightarrow> page_url \<Rightarrow> reply action" where
  "thumbnail_route V u = (\<lambda>s.
     case search_get u ''url'' of
        JStr (c # thumbUrl) \<Rightarrow>
          (let client = (if startsWith (c # thumbUrl) ''https'' then ''https'' else ''http'') in
           case site V client (ticks s) (c # thumbUrl) of
             GetThrows e \<Rightarrow> throw e s
           | GetFails e \<Rightarrow> ret (sendJson 502 (error_json (err_message e))) s
           | GetAnswers status contentType body whole \<Rightarrow> ret
               \<lparr>reply_status = status,
                reply_headers = JObj [(''Content-Type'', js_or contentType (JStr ''image/jpeg'')),
                                      (''Cache-Control'', JStr ''public, max-age=60'')],
                reply_body = JStr body, reply_ended = whole\<rparr> s)
      | _ \<Rightarrow> ret (sendJson 400 (error_json ''Missing url'')) s)"

definition devices_route :: "('a) wyze_scheme \<Rightarrow> reply action" where
  "devices_route w =
     await (maybeLogin w) (\<lambda>_.
     await (getCameras w) (\<lambda>cameras.
     await (lift_err (member cameras ''length'')) (\<lambda>count.
       ret (sendJson 200 (JObj [(''count'', count), (''cameras'', cameras)])))))"

text \<open>The conditions of the handler, in its order.\<close>

definition route :: "viewer \<Rightarrow> ('a) wyze_scheme \<Rightarrow> string \<Rightarrow> page_url \<Rightarrow> reply action" where
  "route V w verb u =
     (if verb = ''GET'' \<and> pathname u = ''/'' then page_route V
      else if verb = ''GET'' \<and> pathname u = ''/api/cameras'' then cameras_route w
      else if verb = ''GET'' \<and> pathname u = ''/api/stream-params'' then stream_params_route w u
      else if verb = ''GET'' \<and> pathname u = ''/api/snapshot'' then snapshot_route V w u
      else if verb = ''GET'' \<and> pathname u = ''/api/thumbnail'' then thumbnail_route V u
      else if verb = ''GET'' \<and> pathname u = ''/api/health'' then ret (sendJson 200 (JObj [(''ok'', JBool True)]))
      else if verb = ''GET'' \<and> pathname u = ''/api/debug/devices'' then devices_route w
      else ret (sendJson 404 (error_json ''Not found'')))"

definition failure_json :: "err \<Rightarrow> jsval" where
  "failure_json error = JObj
     [(''error'', JStr (err_message error)),
      (''response'', case err_response error of None \<Rightarrow> JNull | Some r \<Rightarrow> js_or (attr r ''data'') JNull)]"

definition serve :: "viewer \<Rightarrow> ('a) wyze_scheme \<Rightarrow> browser_request \<Rightarrow> reply action" where
  "serve V w rq =
     try_catch
       (await (lift_err (URL V (req_target rq) (''http://'' @ js_String (req_host rq)))) (\<lambda>requestUrl.
          route V w (req_verb rq) requestUrl))
       (\<lambda>error. ret (sendJson 500 (failure_json error)))"

section \<open>Every request is replied to\<close>

text \<open>The budgets of the calls behind the routes.\<close>

lemma budget_getCameras:
  assumes "renewal_answers w" and "151 \<le> fuel w"
  shows "budget w 12 (getCameras w)"
  unfolding getCameras_def getDevicesByType_def filter_devices_def
  by (rule budget_mono, (rule budget_getDeviceList [OF assms] budget_intros frame_intros)+) simp

lemma budget_camera_calls:
  assumes "renewal_answers w" and "151 \<le> fuel w"
  shows "budget w 12 (getCameraSummaries w)" and "budget w 12 (getCamera w mac)" and "budget w 12 (getCameraSnapshot w mac)"
proof -
  show "budget w 12 (getCameraSummaries w)"
    unfolding getCameraSummaries_def
    by (rule budget_mono, (rule budget_getCameras [OF assms] budget_intros frame_intros)+) simp
  show camera: "budget w 12 (getCamera w mac)"
    unfolding getCamera_def find_camera_def
    by (rule budget_mono, (rule budget_getCameras [OF assms] budget_intros frame_intros)+) simp
  show "budget w 12 (getCameraSnapshot w mac)"
    unfolding getCameraSnapshot_def
    by (rule budget_mono, (rule camera budget_intros frame_intros)+) simp
qed

text \<open>A camera whose captures settle, whatever their timeout, and leave nothing unhandled.\<close>

definition capture_settles :: "string \<Rightarrow> camera_side \<Rightarrow> bool" where
  "capture_settles ff cam = (\<forall>n ms. settled (phase (capture_run ff ms (cam n))) \<and> unhandled (capture_run ff ms (cam n)) = None)"

lemma budget_captureStreamFrame:
  assumes "capture_settles ff cam"
  shows "budget w 0 (captureStreamFrame w ff cam u i t)"
proof (rule budgetI)
  fix s :: world
  have "settled (phase (capture_run ff t (cam (ticks s))))" "unhandled (capture_run ff t (cam (ticks s))) = None"
    using assms by (simp_all add: capture_settles_def)
  then show "fst (captureStreamFrame w ff cam u i t s) \<noteq> OutOfFuel \<and>
      http_count (snd (captureStreamFrame w ff cam u i t s)) \<le> http_count s + 0"
    by (cases "phase (capture_run ff t (cam (ticks s)))")
      (auto simp: captureStreamFrame_def http_count_def split: sum.splits)
qed

lemma budget_getCameraSnapshotImage:
  assumes "renewal_answers w" and "151 \<le> fuel w" and "capture_settles ff cam"
  shows "budget w 31 (getCameraSnapshotImage (captureStreamFrame w ff cam) w mac opts)"
  unfolding getCameraSnapshotImage_def cloud_image_def cameraCaptureSnapshot_def capture_now_def
  by (rule budget_mono, (rule budget_camera_calls [OF assms(1,2)] budget_getCameraWebRTCConnectionInfo [OF assms(1,2)]
        budget_captureStreamFrame [OF assms(3)] budget_intros frame_intros)+) simp

lemma page_route_world: "snd (page_route V s) = s" "fst (page_route V s) \<noteq> OutOfFuel"
  by (auto simp: page_route_def lift_err_def ret_def throw_def split: sum.splits)

lemma thumbnail_route_world: "snd (thumbnail_route V u s) = s" "fst (thumbnail_route V u s) \<noteq> OutOfFuel"
  by (auto simp: thumbnail_route_def ret_def throw_def Let_def split: jsval.splits list.splits upstream.splits)

context cache_frame
begin

lemma keeps_routes:
  assumes "\<And>u i t. keeps R (frames V u i t)" and "\<And>u i t. returns (frames V u i t) good" and "\<And>mac ttl. may_frame mac ttl"
  shows "keeps R (route V w verb u)"
proof -
  have info: "keeps R (getCameraWebRTCConnectionInfo w m d (default_stream_options\<lparr>substream := b, noCache := JBool True\<rparr>))" for m d b
    by (rule keeps_connection_info) simp
  have "keeps R (page_route V)" "keeps R (thumbnail_route V u)"
    by (auto intro!: keepsI simp: page_route_world thumbnail_route_world frame_refl)
  moreover have "keeps R (cameras_route w)" "keeps R (stream_params_route w u)" "keeps R (devices_route w)"
    unfolding cameras_route_def stream_params_route_def devices_route_def Let_def by (intro frame_intros info)+
  moreover have "keeps R (snapshot_route V w u)"
    unfolding snapshot_route_def by (auto intro!: frame_intros keeps_snapshots assms split: jsval.split list.split)
  ultimately show ?thesis unfolding route_def by (auto intro: frame_intros)
qed

end

lemma budget_route:
  assumes "renewal_answers w" and "151 \<le> fuel w" and "capture_settles ff cam" and "frames V = captureStreamFrame w ff cam"
  shows "budget w 34 (route V w verb u)"
proof -
  have quiet: "budget w k (page_route V)" "budget w k (thumbnail_route V u)" "budget w k (ret x)" for k and x :: reply
    by (auto intro!: budgetI simp: page_route_world thumbnail_route_world ret_def)
  have "budget w 34 (cameras_route w)" "budget w 34 (devices_route w)" "budget w 34 (stream_params_route w u)"
    unfolding cameras_route_def devices_route_def stream_params_route_def Let_def
    by (rule budget_mono, (rule assms budget_maybeLogin [OF assms(1,2)] budget_camera_calls [OF assms(1,2)] budget_getCameras [OF assms(1,2)]
          budget_getCameraWebRTCConnectionInfo [OF assms(1,2)] budget_intros frame_intros)+, simp)+
  moreover have "budget w 34 (await (maybeLogin w) (\<lambda>_. try_catch
      (await (getCameraSnapshotImage (frames V) w mac default_snapshot_options) (\<lambda>img. ret (snapshot_reply img))) (\<lambda>e. ret (h e))))"
    for mac and h :: "err \<Rightarrow> reply"
    unfolding assms(4)
    by (rule budget_mono, (rule budget_maybeLogin [OF assms(1,2)] budget_getCameraSnapshotImage [OF assms(1-3)]
          deb.keeps_snapshot_calls captureStreamFrame_returns budget_intros frame_intros)+) simp
  then have "budget w 34 (snapshot_route V w u)"
    unfolding snapshot_route_def by (auto intro: quiet split: jsval.split list.split)
  ultimately show ?thesis unfolding route_def by (auto intro: quiet)
qed


text \<open>A reply that explains itself: a success, or a JSON object whose first member is the error
  message.\<close>

definition explained :: "reply \<Rightarrow> bool" where
  "explained rep = (reply_ended rep \<and> (reply_status rep = 200 \<or> reply_status rep \<in> {400, 404, 500, 502} \<and>
     (\<exists>message rest. reply_body rep = JStr (stringify (JObj ((''error'', JStr message) # rest))))))"

lemma explained_sendJson [simp]:
  "explained (sendJson 200 v)" "c \<in> {400, 404, 500, 502} \<Longrightarrow> explained (sendJson c (error_json m))"
  "explained (sendJson 500 (failure_json e))" "explained (sendHtml h)" "explained (snapshot_reply v)"
  unfolding explained_def sendJson_def sendHtml_def snapshot_reply_def error_json_def failure_json_def
  by (auto simp del: stringify.simps)

text \<open>The reply of the thumbnail route is the other site's, if there is one.\<close>

definition proxied :: "viewer \<Rightarrow> reply \<Rightarrow> bool" where
  "proxied V rep = (\<exists>client t url status contentType body whole. site V client t url = GetAnswers status contentType body whole \<and>
     reply_status rep = status \<and> reply_body rep = JStr body \<and> reply_ended rep = whole)"

lemma returns_route: "returns (route V w verb u) (\<lambda>rep. explained rep \<or> pathname u = ''/api/thumbnail'' \<and> proxied V rep)"
proof -
  have "returns (page_route V) explained" "returns (thumbnail_route V u) (\<lambda>rep. explained rep \<or> proxied V rep)"
    by (auto simp: returns_def page_route_def thumbnail_route_def lift_err_def ret_def throw_def Let_def proxied_def
        split: sum.splits jsval.splits list.splits upstream.splits)
  moreover have "returns (cameras_route w) explained" "returns (stream_params_route w u) explained" "returns (devices_route w) explained"
    unfolding cameras_route_def stream_params_route_def devices_route_def Let_def by (auto intro!: returns_intros)
  moreover have "returns (snapshot_route V w u) explained"
    unfolding snapshot_route_def by (auto intro!: returns_intros split: jsval.split list.split)
  ultimately show ?thesis
    unfolding route_def by (auto simp: returns_def ret_def)
qed

text \<open>A viewer whose URLs are read as a path and fixed parameters, and whose captures go well.\<close>

definition demo_viewer :: "(string \<times> string) list \<Rightarrow> viewer" where
  "demo_viewer ps = \<lparr>URL = (\<lambda>target base. Inr \<lparr>pathname = target, searchParams = ps\<rparr>), viewerHtml = (\<lambda>_. Inr ''<html>''),
     site = (\<lambda>_ _ _. GetFails (Error ''ECONNREFUSED'')), frames = captureStreamFrame (demo (answering [(''code'', JNum 1)])) ''ffmpeg'' (\<lambda>_. (Started 5004, demo_events))\<rparr>"

definition demo_get :: "string \<Rightarrow> browser_request" where
  "demo_get path = \<lparr>req_verb = ''GET'', req_target = path, req_host = JStr ''localhost:3030''\<rparr>"

lemma serve_replies:
  assumes "renewal_answers w" and "151 \<le> fuel w" and "rely_debounce w" and "debounce_ok (sess s)"
    and "capture_settles ff cam" and "frames V = captureStreamFrame w ff cam"
  shows "\<exists>rep s'. serve V w rq s = (Ok rep, s') \<and> http_count s' \<le> http_count s + 34 \<and> (explained rep \<or> proxied V rep) \<and> debounce_ok (sess s')"
proof (cases "URL V (req_target rq) (''http://'' @ js_String (req_host rq))")
  case (Inl e)
  then show ?thesis using assms(4) by (simp add: serve_def) (simp add: ret_def)
next
  case (Inr u)
  obtain r s' where run: "route V w (req_verb rq) u s = (r, s')" by fastforce
  note bound = budgetD [OF budget_route [OF assms(1,2,5,6)] assms(3,4) run]
  have "keeps (debounce_kept w) (route V w (req_verb rq) u)"
    by (rule deb.keeps_routes) (simp_all add: assms(6) deb.keeps_capture captureStreamFrame_returns)
  from keepsD [OF this run] have ok: "debounce_ok (sess s')" using assms(3,4) by (simp add: debounce_kept_def)
  show ?thesis
  proof (cases r)
    case (Ok rep)
    then show ?thesis
      using returnsD [OF returns_route, of V w "req_verb rq" u s rep s'] run Inr bound ok by (auto simp: serve_def try_catch_def)
  qed (use run Inr bound ok in \<open>auto simp: serve_def try_catch_def, simp add: ret_def\<close>)
qed

text \<open>Requests one after the other, on the same client.\<close>

primrec serve_all :: "viewer \<Rightarrow> ('a) wyze_scheme \<Rightarrow> browser_request list \<Rightarrow> reply list action" where
  "serve_all V w [] = ret []"
| "serve_all V w (rq # rqs) = await (serve V w rq) (\<lambda>rep. await (serve_all V w rqs) (\<lambda>reps. ret (rep # reps)))"

context cache_frame
begin

lemma keeps_serve_all:
  assumes "\<And>u i t. keeps R (frames V u i t)" and "\<And>u i t. returns (frames V u i t) good" and "\<And>mac ttl. may_frame mac ttl"
  shows "keeps R (serve_all V w rqs)"
proof -
  have "keeps R (serve V w rq)" for rq
    unfolding serve_def by (intro frame_intros keeps_routes assms)
  then show ?thesis by (induction rqs) (simp_all add: keeps_ret keeps_await)
qed

end

text \<open>With its keys and the password given, a client leaves no failure of its own unhandled; what can go
  unhandled is the continuation of a login nobody awaits, which is not part of the call.\<close>

primrec is_unhandled :: "event \<Rightarrow> bool" where
  "is_unhandled (EUnhandled e) = True"
| "is_unhandled (EHttp q) = False"
| "is_unhandled (ESleep t) = False"
| "is_unhandled (EWrite p c) = False"

definition calm :: "('a) wyze_scheme \<Rightarrow> world \<Rightarrow> world \<Rightarrow> bool" where
  "calm w s t = (keys_given w \<longrightarrow> filter is_unhandled (trace t) = filter is_unhandled (trace s))"

interpretation calm: cache_frame "calm w" w "\<lambda>k ttl. True" "\<lambda>k ttl. True" "\<lambda>mac. True" is_buffer for w
  by unfold_locales
    (auto simp: calm_def axios_request_def set_timeout_def readFile_def writeFile_def await_point_def split: option.splits)

lemma serve_all_calm:
  assumes "capture_settles ff cam" and "frames V = captureStreamFrame w ff cam"
  shows "keeps (calm w) (serve_all V w rqs)"
proof (rule calm.keeps_serve_all)
  have "\<forall>n. unhandled (capture_run ff t (cam n)) = None" for t using assms(1) by (simp add: capture_settles_def)
  then show "keeps (calm w) (frames V u i t)" for u i t
    unfolding assms(2) by (intro calm.keeps_captureStreamFrame) simp
qed (simp_all add: assms(2) captureStreamFrame_returns)

text \<open>C16. The viewer replies to every request: whatever the browsers ask for and in whatever order, whatever
  the file system and other sites do, whatever the Wyze service answers, as long as it does not
  reject the renewal's own token, and however other requests interleave, each request has its
  one reply, after at most thirty-four requests to the service, and no rejection is left
  unhandled by the handlers. The reply is a success or explains itself with an error message,
  unless it is passed on from the site a thumbnail was fetched from. This is for captures that
  settle and leave nothing unhandled themselves, and a client that has its keys and password; what
  becomes of a login that a handler started and did not await is not covered.\<close>

theorem viewer_replies:
  assumes "renewal_answers w" and "151 \<le> fuel w" and "rely_debounce w" and "debounce_ok (sess s)" and "keys_given w"
    and "capture_settles ff cam" and "frames V = captureStreamFrame w ff cam"
  shows "\<exists>reps s'. serve_all V w rqs s = (Ok reps, s') \<and> length reps = length rqs \<and>
    http_count s' \<le> http_count s + 34 * length rqs \<and> list_all (\<lambda>rep. explained rep \<or> proxied V rep) reps \<and>
    filter is_unhandled (trace s') = filter is_unhandled (trace s)"
proof -
  have "\<exists>reps s'. serve_all V w rqs s = (Ok reps, s') \<and> length reps = length rqs \<and>
      http_count s' \<le> http_count s + 34 * length rqs \<and> list_all (\<lambda>rep. explained rep \<or> proxied V rep) reps"
    using assms(4)
  proof (induction rqs arbitrary: s)
    case Nil
    show ?case by (simp add: ret_def)
  next
    case (Cons rq rqs)
    obtain rep s1 where serve: "serve V w rq s = (Ok rep, s1)" "http_count s1 \<le> http_count s + 34" "explained rep \<or> proxied V rep"
      "debounce_ok (sess s1)"
      using serve_replies [OF assms(1-3) Cons.prems assms(6,7)] by blast
    from Cons.IH [OF serve(4)] serve(1-3) show ?case by (fastforce simp: await_def ret_def)
  qed
  then obtain reps s' where run: "serve_all V w rqs s = (Ok reps, s')" and rest: "length reps = length rqs"
    "http_count s' \<le> http_count s + 34 * length rqs" "list_all (\<lambda>rep. explained rep \<or> proxied V rep) reps" by blast
  from keepsD [OF serve_all_calm [OF assms(6,7)] run] assms(5) have "filter is_unhandled (trace s') = filter is_unhandled (trace s)"
    by (simp add: calm_def)
  with run rest show ?thesis by blast
qed

lemma demo_capture_alive: "unhandled (run_events ff ms demo_events (start_capture (Started port))) = None"
  by (simp add: demo_events_def run_simps_capture send_def sendSignal_def on_message_def demo_answer_type)

lemma demo_capture_settles: "capture_settles ff (\<lambda>_. (Started 5004, demo_events))"
  unfolding capture_settles_def capture_run_def fst_conv snd_conv demo_capture_run(1) demo_capture_alive by simp

theorem viewer_replies_witness:
  "\<exists>reps s'. serve_all (demo_viewer [(''mac'', ''A'')]) (demo (answering [(''code'', JNum 1)])) [demo_get ''/api/snapshot'', demo_get ''/x''] (demo_world ''t'') =
     (Ok reps, s') \<and> length reps = length [demo_get ''/api/snapshot'', demo_get ''/x''] \<and>
     http_count s' \<le> http_count (demo_world ''t'') + 34 * length [demo_get ''/api/snapshot'', demo_get ''/x''] \<and>
     list_all (\<lambda>rep. explained rep \<or> proxied (demo_viewer [(''mac'', ''A'')]) rep) reps \<and>
     filter is_unhandled (trace s') = filter is_unhandled (trace (demo_world ''t''))"
  by (rule viewer_replies [OF _ _ _ _ _ demo_capture_settles [of "''ffmpeg''"]])
    (simp_all add: demo_viewer_def renewal_answers_def answering_def token_expired_def answer_ok_def answer_code_def keys_given_def)

section \<open>Requests that are not understood do nothing\<close>

text \<open>The parameters a route requires.\<close>

definition required :: "string \<Rightarrow> string list" where
  "required path = (if path = ''/api/stream-params'' then [''mac'', ''productModel'']
     else if path = ''/api/snapshot'' then [''mac''] else if path = ''/api/thumbnail'' then [''url''] else [])"

definition routes :: "string list" where
  "routes = [''/'', ''/api/cameras'', ''/api/stream-params'', ''/api/snapshot'', ''/api/thumbnail'', ''/api/health'', ''/api/debug/devices'']"

definition understood :: "string \<Rightarrow> page_url \<Rightarrow> bool" where
  "understood verb u = (verb = ''GET'' \<and> pathname u \<in> set routes)"

lemma search_get_cases: "search_get u k = JNull \<or> (\<exists>v. search_get u k = JStr v)"
  by (simp add: search_get_def split: option.splits)

text \<open>C18. A request the viewer does not understand changes nothing: with another method or an unknown path
  it is replied to with 404, without a parameter its route requires (absent or empty) with 400,
  each time with the reason, and without a login, a request, or any other effect. The check of
  the server's health has no effect either.\<close>

theorem viewer_inert:
  assumes "URL V (req_target rq) (''http://'' @ js_String (req_host rq)) = Inr u"
  shows "(\<not> understood (req_verb rq) u \<longrightarrow> serve V w rq s = (Ok (sendJson 404 (error_json ''Not found'')), s)) \<and>
    (understood (req_verb rq) u \<and> (\<exists>k \<in> set (required (pathname u)). \<not> truthy (search_get u k)) \<longrightarrow>
       (\<exists>message. serve V w rq s = (Ok (sendJson 400 (error_json (''Missing '' @ message))), s))) \<and>
    (understood (req_verb rq) u \<and> pathname u = ''/api/health'' \<longrightarrow> serve V w rq s = (Ok (sendJson 200 (JObj [(''ok'', JBool True)])), s))"
proof (intro conjI impI)
  have serve: "serve V w rq s = (r, s)" if "route V w (req_verb rq) u s = (r, s)" "\<exists>rep. r = Ok rep" for r
    using that assms by (auto simp: serve_def try_catch_def)
  show "serve V w rq s = (Ok (sendJson 404 (error_json ''Not found'')), s)" if "\<not> understood (req_verb rq) u"
    using that by (intro serve) (auto simp: understood_def routes_def route_def ret_def)
  show "serve V w rq s = (Ok (sendJson 200 (JObj [(''ok'', JBool True)])), s)"
    if "understood (req_verb rq) u \<and> pathname u = ''/api/health''"
    using that by (intro serve) (auto simp: understood_def route_def ret_def)
  assume missing: "understood (req_verb rq) u \<and> (\<exists>k \<in> set (required (pathname u)). \<not> truthy (search_get u k))"
  then consider "pathname u = ''/api/stream-params''" "\<not> truthy (search_get u ''mac'') \<or> \<not> truthy (search_get u ''productModel'')"
    | "pathname u = ''/api/snapshot''" "\<not> truthy (search_get u ''mac'')"
    | "pathname u = ''/api/thumbnail''" "\<not> truthy (search_get u ''url'')"
    by (auto simp: required_def split: if_splits)
  then show "\<exists>message. serve V w rq s = (Ok (sendJson 400 (error_json (''Missing '' @ message))), s)"
  proof cases
    case 1
    then have "route V w (req_verb rq) u s = (Ok (sendJson 400 (error_json ''Missing mac or productModel'')), s)"
      using missing by (auto simp: understood_def route_def stream_params_route_def Let_def ret_def)
    from serve [OF this] show ?thesis by (intro exI [of _ "''mac or productModel''"]) simp
  next
    case 2
    then have "route V w (req_verb rq) u s = (Ok (sendJson 400 (error_json ''Missing mac'')), s)"
      using missing search_get_cases [of u "''mac''"] by (auto simp: understood_def route_def snapshot_route_def ret_def)
    from serve [OF this] show ?thesis by (intro exI [of _ "''mac''"]) simp
  next
    case 3
    then have "route V w (req_verb rq) u s = (Ok (sendJson 400 (error_json ''Missing url'')), s)"
      using missing search_get_cases [of u "''url''"] by (auto simp: understood_def route_def thumbnail_route_def ret_def)
    from serve [OF this] show ?thesis by (intro exI [of _ "''url''"]) simp
  qed
qed

theorem viewer_inert_witness:
  "\<exists>message. serve (demo_viewer [(''mac'', '''')]) (demo (answering [])) (demo_get ''/api/snapshot'') (demo_world ''t'') =
     (Ok (sendJson 400 (error_json (''Missing '' @ message))), demo_world ''t'')"
  using viewer_inert [of "demo_viewer [(''mac'', '''')]" "demo_get ''/api/snapshot''" "\<lparr>pathname = ''/api/snapshot'', searchParams = [(''mac'', '''')]\<rparr>"]
  by (simp add: demo_viewer_def demo_get_def understood_def routes_def required_def search_get_def)

section \<open>Streams are fresh\<close>

lemma grows_count: "trace_grows s t \<Longrightarrow> http_count s \<le> http_count t"
  by (auto simp: trace_grows_def http_count_def)

text \<open>An action that cannot succeed without a request.\<close>

definition asks :: "'b action \<Rightarrow> bool" where
  "asks m = (\<forall>s r s'. m s = (Ok r, s') \<longrightarrow> http_count s < http_count s')"

lemma asks_axios_post: "asks (axios_post w url d c)"
  by (auto simp: asks_def axios_post_def axios_request_def http_count_def)

lemma asks_first: "asks m \<Longrightarrow> (\<And>v. keeps trace_grows (f v)) \<Longrightarrow> asks (await m f)"
  unfolding asks_def
proof (intro allI impI, elim await_OkE)
  fix s r s' v t
  assume asked: "\<forall>s r s'. m s = (Ok r, s') \<longrightarrow> http_count s < http_count s'" and keeps: "\<And>v. keeps trace_grows (f v)"
    and m: "m s = (Ok v, t)" and f: "f v t = (Ok r, s')"
  have "http_count s < http_count t" using asked m by blast
  also have "http_count t \<le> http_count s'" by (rule grows_count, rule keepsD [OF keeps f])
  finally show "http_count s < http_count s'" .
qed

lemma asks_later: "keeps trace_grows m \<Longrightarrow> (\<And>v. asks (f v)) \<Longrightarrow> asks (await m f)"
  unfolding asks_def
proof (intro allI impI, elim await_OkE)
  fix s r s' v t
  assume keeps: "keeps trace_grows m" and asked: "\<And>v. \<forall>s r s'. f v s = (Ok r, s') \<longrightarrow> http_count s < http_count s'"
    and m: "m s = (Ok v, t)" and f: "f v t = (Ok r, s')"
  have "http_count s \<le> http_count t" by (rule grows_count, rule keepsD [OF keeps m])
  also have "\<dots> < http_count s'" using asked f by blast
  finally show "http_count s < http_count s'" .
qed

lemma asks_stream_info: "asks (cameraGetStreamInfo w mac model sub)"
  unfolding cameraGetStreamInfo_def Let_def logged_id stream_answer_def
  by (rule asks_later asks_first [OF asks_axios_post] | intro frame_intros)+

lemma connection_result_attrs:
  assumes "connection_result w mac model opts (JObj [(''signalingUrl'', url), (''iceServers'', ice), (''authToken'', tok)]) c s = (Ok v, s')"
  shows "attr v ''signalingUrl'' = url \<and> attr v ''iceServers'' = ice \<and> attr v ''mac'' = mac \<and> attr v ''model'' = model \<and>
    attr v ''substream'' = substream opts \<and> attr v ''cached'' = JBool c"
  using assms
  by (auto simp: connection_result_def Let_def spread_def ret_def elim!: await_OkE split: if_splits)

lemma uncached_info:
  assumes "getCameraWebRTCConnectionInfo w mac model opts s = (Ok v, s')" and "truthy (noCache opts)"
  shows "\<exists>info t t'. cameraGetStreamInfo w mac model (substream opts) t = (Ok info, t') \<and> http_count s \<le> http_count t \<and>
    http_count t' \<le> http_count s' \<and> attr v ''signalingUrl'' = normalizeCameraSignalingUrl (attr info ''signaling_url'') \<and>
    attr v ''mac'' = mac \<and> attr v ''model'' = model \<and> attr v ''substream'' = substream opts \<and> attr v ''cached'' = JBool False"
proof -
  let ?t1 = "if streamInfoCache (sess s) = None then s\<lparr>sess := (sess s)\<lparr>streamInfoCache := Some []\<rparr>\<rparr> else s"
  have "await (fetch_bundle w mac model opts) (\<lambda>b. connection_result w mac model opts b False) ?t1 = (Ok v, s')"
    using assms
    by (cases "streamInfoCache (sess s)")
      (simp_all add: getCameraWebRTCConnectionInfo_def await_def this_get_def this_set_def Date_now_def ret_def)
  moreover have "http_count ?t1 = http_count s" by (simp add: http_count_def)
  ultimately obtain t1 b t2 where "http_count t1 = http_count s" and fetch: "fetch_bundle w mac model opts t1 = (Ok b, t2)"
    and result: "connection_result w mac model opts b False t2 = (Ok v, s')"
    by (blast elim: await_OkE)
  moreover obtain info t3 where info: "cameraGetStreamInfo w mac model (substream opts) t1 = (Ok info, t3)"
    and b: "stream_bundle info = Inr b" and t2: "t2 = t3"
    using fetch assms(2) by (auto simp: fetch_bundle_def lift_err_def ret_def throw_def elim!: await_OkE split: sum.splits)
  moreover obtain ice tok where "b = JObj [(''signalingUrl'', normalizeCameraSignalingUrl (attr info ''signaling_url'')), (''iceServers'', ice), (''authToken'', tok)]"
    using b by (auto simp: stream_bundle_def member_def split: sum.splits if_splits)
  moreover have "http_count t3 \<le> http_count s'"
  proof -
    have "keeps trace_grows (connection_result w mac model opts b False)"
      unfolding connection_result_def by (intro frame_intros)
    from keepsD [OF this result] show ?thesis unfolding t2 by (rule grows_count)
  qed
  ultimately show ?thesis
    using connection_result_attrs [of w mac model opts _ ice tok False t2 v s']
    by (intro exI [of _ info] exI [of _ t1] exI [of _ t3]) auto
qed


lemma demo_viewer_stream:
  "\<exists>rep s'. serve (demo_viewer [(''mac'', ''A''), (''productModel'', ''M'')]) (demo demo_stream) (demo_get ''/api/stream-params'') demo_cached_world =
     (Ok rep, s') \<and> reply_status rep = 200"
proof -
  obtain s1 where info: "cameraGetStreamInfo (demo demo_stream) (JStr ''A'') (JStr ''M'') (JBool False) demo_cached_world =
     (Ok (JObj [(''signaling_url'', JStr ''wss://h''), (''ice_servers'', JArr [])]), s1)"
    using demo_stream_info by blast
  obtain slug where slug: "mac_slug (JStr ''A'') = Inr slug" using mac_slug_text by blast
  have "maybeLogin (demo demo_stream) demo_cached_world = (Ok (), demo_cached_world)"
    by (rule maybeLogin_token) (simp add: demo_cached_world_def)
  moreover have "streamInfoCache (sess demo_cached_world) = Some []" by (simp add: demo_cached_world_def)
  ultimately show ?thesis
    using info slug
    by (simp add: serve_def demo_viewer_def demo_get_def route_def stream_params_route_def search_get_def default_stream_options_def)
      (simp add: getCameraWebRTCConnectionInfo_def fetch_bundle_def connection_result_def createCameraStreamClientId_def await_def try_catch_def
        this_get_def Date_now_def randomBytes_hex_def stream_bundle_def sanitizeCameraIceServers_def js_default_def ret_def sendJson_def)
qed


section \<open>Snapshots are images\<close>

text \<open>The request for an image at an address.\<close>

definition image_request :: "jsval \<Rightarrow> http_req" where
  "image_request url = \<lparr>req_method = JStr ''GET'', req_url = url, req_baseURL = JUndef, req_data = JUndef, req_params = JUndef,
     req_headers = JUndef\<rparr>"

lemma cloud_image_origin:
  assumes "cloud_image w mac opts s = (Ok (Some v), s')"
  shows "\<exists>camera t bytes answer. getCamera w (JStr mac) s = (Ok camera, t) \<and> truthy camera \<and>
    v = JObj [(''buffer'', JStr bytes), (''source'', JStr ''cloud'')] \<and>
    axios w (ticks t) (image_request (attr (cameraGetSnapshot camera) ''url'')) = Inr answer \<and> attr answer ''data'' = JStr bytes \<and>
    s' = sent w (image_request (attr (cameraGetSnapshot camera) ''url'')) t"
proof -
  obtain camera t where camera: "getCamera w (JStr mac) s = (Ok camera, t)" "truthy camera" and get: "try_catch
      (await (axios_request w (image_request (attr (cameraGetSnapshot camera) ''url''))) (\<lambda>resp.
       await (lift_err (member resp ''data'')) (\<lambda>data.
       await (lift_err (buffer_from data)) (\<lambda>buffer.
         ret (Some (JObj [(''buffer'', buffer), (''source'', JStr ''cloud'')]))))))
      (\<lambda>err. ret None) t = (Ok (Some v), s')"
    using assms by (auto simp: cloud_image_def getCameraSnapshot_def image_request_def ret_def elim!: await_OkE split: if_splits)
  let ?q = "image_request (attr (cameraGetSnapshot camera) ''url'')"
  obtain answer bytes where "axios w (ticks t) ?q = Inr answer" "attr answer ''data'' = JStr bytes" "s' = sent w ?q t"
    "v = JObj [(''buffer'', JStr bytes), (''source'', JStr ''cloud'')]"
    using get
    by (auto simp: try_catch_def await_def axios_request_def lift_err_def member_def buffer_from_def ret_def throw_def sent_def
        split: prod.splits res.splits sum.splits jsval.splits if_splits)
  with camera show ?thesis by blast
qed

lemma found_camera:
  assumes "getCamera w mac s = (Ok camera, t)" and "truthy camera"
  shows "same_mac mac camera = Inr True"
proof -
  have "js_find p xs = Inr c \<Longrightarrow> truthy c \<Longrightarrow> p c = Inr True" for p xs c
    by (induction xs) (auto split: sum.splits if_splits)
  then show ?thesis
    using assms by (auto simp: getCamera_def find_camera_def lift_err_def ret_def throw_def elim!: await_OkE split: sum.splits)
qed

text \<open>Where the bytes of an image of a camera come from, in the world after the login. From the cloud:
  the camera was looked up, and the bytes are the answer to a request for its first thumbnail, made
  next and last. From the camera: there was no image in the cloud, the camera was looked up again,
  and the bytes are the frame in the cache for its address if there is one that has not
  expired then, and nothing else was done; or what this call's capture gave.\<close>

definition image_origin :: "('a) wyze_scheme \<Rightarrow> string \<Rightarrow> camera_side \<Rightarrow> string \<Rightarrow> world \<Rightarrow> world \<Rightarrow> string \<Rightarrow> string \<Rightarrow> bool" where
  "image_origin w ff cam mac s s' source bytes = (\<exists>camera t. truthy camera \<and> same_mac (JStr mac) camera = Inr True \<and>
     (source = ''cloud'' \<and> getCamera w (JStr mac) s = (Ok camera, t) \<and>
        (\<exists>answer. axios w (ticks t) (image_request (attr (cameraGetSnapshot camera) ''url'')) = Inr answer \<and>
           attr answer ''data'' = JStr bytes \<and> s' = sent w (image_request (attr (cameraGetSnapshot camera) ''url'')) t) \<or>
      source = ''capture'' \<and> (\<exists>t0. cloud_image w mac default_snapshot_options s = (Ok None, t0) \<and> getCamera w (JStr mac) t0 = (Ok camera, t)) \<and>
        (case cached_frame mac default_snapshot_options t of
           Some b \<Rightarrow> b = JStr bytes \<and> s' = t \<and> (caches_left w \<longrightarrow> snd (caches_of (sess t)) = snd (caches_of (sess s)))
         | None \<Rightarrow> \<exists>n. ticks s' = Suc n \<and> captured_frame ff 20000 (cam n) bytes)))"

lemma snapshot_image_origin:
  assumes "getCameraSnapshotImage (captureStreamFrame w ff cam) w mac default_snapshot_options s = (Ok v, s')"
    and "caches_ok (sess s)" and "rely_caches w"
  shows "\<exists>bytes source. v = JObj [(''buffer'', JStr bytes), (''source'', JStr source)] \<and> image_origin w ff cam mac s s' source bytes"
proof -
  obtain img t where cloud: "cloud_image w mac default_snapshot_options s = (Ok img, t)"
    and rest: "(case img of Some v \<Rightarrow> ret v
       | None \<Rightarrow> await (getCamera w (JStr mac)) (\<lambda>camera.
          if \<not> truthy camera then throw (Error (''Camera not found: '' @ mac))
          else await (cameraCaptureSnapshot (captureStreamFrame w ff cam) w mac (attr camera ''product_model'') default_snapshot_options) (\<lambda>buffer.
            ret (JObj [(''buffer'', buffer), (''source'', JStr ''capture'')])))) t = (Ok v, s')"
    using assms(1) by (auto simp: getCameraSnapshotImage_def elim: await_OkE)
  show ?thesis
  proof (cases img)
    case (Some x)
    with rest have "v = x" "s' = t" by (auto simp: ret_def)
    with cloud_image_origin [of w mac default_snapshot_options s v t] cloud Some show ?thesis
      by (fastforce simp: image_origin_def dest: found_camera)
  next
    case None
    with rest obtain camera t1 buf where camera: "getCamera w (JStr mac) t = (Ok camera, t1)" "truthy camera"
      and run: "cameraCaptureSnapshot (captureStreamFrame w ff cam) w mac (attr camera ''product_model'') default_snapshot_options t1 = (Ok buf, s')"
      and v: "v = JObj [(''buffer'', buf), (''source'', JStr ''capture'')]"
      by (auto simp: ret_def throw_def elim!: await_OkE split: if_splits)
    have "caches_kept w s t" "caches_kept w t t1"
      using keepsD [OF caches.keeps_cloud_image cloud] keepsD [OF caches.keeps_camera_lookups(4) camera(1)] .
    from caches.frame_trans [OF this] have ok: "caches_ok (sess t1)"
      using assms(2,3) by (simp add: caches_kept_def caches_stay_def)
    have "cache_change w (\<lambda>k ttl. False) (\<lambda>k ttl. False) is_buffer s t" "cache_change w (\<lambda>k ttl. False) (\<lambda>k ttl. False) is_buffer t t1"
      using keepsD [OF change.keeps_cloud_image cloud] keepsD [OF change.keeps_camera_lookups(4) camera(1)] .
    from cache_change_trans [OF this] have same: "caches_left w \<longrightarrow> snd (caches_of (sess t1)) = snd (caches_of (sess s))"
      using spec_none by metis
    have "\<exists>bytes. buf = JStr bytes \<and> image_origin w ff cam mac s s' ''capture'' bytes"
    proof (cases "cached_frame mac default_snapshot_options t1")
      case hit: (Some b)
      then have "is_buffer b"
        using ok by (auto simp: cached_frame_def caches_ok_def fresh_entry_def split: option.splits if_splits dest: ttl_ok_lookup)
      then obtain bytes where "b = JStr bytes" by (cases b) (simp_all add: is_buffer_def)
      then show ?thesis
        using snapshot_is_frame [OF run] hit cloud None camera same found_camera [OF camera] by (auto simp: image_origin_def)
    next
      case miss: None
      then show ?thesis
        using snapshot_is_frame [OF run] cloud None camera found_camera [OF camera]
        by (auto simp: image_origin_def default_snapshot_options_def)
    qed
    then show ?thesis using v by blast
  qed
qed

text \<open>C15. A snapshot the viewer shows is an image of the camera that was asked for: a successful reply
  carries bytes, exactly as many as it says, and names their origin. After the login, either the
  camera with this address was looked up, and the bytes are what was answered to a request
  for its first thumbnail, which is the last request made; or there was no such image, and the
  bytes are the frame that the cache had for this address and that had not expired when the
  lookup of the camera had ended (the frames in the cache then being those of when the request
  came, if concurrent activity leaves them alone), and nothing was captured; or, if there was no
  such frame, what ffmpeg wrote in the capture made for this request, which settled, released
  everything it used and left nothing unhandled. This holds whatever was requested before.\<close>

theorem viewer_snapshot_image:
  assumes "URL V (req_target rq) (''http://'' @ js_String (req_host rq)) = Inr u"
    and "req_verb rq = ''GET''" and "pathname u = ''/api/snapshot''" and "frames V = captureStreamFrame w ff cam"
    and "rely_caches w" and "caches_ok (sess s0)" and "serve_all V w rqs s0 = (r, s)"
    and "serve V w rq s = (Ok rep, s')" and "reply_status rep = 200"
  shows "\<exists>mac bytes source s1. search_get u ''mac'' = JStr mac \<and> reply_body rep = JStr bytes \<and>
    reply_headers rep = JObj [(''Content-Type'', JStr ''image/jpeg''), (''Content-Length'', JNum (int (length bytes))),
      (''Cache-Control'', JStr ''public, max-age=10''), (''X-Snapshot-Source'', JStr source)] \<and>
    maybeLogin w s = (Ok (), s1) \<and> (caches_left w \<longrightarrow> caches_of (sess s1) = caches_of (sess s)) \<and>
    image_origin w ff cam mac s1 s' source bytes"
proof -
  have "keeps (caches_kept w) (serve_all V w rqs)"
    by (rule caches.keeps_serve_all) (simp_all add: assms(4) caches.keeps_capture captureStreamFrame_returns)
  from keepsD [OF this assms(7)] have ok: "caches_ok (sess s)" using assms(5,6) by (simp add: caches_kept_def caches_stay_def)
  have "serve V w rq = try_catch (snapshot_route V w u) (\<lambda>error. ret (sendJson 500 (failure_json error)))"
    using assms(1-3) by (simp add: serve_def route_def)
  then have route: "snapshot_route V w u s = (Ok rep, s')"
    using assms(8,9) by (auto simp: try_catch_def ret_def sendJson_def split: prod.splits res.splits)
  then obtain mac s1 where mac: "search_get u ''mac'' = JStr mac" and login: "maybeLogin w s = (Ok (), s1)"
    and image: "try_catch (await (getCameraSnapshotImage (frames V) w mac default_snapshot_options) (\<lambda>img. ret (snapshot_reply img)))
        (\<lambda>error. ret (sendJson 502 (error_json (''Snapshot failed: '' @ err_message error)))) s1 = (Ok rep, s')"
    using assms(9)
    by (auto simp: snapshot_route_def ret_def sendJson_def elim!: await_OkE split: jsval.splits list.splits)
  then obtain img where img: "getCameraSnapshotImage (captureStreamFrame w ff cam) w mac default_snapshot_options s1 = (Ok img, s')"
    and rep: "rep = snapshot_reply img"
    using assms(4,9)
    by (auto simp: try_catch_def await_def ret_def sendJson_def split: prod.splits res.splits)
  have "caches_ok (sess s1)"
    using keepsD [OF caches.keeps_maybeLogin login] assms(5) ok by (simp add: caches_kept_def caches_stay_def)
  from snapshot_image_origin [OF img this assms(5)] obtain bytes source
    where "img = JObj [(''buffer'', JStr bytes), (''source'', JStr source)]" "image_origin w ff cam mac s1 s' source bytes" by blast
  moreover have "caches_left w \<longrightarrow> caches_of (sess s1) = caches_of (sess s)"
    using spec_none [OF keepsD [OF change.keeps_maybeLogin login]] by blast
  ultimately show ?thesis using mac login by (auto simp: rep snapshot_reply_def)
qed

text \<open>A camera without thumbnails, and a client that has captured a frame of it.\<close>

definition demo_camera :: jsval where
  "demo_camera = JObj [(''mac'', JStr ''A''), (''product_type'', JStr ''Camera''), (''product_model'', JStr ''M'')]"

definition demo_snapped_world :: world where
  "demo_snapped_world = (demo_world ''t'')\<lparr>sess := (demo_session ''t'')\<lparr>snapshotCaptureCache := Some [(''A'', JStr ''JFIF'', 100000)]\<rparr>\<rparr>"

lemma demo_getCamera:
  assumes "truthy (access_token (sess s))" and "\<not> dumpData (sess s)"
  shows "\<exists>s1. getCamera (demo (demo_home [demo_camera])) (JStr ''A'') s = (Ok demo_camera, s1) \<and> sess s1 = sess s \<and> clock s1 = clock s + 10"
proof -
  obtain s1 where list: "getDeviceList (demo (demo_home [demo_camera])) s = (Ok (JArr [demo_camera]), s1)" "sess s1 = sess s" "clock s1 = clock s + 10"
    unfolding demo_home_def using demo_account_any [OF assms] by blast
  have "list_all (has_text ''product_type'') [demo_camera]" by (simp add: demo_camera_def has_text_def)
  moreover have "text_is ''product_type'' ''Camera'' demo_camera" by (simp add: demo_camera_def text_is_def)
  ultimately have "js_filter (same_text ''product_type'' (JStr ''Camera'')) [demo_camera] = Inr [demo_camera]"
    using by_text.filter_matches [of "''product_type''" "[demo_camera]" "''Camera''"] by (simp del: js_filter.simps)
  then have "getCameras (demo (demo_home [demo_camera])) s = (Ok (JArr [demo_camera]), s1)"
    using list(1) by (simp add: getCameras_def getDevicesByType_def filter_devices_run del: js_filter.simps)
  moreover have "same_mac (JStr ''A'') demo_camera = Inr True" by (simp add: same_mac_def demo_camera_def)
  ultimately show ?thesis
    using list(2,3) by (simp add: getCamera_def find_camera_def await_def array_of_def ret_def)
qed

definition demo_camera_viewer :: viewer where
  "demo_camera_viewer = (demo_viewer [(''mac'', ''A'')])
     \<lparr>frames := captureStreamFrame (demo (demo_home [demo_camera])) ''ffmpeg'' (\<lambda>_. (Started 5004, demo_events))\<rparr>"

lemma demo_viewer_snapshot:
  "\<exists>rep s'. serve demo_camera_viewer (demo (demo_home [demo_camera])) (demo_get ''/api/snapshot'') demo_snapped_world =
     (Ok rep, s') \<and> reply_status rep = 200"
proof -
  let ?w = "demo (demo_home [demo_camera])" and ?cap = "frames demo_camera_viewer"
  have s: "truthy (access_token (sess demo_snapped_world))" "\<not> dumpData (sess demo_snapped_world)"
    "snapshotCaptureCache (sess demo_snapped_world) = Some [(''A'', JStr ''JFIF'', 100000)]" "clock demo_snapped_world = 5000"
    by (simp_all add: demo_snapped_world_def)
  obtain s1 where s1: "getCamera ?w (JStr ''A'') demo_snapped_world = (Ok demo_camera, s1)" "sess s1 = sess demo_snapped_world"
      "clock s1 = clock demo_snapped_world + 10"
    using demo_getCamera [OF s(1,2)] by blast
  obtain s2 where s2: "getCamera ?w (JStr ''A'') s1 = (Ok demo_camera, s2)" "sess s2 = sess s1" "clock s2 = clock s1 + 10"
    using demo_getCamera [of s1] s(1,2) s1(2) by auto
  have cloud: "cloud_image ?w ''A'' default_snapshot_options demo_snapped_world = (Ok None, s1)"
    using s1(1) by (simp add: cloud_image_def getCameraSnapshot_def await_def ret_def default_snapshot_options_def cameraGetSnapshot_def
        camera_thumbnails_def demo_camera_def js_or_def)
  have "cameraCaptureSnapshot ?cap ?w ''A'' model default_snapshot_options s2 = (Ok (JStr ''JFIF''), s2)" for model
    using s s1 s2 by (simp add: cameraCaptureSnapshot_def await_def this_get_def Date_now_def ret_def fresh_entry_def default_snapshot_options_def)
  then have "getCameraSnapshotImage ?cap ?w ''A'' default_snapshot_options demo_snapped_world =
      (Ok (JObj [(''buffer'', JStr ''JFIF''), (''source'', JStr ''capture'')]), s2)"
    using cloud s2(1) by (simp add: getCameraSnapshotImage_def await_def ret_def demo_camera_def)
  then show ?thesis
    using s(1)
    by (simp add: serve_def demo_camera_viewer_def demo_viewer_def demo_get_def route_def snapshot_route_def search_get_def maybeLogin_token
        await_def try_catch_def ret_def snapshot_reply_def)
qed

theorem viewer_snapshot_image_witness:
  "\<exists>rep s' bytes. serve demo_camera_viewer (demo (demo_home [demo_camera])) (demo_get ''/api/snapshot'') demo_snapped_world = (Ok rep, s') \<and>
     reply_body rep = JStr bytes \<and> attr (reply_headers rep) ''Content-Length'' = JNum (int (length bytes))"
proof -
  let ?V = demo_camera_viewer and ?w = "demo (demo_home [demo_camera])" and ?rq = "demo_get ''/api/snapshot''"
  obtain rep s' where run: "serve ?V ?w ?rq demo_snapped_world = (Ok rep, s')" "reply_status rep = 200"
    using demo_viewer_snapshot by blast
  have V: "URL ?V (req_target ?rq) (''http://'' @ js_String (req_host ?rq)) = Inr \<lparr>pathname = ''/api/snapshot'', searchParams = [(''mac'', ''A'')]\<rparr>"
    "req_verb ?rq = ''GET''" "frames ?V = captureStreamFrame ?w ''ffmpeg'' (\<lambda>_. (Started 5004, demo_events))"
    by (simp_all add: demo_camera_viewer_def demo_viewer_def demo_get_def)
  have ok: "caches_ok (sess demo_snapped_world)"
    by (simp add: demo_snapped_world_def caches_ok_def ttl_ok_def is_buffer_def)
  have before: "serve_all ?V ?w [demo_get ''/api/health''] demo_snapped_world = (Ok [sendJson 200 (JObj [(''ok'', JBool True)])], demo_snapped_world)"
    by (simp add: serve_def route_def demo_camera_viewer_def demo_viewer_def demo_get_def del: stringify.simps) (simp add: ret_def)
  from viewer_snapshot_image [OF V(1,2) _ V(3) demo_caches(1) ok before run] run show ?thesis by auto
qed

end
