(* ===== verification/Wyze_Cli.thy ===== *)
theory Wyze_Cli
  imports Wyze_Vacuum
begin

text \<open>
  The example programs run from the command line: \<open>example/vacuum.js\<close>, which lists, reads and
  controls the robot vacuum of an account, and \<open>example/index.js\<close>, which logs in and lists the
  devices. A program is an action on the world of its client; it returns its exit code and the
  results it prints (headings are not modelled). The environment of the process is a function
  from names to values.

  The laws: the rooms and levels of a command line are read exactly, and one that cannot be read
  reaches no vacuum.
\<close>

section \<open>Options\<close>

type_synonym process_env = "string \<Rightarrow> jsval"

text \<open>The options \<open>example/index.js\<close> and \<open>example/viewer.js\<close> construct their client with.\<close>

definition env_options :: "process_env \<Rightarrow> jsval" where
  "env_options env = JObj
     [(''username'', env ''USERNAME''), (''password'', env ''PASSWORD''), (''keyId'', env ''KEY_ID''), (''apiKey'', env ''API_KEY''),
      (''persistPath'', env ''PERSIST_PATH''), (''logLevel'', env ''LOG_LEVEL''), (''apiLogEnabled'', env ''API_LOG_ENABLED'')]"

definition vacuum_options :: "process_env \<Rightarrow> jsval" where
  "vacuum_options env = JObj
     [(''username'', env ''USERNAME''), (''password'', env ''PASSWORD''), (''keyId'', env ''KEY_ID''), (''apiKey'', env ''API_KEY''),
      (''persistPath'', env ''PERSIST_PATH''), (''apiLogEnabled'', JBool (env ''API_LOG_ENABLED'' = JStr ''true''))]"

text \<open>The clients of the three programs.\<close>

definition index_client :: "env \<Rightarrow> nat \<Rightarrow> process_env \<Rightarrow> wyze" where
  "index_client E n env = WyzeAPI E n (env_options env)"

definition viewer_client :: "env \<Rightarrow> nat \<Rightarrow> process_env \<Rightarrow> wyze" where
  "viewer_client E n env = WyzeAPI E n (env_options env)"

definition vacuum_client :: "env \<Rightarrow> nat \<Rightarrow> process_env \<Rightarrow> wyze" where
  "vacuum_client E n env = WyzeAPI E n (vacuum_options env)"

text \<open>\<open>Number(process.env.VIEWER_PORT || 3030)\<close>.\<close>

definition viewer_port :: "process_env \<Rightarrow> jsnum" where
  "viewer_port env = js_Number (js_or (env ''VIEWER_PORT'') (JNum 3030))"

text \<open>The line \<open>example/index.js\<close> logs first.\<close>

definition index_banner :: "process_env \<Rightarrow> string" where
  "index_banner env = ''Starting WyzeAPI with options: '' @ stringify (env_options env)"

section \<open>Arguments\<close>

text \<open>\<open>parseInt(s, 10)\<close>; \<open>None\<close> is \<open>NaN\<close>.\<close>

definition parseInt10 :: "string \<Rightarrow> int option" where
  "parseInt10 s =
     (let t = dropWhile is_space s;
          (neg, d) = (case t of c # r \<Rightarrow> if c = CHR ''-'' then (True, r) else if c = CHR ''+'' then (False, r) else (False, t)
                      | [] \<Rightarrow> (False, []));
          ds = takeWhile is_digit d
      in if ds = [] then None else Some (if neg then - int (digits_val ds) else int (digits_val ds)))"

definition room_ids :: "jsval \<Rightarrow> jsval list" where
  "room_ids arg = map JNum (List.map_filter parseInt10 (split_on (CHR '','') (js_String (js_or arg (JStr '''')))))"

text \<open>\<open>SUCTION_MAP[String(arg).toLowerCase()]\<close>, \<open>None\<close> if it is falsy. An object literal also has
  the properties of \<open>Object.prototype\<close>, of which two have names in lower case: \<open>constructor\<close>, a
  function, which is left out of JSON texts like \<open>undefined\<close>, and \<open>__proto__\<close>, an object without
  properties of its own.\<close>

definition SUCTION_MAP :: "string \<Rightarrow> jsval option" where
  "SUCTION_MAP key =
     (if key = ''quiet'' then Some (attr VacuumSuctionLevel_table ''QUIET'')
      else if key = ''standard'' then Some (attr VacuumSuctionLevel_table ''STANDARD'')
      else if key = ''strong'' then Some (attr VacuumSuctionLevel_table ''STRONG'')
      else if key = ''constructor'' then Some JUndef
      else if key = ''__proto__'' then Some (JObj [])
      else None)"

section \<open>example/vacuum.js\<close>

definition vacuum_command :: "('a) wyze_scheme \<Rightarrow> jsval \<Rightarrow> jsval \<Rightarrow> string \<Rightarrow> jsval \<Rightarrow> jsval action" where
  "vacuum_command w mac model command arg =
     (if command = ''clean'' then vacuumClean w mac
      else if command = ''pause'' then vacuumPause w mac
      else if command = ''dock'' then vacuumDock w mac
      else if command = ''stop'' then vacuumStop w mac
      else if command = ''rooms'' then
        (let ids = room_ids arg in
         if ids = [] then throw (Error ''Pass room ids: rooms 11,14'') else vacuumSweepRooms w mac (JArr ids))
      else if command = ''suction'' then
        (case SUCTION_MAP (toLowerCase (js_String arg)) of
           None \<Rightarrow> throw (Error ''Suction must be quiet|standard|strong'')
         | Some level \<Rightarrow> vacuumSetSuctionLevel w mac model level)
      else throw (Error (''Unknown command: '' @ command)))"

text \<open>\<open>process.argv[i]\<close>.\<close>

definition argv_at :: "string list \<Rightarrow> nat \<Rightarrow> jsval" where
  "argv_at argv i = (if i < length argv then JStr (argv ! i) else JUndef)"

definition vacuum_main :: "('a) wyze_scheme \<Rightarrow> string list \<Rightarrow> jsval list action" where
  "vacuum_main w argv =
     (let command = argv_at argv 2; arg = argv_at argv 3 in
      await (getVacuumDeviceList w) (\<lambda>vacuums.
      await (lift_err (member vacuums ''length'')) (\<lambda>count.
      if count = JNum 0 then ret [JStr ''No robot vacuums found on this account.'']
      else
        let vacuum = attr vacuums ''0'' in
        await (lift_err (member vacuum ''nickname'')) (\<lambda>_.
        let mac = attr vacuum ''mac'' in
        case command of
          JStr (c # cs) \<Rightarrow>
            await (vacuum_command w mac (attr vacuum ''product_model'') (c # cs) arg) (\<lambda>result. ret [result])
        | _ \<Rightarrow>
            await (getVacuumStatus w mac) (\<lambda>status.
            await (getVacuumIotProp w mac (JArr [JStr ''mode'', JStr ''battary'', JStr ''cleanlevel''])) (\<lambda>props.
              ret [status, props]))))))"

text \<open>\<open>main().catch(...)\<close>: the exit code and the results printed to the standard output.\<close>

definition vacuum_program :: "('a) wyze_scheme \<Rightarrow> string list \<Rightarrow> (int \<times> jsval list) action" where
  "vacuum_program w argv =
     try_catch (await (vacuum_main w argv) (\<lambda>out. ret (0, out))) (\<lambda>err. ret (1, []))"

section \<open>example/index.js\<close>

primrec loginCheck :: "nat \<Rightarrow> ('a) wyze_scheme \<Rightarrow> unit action" where
  "loginCheck 0 w = ret ()"
| "loginCheck (Suc n) w =
     await (maybeLogin w) (\<lambda>_.
     await (this_set (access_token_update (\<lambda>_. JStr ''''))) (\<lambda>_. loginCheck n w))"

definition deviceListCheck :: "('a) wyze_scheme \<Rightarrow> string action" where
  "deviceListCheck w = await (getDeviceList w) (\<lambda>devices. ret (stringify devices))"

definition index_main :: "('a) wyze_scheme \<Rightarrow> string action" where
  "index_main w = await (maybeLogin w) (\<lambda>_. deviceListCheck w)"

section \<open>Reading arguments\<close>

lemma digit_not_special: "is_digit c \<Longrightarrow> \<not> is_space c \<and> c \<noteq> CHR ''-'' \<and> c \<noteq> CHR ''+'' \<and> c \<noteq> CHR '',''"
  by (auto simp: is_digit_def is_space_def Let_def)

lemma takeWhile_digits: "takeWhile is_digit (show_nat n) = show_nat n"
  using show_nat_digits by (simp add: takeWhile_eq_all_conv)

lemma parseInt10_show_int: "parseInt10 (show_int i) = Some i"
proof (cases "i < 0")
  case True
  have "\<not> is_space (CHR ''-'')" by (simp add: is_space_def)
  with True show ?thesis by (simp add: parseInt10_def show_int_def takeWhile_digits Let_def)
next
  case False
  obtain c r where c: "show_nat (nat i) = c # r" "is_digit c" using show_nat_Cons by blast
  then have "parseInt10 (show_nat (nat i)) = Some (int (digits_val (takeWhile is_digit (show_nat (nat i)))))"
    using digit_not_special [of c] by (simp add: parseInt10_def Let_def)
  with False show ?thesis by (simp add: show_int_def takeWhile_digits)
qed

lemma comma_not_in_show_int: "CHR '','' \<notin> set (show_int i)"
  using show_nat_digits digit_not_special by (auto simp: show_int_def)

lemma split_on_plain: "d \<notin> set s \<Longrightarrow> split_on d s = [s]"
  by (induction s) auto

lemma split_on_append: "d \<notin> set s \<Longrightarrow> split_on d (s @ d # t) = s # split_on d t"
  by (induction s) auto

lemma split_on_join: "xs \<noteq> [] \<Longrightarrow> (\<And>x. x \<in> set xs \<Longrightarrow> d \<notin> set x) \<Longrightarrow> split_on d (join [d] xs) = xs"
  by (induction xs) (auto simp: join_Cons split_on_plain split_on_append)

lemma room_ids_join:
  assumes "ids \<noteq> []"
  shows "room_ids (JStr (join '','' (map show_int ids))) = map JNum ids"
proof -
  have "split_on (CHR '','') (join '','' (map show_int ids)) = map show_int ids"
    using assms comma_not_in_show_int by (intro split_on_join) auto
  moreover have "List.map_filter parseInt10 (map show_int ids) = ids"
    by (simp add: map_filter_def parseInt10_show_int comp_def)
  ultimately show ?thesis
    by (cases "join '','' (map show_int ids) = ''''") (auto simp: room_ids_def js_or_def)
qed

text \<open>The words for the suction levels, and what else the lookup accepts.\<close>

lemma SUCTION_MAP_levels:
  "SUCTION_MAP ''quiet'' = Some (JNum 1)" "SUCTION_MAP ''standard'' = Some (JNum 2)" "SUCTION_MAP ''strong'' = Some (JNum 3)"
  by (simp_all add: SUCTION_MAP_def VacuumSuctionLevel_table_def)

lemma SUCTION_MAP_None:
  "SUCTION_MAP key = None \<longleftrightarrow> key \<notin> {''quiet'', ''standard'', ''strong'', ''constructor'', ''__proto__''}"
  by (simp add: SUCTION_MAP_def)

lemma join_contains: "x \<in> set xs \<Longrightarrow> \<exists>a b. join sep xs = a @ x @ b"
proof (induction xs)
  case (Cons y xs)
  show ?case
  proof (cases "x = y")
    case True
    then show ?thesis by (intro exI [of _ "''''"] exI [of _ "if xs = [] then '''' else sep @ join sep xs"]) (simp add: join_Cons)
  next
    case False
    with Cons obtain a b where "join sep xs = a @ x @ b" by auto
    moreover have "xs \<noteq> []" using Cons.prems False by auto
    ultimately show ?thesis by (intro exI [of _ "y @ sep @ a"] exI [of _ b]) (simp add: join_Cons)
  qed
qed simp

lemma stringify_members_in: "(k, v) \<in> set kvs \<Longrightarrow> v \<noteq> JUndef \<Longrightarrow> quote k @ '':'' @ stringify v \<in> set (stringify_members kvs)"
  by (induction kvs) auto

text \<open>The line \<open>example/index.js\<close> logs first holds the password in plain text.\<close>

lemma index_banner_shows_password:
  assumes "env ''PASSWORD'' = JStr p"
  shows "\<exists>before after. index_banner env = before @ quote p @ after"
proof -
  have "(''password'', JStr p) \<in> set (entries (env_options env))" using assms by (simp add: env_options_def)
  from stringify_members_in [OF this] obtain a b where
    "join '','' (stringify_members (entries (env_options env))) = a @ (quote ''password'' @ '':'' @ quote p) @ b"
    using join_contains by fastforce
  then have "index_banner env = (''Starting WyzeAPI with options: {'' @ a @ quote ''password'' @ '':'') @ quote p @ b @ ''}''"
    by (simp add: index_banner_def env_options_def del: stringify_members.simps)
  then show ?thesis by blast
qed

section \<open>What a command line does\<close>

text \<open>The end of the program after the call its command makes.\<close>

definition program_result :: "jsval res \<times> world \<Rightarrow> (int \<times> jsval list) res \<times> world" where
  "program_result = (\<lambda>(r, s). (case r of Ok v \<Rightarrow> Ok (0, [v]) | Throw e \<Rightarrow> Ok (1, []) | OutOfFuel \<Rightarrow> OutOfFuel, s))"

lemma vacuum_program_command:
  assumes "getVacuumDeviceList w s = (Ok (JArr (v # vs)), s1)" and "\<not> nullish v" and "command \<noteq> ''''"
  shows "vacuum_program w (node # script # command # args) s =
    program_result (vacuum_command w (attr v ''mac'') (attr v ''product_model'') command (argv_at (node # script # command # args) 3) s1)"
proof -
  obtain c cs where command: "command = c # cs" using assms(3) by (cases command) auto
  have first: "attr (JArr (v # vs)) ''0'' = v"
  proof -
    have "show_nat 0 = ''0''" by code_simp
    then show ?thesis by (simp add: indexed_def upt_conv_Cons del: upt_Suc)
  qed
  obtain nick where "member v ''nickname'' = Inr nick" using assms(2) by (auto simp: member_def)
  moreover have "argv_at (node # script # command # args) 2 = JStr (c # cs)" by (simp add: argv_at_def command)
  ultimately have "vacuum_main w (node # script # command # args) s =
      await (vacuum_command w (attr v ''mac'') (attr v ''product_model'') command (argv_at (node # script # command # args) 3)) (\<lambda>result. ret [result]) s1"
    using assms(1) first by (simp add: vacuum_main_def await_run member_def command Let_def del: attr.simps) (simp add: argv_at_def)?
  then show ?thesis
    by (auto simp: vacuum_program_def try_catch_def await_def program_result_def ret_def split: prod.splits res.splits)
qed

text \<open>C30. The vacuum's command line does what it says. For an account with a vacuum, the rooms listed with
  commas are exactly the rooms the first vacuum is told to sweep, and the words for the suction
  levels set those levels in whatever capitals they are written. A command that is not one of
  the six, a list with no number in it, and a word that is no level end the program with exit
  code 1 before anything is sent to the vacuum.\<close>

theorem vacuum_command_line:
  assumes "getVacuumDeviceList w s = (Ok (JArr (v # vs)), s1)" and "\<not> nullish v"
  shows "(ids \<noteq> [] \<longrightarrow> vacuum_program w [node, script, ''rooms'', join '','' (map show_int ids)] s =
       program_result (vacuumSweepRooms w (attr v ''mac'') (JArr (map JNum ids)) s1)) \<and>
    ((toLowerCase word, level) \<in> {(''quiet'', QUIET), (''standard'', STANDARD), (''strong'', STRONG)} \<longrightarrow>
       vacuum_program w [node, script, ''suction'', word] s =
       program_result (vacuumSetSuctionLevel w (attr v ''mac'') (attr v ''product_model'') (JNum (suction_code level)) s1)) \<and>
    (command \<noteq> '''' \<and> command \<notin> {''clean'', ''pause'', ''dock'', ''stop'', ''rooms'', ''suction''} \<or>
     command = ''rooms'' \<and> room_ids (JStr word) = [] \<or>
     command = ''suction'' \<and> toLowerCase word \<notin> {''quiet'', ''standard'', ''strong'', ''constructor'', ''__proto__''} \<longrightarrow>
       vacuum_program w [node, script, command, word] s = (Ok (1, []), s1))"
proof (intro conjI impI)
  have arg: "argv_at [node, script, c, a] 3 = JStr a" for c a by (simp add: argv_at_def)
  note run = vacuum_program_command [OF assms, of _ node script "[_]", unfolded arg]
  show "vacuum_program w [node, script, ''rooms'', join '','' (map show_int ids)] s =
       program_result (vacuumSweepRooms w (attr v ''mac'') (JArr (map JNum ids)) s1)" if "ids \<noteq> []"
    using that by (simp add: run vacuum_command_def room_ids_join)
  show "vacuum_program w [node, script, ''suction'', word] s =
       program_result (vacuumSetSuctionLevel w (attr v ''mac'') (attr v ''product_model'') (JNum (suction_code level)) s1)"
    if "(toLowerCase word, level) \<in> {(''quiet'', QUIET), (''standard'', STANDARD), (''strong'', STRONG)}"
    using that by (auto simp: run vacuum_command_def SUCTION_MAP_levels)
  show "vacuum_program w [node, script, command, word] s = (Ok (1, []), s1)"
    if "command \<noteq> '''' \<and> command \<notin> {''clean'', ''pause'', ''dock'', ''stop'', ''rooms'', ''suction''} \<or>
     command = ''rooms'' \<and> room_ids (JStr word) = [] \<or>
     command = ''suction'' \<and> toLowerCase word \<notin> {''quiet'', ''standard'', ''strong'', ''constructor'', ''__proto__''}"
    using that
  proof (elim disjE)
    assume "command = ''suction'' \<and> toLowerCase word \<notin> {''quiet'', ''standard'', ''strong'', ''constructor'', ''__proto__''}"
    then have "command = ''suction''" "SUCTION_MAP (toLowerCase word) = None" unfolding SUCTION_MAP_None by auto
    then show ?thesis by (simp add: run vacuum_command_def program_result_def throw_def)
  qed (auto simp: run vacuum_command_def program_result_def throw_def)
qed

lemma demo_vacuum_list:
  "\<exists>s1. getVacuumDeviceList (demo demo_vacuum_service) (demo_world ''t'') = (Ok (JArr [demo_vacuum]), s1)"
proof -
  obtain s1 where "getDeviceList (demo demo_vacuum_service) (demo_world ''t'') =
      (Ok (JArr [JObj [(''mac'', JStr ''A1'')], demo_vacuum]), s1)"
    unfolding demo_vacuum_service_def using demo_account_list by blast
  then show ?thesis
    by (simp add: getVacuumDeviceList_def filter_devices_def await_def array_of_def is_vacuum_def constants_vacuumModels_def
        demo_vacuum_def ret_def)
qed

theorem vacuum_command_line_witness:
  "\<exists>s1. getVacuumDeviceList (demo demo_vacuum_service) (demo_world ''t'') = (Ok (JArr [demo_vacuum]), s1) \<and>
     vacuum_program (demo demo_vacuum_service) [''node'', ''vacuum.js'', ''rooms'', join '','' (map show_int [11, 14])] (demo_world ''t'') =
       program_result (vacuumSweepRooms (demo demo_vacuum_service) (attr demo_vacuum ''mac'') (JArr (map JNum [11, 14])) s1) \<and>
     vacuum_program (demo demo_vacuum_service) [''node'', ''vacuum.js'', ''fly'', ''''] (demo_world ''t'') = (Ok (1, []), s1)"
proof -
  obtain s1 where list: "getVacuumDeviceList (demo demo_vacuum_service) (demo_world ''t'') = (Ok (JArr [demo_vacuum]), s1)"
    using demo_vacuum_list by blast
  have "\<not> nullish demo_vacuum" by (simp add: demo_vacuum_def)
  from vacuum_command_line [OF list this, of "[11, 14]" "''node''" "''vacuum.js''" "''''" QUIET "''fly''"] list
  show ?thesis by auto
qed

text \<open>\<open>API_LOG_ENABLED=false\<close> switches the log on in \<open>example/index.js\<close> and \<open>example/viewer.js\<close>, but
  not in \<open>example/vacuum.js\<close>.\<close>

lemma log_option_false:
  assumes "env ''API_LOG_ENABLED'' = JStr ''false''"
  shows "apiLogEnabled (index_client E n env) \<and> apiLogEnabled (viewer_client E n env) \<and> \<not> apiLogEnabled (vacuum_client E n env)"
  using assms
  by (simp add: index_client_def viewer_client_def vacuum_client_def WyzeAPI_def env_options_def vacuum_options_def env.defs)

text \<open>Each round of \<open>loginCheck\<close> starts without a token, and leaves none behind.\<close>

lemma loginCheck_clears: "loginCheck (Suc n) w s = (Ok (), s') \<Longrightarrow> access_token (sess s') = JStr ''''"
proof (induction n arbitrary: s)
  case 0
  then show ?case by (auto simp: await_def this_set_def ret_def split: prod.splits res.splits)
next
  case (Suc n)
  from Suc.prems have "\<exists>t. loginCheck (Suc n) w t = (Ok (), s')"
    unfolding loginCheck.simps(2) [of "Suc n"]
    by (auto simp: await_def this_set_def simp del: loginCheck.simps split: prod.splits res.splits)
  then show ?case using Suc.IH by blast
qed

end
