(* ===== verification/Wyze_Convert.thy ===== *)
theory Wyze_Convert
  imports Wyze_Services JS_Ops
begin

text \<open>
  The pure conversions of the client: lock and sensor states, batteries, ranges, colour
  temperatures and degrees. Their arguments come from API answers and can be any value;
  where a conversion compares, it compares like JavaScript. Arithmetic is exact: numbers
  are rationals, \<open>NaN\<close> and the infinities.
\<close>

section \<open>Locks and sensors\<close>

definition getLockDoorState :: "jsval \<Rightarrow> jsval" where
  "getLockDoorState deviceState = (if js_le (JNum 2) deviceState then JNum 1 else deviceState)"

definition getLeakSensorState :: "jsval \<Rightarrow> jsval" where
  "getLeakSensorState deviceState = (if js_le (JNum 2) deviceState then JNum 1 else deviceState)"

definition getLockState :: "jsval \<Rightarrow> int" where
  "getLockState deviceState = (if loose_eq deviceState (JNum 2) then 0 else 1)"

section \<open>Batteries\<close>

definition checkBatteryVoltage :: "jsval \<Rightarrow> jsval" where
  "checkBatteryVoltage v =
     (if js_le (JNum 100) v then JNum 100 else if v = JUndef \<or> v = JNull then JNum 1 else v)"

definition checkLowBattery :: "('a) wyze_scheme \<Rightarrow> jsval \<Rightarrow> int" where
  "checkLowBattery w batteryVolts =
     (if js_le (checkBatteryVoltage batteryVolts) (lowBatteryPercentage w) then 1 else 0)"

section \<open>Ranges\<close>

text \<open>Division of numbers: by zero it gives an infinity, or \<open>NaN\<close> for \<open>0 / 0\<close>.\<close>

definition num_div :: "rat \<Rightarrow> rat \<Rightarrow> jsnum" where
  "num_div a b = (if b \<noteq> 0 then Fin (a / b) else if a = 0 then NaN else Infinite (0 < a))"

text \<open>\<open>Math.round\<close>: halves go up.\<close>

definition js_round :: "rat \<Rightarrow> int" where
  "js_round x = \<lfloor>x + 1 / 2\<rfloor>"

fun round_num :: "jsnum \<Rightarrow> jsnum" where
  "round_num (Fin x) = Fin (of_int (js_round x))"
| "round_num v = v"

definition rangeToFloat :: "rat \<Rightarrow> rat \<Rightarrow> rat \<Rightarrow> jsnum" where
  "rangeToFloat value lo hi = num_div (value - lo) (hi - lo)"

definition floatToRange :: "rat \<Rightarrow> rat \<Rightarrow> rat \<Rightarrow> int" where
  "floatToRange value lo hi = js_round (value * (hi - lo) + lo)"

definition kelvinToMired :: "rat \<Rightarrow> jsnum" where
  "kelvinToMired value = round_num (num_div 1000000 value)"

definition checkBrightnessValue :: "jsval \<Rightarrow> jsval" where
  "checkBrightnessValue value = (if js_le (JNum 1) value \<and> js_le value (JNum 100) then value else value)"

definition checkColorTemp :: "jsval \<Rightarrow> jsval" where
  "checkColorTemp color = (if js_le (JNum 500) color then color else JNum 500)"

definition fahrenheit2celsius :: "rat \<Rightarrow> rat" where
  "fahrenheit2celsius fahrenheit = (fahrenheit - 32) / (18 / 10)"

definition celsius2fahrenheit :: "rat \<Rightarrow> rat" where
  "celsius2fahrenheit celsius = celsius * (18 / 10) + 32"

definition clamp :: "rat \<Rightarrow> rat \<Rightarrow> rat \<Rightarrow> rat" where
  "clamp number lo hi = max lo (min number hi)"

section \<open>Properties\<close>

text \<open>A battery reading below the threshold is reported as low, one above it is not, and a
  reading is never more than 100: for whole-number readings and thresholds of at most 100 the
  report is the comparison, except that a missing reading counts as 1 percent and is low.\<close>

lemma battery_report:
  assumes "lowBatteryPercentage w = JNum t" and "1 \<le> t" and "t < 100"
  shows "checkLowBattery w (JNum v) = (if v \<le> t then 1 else 0) \<and>
    checkLowBattery w JUndef = 1 \<and> checkLowBattery w JNull = 1 \<and>
    (\<exists>b. checkBatteryVoltage (JNum v) = JNum b \<and> b \<le> 100 \<and> (v \<le> 100 \<longrightarrow> b = v))"
proof -
  have "\<not> js_le (JNum 100) JNull" by (simp add: js_le_def to_primitive_def num_le_def)
  then show ?thesis using assms by (auto simp: checkLowBattery_def checkBatteryVoltage_def)
qed

lemma js_round_int: "js_round (of_int i) = i"
  by (simp add: js_round_def floor_eq_iff)

lemma js_round_bounds: "of_int (js_round x) - 1 / 2 \<le> x \<and> x < of_int (js_round x) + 1 / 2"
  unfolding js_round_def using of_int_floor_le [of "x + 1/2"] floor_less_iff [of "x + 1/2"] by linarith

text \<open>The two range conversions are inverse on whole numbers: a value of a range, normalized
  and converted back to the same range, is itself; and normalizing maps the range into the
  numbers from 0 to 1, its ends to 0 and 1.\<close>

theorem range_round_trip:
  assumes "lo < hi" and "lo \<le> v" and "v \<le> hi"
  shows "\<exists>f. rangeToFloat (of_int v) (of_int lo) (of_int hi) = Fin f \<and> 0 \<le> f \<and> f \<le> 1 \<and>
    floatToRange f (of_int lo) (of_int hi) = v \<and> (v = lo \<longrightarrow> f = 0) \<and> (v = hi \<longrightarrow> f = 1)"
proof (intro exI conjI)
  let ?f = "(of_int v - of_int lo) / (of_int hi - of_int lo) :: rat"
  have ne: "of_int hi - of_int lo \<noteq> (0 :: rat)" using assms(1) by simp
  then show "rangeToFloat (of_int v) (of_int lo) (of_int hi) = Fin ?f"
    by (simp add: rangeToFloat_def num_div_def)
  have "?f * (of_int hi - of_int lo) + of_int lo = of_int v" using ne by simp
  then show "floatToRange ?f (of_int lo) (of_int hi) = v" by (simp add: floatToRange_def js_round_int)
  show "0 \<le> ?f" "?f \<le> 1" using assms by (simp_all add: field_simps)
  show "v = lo \<longrightarrow> ?f = 0" "v = hi \<longrightarrow> ?f = 1" using ne by simp_all
qed

theorem range_round_trip_witness:
  "\<exists>f. rangeToFloat (of_int 40) (of_int 0) (of_int 100) = Fin f \<and> floatToRange f (of_int 0) (of_int 100) = 40"
  using range_round_trip [of 0 100 40] by auto

text \<open>Clamping gives a value of the range, keeps every value that is in it, and clamping again
  changes nothing; degrees convert back and forth without loss.\<close>

lemma clamp_and_degrees:
  assumes "lo \<le> hi"
  shows "lo \<le> clamp x lo hi \<and> clamp x lo hi \<le> hi \<and> (lo \<le> x \<and> x \<le> hi \<longrightarrow> clamp x lo hi = x) \<and>
    clamp (clamp x lo hi) lo hi = clamp x lo hi \<and>
    fahrenheit2celsius (celsius2fahrenheit x) = x \<and> celsius2fahrenheit (fahrenheit2celsius x) = x"
  using assms by (auto simp: clamp_def fahrenheit2celsius_def celsius2fahrenheit_def field_simps)

text \<open>The colour temperatures of the bulbs, 2000 to 6536 kelvin, convert to mireds between 153
  and 500, hotter ones to fewer mireds, within half a mired of the exact value; zero kelvin
  gives no finite number.\<close>

lemma kelvin_to_mired:
  assumes "2000 \<le> k" and "k \<le> k'" and "k' \<le> 6536"
  shows "\<exists>m m'. kelvinToMired k = Fin (of_int m) \<and> kelvinToMired k' = Fin (of_int m') \<and> m' \<le> m \<and>
     153 \<le> m' \<and> m \<le> 500 \<and> \<bar>of_int m - 1000000 / k\<bar> \<le> 1 / 2 \<and> kelvinToMired 0 = Infinite True"
proof (intro exI conjI)
  let ?r = "\<lambda>k. js_round (1000000 / k)"
  show "kelvinToMired k = Fin (of_int (?r k))" "kelvinToMired k' = Fin (of_int (?r k'))"
    using assms by (simp_all add: kelvinToMired_def num_div_def)
  have le: "1000000 / k' \<le> 1000000 / k" using assms by (intro divide_left_mono) auto
  then show "?r k' \<le> ?r k" unfolding js_round_def by (intro floor_mono) simp
  have "1000000 / 6536 \<le> 1000000 / k'" using assms by (intro divide_left_mono) auto
  then show "153 \<le> ?r k'" unfolding js_round_def by (simp add: le_floor_iff)
  have "1000000 / k \<le> 1000000 / 2000" using assms by (intro divide_left_mono) auto
  then show "?r k \<le> 500" unfolding js_round_def by (simp add: floor_le_iff)
  show "\<bar>of_int (?r k) - 1000000 / k\<bar> \<le> 1 / 2" using js_round_bounds [of "1000000 / k"] by linarith
  show "kelvinToMired 0 = Infinite True" by (simp add: kelvinToMired_def num_div_def)
qed

end
