(* ===== verification/Wyze_Roku.thy ===== *)
theory Wyze_Roku
  imports Wyze_Services "HOL-Library.Multiset"
begin

text \<open>
  The Roku login of \<open>src/rokuAuth.js\<close>, which \<open>authenticateAndFetchData\<close> of \<open>src/index.js\<close> uses: the
  Amazon Cognito client, SHA-256 and the URL parser are parameters; the request signing, the
  login and its token are modelled as the source has them.

  The laws show what is signed and in which order, that the signing of the source disagrees
  with itself about the order of the headers it sends, and that the login is never of use to
  its only caller.
\<close>

section \<open>The client\<close>

record roku_lib =
  sha256 :: "string \<Rightarrow> string"
  hmac_sha256 :: "string \<Rightarrow> string \<Rightarrow> string"
  hmac_sha256_hex :: "string \<Rightarrow> string \<Rightarrow> string"
  url_pathname :: "string \<Rightarrow> string"
  toISOString :: "int \<Rightarrow> string"
  cognito_getId :: "nat \<Rightarrow> jsval \<Rightarrow> err + jsval"
  cognito_getCredentials :: "nat \<Rightarrow> jsval \<Rightarrow> err + jsval"

text \<open>The fields of \<open>RokuAuthLib\<close> that change.\<close>

record roku =
  roku_username :: jsval
  roku_password :: jsval
  roku_token :: jsval
  cognitoId :: jsval

definition awsRegion :: string where
  "awsRegion = ''us-east-1''"

definition awsIdPool :: string where
  "awsIdPool = awsRegion @ '':11747937-25e8-402f-8e72-6873a618692c''"

definition loginHost :: string where
  "loginHost = ''iot.prod.mobile.roku.com''"

definition loginUri :: string where
  "loginUri = ''https://'' @ loginHost @ ''/user/login''"

definition RokuAuthLib :: "jsval \<Rightarrow> jsval \<Rightarrow> jsval \<Rightarrow> roku" where
  "RokuAuthLib user pass token =
     \<lparr>roku_username = js_default user JNull, roku_password = js_default pass JNull,
      roku_token = js_default token JNull, cognitoId = JUndef\<rparr>"

section \<open>Signing\<close>

definition getSignatureKey :: "('r) roku_lib_scheme \<Rightarrow> jsval \<Rightarrow> string \<Rightarrow> string \<Rightarrow> string \<Rightarrow> string" where
  "getSignatureKey L key dateStamp regionName serviceName =
     (let kDate = hmac_sha256 L (''AWS4'' @ js_String key) dateStamp;
          kRegion = hmac_sha256 L kDate regionName;
          kService = hmac_sha256 L kRegion serviceName
      in hmac_sha256 L kService ''aws4_request'')"

text \<open>The headers are texts. Their names are sorted as they are written for the canonical headers,
  and in lower case for the list of signed headers.\<close>

definition canonical_line :: "(string \<times> string) list \<Rightarrow> string \<Rightarrow> string" where
  "canonical_line headers key = toLowerCase key @ '':'' @ trim (the (map_of headers key)) @ [CHR 0x0A]"

definition canonicalHeaders :: "(string \<times> string) list \<Rightarrow> string" where
  "canonicalHeaders headers = concat (map (canonical_line headers) (sort (map fst headers)))"

definition signedHeaders :: "(string \<times> string) list \<Rightarrow> string" where
  "signedHeaders headers = join '';'' (sort (map toLowerCase (map fst headers)))"

text \<open>\<open>querystring.stringify\<close> of a \<open>URLSearchParams\<close> object, which has no enumerable properties of its
  own, is empty.\<close>

definition canonicalRequest :: "('r) roku_lib_scheme \<Rightarrow> string \<Rightarrow> string \<Rightarrow> (string \<times> string) list \<Rightarrow> string \<Rightarrow> string" where
  "canonicalRequest L method url headers body =
     join [CHR 0x0A] [method, url_pathname L url, '''', canonicalHeaders headers, signedHeaders headers, sha256 L body]"

definition date_part :: "string \<Rightarrow> string" where
  "date_part stamp = takeWhile (\<lambda>c. c \<noteq> CHR ''T'') stamp"

definition credentialScope :: "string \<Rightarrow> string" where
  "credentialScope stamp = date_part stamp @ ''/'' @ awsRegion @ ''/execute-api/aws4_request''"

definition stringToSign :: "('r) roku_lib_scheme \<Rightarrow> string \<Rightarrow> string \<Rightarrow> string" where
  "stringToSign L stamp canonical = join [CHR 0x0A] [''AWS4-HMAC-SHA256'', stamp, credentialScope stamp, sha256 L canonical]"

definition signRequest :: "('r) roku_lib_scheme \<Rightarrow> int \<Rightarrow> string \<Rightarrow> string \<Rightarrow> (string \<times> string) list \<Rightarrow> string \<Rightarrow> jsval \<Rightarrow>
    err + (string \<times> string) list" where
  "signRequest L now method url headers body credentials =
     (let stamp = toISOString L now;
          canonical = canonicalRequest L method url headers body
      in case member credentials ''SecretKey'' of Inl e \<Rightarrow> Inl e
         | Inr secret \<Rightarrow>
             let signingKey = getSignatureKey L secret (date_part stamp) awsRegion ''execute-api'';
                 signature = hmac_sha256_hex L signingKey (stringToSign L stamp canonical)
             in Inr (headers @ [(''Authorization'', ''AWS4-HMAC-SHA256 Credential='' @ js_String (attr credentials ''AccessKeyId'') @ ''/'' @
                  credentialScope stamp @ '', SignedHeaders='' @ signedHeaders headers @ '', Signature='' @ signature)]))"

section \<open>Logging in\<close>

definition login_headers :: "int \<Rightarrow> (string \<times> string) list" where
  "login_headers now =
     [(''Accept'', ''application/json''),
      (''User-Agent'', ''Owl/0 CFNetwork/1496.0.7 Darwin/23.5.0''),
      (''Content-Type'', ''application/json; charset=UTF-8''),
      (''Host'', loginHost),
      (''apiweb-env'', ''prod''),
      (''app'', ''harold''),
      (''client_id'', ''62D8CC2A-F64E-46FC-9A18-F0C6F90E9A43_Owl''),
      (''appversion'', ''3.0.2''),
      (''assertion-challenge'', ''6bfd613a96324175a90970349a5150d4''),
      (''Connection'', ''keep-alive''),
      (''assertion-request-ts'', show_int now),
      (''osversion'', ''17.5.1''),
      (''profile-id-is-uuid'', ''true''),
      (''version'', ''2.0''),
      (''x-roku-reserved-client-id'', ''x-roku-reserved-client-id''),
      (''x-roku-reserved-correlation'', '' mob_3E1E8CAE-7AAC-494D-B33C-05E44B3B09EB''),
      (''x-roku-reserved-culture-code'', ''en_US''),
      (''x-roku-reserved-dev-id'', ''1a2f5fd09622fd2b68be13fff92f09aebb6837fd''),
      (''x-roku-reserved-lat'', ''true''),
      (''x-roku-reserved-locale'', ''en_US''),
      (''x-roku-reserved-mobile-experiment-ids'', ''''),
      (''x-roku-reserved-profile-id'', ''6CD68D77-B0FC-488C-83CD-D141191568E4''),
      (''x-roku-reserved-request-id'', ''15703A04-15B7-4F95-B838-BCBDC8D0E3BB''),
      (''x-roku-reserved-rida'', ''''),
      (''x-roku-reserved-session-id'', ''D90F5E79-E28E-4439-8909-2B96A47DE82F''),
      (''x-roku-reserved-time-zone-offset'', ''-05:00'')]"

text \<open>A call of the Cognito client, awaited.\<close>

definition cognito_call :: "('a) wyze_scheme \<Rightarrow> (nat \<Rightarrow> jsval \<Rightarrow> err + jsval) \<Rightarrow> jsval \<Rightarrow> jsval action" where
  "cognito_call w f arg = (\<lambda>s. (case f (ticks s) arg of Inl e \<Rightarrow> Throw e | Inr v \<Rightarrow> Ok v, await_point w s))"

definition initializeCognitoId :: "('r) roku_lib_scheme \<Rightarrow> ('a) wyze_scheme \<Rightarrow> roku \<Rightarrow> roku action" where
  "initializeCognitoId L w this =
     await (cognito_call w (cognito_getId L) (JObj [(''IdentityPoolId'', JStr awsIdPool)])) (\<lambda>data.
     await (lift_err (member data ''IdentityId'')) (\<lambda>i. ret (this\<lparr>cognitoId := i\<rparr>)))"

definition getAWSCredentials :: "('r) roku_lib_scheme \<Rightarrow> ('a) wyze_scheme \<Rightarrow> roku \<Rightarrow> jsval action" where
  "getAWSCredentials L w this =
     await (cognito_call w (cognito_getCredentials L) (JObj [(''IdentityId'', cognitoId this)])) (\<lambda>data.
       lift_err (member data ''Credentials''))"

text \<open>The tokens of the answer; an answer with a message is an error.\<close>

definition roku_tokens :: "jsval \<Rightarrow> err + jsval" where
  "roku_tokens response =
     (case member response ''data'' of Inl e \<Rightarrow> Inl e
      | Inr data \<Rightarrow> (case member data ''message'' of Inl e \<Rightarrow> Inl e
        | Inr message \<Rightarrow> if truthy message then Inl (Error ''UnknownApiError'')
            else (case member (attr data ''data'') ''partnerAccess'' of Inl e \<Rightarrow> Inl e
              | Inr p \<Rightarrow> (case member p ''token'' of Inl e \<Rightarrow> Inl e
                | Inr token \<Rightarrow> (case member (attr (attr data ''data'') ''oauth'') ''refreshToken'' of Inl e \<Rightarrow> Inl e
                  | Inr r \<Rightarrow> Inr (JObj [(''accessToken'', token), (''refreshToken'', r)]))))))"

text \<open>The callback is \<open>None\<close> when the constructor was given none.\<close>

definition getTokenWithUsernamePassword :: "('r) roku_lib_scheme \<Rightarrow> ('a) wyze_scheme \<Rightarrow> (jsval \<Rightarrow> unit action) option \<Rightarrow>
    roku \<Rightarrow> jsval \<Rightarrow> jsval \<Rightarrow> (jsval \<times> roku) action" where
  "getTokenWithUsernamePassword L w tokenCallback this user pass =
     await (if truthy (cognitoId this) then ret this else initializeCognitoId L w this) (\<lambda>this.
       let this = this\<lparr>roku_username := user, roku_password := pass\<rparr>;
           loginPayload = stringify (JObj [(''email'', user), (''password'', pass)])
       in await (getAWSCredentials L w this) (\<lambda>credentials.
          await Date_now (\<lambda>now.
          await (lift_err (signRequest L now ''POST'' loginUri (login_headers now) loginPayload credentials)) (\<lambda>headers.
          await (axios_post w loginUri (JStr loginPayload) (JObj [(''headers'', JObj (map (\<lambda>(k, v). (k, JStr v)) headers))])) (\<lambda>response.
          await (lift_err (roku_tokens response)) (\<lambda>token.
          await (case tokenCallback of None \<Rightarrow> ret () | Some f \<Rightarrow> f token) (\<lambda>_.
            ret (token, this\<lparr>roku_token := token\<rparr>))))))))"

text \<open>\<open>print\<close> is not defined in Node.\<close>

definition authenticateAndFetchData :: "('r) roku_lib_scheme \<Rightarrow> ('a) wyze_scheme \<Rightarrow> unit action" where
  "authenticateAndFetchData L w =
     await (getTokenWithUsernamePassword L w None (RokuAuthLib (username w) (password w) JUndef) (username w) (password w)) (\<lambda>_.
       throw (ReferenceError ''print is not defined''))"

section \<open>The order of the headers\<close>

text \<open>The names in the order of the canonical headers, and in the order of the list that is sent
  with the signature.\<close>

definition canonical_names :: "(string \<times> string) list \<Rightarrow> string list" where
  "canonical_names headers = map toLowerCase (sort (map fst headers))"

definition signed_names :: "(string \<times> string) list \<Rightarrow> string list" where
  "signed_names headers = sort (map toLowerCase (map fst headers))"

lemma canonical_by_name:
  "canonicalHeaders headers = concat (map (\<lambda>k. canonical_line headers k) (sort (map fst headers)))"
  "signedHeaders headers = join '';'' (signed_names headers)"
  by (simp_all add: canonicalHeaders_def signedHeaders_def signed_names_def)

lemma canonical_names_lower:
  assumes "list_all (\<lambda>k. toLowerCase k = k) (map fst headers)"
  shows "canonical_names headers = signed_names headers"
proof -
  have "map toLowerCase xs = xs" if "set xs = set (map fst headers)" for xs
    using assms that by (intro map_idI) (auto simp: list_all_iff)
  from this [of "sort (map fst headers)"] this [of "map fst headers"] show ?thesis
    by (simp add: canonical_names_def signed_names_def del: map_map)
qed

lemma login_header_names:
  "map fst (login_headers now) =
     [''Accept'', ''User-Agent'', ''Content-Type'', ''Host'', ''apiweb-env'', ''app'', ''client_id'', ''appversion'',
      ''assertion-challenge'', ''Connection'', ''assertion-request-ts'', ''osversion'', ''profile-id-is-uuid'', ''version'',
      ''x-roku-reserved-client-id'', ''x-roku-reserved-correlation'', ''x-roku-reserved-culture-code'',
      ''x-roku-reserved-dev-id'', ''x-roku-reserved-lat'', ''x-roku-reserved-locale'', ''x-roku-reserved-mobile-experiment-ids'',
      ''x-roku-reserved-profile-id'', ''x-roku-reserved-request-id'', ''x-roku-reserved-rida'', ''x-roku-reserved-session-id'',
      ''x-roku-reserved-time-zone-offset'']"
  by (simp add: login_headers_def)

text \<open>The signing of the Roku login contradicts itself: the canonical headers list the same names
  as the list of signed headers that goes with them, but in another order, because one is
  sorted before and the other after the names are put in lower case. The two orders agree
  whenever all names are in lower case, so it is the names of the login that break it.\<close>

theorem roku_header_orders_differ:
  "mset (canonical_names (login_headers now)) = mset (signed_names (login_headers now)) \<and>
   canonical_names (login_headers now) \<noteq> signed_names (login_headers now) \<and>
   take 3 (canonical_names (login_headers now)) = [''accept'', ''connection'', ''content-type''] \<and>
   take 3 (signed_names (login_headers now)) = [''accept'', ''apiweb-env'', ''app'']"
proof -
  have c: "take 3 (canonical_names (login_headers now)) = [''accept'', ''connection'', ''content-type'']"
    unfolding canonical_names_def login_header_names by code_simp
  moreover have d: "take 3 (signed_names (login_headers now)) = [''accept'', ''apiweb-env'', ''app'']"
    unfolding signed_names_def login_header_names by code_simp
  moreover have "canonical_names (login_headers now) \<noteq> signed_names (login_headers now)" using c d by auto
  moreover have "mset (canonical_names (login_headers now)) = mset (signed_names (login_headers now))"
    unfolding canonical_names_def signed_names_def by (simp del: map_map)
  ultimately show ?thesis by blast
qed

text \<open>The caller of the login never gets anything: whatever happens, the call rejects, in the best case
  after a login whose tokens are dropped.\<close>

lemma authenticate_rejects: "fst (authenticateAndFetchData L w s) \<noteq> Ok ()"
  by (auto simp: authenticateAndFetchData_def await_def throw_def split: prod.splits res.splits)

end
