(* ===== verification/Spec2Isabelle.thy ===== *)
theory Spec2Isabelle
  imports Wyze_Viewer Wyze_Cli Wyze_Convert Wyze_Roku
begin

text \<open>
  A verification of the Wyze API client (the npm package \<open>wyze-api\<close>, JavaScript, \<open>src/src/\<close>) and of the
  programs that come with it (\<open>src/example/\<close>).

  \<^bold>\<open>The program.\<close> One class, \<open>WyzeAPI\<close> in \<open>index.js\<close>, keeps a session with the Wyze cloud (two tokens, a
  login debounce, two caches) and offers methods for devices of every kind. Methods of the main
  service go through \<open>request\<close>, which logs in when there is no token, classifies the answer, and
  renews the tokens and retries when the service rejects them. Methods of the other services log
  in, build a payload (\<open>payloadFactory.js\<close>), sign it (\<open>crypto.js\<close>) and call axios themselves. Cameras
  stream over WebRTC; \<open>cameraStreamCapture.js\<close> takes a single frame with ffmpeg. \<open>util.js\<close> pads and
  encrypts, \<open>constants.js\<close> and \<open>types.js\<close> hold tables, \<open>rokuAuth.js\<close> is a separate login. On top of the
  class there are a web server that shows cameras in a browser (\<open>example/viewer.js\<close>), a command line
  for the robot vacuum (\<open>example/vacuum.js\<close>) and a check of the login (\<open>example/index.js\<close>).

  \<^bold>\<open>The language.\<close> \<open>JS_Value\<close> has the values, property access, spread and conversions; \<open>JS_Json\<close> has
  \<open>JSON.stringify\<close> and \<open>JSON.parse\<close> with their round trip; \<open>JS_Encoding\<close> base64 and URI encoding;
  \<open>JS_Ops\<close> loose comparison, \<open>find\<close> and \<open>filter\<close>, with the locale \<open>lookup\<close>. Strings are lists of bytes
  (UTF-8); numbers inside values are integers, and rational in the conversions. \<open>Wyze_Prelude\<close> holds
  what all theories share.

  \<^bold>\<open>Effects.\<close> In \<open>Wyze_IO\<close> an asynchronous method is a function from a world (session, clock, files,
  trace of what was done) to a result (value, rejection, or out of fuel) and the new world. What is
  not in the repository is a field of the environment: the HTTP service, file errors, latency, random
  numbers, hashes, ciphers, and \<open>rely\<close>, what other calls of the same instance do to the session during
  an await. Only the nesting of \<open>request\<close> inside the token renewal can go on forever; it has a depth
  \<open>fuel\<close>, and 151 is enough for every claim that a call settles: the debounce is at most five minutes
  and is waited for in rounds of two seconds, which takes at most 150. Every other loop is
  structural. Three locales prove once, for any relation on worlds that the primitives and the
  assignments of the code keep, that the methods keep it: \<open>session_frame\<close> for those that do not use the
  caches, \<open>cache_frame\<close> with conditions on what may be stored under which key and for how long, and
  \<open>client_frame\<close> for every method of every component. \<open>Wyze_Frames\<close> interprets the last for time, the
  trace and the debounce, \<open>Wyze_Caches\<close> for the form of the caches, and \<open>cache_frame\<close> for what a single
  call changes in them; \<open>Wyze_Viewer\<close> interprets it for leaving nothing unhandled.

  \<^bold>\<open>Components.\<close>
  \<^item> \<open>Wyze_Constants\<close>, \<open>Wyze_Crypto\<close>, \<open>Wyze_Payload\<close>, \<open>Wyze_Util\<close>: the tables, the signing routines
    (older and newer versions agree; a locale states what all signers of objects share), the payload
    builders, padding and encryption (decryption undoes encryption up to the padding byte).
  \<^item> \<open>Wyze_Session\<close>, \<open>Wyze_Session_Laws\<close>: the constructor, \<open>request\<close>, login, debounce, renewal, token file,
    response classes, rate limit and the log of answers. The laws: every call settles within a number of
    requests, the exact course of a renewal, the contract of every class of answers, tokens survive a
    restart, what the log shows of an answer, and what
    goes wrong (a debounced call is sent without a token, and its debounce is counted from before the
    wait; renewal against a service that rejects
    everything never ends; the refresh timer leaves a failure unhandled; the API log shows tokens that
    the dump hides).
  \<^item> \<open>Wyze_Services\<close>: properties, actions, locks, wall switches, home monitoring, thermostats, irrigation,
    IoT3, the local bulb command. The locales \<open>login_service\<close> and \<open>signed_service\<close> say what a call of this
    shape promises; each service is an interpretation.
  \<^item> \<open>Wyze_Directory\<close>, \<open>Wyze_Controls\<close>, \<open>Wyze_Convert\<close>: device lists and lookups, named controls with the
    table of what each is to send, unit conversions and readings.
  \<^item> \<open>Wyze_Camera\<close>, \<open>Wyze_Camera_Laws\<close>: cameras, the stream service, connection information and frames in
    caches (locale \<open>ttl_store\<close>), retries with growing pauses.
  \<^item> \<open>Wyze_Capture\<close>: \<open>captureStreamFrame\<close> as a machine driven by the events of the socket, the peer
    connection with its packets, ffmpeg and the timer, from the choice of a port to the cleanup; its
    invariants are interpretations of \<open>capture_invariant\<close>. A call of it takes what the libraries report
    during this call as an argument, by the tick it is made at; if something goes unhandled, the
    process has ended, and the call has no result.
  \<^item> \<open>Wyze_Vacuum\<close>: the robot vacuum and its service (locale \<open>venus_service\<close>).
  \<^item> \<open>Wyze_Roku\<close>: the Roku login.
  \<^item> \<open>Wyze_Client\<close>: histories of calls to all components, of pauses and of the refresh timer firing; the
    properties of this theory compose them. The snapshot call composed with the capture machine.
  \<^item> \<open>Wyze_Caches\<close>: the two caches over a whole history. They are a pair of maps; \<open>cache_spec\<close> says for each
    call how it may change them (the key, the time to live, the keys that clearing drops) and every
    call meets it; what a call finds in a cache always has the form the calls put there. An entry past
    its time is not used, and not removed either: a frame stays until the same camera is captured again.
  \<^item> \<open>Wyze_Viewer\<close>: the web server on top of the camera calls. Every request has one reply, if the service
    does not reject the renewal's own token and captures settle; a request that is not understood does
    nothing; streams are fresh; a snapshot is an image of the camera, of the length it says.
  \<^item> \<open>Wyze_Cli\<close>: the command line of the vacuum and the login check: rooms and levels are read exactly.
  \<^item> \<open>Wyze_Demo\<close>: a concrete client on which the properties are evaluated.

  \<^bold>\<open>Not modelled.\<close> Log output as an effect, except the lines on the answers of the service
  (\<open>_logApiResponse\<close>) and the places where the code calls the logger as a function; the lines written
  around a request are functions of what they show. What becomes of a login that nobody awaits, after
  its request is sent, except for what \<open>rely\<close> says it does to the session. The rounding of binary floating point. Values are values, not
  references: a caller that changes the array of ICE servers or the frame it was given changes the
  entry of the cache in the program, and does not here. The insides
  of axios, the Amazon SDK, the WebRTC, WebSocket and ffmpeg libraries, and of the hash functions,
  which are parameters, like Node's URL parser behind the web server. The order in which JavaScript
  lists integer-like property names. When the interval timer of the constructor fires: in a history it
  may fire at any point between calls. The page \<open>example/public/viewer.html\<close>, which runs in a browser, and the tests, which are claims
  about this code and no part of it.
\<close>

section \<open>The client as a whole\<close>

text \<open>C12. Through any number of calls to any of the components, interleaved in any way, time never
  goes back, nothing that was done to the outside is undone, and the login debounce stays
  between one second and five minutes, once it is one of the values the code computes.\<close>

theorem client_history:
  assumes "history w s t" and "rely_debounce w" and "debounce_ok (sess s)"
  shows "clock s \<le> clock t \<and> (\<exists>es. trace t = trace s @ es) \<and> debounce_ok (sess t) \<and>
    1000 \<le> loginAttemptDebounceMilliseconds (sess t) \<and> loginAttemptDebounceMilliseconds (sess t) \<le> 300000"
  using time.history_keeps [OF assms(1)] grow.history_keeps [OF assms(1)] deb.history_keeps [OF assms(1)] assms(2,3)
    debounce_ok_bounds [of "sess t"]
  by (simp add: time_forward_def trace_grows_def debounce_kept_def)

theorem client_history_witness:
  "1000 \<le> loginAttemptDebounceMilliseconds (sess (fold (perform (demo (answering []))) [OnMain ALogin, OnVacuum (AGetVacuumInfo (JStr ''v''))] (demo_world ''t'')))"
  using client_history [OF history_run, of "demo (answering [])" "demo_world ''t''" "[OnMain ALogin, OnVacuum (AGetVacuumInfo (JStr ''v''))]"]
  by (simp del: fold.simps fold_simps perform.simps)

text \<open>C14. The components assume that concurrent activity keeps the debounce in order, and the caches
  well-formed with no frame dropped; this is no more than what they guarantee. If the activity during
  each await is itself made of calls of the instance, to whatever depth these are interrupted in
  turn, both assumptions hold.\<close>

theorem interleaving_meets_rely:
  assumes "interleaved w"
  shows "rely_debounce w \<and> rely_caches w"
  using assms
proof (induction rule: interleaved.induct)
  case (alone w)
  then show ?case by (simp add: rely_debounce_def rely_caches_def alone_def)
next
  case (nested w)
  have "caches_stay c (rely w n c) \<and> (debounce_ok c \<longrightarrow> debounce_ok (rely w n c))" for n c
  proof -
    obtain w' :: "'a wyze_scheme" and s t where "rely_debounce w' \<and> rely_caches w'" "history w' s t" "sess s = c" "sess t = rely w n c"
      using nested.IH by blast
    then show ?thesis
      using deb.history_keeps [of w' s t] caches.history_keeps [of w' s t] by (auto simp: debounce_kept_def caches_kept_def)
  qed
  then show ?case by (simp add: rely_debounce_def rely_caches_def)
qed

theorem interleaving_meets_rely_witness: "rely_debounce demo_busy \<and> rely_caches demo_busy"
proof (rule interleaving_meets_rely, rule interleaved.nested)
  fix n c
  let ?w = "demo (answering [])" and ?s = "(demo_world ''t'')\<lparr>sess := c\<rparr>"
  have "interleaved ?w" by (rule interleaved.alone) (simp add: alone_def)
  moreover have "history ?w ?s (perform ?w (OnMain ALogin) ?s)" by (intro history.call history.none)
  moreover have "sess ?s = c" "sess (perform ?w (OnMain ALogin) ?s) = rely demo_busy n c"
    by (simp_all add: demo_busy_def del: perform.simps)
  ultimately show "\<exists>w' :: wyze. \<exists>s t. interleaved w' \<and> history w' s t \<and> sess s = c \<and> sess t = rely demo_busy n c"
    by blast
qed

end
